(* ===== verification/GoPrelude.thy ===== *)
theory GoPrelude
  imports Main "HOL-Library.AList" "HOL-Library.Char_ord" "HOL-Library.List_Lexorder"
begin

text \<open>
  The vocabulary the component theories share: what the operator's sources use of the Go
  language and its standard library.

  \<^item> A Go \<open>string\<close> is a list of bytes (\<^typ>\<open>string\<close>, one \<^typ>\<open>char\<close> per byte); Go's
    string order is the bytewise lexicographic order, which is the order of
    \<open>Char_ord\<close> and \<open>List_Lexorder\<close>.
  \<^item> A rune is represented by the bytes of its UTF-8 encoding; \<open>runes\<close> is the decoding that
    \<open>range s\<close>, \<open>[]rune(s)\<close> and \<open>strings.Map\<close> perform, every invalid byte becoming U+FFFD.
  \<^item> A Go \<open>map\<close> is an association list with distinct keys: its order stands for the
    iteration order, which Go leaves unspecified, so a theorem about an arbitrary list is a
    theorem about every iteration order. A nil map or slice is the empty list.
  \<^item> \<open>int32\<close>, \<open>int64\<close> and \<open>int\<close> values are \<^typ>\<open>int\<close>; where the code converts or
    counts into a fixed width the wrap-around (\<open>wrap32\<close>) or the range check
    (\<open>parseInt32\<close>) is written out.
  \<^item> A Go error is its message, \<^typ>\<open>string option\<close> with \<^term>\<open>None\<close> for \<open>nil\<close>, unless a
    component needs to tell error values apart.
\<close>

named_theorems go_str \<open>rewrite rules for Go string operations\<close>
named_theorems go_map \<open>rewrite rules for Go maps\<close>

type_synonym ('k, 'v) gomap = "('k \<times> 'v) list"
type_synonym gerror = "string option"

abbreviation code :: "char \<Rightarrow> nat" where
  "code c \<equiv> of_char c"

section \<open>Decimal numbers: strconv.Itoa, FormatInt and ParseInt\<close>

definition digit_char :: "nat \<Rightarrow> char" where
  "digit_char n = ''0123456789'' ! n"

definition is_digit :: "char \<Rightarrow> bool" where
  "is_digit c \<longleftrightarrow> 48 \<le> code c \<and> code c < 58"

fun nat_digits :: "nat \<Rightarrow> string" where
  "nat_digits n =
     (if n < 10 then [digit_char n] else nat_digits (n div 10) @ [digit_char (n mod 10)])"

declare nat_digits.simps [simp del]

definition itoa :: "int \<Rightarrow> string" where
  "itoa i = (if i < 0 then CHR ''-'' # nat_digits (nat (- i)) else nat_digits (nat i))"

text \<open>\<open>parseNat\<close> reads a non-empty run of decimal digits (\<open>strconv.ParseUint\<close>, base 10).\<close>

definition parseNat :: "string \<Rightarrow> nat option" where
  "parseNat s =
     (if s \<noteq> [] \<and> list_all is_digit s
      then Some (foldl (\<lambda>a c. 10 * a + (code c - 48)) 0 s) else None)"

text \<open>\<open>parseInt32\<close> is \<open>strconv.ParseInt(s, 10, 32)\<close>: an optional sign, digits, and a range check.\<close>

definition parseInt32 :: "string \<Rightarrow> int option" where
  "parseInt32 s =
     (case s of
        [] \<Rightarrow> None
      | c # cs \<Rightarrow>
          if c = CHR ''-'' then
            (case parseNat cs of None \<Rightarrow> None
             | Some n \<Rightarrow> if n \<le> 2 ^ 31 then Some (- int n) else None)
          else
            (case parseNat (if c = CHR ''+'' then cs else s) of None \<Rightarrow> None
             | Some n \<Rightarrow> if n < 2 ^ 31 then Some (int n) else None))"

definition is_int32 :: "int \<Rightarrow> bool" where
  "is_int32 i \<longleftrightarrow> - (2 ^ 31) \<le> i \<and> i < 2 ^ 31"

definition wrap32 :: "int \<Rightarrow> int" where
  "wrap32 i = (i + 2 ^ 31) mod 2 ^ 32 - 2 ^ 31"

lemma wrap32_id: "is_int32 i \<Longrightarrow> wrap32 i = i"
  by (simp add: is_int32_def wrap32_def)

lemma wrap32_range: "is_int32 (wrap32 i)"
proof -
  have "0 \<le> (i + 2 ^ 31) mod 2 ^ 32" "(i + 2 ^ 31) mod 2 ^ 32 < 2 ^ 32" by simp_all
  then show ?thesis by (simp add: is_int32_def wrap32_def)
qed

lemma code_digit_char: "n < 10 \<Longrightarrow> code (digit_char n) = 48 + n"
  by (auto simp: digit_char_def less_Suc_eq numeral_eq_Suc)

lemma is_digit_digit_char: "n < 10 \<Longrightarrow> is_digit (digit_char n)"
  by (simp add: is_digit_def code_digit_char)

lemma nat_digits_nonempty [simp]: "nat_digits n \<noteq> []"
  by (subst nat_digits.simps) simp

lemma nat_digits_digits: "list_all is_digit (nat_digits n)"
proof (induction n rule: nat_digits.induct)
  case (1 n)
  then show ?case
    by (subst nat_digits.simps) (simp add: is_digit_digit_char)
qed

lemma foldl_nat_digits: "foldl (\<lambda>a c. 10 * a + (code c - 48)) 0 (nat_digits n) = n"
proof (induction n rule: nat_digits.induct)
  case (1 n)
  then show ?case
    by (subst nat_digits.simps) (simp add: code_digit_char)
qed

lemma parseNat_nat_digits [simp]: "parseNat (nat_digits n) = Some n"
  by (simp add: parseNat_def nat_digits_digits foldl_nat_digits)

lemma digit_not_sign: "is_digit c \<Longrightarrow> c \<noteq> CHR ''-'' \<and> c \<noteq> CHR ''+''"
  by (auto simp: is_digit_def)

lemma parseInt32_itoa: "is_int32 i \<Longrightarrow> parseInt32 (itoa i) = Some i"
proof (cases "i < 0")
  case True
  assume "is_int32 i"
  with True show ?thesis by (simp add: parseInt32_def itoa_def is_int32_def nat_le_iff)
next
  case False
  assume r: "is_int32 i"
  obtain c cs where d: "nat_digits (nat i) = c # cs"
    by (cases "nat_digits (nat i)") auto
  then have "is_digit c" using nat_digits_digits [of "nat i"] by simp
  then have "c \<noteq> CHR ''-''" "c \<noteq> CHR ''+''" by (simp_all add: digit_not_sign)
  moreover have "parseNat (c # cs) = Some (nat i)"
    using parseNat_nat_digits [of "nat i"] by (simp add: d)
  ultimately show ?thesis using False r
    by (simp add: parseInt32_def itoa_def d is_int32_def nat_less_iff)
qed

lemma nat_digits_inj: "nat_digits m = nat_digits n \<Longrightarrow> m = n"
  by (metis option.inject parseNat_nat_digits)

lemma itoa_inj: "itoa i = itoa j \<Longrightarrow> i = j"
proof -
  have sign: "CHR ''-'' # ds \<noteq> nat_digits n" for ds n
  proof
    assume "CHR ''-'' # ds = nat_digits n"
    then have "list_all is_digit (CHR ''-'' # ds)" by (simp add: nat_digits_digits)
    then show False by (simp add: is_digit_def)
  qed
  assume "itoa i = itoa j"
  then show ?thesis
    by (auto simp: itoa_def sign sign [symmetric] dest!: nat_digits_inj split: if_splits)
qed

lemma itoa_inject [simp]: "itoa i = itoa j \<longleftrightarrow> i = j"
  by (auto dest: itoa_inj)

lemma itoa_nonempty [simp]: "itoa i \<noteq> []"
  by (simp add: itoa_def)

lemma itoa_chars: "c \<in> set (itoa i) \<Longrightarrow> is_digit c \<or> c = CHR ''-''"
  using nat_digits_digits by (auto simp: itoa_def list_all_iff split: if_splits)

lemma itoa_not_in:
  assumes "\<not> is_digit c" and "c \<noteq> CHR ''-''"
  shows "c \<notin> set (itoa i)"
  using assms itoa_chars by blast

section \<open>String operations\<close>

fun joinStr :: "string \<Rightarrow> string list \<Rightarrow> string" where
  "joinStr sep [] = []"
| "joinStr sep [x] = x"
| "joinStr sep (x # y # zs) = x @ sep @ joinStr sep (y # zs)"

text \<open>\<open>splitOn c\<close> is \<open>strings.Split\<close> with a one-byte separator; the result is never empty.\<close>

fun splitOn :: "char \<Rightarrow> string \<Rightarrow> string list" where
  "splitOn c [] = [[]]"
| "splitOn c (x # xs) =
     (if x = c then [] # splitOn c xs
      else (case splitOn c xs of [] \<Rightarrow> [[x]] | w # ws \<Rightarrow> (x # w) # ws))"

text \<open>\<open>cutAt c\<close> is \<open>strings.Cut\<close> with a one-byte separator: the text before and after the first \<open>c\<close>.\<close>

fun cutAt :: "char \<Rightarrow> string \<Rightarrow> (string \<times> string) option" where
  "cutAt c [] = None"
| "cutAt c (x # xs) =
     (if x = c then Some ([], xs)
      else (case cutAt c xs of None \<Rightarrow> None | Some (a, b) \<Rightarrow> Some (x # a, b)))"

fun hasPrefix :: "string \<Rightarrow> string \<Rightarrow> bool" where
  "hasPrefix [] s = True"
| "hasPrefix (p # ps) [] = False"
| "hasPrefix (p # ps) (c # cs) = (p = c \<and> hasPrefix ps cs)"

definition trimPrefix :: "string \<Rightarrow> string \<Rightarrow> string" where
  "trimPrefix p s = (if hasPrefix p s then drop (length p) s else s)"

lemma hasPrefix_append [simp]: "hasPrefix p (p @ s)"
  by (induction p) auto

lemma hasPrefix_iff: "hasPrefix p s \<longleftrightarrow> (\<exists>t. s = p @ t)"
  by (induction p s rule: hasPrefix.induct) auto

lemma trimPrefix_append [simp]: "trimPrefix p (p @ s) = s"
  by (simp add: trimPrefix_def)

lemma splitOn_nonempty [simp]: "splitOn c s \<noteq> []"
  by (induction s) (auto split: list.splits)

lemma splitOn_no_sep: "w \<in> set (splitOn c s) \<Longrightarrow> c \<notin> set w"
  by (induction s arbitrary: w) (auto split: list.splits if_splits)

lemma joinStr_Cons: "ws \<noteq> [] \<Longrightarrow> joinStr sep (w # ws) = w @ sep @ joinStr sep ws"
  by (cases ws) auto

lemma joinStr_splitOn [simp]: "joinStr [c] (splitOn c s) = s"
proof (induction s)
  case Nil
  then show ?case by simp
next
  case (Cons x xs)
  obtain w ws where s: "splitOn c xs = w # ws" by (cases "splitOn c xs") auto
  show ?case
  proof (cases "x = c")
    case True
    then show ?thesis using Cons by (simp add: joinStr_Cons)
  next
    case False
    then show ?thesis using Cons s by (cases ws) auto
  qed
qed

lemma splitOn_free: "c \<notin> set w \<Longrightarrow> splitOn c w = [w]"
  by (induction w) auto

lemma splitOn_append: "c \<notin> set w \<Longrightarrow> splitOn c (w @ c # s) = w # splitOn c s"
  by (induction w) auto

lemma splitOn_joinStr:
  "ws \<noteq> [] \<Longrightarrow> list_all (\<lambda>w. c \<notin> set w) ws \<Longrightarrow> splitOn c (joinStr [c] ws) = ws"
proof (induction "[c]" ws rule: joinStr.induct)
  case (3 x y zs)
  then show ?case by (simp add: splitOn_append)
qed (simp_all add: splitOn_free)

lemma cutAt_append: "c \<notin> set a \<Longrightarrow> cutAt c (a @ c # b) = Some (a, b)"
  by (induction a) auto

lemma cutAt_Some: "cutAt c s = Some (a, b) \<Longrightarrow> s = a @ c # b \<and> c \<notin> set a"
  by (induction s arbitrary: a) (auto split: if_splits option.splits)

lemma cutAt_None: "cutAt c s = None \<longleftrightarrow> c \<notin> set s"
  by (induction s) (auto split: option.splits)

lemma append_sep_inject:
  fixes c :: char
  assumes "c \<notin> set a" and "c \<notin> set a'"
  shows "a @ c # b = a' @ c # b' \<longleftrightarrow> a = a' \<and> b = b'"
proof
  assume "a @ c # b = a' @ c # b'"
  then have "cutAt c (a @ c # b) = cutAt c (a' @ c # b')" by simp
  then show "a = a' \<and> b = b'" using assms by (simp add: cutAt_append)
qed simp

lemma append_sep_inject_last:
  fixes c :: char
  assumes "c \<notin> set b" and "c \<notin> set b'"
  shows "a @ c # b = a' @ c # b' \<longleftrightarrow> a = a' \<and> b = b'"
proof
  assume "a @ c # b = a' @ c # b'"
  then have "rev (a @ c # b) = rev (a' @ c # b')" by simp
  then have "rev b @ c # rev a = rev b' @ c # rev a'" by simp
  then show "a = a' \<and> b = b'" using assms append_sep_inject [of c "rev b" "rev b'"] by simp
qed simp

section \<open>Runes\<close>

definition cont :: "char \<Rightarrow> bool" where
  "cont c \<longleftrightarrow> 128 \<le> code c \<and> code c < 192"

text \<open>
  The width of the valid UTF-8 sequence at the head of a string, 0 when there is none
  (\<open>utf8.DecodeRuneInString\<close>: shortest form, no surrogates, at most U+10FFFF).
\<close>

fun utf8_len :: "string \<Rightarrow> nat" where
  "utf8_len [] = 0"
| "utf8_len (b # bs) =
     (let n = code b in
      if n < 128 then 1
      else if 194 \<le> n \<and> n < 224 then
        (case bs of c1 # _ \<Rightarrow> if cont c1 then 2 else 0 | _ \<Rightarrow> 0)
      else if 224 \<le> n \<and> n < 240 then
        (case bs of
           c1 # c2 # _ \<Rightarrow>
             if (if n = 224 then 160 else 128) \<le> code c1
                \<and> code c1 < (if n = 237 then 160 else 192) \<and> cont c2 then 3 else 0
         | _ \<Rightarrow> 0)
      else if 240 \<le> n \<and> n < 245 then
        (case bs of
           c1 # c2 # c3 # _ \<Rightarrow>
             if (if n = 240 then 144 else 128) \<le> code c1
                \<and> code c1 < (if n = 244 then 144 else 192) \<and> cont c2 \<and> cont c3 then 4 else 0
         | _ \<Rightarrow> 0)
      else 0)"

definition rune_error :: string where
  "rune_error = [char_of (239::nat), char_of (191::nat), char_of (189::nat)]"

fun runes :: "string \<Rightarrow> string list" where
  "runes [] = []"
| "runes (b # bs) =
     (case utf8_len (b # bs) of
        0 \<Rightarrow> rune_error # runes bs
      | Suc k \<Rightarrow> (b # take k bs) # runes (drop k bs))"

declare utf8_len.simps(2) [simp del]

abbreviation ascii :: "char \<Rightarrow> bool" where
  "ascii c \<equiv> code c < 128"

lemma utf8_len_ascii [simp]: "ascii b \<Longrightarrow> utf8_len (b # bs) = 1"
  by (simp add: utf8_len.simps Let_def)

lemma runes_ascii_Cons [simp]: "ascii b \<Longrightarrow> runes (b # bs) = [b] # runes bs"
  by simp

lemma utf8_len_append_ascii: "ascii c \<Longrightarrow> utf8_len (b # bs @ c # t) = utf8_len (b # bs)"
  by (simp add: utf8_len.simps Let_def cont_def split: list.split)

lemma utf8_len_le: "utf8_len s \<le> length s"
  by (cases s) (auto simp: utf8_len.simps Let_def split: list.split)

lemma utf8_len_append_ascii' [simp]: "ascii c \<Longrightarrow> utf8_len (b # bs @ c # t) = utf8_len (b # bs)"
  by (rule utf8_len_append_ascii)

text \<open>An ASCII byte is always a rune of its own, whatever surrounds it.\<close>

lemma runes_append_ascii:
  assumes "ascii c"
  shows "runes (s @ c # t) = runes s @ [c] # runes t"
proof (induction s rule: runes.induct)
  case 1
  then show ?case using assms by simp
next
  case (2 b bs)
  show ?case
  proof (cases "utf8_len (b # bs)")
    case 0
    with "2.IH"(1) show ?thesis using assms by (simp del: runes_ascii_Cons)
  next
    case (Suc k)
    then have "k \<le> length bs" using utf8_len_le [of "b # bs"] by simp
    with "2.IH"(2) [OF Suc] Suc show ?thesis using assms by (simp del: runes_ascii_Cons)
  qed
qed

lemma runes_ascii: "list_all ascii s \<Longrightarrow> runes s = map (\<lambda>c. [c]) s"
  by (induction s) auto

lemma runes_append_ascii_prefix: "list_all ascii s \<Longrightarrow> runes (s @ t) = map (\<lambda>c. [c]) s @ runes t"
  by (induction s) auto

lemma rune_error_no_ascii: "c \<in> set rune_error \<Longrightarrow> \<not> ascii c"
  by (auto simp: rune_error_def)

lemma utf8_len_1: "utf8_len (b # bs) = Suc 0 \<Longrightarrow> ascii b"
  by (auto simp: utf8_len.simps Let_def split: list.splits if_splits)

lemma utf8_tail_no_ascii:
  "utf8_len (b # bs) = Suc (Suc k) \<Longrightarrow> c \<in> set (b # take (Suc k) bs) \<Longrightarrow> \<not> ascii c"
  by (auto simp: utf8_len.simps Let_def cont_def split: list.splits if_splits)

text \<open>An ASCII byte occurs in a rune only when it is the whole rune.\<close>

lemma runes_ascii_whole: "r \<in> set (runes s) \<Longrightarrow> c \<in> set r \<Longrightarrow> ascii c \<Longrightarrow> r = [c]"
proof (induction s rule: runes.induct)
  case 1
  then show ?case by simp
next
  case (2 b bs)
  show ?case
  proof (cases "utf8_len (b # bs)")
    case 0
    with 2 show ?thesis by (auto dest: rune_error_no_ascii)
  next
    case (Suc k)
    then consider "r = b # take k bs" | "r \<in> set (runes (drop k bs))" using "2.prems" by auto
    then show ?thesis
    proof cases
      case 1
      then show ?thesis using Suc "2.prems" utf8_tail_no_ascii [of b bs] by (cases k) auto
    next
      case 2
      then show ?thesis using Suc "2.IH"(2) "2.prems" by simp
    qed
  qed
qed

lemma concat_runes_ascii: "c \<in> set (concat (runes s)) \<Longrightarrow> ascii c \<Longrightarrow> c \<in> set s"
proof (induction s rule: runes.induct)
  case (2 b bs)
  then show ?case
    by (auto split: nat.splits dest: rune_error_no_ascii in_set_takeD in_set_dropD)
qed simp

lemma runes_single_ascii: "[c] \<in> set (runes s) \<Longrightarrow> ascii c"
proof (induction s rule: runes.induct)
  case (2 b bs)
  show ?case
  proof (cases "utf8_len (b # bs)")
    case 0
    then show ?thesis using 2 by (simp add: rune_error_def)
  next
    case (Suc k)
    then have k: "k \<le> length bs" using utf8_len_le [of "b # bs"] by simp
    from Suc "2.prems" consider "[c] = b # take k bs" | "[c] \<in> set (runes (drop k bs))" by auto
    then show ?thesis
    proof cases
      case 1
      then have "k = 0" using k by (cases k; cases bs) auto
      then show ?thesis using 1 Suc utf8_len_1 by auto
    next
      case 2
      then show ?thesis using Suc "2.IH"(2) by simp
    qed
  qed
qed simp

lemma runes_not_in:
  assumes "c \<notin> set s"
  shows "[c] \<notin> set (runes s)"
proof
  assume m: "[c] \<in> set (runes s)"
  then have "c \<in> set (concat (runes s))" by force
  with assms runes_single_ascii [OF m] concat_runes_ascii show False by blast
qed

lemma runes_has_ascii: "c \<in> set s \<Longrightarrow> ascii c \<Longrightarrow> [c] \<in> set (runes s)"
proof (induction s rule: runes.induct)
  case 1
  then show ?case by simp
next
  case (2 b bs)
  show ?case
  proof (cases "utf8_len (b # bs)")
    case 0
    then have "c \<noteq> b" using utf8_len_ascii [of b bs] "2.prems" by auto
    then show ?thesis using 0 "2.IH"(1) "2.prems" by simp
  next
    case (Suc k)
    have split: "set (b # bs) = set (b # take k bs) \<union> set (drop k bs)"
      by (metis Cons_eq_appendI append_take_drop_id set_append)
    show ?thesis
    proof (cases k)
      case 0
      then show ?thesis using Suc "2.IH"(2) "2.prems" by auto
    next
      case (Suc j)
      then have "c \<notin> set (b # take k bs)"
        using utf8_tail_no_ascii [of b bs j c] "2.prems" \<open>utf8_len (b # bs) = Suc k\<close> by blast
      then have "c \<in> set (drop k bs)" using split "2.prems" by blast
      then show ?thesis using "2.IH"(2) "2.prems" \<open>utf8_len (b # bs) = Suc k\<close> by simp
    qed
  qed
qed

lemma ascii_rune_iff: "ascii c \<Longrightarrow> [c] \<in> set (runes s) \<longleftrightarrow> c \<in> set s"
  using runes_has_ascii runes_not_in by blast

section \<open>Go maps\<close>

abbreviation mget :: "('k, 'v) gomap \<Rightarrow> 'k \<Rightarrow> 'v option" where
  "mget m k \<equiv> map_of m k"

abbreviation mput :: "'k \<Rightarrow> 'v \<Rightarrow> ('k, 'v) gomap \<Rightarrow> ('k, 'v) gomap" where
  "mput k v m \<equiv> AList.update k v m"

abbreviation mdel :: "'k \<Rightarrow> ('k, 'v) gomap \<Rightarrow> ('k, 'v) gomap" where
  "mdel k m \<equiv> AList.delete k m"

abbreviation mkeys :: "('k, 'v) gomap \<Rightarrow> 'k list" where
  "mkeys m \<equiv> map fst m"

abbreviation mwf :: "('k, 'v) gomap \<Rightarrow> bool" where
  "mwf m \<equiv> distinct (map fst m)"

text \<open>Reading a missing key of a \<open>map[K]string\<close> or a \<open>map[K]bool\<close> gives the zero value.\<close>

definition mgetStr :: "('k, string) gomap \<Rightarrow> 'k \<Rightarrow> string" where
  "mgetStr m k = (case mget m k of None \<Rightarrow> [] | Some v \<Rightarrow> v)"

definition mgetBool :: "('k, bool) gomap \<Rightarrow> 'k \<Rightarrow> bool" where
  "mgetBool m k = (case mget m k of None \<Rightarrow> False | Some v \<Rightarrow> v)"

definition sortedKeys :: "('k::linorder, 'v) gomap \<Rightarrow> 'k list" where
  "sortedKeys m = sort (mkeys m)"

lemma find_snoc:
  "find P (ys @ [x]) = (case find P ys of Some y \<Rightarrow> Some y | None \<Rightarrow> if P x then Some x else None)"
  by (induction ys) auto

text \<open>
  What the components rely on in a map: reading back what was written, and a well-formedness
  that every write keeps. The lemmas proved from these laws are about a loop of writes, the
  shape in which every builder and merger of the operator fills its maps.
\<close>

locale keyed_store =
  fixes emp :: "'m"
    and put :: "'k \<Rightarrow> 'v \<Rightarrow> 'm \<Rightarrow> 'm"
    and del :: "'k \<Rightarrow> 'm \<Rightarrow> 'm"
    and get :: "'m \<Rightarrow> 'k \<Rightarrow> 'v option"
    and wf :: "'m \<Rightarrow> bool"
  assumes get_emp: "get emp k = None"
    and get_put: "get (put k v m) k' = (if k' = k then Some v else get m k')"
    and get_del: "wf m \<Longrightarrow> get (del k m) k' = (if k' = k then None else get m k')"
    and wf_emp: "wf emp"
    and wf_put: "wf m \<Longrightarrow> wf (put k v m)"
    and wf_del: "wf m \<Longrightarrow> wf (del k m)"
begin

lemma wf_fold_put: "wf m \<Longrightarrow> wf (fold (\<lambda>x. put (f x) (g x)) xs m)"
  by (induction xs arbitrary: m) (simp_all add: wf_put)

lemma get_fold_put:
  "get (fold (\<lambda>x. put (f x) (g x)) xs m) k =
     (case find (\<lambda>x. f x = k) (rev xs) of Some x \<Rightarrow> Some (g x) | None \<Rightarrow> get m k)"
proof (induction xs arbitrary: m)
  case Nil
  then show ?case by simp
next
  case (Cons x xs)
  show ?case by (auto simp: Cons.IH get_put find_snoc split: option.split)
qed

lemma get_fold_put_emp:
  "get (fold (\<lambda>x. put (f x) (g x)) xs emp) k = map_option g (find (\<lambda>x. f x = k) (rev xs))"
  by (simp add: get_fold_put get_emp split: option.split)

lemma dom_fold_put: "{k. get (fold (\<lambda>x. put (f x) (g x)) xs emp) k \<noteq> None} = f ` set xs"
  by (auto simp: get_fold_put_emp find_None_iff image_iff)

end

interpretation gm: keyed_store "[]" AList.update AList.delete map_of "\<lambda>m. distinct (map fst m)"
  by unfold_locales (auto simp: update_conv' delete_conv' distinct_update distinct_delete)

lemma mput_mget [go_map]: "mget (mput k v m) k' = (if k' = k then Some v else mget m k')"
  by (rule gm.get_put)

lemma mkeys_mget: "k \<in> set (mkeys m) \<longleftrightarrow> mget m k \<noteq> None"
  by (metis map_of_eq_None_iff list.set_map)

lemma set_mput_keys [go_map]: "set (mkeys (mput k v m)) = insert k (set (mkeys m))"
  by (simp add: dom_update)

lemma sortedKeys_props [go_map]:
  "set (sortedKeys m) = set (mkeys m)" "sorted (sortedKeys m)" "mwf m \<Longrightarrow> distinct (sortedKeys m)"
  by (simp_all add: sortedKeys_def)

text \<open>The sorted keys depend only on what the map holds, not on its iteration order.\<close>

lemma sortedKeys_ext:
  assumes "mwf m" and "mwf m'" and "set (mkeys m) = set (mkeys m')"
  shows "sortedKeys m = sortedKeys m'"
  using assms by (intro sorted_distinct_set_unique) (auto simp: sortedKeys_def)

end
