(* ===== verification/ClientTypes.thy ===== *)
theory ClientTypes
  imports GoPrelude
begin

text \<open>
  The resolved configuration the operator pushes to a ProxySQL admin port:
  \<open>operator/internal/proxysqlclient/types.go\<close>. One record per struct, one field per field;
  a pointer field is an \<open>option\<close> (\<open>None\<close> is \<open>nil\<close>). Field names carry a prefix per struct
  because record selectors share one name space.
\<close>

record MySQLServer =
  ms_Hostgroup :: int
  ms_Hostname :: string
  ms_Port :: int
  ms_Weight :: "int option"
  ms_MaxConnections :: "int option"
  ms_MaxReplicationLag :: "int option"
  ms_UseSSL :: "bool option"
  ms_Status :: string
  ms_Comment :: string

record MySQLUser =
  mu_Username :: string
  mu_Password :: string
  mu_DefaultHostgroup :: int
  mu_Active :: "bool option"
  mu_MaxConnections :: "int option"
  mu_UseSSL :: "bool option"
  mu_DefaultSchema :: string
  mu_TransactionPersistent :: "bool option"
  mu_Comment :: string

record MySQLQueryRule =
  mr_RuleID :: int
  mr_Active :: "bool option"
  mr_Username :: string
  mr_SchemaName :: string
  mr_FlagIn :: "int option"
  mr_MatchPattern :: string
  mr_MatchDigest :: string
  mr_FlagOut :: "int option"
  mr_ReplacePattern :: string
  mr_DestinationHostgroup :: "int option"
  mr_CacheTTL :: "int option"
  mr_CacheEmptyResult :: "bool option"
  mr_Timeout :: "int option"
  mr_Delay :: "int option"
  mr_MirrorHostgroup :: "int option"
  mr_ErrorMessage :: string
  mr_Log :: "bool option"
  mr_Apply :: "bool option"
  mr_Comment :: string

record MySQLReplicationHostgroup =
  rh_WriterHostgroup :: int
  rh_ReaderHostgroup :: int
  rh_CheckType :: string
  rh_Comment :: string

record MySQLHostgroupAttributes =
  ha_Hostgroup :: int
  ha_MaxNumOnlineServers :: "int option"
  ha_Autocommit :: "int option"
  ha_FreeConnectionsPct :: "int option"
  ha_InitConnect :: string
  ha_Multiplex :: "bool option"
  ha_ConnectionWarming :: "bool option"
  ha_ThrottleConnectionsPerSec :: "int option"
  ha_IgnoreSessionVariables :: string
  ha_Comment :: string

record PostgreSQLServer =
  ps_Hostgroup :: int
  ps_Hostname :: string
  ps_Port :: int
  ps_Weight :: "int option"
  ps_MaxConnections :: "int option"
  ps_UseSSL :: "bool option"
  ps_Comment :: string

record PostgreSQLUser =
  pu_Username :: string
  pu_Password :: string
  pu_DefaultHostgroup :: int
  pu_Active :: "bool option"
  pu_Comment :: string

record PostgreSQLQueryRule =
  pr_RuleID :: int
  pr_Active :: "bool option"
  pr_FlagIn :: "int option"
  pr_MatchPattern :: string
  pr_FlagOut :: "int option"
  pr_ReplacePattern :: string
  pr_DestinationHostgroup :: "int option"
  pr_CacheTTL :: "int option"
  pr_CacheEmptyResult :: "bool option"
  pr_Timeout :: "int option"
  pr_Delay :: "int option"
  pr_MirrorHostgroup :: "int option"
  pr_ErrorMessage :: string
  pr_Log :: "bool option"
  pr_Apply :: "bool option"
  pr_Comment :: string

record ProxySQLServer =
  px_Hostname :: string
  px_Port :: int
  px_Weight :: int
  px_Comment :: string

record Desired =
  d_MySQLServers :: "MySQLServer list"
  d_MySQLUsers :: "MySQLUser list"
  d_MySQLQueryRules :: "MySQLQueryRule list"
  d_MySQLReplicationHostgroups :: "MySQLReplicationHostgroup list"
  d_MySQLHostgroupAttributes :: "MySQLHostgroupAttributes list"
  d_PostgreSQLServers :: "PostgreSQLServer list"
  d_PostgreSQLUsers :: "PostgreSQLUser list"
  d_PostgreSQLQueryRules :: "PostgreSQLQueryRule list"
  d_ProxySQLServers :: "ProxySQLServer list"
  d_AdminVariables :: "(string, string) gomap"
  d_MySQLVariables :: "(string, string) gomap"
  d_PostgreSQLVariables :: "(string, string) gomap"
  d_SQLStatements :: "string list"

definition emptyDesired :: Desired where
  "emptyDesired =
     \<lparr>d_MySQLServers = [], d_MySQLUsers = [], d_MySQLQueryRules = [],
      d_MySQLReplicationHostgroups = [], d_MySQLHostgroupAttributes = [],
      d_PostgreSQLServers = [], d_PostgreSQLUsers = [], d_PostgreSQLQueryRules = [],
      d_ProxySQLServers = [], d_AdminVariables = [], d_MySQLVariables = [],
      d_PostgreSQLVariables = [], d_SQLStatements = []\<rparr>"

text \<open>The value a struct literal leaves unset, for building concrete servers and users.\<close>

definition zeroMySQLServer :: MySQLServer where
  "zeroMySQLServer =
     \<lparr>ms_Hostgroup = 0, ms_Hostname = [], ms_Port = 0, ms_Weight = None,
      ms_MaxConnections = None, ms_MaxReplicationLag = None, ms_UseSSL = None,
      ms_Status = [], ms_Comment = []\<rparr>"

definition zeroMySQLUser :: MySQLUser where
  "zeroMySQLUser =
     \<lparr>mu_Username = [], mu_Password = [], mu_DefaultHostgroup = 0, mu_Active = None,
      mu_MaxConnections = None, mu_UseSSL = None, mu_DefaultSchema = [],
      mu_TransactionPersistent = None, mu_Comment = []\<rparr>"

lemmas zero_defs = emptyDesired_def zeroMySQLServer_def zeroMySQLUser_def

end
