(* ===== verification/AdminSQL.thy ===== *)
theory AdminSQL
  imports ClientTypes
begin

text \<open>
  How the client writes SQL literals (the helpers at the end of
  \<open>operator/internal/proxysqlclient/sync.go\<close>) and how it hides them again in error messages
  (\<open>snippet\<close> and \<open>redactQuotedLiterals\<close> of \<open>client.go\<close>).

  The reader \<open>sql_values\<close> is not code of the repository: it is the abstract specification of
  what an SQL server makes of the text after \<open>VALUES\<close>, a list of tuples of integers, texts
  (a doubled quote is one quote) and NULLs. The round trip through it says that no content of
  a literal can change the shape of a statement.
\<close>

section \<open>Literals\<close>

definition isStripControl :: "string \<Rightarrow> bool" where
  "isStripControl r \<longleftrightarrow>
     (case r of
        [c] \<Rightarrow> (code c < 32 \<and> code c \<noteq> 9 \<and> code c \<noteq> 10 \<and> code c \<noteq> 13) \<or> code c = 127
      | _ \<Rightarrow> False)"

definition stripControl :: "string \<Rightarrow> string" where
  "stripControl s =
     (if \<not> list_ex isStripControl (runes s) then s
      else concat (filter (\<lambda>r. \<not> isStripControl r) (runes s)))"

text \<open>\<open>strings.ReplaceAll(s, "'", "''")\<close>.\<close>

definition doubleQuotes :: "string \<Rightarrow> string" where
  "doubleQuotes s = concat (map (\<lambda>c. if c = CHR 0x27 then [CHR 0x27, CHR 0x27] else [c]) s)"

definition quote :: "string \<Rightarrow> string" where
  "quote s = [CHR 0x27] @ doubleQuotes (stripControl s) @ [CHR 0x27]"

definition sqlNull :: string where
  "sqlNull = ''NULL''"

definition defaultInt32 :: "int \<Rightarrow> int \<Rightarrow> int" where
  "defaultInt32 v def = (if v = 0 then def else v)"

definition nullableInt32 :: "int option \<Rightarrow> string" where
  "nullableInt32 p = (case p of None \<Rightarrow> sqlNull | Some v \<Rightarrow> itoa v)"

definition defInt32 :: "int option \<Rightarrow> int \<Rightarrow> string" where
  "defInt32 p def = (case p of None \<Rightarrow> itoa def | Some v \<Rightarrow> itoa v)"

definition nullableBoolAsInt :: "bool option \<Rightarrow> string" where
  "nullableBoolAsInt p = (case p of None \<Rightarrow> sqlNull | Some b \<Rightarrow> if b then ''1'' else ''0'')"

definition nullableString :: "string \<Rightarrow> string" where
  "nullableString s = (if s = [] then sqlNull else quote s)"

definition defBoolAsInt :: "bool option \<Rightarrow> bool \<Rightarrow> string" where
  "defBoolAsInt p def =
     (let v = (case p of None \<Rightarrow> def | Some b \<Rightarrow> b) in if v then ''1'' else ''0'')"

text \<open>\<open>fmt.Fprintf(&b, "(%d,%s,...)", ...)\<close>: the cells of one row, and the comma-separated rows.\<close>

definition fmtRow :: "string list \<Rightarrow> string" where
  "fmtRow cells = ''('' @ joinStr '','' cells @ '')''"

definition fmtRows :: "string list list \<Rightarrow> string" where
  "fmtRows rows = joinStr '','' (map fmtRow rows)"

section \<open>Reading literals back\<close>

datatype sql_value = SqlInt int | SqlText string | SqlNull

fun sql_render :: "sql_value \<Rightarrow> string" where
  "sql_render (SqlInt i) = itoa i"
| "sql_render (SqlText s) = quote s"
| "sql_render SqlNull = sqlNull"

fun sql_stored :: "sql_value \<Rightarrow> sql_value" where
  "sql_stored (SqlText s) = SqlText (stripControl s)"
| "sql_stored v = v"

datatype sql_token = TLParen | TRParen | TComma | TVal sql_value

datatype lex_state = LOut | LText string | LTextQ string | LWord string

text \<open>A bare word is NULL or a decimal integer; anything else is a syntax error.\<close>

definition word_value :: "string \<Rightarrow> sql_value option" where
  "word_value w =
     (if w = ''NULL'' then Some SqlNull
      else case w of
        [] \<Rightarrow> None
      | c # cs \<Rightarrow>
          if c = CHR ''-'' then map_option (\<lambda>n. SqlInt (- int n)) (parseNat cs)
          else map_option (\<lambda>n. SqlInt (int n)) (parseNat w))"

definition lex_out :: "char \<Rightarrow> lex_state \<times> sql_token list" where
  "lex_out c =
     (if c = CHR ''('' then (LOut, [TLParen])
      else if c = CHR '')'' then (LOut, [TRParen])
      else if c = CHR '','' then (LOut, [TComma])
      else if c = CHR 0x27 then (LText [], [])
      else (LWord [c], []))"

fun lex_step :: "lex_state \<Rightarrow> char \<Rightarrow> (lex_state \<times> sql_token list) option" where
  "lex_step LOut c = Some (lex_out c)"
| "lex_step (LText a) c = (if c = CHR 0x27 then Some (LTextQ a, []) else Some (LText (a @ [c]), []))"
| "lex_step (LTextQ a) c =
     (if c = CHR 0x27 then Some (LText (a @ [CHR 0x27]), [])
      else Some (fst (lex_out c), TVal (SqlText a) # snd (lex_out c)))"
| "lex_step (LWord w) c =
     (if c = CHR '','' \<or> c = CHR '')'' then
        (case word_value w of None \<Rightarrow> None
         | Some v \<Rightarrow> Some (fst (lex_out c), TVal v # snd (lex_out c)))
      else if c = CHR ''('' \<or> c = CHR 0x27 then None
      else Some (LWord (w @ [c]), []))"

definition emit :: "sql_token list \<Rightarrow> sql_token list option \<Rightarrow> sql_token list option" where
  "emit ts r = map_option ((@) ts) r"

fun sql_lex :: "lex_state \<Rightarrow> string \<Rightarrow> sql_token list option" where
  "sql_lex LOut [] = Some []"
| "sql_lex (LText a) [] = None"
| "sql_lex (LTextQ a) [] = Some [TVal (SqlText a)]"
| "sql_lex (LWord w) [] = map_option (\<lambda>v. [TVal v]) (word_value w)"
| "sql_lex st (c # cs) =
     (case lex_step st c of None \<Rightarrow> None
      | Some (st', ts) \<Rightarrow> emit ts (sql_lex st' cs))"

fun sql_rows :: "sql_value list list \<Rightarrow> sql_value list \<Rightarrow> sql_token list \<Rightarrow> sql_value list list option" where
  "sql_rows acc row (TVal v # TComma # ts) = sql_rows acc (row @ [v]) ts"
| "sql_rows acc row [TVal v, TRParen] = Some (acc @ [row @ [v]])"
| "sql_rows acc row (TVal v # TRParen # TComma # TLParen # ts) =
     sql_rows (acc @ [row @ [v]]) [] ts"
| "sql_rows acc row ts = None"

text \<open>The tuples of a VALUES clause.\<close>

definition sql_values :: "string \<Rightarrow> sql_value list list option" where
  "sql_values s =
     (case sql_lex LOut s of
        Some (TLParen # ts) \<Rightarrow> sql_rows [] [] ts
      | _ \<Rightarrow> None)"

section \<open>Redaction\<close>

text \<open>
  \<open>redactQuotedLiterals\<close>: the loop over the runes of the statement, with the delimiter of the
  literal it is inside as its state (\<^term>\<open>None\<close> is outside).
\<close>

fun redactLoop :: "string option \<Rightarrow> string list \<Rightarrow> string list" where
  "redactLoop None [] = []"
| "redactLoop None (r # rs) =
     (if r = [CHR 0x27] \<or> r = [CHR 0x22]
      then r # [CHR ''*''] # [CHR ''*''] # [CHR ''*''] # redactLoop (Some r) rs
      else r # redactLoop None rs)"
| "redactLoop (Some q) [] = []"
| "redactLoop (Some q) [r] = (if r = q then [q] else [])"
| "redactLoop (Some q) (r # r2 # rs) =
     (if r = q then (if r2 = q then redactLoop (Some q) rs else q # redactLoop None (r2 # rs))
      else redactLoop (Some q) (r2 # rs))"

definition redactQuotedLiterals :: "string \<Rightarrow> string" where
  "redactQuotedLiterals q = concat (redactLoop None (runes q))"

definition snippet :: "string \<Rightarrow> string" where
  "snippet q =
     (let redacted = redactQuotedLiterals q in
      if length redacted \<le> 80 then redacted else take 80 redacted @ ''...'')"

section \<open>The round trip\<close>

lemma emit_simps [simp]:
  "emit [] r = r" "emit a (emit b r) = emit (a @ b) r" "emit a (Some ts) = Some (a @ ts)"
  by (cases r; simp add: emit_def)+

lemma doubleQuotes_simps [simp]:
  "doubleQuotes [] = []"
  "doubleQuotes (c # cs) = (if c = CHR 0x27 then [CHR 0x27, CHR 0x27] else [c]) @ doubleQuotes cs"
  by (simp_all add: doubleQuotes_def)

lemma sql_lex_text:
  "sql_lex (LText a) (doubleQuotes s @ CHR 0x27 # t) = sql_lex (LTextQ (a @ s)) t"
  by (induction s arbitrary: a) auto

definition cell_end :: "char \<Rightarrow> bool" where
  "cell_end c \<longleftrightarrow> c = CHR '','' \<or> c = CHR '')''"

lemma sql_lex_quote:
  assumes "cell_end c"
  shows "sql_lex LOut (quote s @ c # t) =
           emit [TVal (SqlText (stripControl s))] (sql_lex LOut (c # t))"
  using assms
  by (auto simp: quote_def cell_end_def lex_out_def sql_lex_text)

definition word_char :: "char \<Rightarrow> bool" where
  "word_char c \<longleftrightarrow> c \<notin> {CHR ''('', CHR '')'', CHR '','', CHR 0x27}"

lemma sql_lex_word:
  assumes "cell_end c" and "list_all word_char w" and "word_value (a @ w) = Some v"
  shows "sql_lex (LWord a) (w @ c # t) = emit [TVal v] (sql_lex LOut (c # t))"
  using assms
proof (induction w arbitrary: a)
  case Nil
  then show ?case
    by (auto simp: cell_end_def lex_out_def)
next
  case (Cons x w)
  from Cons.IH [of "a @ [x]"] Cons.prems show ?case
    by (auto simp: word_char_def)
qed

lemma sql_lex_bare:
  assumes "cell_end c" and "w \<noteq> []" and "list_all word_char w" and "word_value w = Some v"
  shows "sql_lex LOut (w @ c # t) = emit [TVal v] (sql_lex LOut (c # t))"
  using assms sql_lex_word [of c "tl w" "[hd w]" v t]
  by (cases w) (auto simp: lex_out_def word_char_def)

lemma itoa_word_chars: "list_all word_char (itoa i)"
  by (auto simp: list_all_iff word_char_def is_digit_def dest!: itoa_chars)

lemma word_value_itoa: "word_value (itoa i) = Some (SqlInt i)"
proof (cases "i < 0")
  case True
  then show ?thesis by (simp add: word_value_def itoa_def)
next
  case False
  obtain c cs where d: "nat_digits (nat i) = c # cs" by (cases "nat_digits (nat i)") auto
  then have "is_digit c" using nat_digits_digits [of "nat i"] by simp
  then have "c \<noteq> CHR ''-''" "c \<noteq> CHR ''N''" by (auto simp: is_digit_def)
  with False d parseNat_nat_digits [of "nat i"] show ?thesis
    by (simp add: word_value_def itoa_def)
qed

lemma sql_lex_render:
  assumes "cell_end c"
  shows "sql_lex LOut (sql_render v @ c # t) =
           emit [TVal (sql_stored v)] (sql_lex LOut (c # t))"
proof (cases v)
  case (SqlInt i)
  then show ?thesis
    using assms by (simp add: sql_lex_bare itoa_word_chars word_value_itoa)
next
  case (SqlText s)
  then show ?thesis using assms by (simp add: sql_lex_quote)
next
  case SqlNull
  have "list_all word_char sqlNull" "word_value sqlNull = Some SqlNull" "sqlNull \<noteq> []"
    by (simp_all add: sqlNull_def word_char_def word_value_def)
  with SqlNull show ?thesis using assms by (simp add: sql_lex_bare)
qed

fun row_tokens :: "sql_value list \<Rightarrow> sql_token list" where
  "row_tokens [] = []"
| "row_tokens [v] = [TVal v, TRParen]"
| "row_tokens (v # w # vs) = TVal v # TComma # row_tokens (w # vs)"

lemma sql_lex_sep:
  "sql_lex LOut (CHR '','' # t) = emit [TComma] (sql_lex LOut t)"
  "sql_lex LOut (CHR '')'' # t) = emit [TRParen] (sql_lex LOut t)"
  "sql_lex LOut (CHR ''('' # t) = emit [TLParen] (sql_lex LOut t)"
  by (simp_all add: lex_out_def)

lemma sql_lex_cells:
  "vs \<noteq> [] \<Longrightarrow> sql_lex LOut (joinStr '','' (map sql_render vs) @ CHR '')'' # t) =
     emit (row_tokens (map sql_stored vs)) (sql_lex LOut t)"
proof (induction vs rule: row_tokens.induct)
  case (3 v w vs)
  then show ?case
    by (simp add: sql_lex_render cell_end_def sql_lex_sep
        del: sql_lex.simps)
qed (simp_all add: sql_lex_render cell_end_def sql_lex_sep
      del: sql_lex.simps)

fun rows_tokens :: "sql_value list list \<Rightarrow> sql_token list" where
  "rows_tokens [] = []"
| "rows_tokens [r] = row_tokens r"
| "rows_tokens (r # r' # rs) = row_tokens r @ TComma # TLParen # rows_tokens (r' # rs)"

lemma sql_lex_rows:
  "rows \<noteq> [] \<Longrightarrow> list_all (\<lambda>r. r \<noteq> []) rows \<Longrightarrow>
     sql_lex LOut (fmtRows (map (map sql_render) rows)) =
       Some (TLParen # rows_tokens (map (map sql_stored) rows))"
proof (induction rows rule: rows_tokens.induct)
  case (2 r)
  then show ?case
    using sql_lex_cells [of r "[]"]
    by (simp add: fmtRows_def fmtRow_def sql_lex_sep del: sql_lex.simps(5))
next
  case (3 r r' rs)
  then have "sql_lex LOut (joinStr '','' (map fmtRow (map (map sql_render) (r' # rs)))) =
      Some (TLParen # rows_tokens (map (map sql_stored) (r' # rs)))"
    by (simp add: fmtRows_def)
  with "3.prems" sql_lex_cells [of r] show ?case
    by (simp add: fmtRows_def fmtRow_def sql_lex_sep del: sql_lex.simps(5))
qed simp

lemma sql_rows_row:
  "r \<noteq> [] \<Longrightarrow> sql_rows acc row (row_tokens r @ TComma # TLParen # ts) =
     sql_rows (acc @ [row @ r]) [] ts"
  by (induction r arbitrary: row rule: row_tokens.induct) simp_all

lemma sql_rows_last: "r \<noteq> [] \<Longrightarrow> sql_rows acc row (row_tokens r) = Some (acc @ [row @ r])"
  by (induction r arbitrary: row rule: row_tokens.induct) simp_all

lemma sql_rows_all:
  "rows \<noteq> [] \<Longrightarrow> list_all (\<lambda>r. r \<noteq> []) rows \<Longrightarrow>
     sql_rows acc [] (rows_tokens rows) = Some (acc @ rows)"
  by (induction rows arbitrary: acc rule: rows_tokens.induct)
    (simp_all add: sql_rows_row sql_rows_last)

text \<open>
  Whatever the texts in it contain, a rendered list of rows reads back as exactly those rows,
  cell by cell, with only the control characters gone.
\<close>

lemma sql_values_roundtrip:
  assumes "rows \<noteq> []" and "list_all (\<lambda>r. r \<noteq> []) rows"
  shows "sql_values (fmtRows (map (map sql_render) rows)) = Some (map (map sql_stored) rows)"
  using assms sql_rows_all [of "map (map sql_stored) rows" "[]"]
  by (simp add: sql_values_def sql_lex_rows list_all_iff)

section \<open>What redaction keeps\<close>

abbreviation singles :: "string \<Rightarrow> string list" where
  "singles s \<equiv> map (\<lambda>c. [c]) s"

definition plain_char :: "char \<Rightarrow> bool" where
  "plain_char c \<longleftrightarrow> ascii c \<and> c \<noteq> CHR 0x27 \<and> c \<noteq> CHR 0x22"

fun sql_masked :: "sql_value \<Rightarrow> string" where
  "sql_masked (SqlInt i) = itoa i"
| "sql_masked (SqlText s) = [CHR 0x27] @ ''***'' @ [CHR 0x27]"
| "sql_masked SqlNull = sqlNull"

lemma redactLoop_inside [simp]:
  "r \<noteq> q \<Longrightarrow> redactLoop (Some q) (r # rs) = redactLoop (Some q) rs"
  by (cases rs) simp_all

lemma redactLoop_close:
  "us = [] \<or> hd us \<noteq> q \<Longrightarrow> redactLoop (Some q) (q # us) = q # redactLoop None us"
  by (cases us) simp_all

lemma redactLoop_body:
  assumes "us = [] \<or> hd us \<noteq> q"
  shows "redactLoop (Some q) (concat (map (\<lambda>r. if r = q then [r, r] else [r]) rs) @ q # us) =
           q # redactLoop None us"
  using assms by (induction rs) (auto simp: redactLoop_close)

lemma runes_doubleQuotes:
  "runes (doubleQuotes s) =
     concat (map (\<lambda>r. if r = [CHR 0x27] then [r, r] else [r]) (runes s))"
proof (induction "length s" arbitrary: s rule: less_induct)
  case less
  have same: "CHR 0x27 \<notin> set a \<Longrightarrow> doubleQuotes a = a" for a by (induction a) auto
  have free: "concat (map (\<lambda>r. if r = [CHR 0x27] then [r, r] else [r]) (runes a)) = runes a"
    if "CHR 0x27 \<notin> set a" for a
  proof -
    have "[CHR 0x27] \<notin> set (runes a)" using that by (rule runes_not_in)
    then have "map (\<lambda>r. if r = [CHR 0x27] then [r, r] else [r]) (runes a) = map (\<lambda>r. [r]) (runes a)"
      by (intro map_cong) auto
    then show ?thesis by (simp only: concat_map_singleton map_ident)
  qed
  have dapp: "doubleQuotes (a @ b) = doubleQuotes a @ doubleQuotes b" for a b
    by (simp add: doubleQuotes_def)
  show ?case
  proof (cases "CHR 0x27 \<in> set s")
    case False
    then show ?thesis by (simp add: same free)
  next
    case True
    then obtain a b where s: "s = a @ CHR 0x27 # b" and a: "CHR 0x27 \<notin> set a"
      by (meson split_list_first)
    have "runes (doubleQuotes b) =
        concat (map (\<lambda>r. if r = [CHR 0x27] then [r, r] else [r]) (runes b))"
      using less.hyps [of b] by (simp add: s)
    then show ?thesis
      by (simp add: s dapp same a runes_append_ascii free)
  qed
qed

definition safe_next :: "string \<Rightarrow> bool" where
  "safe_next t \<longleftrightarrow> (case t of [] \<Rightarrow> True | c # _ \<Rightarrow> plain_char c)"

lemma redact_quote:
  assumes "safe_next t"
  shows "redactLoop None (runes (quote s @ t)) =
           singles ([CHR 0x27] @ ''***'' @ [CHR 0x27]) @ redactLoop None (runes t)"
proof -
  have "runes t = [] \<or> hd (runes t) \<noteq> [CHR 0x27]"
    using assms by (cases t) (auto simp: safe_next_def plain_char_def)
  then show ?thesis
    by (simp add: quote_def runes_append_ascii runes_doubleQuotes redactLoop_body)
qed

lemma redact_plain:
  "list_all plain_char p \<Longrightarrow>
     redactLoop None (runes (p @ t)) = singles p @ redactLoop None (runes t)"
  by (induction p) (auto simp: plain_char_def)

lemma itoa_plain: "list_all plain_char (itoa i)"
  by (auto simp: list_all_iff plain_char_def is_digit_def dest!: itoa_chars)

lemma redact_render:
  assumes "safe_next t"
  shows "redactLoop None (runes (sql_render v @ t)) =
           singles (sql_masked v) @ redactLoop None (runes t)"
proof (cases v)
  case SqlNull
  have "list_all plain_char sqlNull" by (simp add: sqlNull_def plain_char_def)
  with SqlNull show ?thesis by (simp add: redact_plain)
qed (use assms in \<open>simp_all add: redact_quote redact_plain itoa_plain\<close>)

lemma redact_cells:
  "vs \<noteq> [] \<Longrightarrow> redactLoop None (runes (joinStr '','' (map sql_render vs) @ CHR '')'' # t)) =
     singles (joinStr '','' (map sql_masked vs) @ '')'') @ redactLoop None (runes t)"
proof (induction vs rule: row_tokens.induct)
  case (3 v w vs)
  then show ?case by (simp add: redact_render safe_next_def plain_char_def)
qed (simp_all add: redact_render safe_next_def plain_char_def)

lemma redact_rows:
  "list_all (\<lambda>r. r \<noteq> []) rows \<Longrightarrow>
     redactLoop None (runes (fmtRows (map (map sql_render) rows))) =
       singles (fmtRows (map (map sql_masked) rows))"
proof (induction rows rule: rows_tokens.induct)
  case (3 r r' rs)
  have open_paren: "redactLoop None (runes (CHR ''('' # t)) = [CHR ''(''] # redactLoop None (runes t)"
    "redactLoop None (runes (CHR '','' # t)) = [CHR '',''] # redactLoop None (runes t)" for t
    by simp_all
  from 3 show ?case
    by (simp add: fmtRows_def fmtRow_def open_paren redact_cells)
qed (simp_all add: fmtRows_def fmtRow_def redact_cells)

lemma redact_statement:
  assumes "list_all plain_char hdr" and "list_all (\<lambda>r. r \<noteq> []) rows"
  shows "redactQuotedLiterals (hdr @ fmtRows (map (map sql_render) rows)) =
           hdr @ fmtRows (map (map sql_masked) rows)"
  using assms by (simp add: redactQuotedLiterals_def redact_plain redact_rows)

end
