(* ===== verification/AdminSync.thy ===== *)
theory AdminSync
  imports AdminSQL
begin

text \<open>
  Pushing a desired state to one admin endpoint:
  \<open>operator/internal/proxysqlclient/sync.go\<close>. The \<open>Executor\<close> interface is a parameter
  \<open>ex\<close>: it takes the endpoint's state and a statement and returns the new state with an
  error or none, so every theorem holds for every endpoint and every pattern of failures.
  The last section states what a push amounts to: a plan of statements per section, each
  section run to its first failure, no section stopping a later one.
\<close>

type_synonym 'w executor = "'w \<Rightarrow> string \<Rightarrow> 'w \<times> gerror"

section \<open>The operations\<close>

text \<open>\<open>if err := ...; err != nil { return err }\<close> followed by the rest of the function.\<close>

definition andThen :: "'w \<times> gerror \<Rightarrow> ('w \<Rightarrow> 'w \<times> gerror) \<Rightarrow> 'w \<times> gerror" where
  "andThen r k = (case r of (w, None) \<Rightarrow> k w | (w, Some e) \<Rightarrow> (w, Some e))"

definition loadSave :: "'w executor \<Rightarrow> string \<Rightarrow> 'w \<Rightarrow> 'w \<times> gerror" where
  "loadSave ex what w =
     andThen (ex w (''LOAD '' @ what @ '' TO RUNTIME'')) (\<lambda>w. ex w (''SAVE '' @ what @ '' TO DISK''))"

definition statusOnline :: string where "statusOnline = ''ONLINE''"
definition statusOfflineSoft :: string where "statusOfflineSoft = ''OFFLINE_SOFT''"
definition statusOfflineHard :: string where "statusOfflineHard = ''OFFLINE_HARD''"

definition mysqlServersInsert :: string where
  "mysqlServersInsert = ''INSERT INTO mysql_servers (hostgroup_id,hostname,port,status,weight,max_connections,max_replication_lag,use_ssl,comment) VALUES ''"

definition mysqlServerCells :: "MySQLServer \<Rightarrow> string list" where
  "mysqlServerCells s =
     (let status = (if ms_Status s = [] then statusOnline else ms_Status s) in
      [itoa (ms_Hostgroup s), quote (ms_Hostname s), itoa (defaultInt32 (ms_Port s) 3306),
       quote status, defInt32 (ms_Weight s) 1, defInt32 (ms_MaxConnections s) 1000,
       defInt32 (ms_MaxReplicationLag s) 0, defBoolAsInt (ms_UseSSL s) False,
       quote (ms_Comment s)])"

definition syncMySQLServers :: "'w executor \<Rightarrow> Desired \<Rightarrow> 'w \<Rightarrow> 'w \<times> gerror" where
  "syncMySQLServers ex d w =
     andThen (ex w ''DELETE FROM mysql_servers'')
       (\<lambda>w. if d_MySQLServers d = [] then (w, None)
            else ex w (mysqlServersInsert @ fmtRows (map mysqlServerCells (d_MySQLServers d))))"

definition mysqlReplicationHostgroupsInsert :: string where
  "mysqlReplicationHostgroupsInsert = ''INSERT INTO mysql_replication_hostgroups (writer_hostgroup,reader_hostgroup,check_type,comment) VALUES ''"

definition mysqlReplicationHostgroupCells :: "MySQLReplicationHostgroup \<Rightarrow> string list" where
  "mysqlReplicationHostgroupCells h =
     (let check = (if rh_CheckType h = [] then ''read_only'' else rh_CheckType h) in
      [itoa (rh_WriterHostgroup h), itoa (rh_ReaderHostgroup h), quote check,
       quote (rh_Comment h)])"

definition syncMySQLReplicationHostgroups :: "'w executor \<Rightarrow> Desired \<Rightarrow> 'w \<Rightarrow> 'w \<times> gerror" where
  "syncMySQLReplicationHostgroups ex d w =
     andThen (ex w ''DELETE FROM mysql_replication_hostgroups'')
       (\<lambda>w. if d_MySQLReplicationHostgroups d = [] then (w, None)
            else ex w (mysqlReplicationHostgroupsInsert
                   @ fmtRows (map mysqlReplicationHostgroupCells (d_MySQLReplicationHostgroups d))))"

definition mysqlHostgroupAttributesInsert :: string where
  "mysqlHostgroupAttributesInsert = ''INSERT INTO mysql_hostgroup_attributes (hostgroup_id,max_num_online_servers,autocommit,free_connections_pct,init_connect,multiplex,connection_warming,throttle_connections_per_sec,ignore_session_variables,comment) VALUES ''"

definition mysqlHostgroupAttributesCells :: "MySQLHostgroupAttributes \<Rightarrow> string list" where
  "mysqlHostgroupAttributesCells a =
     [itoa (ha_Hostgroup a), defInt32 (ha_MaxNumOnlineServers a) 1000000,
      defInt32 (ha_Autocommit a) (- 1), defInt32 (ha_FreeConnectionsPct a) 10,
      quote (ha_InitConnect a), defBoolAsInt (ha_Multiplex a) True,
      defBoolAsInt (ha_ConnectionWarming a) False,
      defInt32 (ha_ThrottleConnectionsPerSec a) 1000000,
      quote (ha_IgnoreSessionVariables a), quote (ha_Comment a)]"

definition syncMySQLHostgroupAttributes :: "'w executor \<Rightarrow> Desired \<Rightarrow> 'w \<Rightarrow> 'w \<times> gerror" where
  "syncMySQLHostgroupAttributes ex d w =
     andThen (ex w ''DELETE FROM mysql_hostgroup_attributes'')
       (\<lambda>w. if d_MySQLHostgroupAttributes d = [] then (w, None)
            else ex w (mysqlHostgroupAttributesInsert
                   @ fmtRows (map mysqlHostgroupAttributesCells (d_MySQLHostgroupAttributes d))))"

definition mysqlUsersInsert :: string where
  "mysqlUsersInsert = ''INSERT INTO mysql_users (username,password,default_hostgroup,active,max_connections,use_ssl,default_schema,transaction_persistent,comment) VALUES ''"

definition mysqlUserCells :: "MySQLUser \<Rightarrow> string list" where
  "mysqlUserCells u =
     [quote (mu_Username u), quote (mu_Password u), itoa (mu_DefaultHostgroup u),
      defBoolAsInt (mu_Active u) True, defInt32 (mu_MaxConnections u) 10000,
      defBoolAsInt (mu_UseSSL u) False, quote (mu_DefaultSchema u),
      defBoolAsInt (mu_TransactionPersistent u) True, quote (mu_Comment u)]"

definition syncMySQLUsers :: "'w executor \<Rightarrow> Desired \<Rightarrow> 'w \<Rightarrow> 'w \<times> gerror" where
  "syncMySQLUsers ex d w =
     andThen (ex w ''DELETE FROM mysql_users'')
       (\<lambda>w. if d_MySQLUsers d = [] then (w, None)
            else ex w (mysqlUsersInsert @ fmtRows (map mysqlUserCells (d_MySQLUsers d))))"

definition mysqlQueryRulesInsert :: string where
  "mysqlQueryRulesInsert = ''INSERT INTO mysql_query_rules (rule_id,active,username,schemaname,flagIN,match_pattern,match_digest,flagOUT,replace_pattern,destination_hostgroup,cache_ttl,cache_empty_result,timeout,delay,mirror_hostgroup,error_msg,log,apply,comment) VALUES ''"

definition mysqlQueryRuleCells :: "MySQLQueryRule \<Rightarrow> string list" where
  "mysqlQueryRuleCells r =
     [itoa (mr_RuleID r), defBoolAsInt (mr_Active r) True, quote (mr_Username r),
      quote (mr_SchemaName r), defInt32 (mr_FlagIn r) 0, quote (mr_MatchPattern r),
      quote (mr_MatchDigest r), nullableInt32 (mr_FlagOut r), nullableString (mr_ReplacePattern r),
      nullableInt32 (mr_DestinationHostgroup r), nullableInt32 (mr_CacheTTL r),
      nullableBoolAsInt (mr_CacheEmptyResult r), nullableInt32 (mr_Timeout r),
      nullableInt32 (mr_Delay r), nullableInt32 (mr_MirrorHostgroup r),
      nullableString (mr_ErrorMessage r), nullableBoolAsInt (mr_Log r),
      defBoolAsInt (mr_Apply r) False, quote (mr_Comment r)]"

definition syncMySQLQueryRules :: "'w executor \<Rightarrow> Desired \<Rightarrow> 'w \<Rightarrow> 'w \<times> gerror" where
  "syncMySQLQueryRules ex d w =
     andThen (ex w ''DELETE FROM mysql_query_rules'')
       (\<lambda>w. if d_MySQLQueryRules d = [] then (w, None)
            else let rules = sort_key mr_RuleID (d_MySQLQueryRules d) in
              ex w (mysqlQueryRulesInsert @ fmtRows (map mysqlQueryRuleCells rules)))"

definition pgsqlServersInsert :: string where
  "pgsqlServersInsert = ''INSERT INTO pgsql_servers (hostgroup_id,hostname,port,weight,max_connections,use_ssl,comment) VALUES ''"

definition pgsqlServerCells :: "PostgreSQLServer \<Rightarrow> string list" where
  "pgsqlServerCells s =
     [itoa (ps_Hostgroup s), quote (ps_Hostname s), itoa (defaultInt32 (ps_Port s) 5432),
      defInt32 (ps_Weight s) 1, defInt32 (ps_MaxConnections s) 1000,
      defBoolAsInt (ps_UseSSL s) False, quote (ps_Comment s)]"

definition syncPostgreSQLServers :: "'w executor \<Rightarrow> Desired \<Rightarrow> 'w \<Rightarrow> 'w \<times> gerror" where
  "syncPostgreSQLServers ex d w =
     andThen (ex w ''DELETE FROM pgsql_servers'')
       (\<lambda>w. if d_PostgreSQLServers d = [] then (w, None)
            else ex w (pgsqlServersInsert @ fmtRows (map pgsqlServerCells (d_PostgreSQLServers d))))"

definition pgsqlUsersInsert :: string where
  "pgsqlUsersInsert = ''INSERT INTO pgsql_users (username,password,default_hostgroup,active,comment) VALUES ''"

definition pgsqlUserCells :: "PostgreSQLUser \<Rightarrow> string list" where
  "pgsqlUserCells u =
     [quote (pu_Username u), quote (pu_Password u), itoa (pu_DefaultHostgroup u),
      defBoolAsInt (pu_Active u) True, quote (pu_Comment u)]"

definition syncPostgreSQLUsers :: "'w executor \<Rightarrow> Desired \<Rightarrow> 'w \<Rightarrow> 'w \<times> gerror" where
  "syncPostgreSQLUsers ex d w =
     andThen (ex w ''DELETE FROM pgsql_users'')
       (\<lambda>w. if d_PostgreSQLUsers d = [] then (w, None)
            else ex w (pgsqlUsersInsert @ fmtRows (map pgsqlUserCells (d_PostgreSQLUsers d))))"

definition pgsqlQueryRulesInsert :: string where
  "pgsqlQueryRulesInsert = ''INSERT INTO pgsql_query_rules (rule_id,active,flagIN,match_pattern,flagOUT,replace_pattern,destination_hostgroup,cache_ttl,cache_empty_result,timeout,delay,mirror_hostgroup,error_msg,log,apply,comment) VALUES ''"

definition pgsqlQueryRuleCells :: "PostgreSQLQueryRule \<Rightarrow> string list" where
  "pgsqlQueryRuleCells r =
     [itoa (pr_RuleID r), defBoolAsInt (pr_Active r) True, defInt32 (pr_FlagIn r) 0,
      quote (pr_MatchPattern r), nullableInt32 (pr_FlagOut r), nullableString (pr_ReplacePattern r),
      nullableInt32 (pr_DestinationHostgroup r), nullableInt32 (pr_CacheTTL r),
      nullableBoolAsInt (pr_CacheEmptyResult r), nullableInt32 (pr_Timeout r),
      nullableInt32 (pr_Delay r), nullableInt32 (pr_MirrorHostgroup r),
      nullableString (pr_ErrorMessage r), nullableBoolAsInt (pr_Log r),
      defBoolAsInt (pr_Apply r) False, quote (pr_Comment r)]"

definition syncPostgreSQLQueryRules :: "'w executor \<Rightarrow> Desired \<Rightarrow> 'w \<Rightarrow> 'w \<times> gerror" where
  "syncPostgreSQLQueryRules ex d w =
     andThen (ex w ''DELETE FROM pgsql_query_rules'')
       (\<lambda>w. if d_PostgreSQLQueryRules d = [] then (w, None)
            else let rules = sort_key pr_RuleID (d_PostgreSQLQueryRules d) in
              ex w (pgsqlQueryRulesInsert @ fmtRows (map pgsqlQueryRuleCells rules)))"

definition proxysqlServersInsert :: string where
  "proxysqlServersInsert = ''INSERT INTO proxysql_servers (hostname,port,weight,comment) VALUES ''"

definition proxysqlServerCells :: "ProxySQLServer \<Rightarrow> string list" where
  "proxysqlServerCells s =
     (let port = (if px_Port s = 0 then 6032 else px_Port s) in
      [quote (px_Hostname s), itoa port, itoa (px_Weight s), quote (px_Comment s)])"

definition syncProxySQLServers :: "'w executor \<Rightarrow> Desired \<Rightarrow> 'w \<Rightarrow> 'w \<times> gerror" where
  "syncProxySQLServers ex d w =
     andThen (ex w ''DELETE FROM proxysql_servers'')
       (\<lambda>w. if d_ProxySQLServers d = [] then (w, None)
            else ex w (proxysqlServersInsert @ fmtRows (map proxysqlServerCells (d_ProxySQLServers d))))"

fun execAll :: "'w executor \<Rightarrow> string list \<Rightarrow> 'w \<Rightarrow> 'w \<times> gerror" where
  "execAll ex [] w = (w, None)"
| "execAll ex (q # qs) w = andThen (ex w q) (execAll ex qs)"

definition updateVariable :: "string \<Rightarrow> string \<Rightarrow> string" where
  "updateVariable k v =
     ''UPDATE global_variables SET variable_value='' @ quote v @ '' WHERE variable_name='' @ quote k"

definition syncVariables :: "'w executor \<Rightarrow> (string, string) gomap \<Rightarrow> string \<Rightarrow> 'w \<Rightarrow> 'w \<times> gerror" where
  "syncVariables ex vars domain w =
     (if vars = [] then (w, None)
      else andThen (execAll ex (map (\<lambda>k. updateVariable k (mgetStr vars k)) (sortedKeys vars)) w)
             (loadSave ex (domain @ '' VARIABLES'')))"

definition ApplyVariables :: "'w executor \<Rightarrow> (string, string) gomap \<Rightarrow> string \<Rightarrow> 'w \<Rightarrow> 'w \<times> gerror" where
  "ApplyVariables ex vars domain w = syncVariables ex vars domain w"

definition ReloadTLS :: "'w executor \<Rightarrow> 'w \<Rightarrow> 'w \<times> gerror" where
  "ReloadTLS ex w = ex w ''PROXYSQL RELOAD TLS''"

fun syncSQLStatementsFrom :: "'w executor \<Rightarrow> int \<Rightarrow> string list \<Rightarrow> 'w \<Rightarrow> 'w \<times> gerror" where
  "syncSQLStatementsFrom ex i [] w = (w, None)"
| "syncSQLStatementsFrom ex i (q # qs) w =
     (case ex w q of
        (w1, Some e) \<Rightarrow> (w1, Some (''sqlStatements['' @ itoa i @ '']: '' @ e))
      | (w1, None) \<Rightarrow> syncSQLStatementsFrom ex (i + 1) qs w1)"

definition syncSQLStatements :: "'w executor \<Rightarrow> Desired \<Rightarrow> 'w \<Rightarrow> 'w \<times> gerror" where
  "syncSQLStatements ex d w = syncSQLStatementsFrom ex 0 (d_SQLStatements d) w"

fun runSyncSteps :: "(string \<times> ('w \<Rightarrow> 'w \<times> gerror)) list \<Rightarrow> gerror \<Rightarrow> 'w \<Rightarrow> 'w \<times> gerror" where
  "runSyncSteps [] firstErr w = (w, firstErr)"
| "runSyncSteps ((name, run) # steps) firstErr w =
     (case run w of
        (w1, None) \<Rightarrow> runSyncSteps steps firstErr w1
      | (w1, Some e) \<Rightarrow>
          runSyncSteps steps (case firstErr of None \<Rightarrow> Some (name @ '': '' @ e) | Some f \<Rightarrow> Some f) w1)"

definition syncSteps :: "'w executor \<Rightarrow> Desired \<Rightarrow> bool \<Rightarrow> (string \<times> ('w \<Rightarrow> 'w \<times> gerror)) list" where
  "syncSteps ex d awsDBProxy =
     (if awsDBProxy then []
      else [(''mysql_servers'', syncMySQLServers ex d),
            (''mysql_replication_hostgroups'', syncMySQLReplicationHostgroups ex d),
            (''mysql_hostgroup_attributes'', syncMySQLHostgroupAttributes ex d),
            (''mysql_servers_apply'', loadSave ex ''MYSQL SERVERS''),
            (''mysql_users'', syncMySQLUsers ex d),
            (''mysql_users_apply'', loadSave ex ''MYSQL USERS'')])
     @ [(''mysql_query_rules'', syncMySQLQueryRules ex d),
        (''mysql_query_rules_apply'', loadSave ex ''MYSQL QUERY RULES''),
        (''pgsql_servers'', syncPostgreSQLServers ex d),
        (''pgsql_servers_apply'', loadSave ex ''PGSQL SERVERS''),
        (''pgsql_users'', syncPostgreSQLUsers ex d),
        (''pgsql_users_apply'', loadSave ex ''PGSQL USERS''),
        (''pgsql_query_rules'', syncPostgreSQLQueryRules ex d),
        (''pgsql_query_rules_apply'', loadSave ex ''PGSQL QUERY RULES''),
        (''proxysql_servers'', syncProxySQLServers ex d),
        (''proxysql_servers_apply'', loadSave ex ''PROXYSQL SERVERS''),
        (''mysql_variables'', syncVariables ex (d_MySQLVariables d) ''MYSQL''),
        (''pgsql_variables'', syncVariables ex (d_PostgreSQLVariables d) ''PGSQL''),
        (''admin_variables'', syncVariables ex (d_AdminVariables d) ''ADMIN''),
        (''sql_statements'', syncSQLStatements ex d)]"

definition SyncWithAWSDBProxy :: "'w executor \<Rightarrow> Desired \<Rightarrow> bool \<Rightarrow> 'w \<Rightarrow> 'w \<times> gerror" where
  "SyncWithAWSDBProxy ex d awsDBProxy w = runSyncSteps (syncSteps ex d awsDBProxy) None w"

definition Sync :: "'w executor \<Rightarrow> Desired \<Rightarrow> 'w \<Rightarrow> 'w \<times> gerror" where
  "Sync ex d w = SyncWithAWSDBProxy ex d False w"

section \<open>The plan of a push\<close>

text \<open>
  The rows each table should hold after a push, as SQL values: the specification the rendered
  statements are measured against. An unset nullable column is NULL, an unset NOT NULL
  column has ProxySQL's default.
\<close>

abbreviation sqlBool :: "bool \<Rightarrow> sql_value" where
  "sqlBool b \<equiv> SqlInt (if b then 1 else 0)"

definition intOr :: "int option \<Rightarrow> int \<Rightarrow> sql_value" where
  "intOr p def = SqlInt (case p of None \<Rightarrow> def | Some v \<Rightarrow> v)"

definition boolOr :: "bool option \<Rightarrow> bool \<Rightarrow> sql_value" where
  "boolOr p def = sqlBool (case p of None \<Rightarrow> def | Some b \<Rightarrow> b)"

definition intOrNull :: "int option \<Rightarrow> sql_value" where
  "intOrNull p = (case p of None \<Rightarrow> SqlNull | Some v \<Rightarrow> SqlInt v)"

definition boolOrNull :: "bool option \<Rightarrow> sql_value" where
  "boolOrNull p = (case p of None \<Rightarrow> SqlNull | Some b \<Rightarrow> sqlBool b)"

definition textOrNull :: "string \<Rightarrow> sql_value" where
  "textOrNull s = (if s = [] then SqlNull else SqlText s)"

definition mysqlServerRow :: "MySQLServer \<Rightarrow> sql_value list" where
  "mysqlServerRow s =
     [SqlInt (ms_Hostgroup s), SqlText (ms_Hostname s),
      SqlInt (if ms_Port s = 0 then 3306 else ms_Port s),
      SqlText (if ms_Status s = [] then statusOnline else ms_Status s),
      intOr (ms_Weight s) 1, intOr (ms_MaxConnections s) 1000, intOr (ms_MaxReplicationLag s) 0,
      boolOr (ms_UseSSL s) False, SqlText (ms_Comment s)]"

definition mysqlReplicationHostgroupRow :: "MySQLReplicationHostgroup \<Rightarrow> sql_value list" where
  "mysqlReplicationHostgroupRow h =
     [SqlInt (rh_WriterHostgroup h), SqlInt (rh_ReaderHostgroup h),
      SqlText (if rh_CheckType h = [] then ''read_only'' else rh_CheckType h),
      SqlText (rh_Comment h)]"

definition mysqlHostgroupAttributesRow :: "MySQLHostgroupAttributes \<Rightarrow> sql_value list" where
  "mysqlHostgroupAttributesRow a =
     [SqlInt (ha_Hostgroup a), intOr (ha_MaxNumOnlineServers a) 1000000,
      intOr (ha_Autocommit a) (- 1), intOr (ha_FreeConnectionsPct a) 10,
      SqlText (ha_InitConnect a), boolOr (ha_Multiplex a) True,
      boolOr (ha_ConnectionWarming a) False, intOr (ha_ThrottleConnectionsPerSec a) 1000000,
      SqlText (ha_IgnoreSessionVariables a), SqlText (ha_Comment a)]"

definition mysqlUserRow :: "MySQLUser \<Rightarrow> sql_value list" where
  "mysqlUserRow u =
     [SqlText (mu_Username u), SqlText (mu_Password u), SqlInt (mu_DefaultHostgroup u),
      boolOr (mu_Active u) True, intOr (mu_MaxConnections u) 10000, boolOr (mu_UseSSL u) False,
      SqlText (mu_DefaultSchema u), boolOr (mu_TransactionPersistent u) True,
      SqlText (mu_Comment u)]"

definition mysqlQueryRuleRow :: "MySQLQueryRule \<Rightarrow> sql_value list" where
  "mysqlQueryRuleRow r =
     [SqlInt (mr_RuleID r), boolOr (mr_Active r) True, SqlText (mr_Username r),
      SqlText (mr_SchemaName r), intOr (mr_FlagIn r) 0, SqlText (mr_MatchPattern r),
      SqlText (mr_MatchDigest r), intOrNull (mr_FlagOut r), textOrNull (mr_ReplacePattern r),
      intOrNull (mr_DestinationHostgroup r), intOrNull (mr_CacheTTL r),
      boolOrNull (mr_CacheEmptyResult r), intOrNull (mr_Timeout r), intOrNull (mr_Delay r),
      intOrNull (mr_MirrorHostgroup r), textOrNull (mr_ErrorMessage r), boolOrNull (mr_Log r),
      boolOr (mr_Apply r) False, SqlText (mr_Comment r)]"

definition pgsqlServerRow :: "PostgreSQLServer \<Rightarrow> sql_value list" where
  "pgsqlServerRow s =
     [SqlInt (ps_Hostgroup s), SqlText (ps_Hostname s),
      SqlInt (if ps_Port s = 0 then 5432 else ps_Port s), intOr (ps_Weight s) 1,
      intOr (ps_MaxConnections s) 1000, boolOr (ps_UseSSL s) False, SqlText (ps_Comment s)]"

definition pgsqlUserRow :: "PostgreSQLUser \<Rightarrow> sql_value list" where
  "pgsqlUserRow u =
     [SqlText (pu_Username u), SqlText (pu_Password u), SqlInt (pu_DefaultHostgroup u),
      boolOr (pu_Active u) True, SqlText (pu_Comment u)]"

definition pgsqlQueryRuleRow :: "PostgreSQLQueryRule \<Rightarrow> sql_value list" where
  "pgsqlQueryRuleRow r =
     [SqlInt (pr_RuleID r), boolOr (pr_Active r) True, intOr (pr_FlagIn r) 0,
      SqlText (pr_MatchPattern r), intOrNull (pr_FlagOut r), textOrNull (pr_ReplacePattern r),
      intOrNull (pr_DestinationHostgroup r), intOrNull (pr_CacheTTL r),
      boolOrNull (pr_CacheEmptyResult r), intOrNull (pr_Timeout r), intOrNull (pr_Delay r),
      intOrNull (pr_MirrorHostgroup r), textOrNull (pr_ErrorMessage r), boolOrNull (pr_Log r),
      boolOr (pr_Apply r) False, SqlText (pr_Comment r)]"

definition proxysqlServerRow :: "ProxySQLServer \<Rightarrow> sql_value list" where
  "proxysqlServerRow s =
     [SqlText (px_Hostname s), SqlInt (if px_Port s = 0 then 6032 else px_Port s),
      SqlInt (px_Weight s), SqlText (px_Comment s)]"

text \<open>Table name, INSERT header and rows of the nine managed tables, in push order.\<close>

definition desired_tables :: "Desired \<Rightarrow> (string \<times> string \<times> sql_value list list) list" where
  "desired_tables d =
     [(''mysql_servers'', mysqlServersInsert, map mysqlServerRow (d_MySQLServers d)),
      (''mysql_replication_hostgroups'', mysqlReplicationHostgroupsInsert,
         map mysqlReplicationHostgroupRow (d_MySQLReplicationHostgroups d)),
      (''mysql_hostgroup_attributes'', mysqlHostgroupAttributesInsert,
         map mysqlHostgroupAttributesRow (d_MySQLHostgroupAttributes d)),
      (''mysql_users'', mysqlUsersInsert, map mysqlUserRow (d_MySQLUsers d)),
      (''mysql_query_rules'', mysqlQueryRulesInsert,
         map mysqlQueryRuleRow (sort_key mr_RuleID (d_MySQLQueryRules d))),
      (''pgsql_servers'', pgsqlServersInsert, map pgsqlServerRow (d_PostgreSQLServers d)),
      (''pgsql_users'', pgsqlUsersInsert, map pgsqlUserRow (d_PostgreSQLUsers d)),
      (''pgsql_query_rules'', pgsqlQueryRulesInsert,
         map pgsqlQueryRuleRow (sort_key pr_RuleID (d_PostgreSQLQueryRules d))),
      (''proxysql_servers'', proxysqlServersInsert, map proxysqlServerRow (d_ProxySQLServers d))]"

definition table_statements :: "string \<times> string \<times> sql_value list list \<Rightarrow> string list" where
  "table_statements t =
     (case t of (name, header, rows) \<Rightarrow>
        (''DELETE FROM '' @ name)
        # (if rows = [] then [] else [header @ fmtRows (map (map sql_render) rows)]))"

definition apply_statements :: "string \<Rightarrow> string list" where
  "apply_statements what = [''LOAD '' @ what @ '' TO RUNTIME'', ''SAVE '' @ what @ '' TO DISK'']"

definition variable_statements :: "(string, string) gomap \<Rightarrow> string \<Rightarrow> string list" where
  "variable_statements vars domain =
     (if vars = [] then []
      else map (\<lambda>k. updateVariable k (mgetStr vars k)) (sortedKeys vars)
           @ apply_statements (domain @ '' VARIABLES''))"

text \<open>The statements of every structured section; \<open>sqlStatements\<close> follow them.\<close>

definition sync_plan :: "Desired \<Rightarrow> bool \<Rightarrow> (string \<times> string list) list" where
  "sync_plan d aws =
     (let t = (\<lambda>i. (fst (desired_tables d ! i), table_statements (desired_tables d ! i))) in
     (if aws then []
      else [t 0, t 1, t 2, (''mysql_servers_apply'', apply_statements ''MYSQL SERVERS''),
            t 3, (''mysql_users_apply'', apply_statements ''MYSQL USERS'')])
     @ [t 4, (''mysql_query_rules_apply'', apply_statements ''MYSQL QUERY RULES''),
        t 5, (''pgsql_servers_apply'', apply_statements ''PGSQL SERVERS''),
        t 6, (''pgsql_users_apply'', apply_statements ''PGSQL USERS''),
        t 7, (''pgsql_query_rules_apply'', apply_statements ''PGSQL QUERY RULES''),
        t 8, (''proxysql_servers_apply'', apply_statements ''PROXYSQL SERVERS''),
        (''mysql_variables'', variable_statements (d_MySQLVariables d) ''MYSQL''),
        (''pgsql_variables'', variable_statements (d_PostgreSQLVariables d) ''PGSQL''),
        (''admin_variables'', variable_statements (d_AdminVariables d) ''ADMIN'')])"

section \<open>A push is its plan\<close>

lemma andThen_simps [simp]:
  "andThen (w, None) k = k w" "andThen (w, Some e) k = (w, Some e)"
  by (simp_all add: andThen_def)

lemma andThen_None [simp]: "andThen r (\<lambda>w. (w, None)) = r"
  by (cases r; cases "snd r") (simp_all add: andThen_def)

lemma andThen_assoc [simp]: "andThen (andThen r k) l = andThen r (\<lambda>w. andThen (k w) l)"
  by (auto simp: andThen_def split: prod.splits option.splits)

lemma execAll_append: "execAll ex (qs @ rs) w = andThen (execAll ex qs w) (execAll ex rs)"
  by (induction qs arbitrary: w) (auto simp: andThen_def split: prod.split option.split)

lemma execAll_Nil: "execAll ex [] = (\<lambda>w. (w, None))"
  by (simp add: fun_eq_iff)

lemma execAll_single: "execAll ex [q] = (\<lambda>w. ex w q)"
  by (simp add: fun_eq_iff execAll_Nil)

lemmas execAll_short = execAll_Nil execAll_single

lemma sort_key_empty [simp]: "sort_key f xs = [] \<longleftrightarrow> xs = []"
  by (metis length_0_conv length_sort)

lemma itoa_bit: "itoa 1 = ''1''" "itoa 0 = ''0''"
  by (simp_all add: itoa_def nat_digits.simps digit_char_def)

lemma render_cells:
  "sql_render (intOr p i) = defInt32 p i" "sql_render (boolOr b c) = defBoolAsInt b c"
  "sql_render (intOrNull p) = nullableInt32 p" "sql_render (boolOrNull b) = nullableBoolAsInt b"
  "sql_render (textOrNull s) = nullableString s"
  by (auto simp: intOr_def defInt32_def boolOr_def defBoolAsInt_def intOrNull_def nullableInt32_def
      boolOrNull_def nullableBoolAsInt_def textOrNull_def nullableString_def itoa_bit
      split: option.split)

lemma rows_cells:
  "map sql_render (mysqlServerRow s) = mysqlServerCells s"
  "map sql_render (mysqlReplicationHostgroupRow h) = mysqlReplicationHostgroupCells h"
  "map sql_render (mysqlHostgroupAttributesRow a) = mysqlHostgroupAttributesCells a"
  "map sql_render (mysqlUserRow u) = mysqlUserCells u"
  "map sql_render (mysqlQueryRuleRow r) = mysqlQueryRuleCells r"
  "map sql_render (pgsqlServerRow ps) = pgsqlServerCells ps"
  "map sql_render (pgsqlUserRow pu) = pgsqlUserCells pu"
  "map sql_render (pgsqlQueryRuleRow pr) = pgsqlQueryRuleCells pr"
  "map sql_render (proxysqlServerRow px) = proxysqlServerCells px"
  by (simp_all add: mysqlServerRow_def mysqlServerCells_def mysqlReplicationHostgroupRow_def
      mysqlReplicationHostgroupCells_def mysqlHostgroupAttributesRow_def
      mysqlHostgroupAttributesCells_def mysqlUserRow_def mysqlUserCells_def mysqlQueryRuleRow_def
      mysqlQueryRuleCells_def pgsqlServerRow_def pgsqlServerCells_def pgsqlUserRow_def
      pgsqlUserCells_def pgsqlQueryRuleRow_def pgsqlQueryRuleCells_def proxysqlServerRow_def
      proxysqlServerCells_def render_cells Let_def defaultInt32_def)

lemma table_sections:
  "syncMySQLServers ex d = execAll ex (table_statements (desired_tables d ! 0))"
  "syncMySQLReplicationHostgroups ex d = execAll ex (table_statements (desired_tables d ! 1))"
  "syncMySQLHostgroupAttributes ex d = execAll ex (table_statements (desired_tables d ! 2))"
  "syncMySQLUsers ex d = execAll ex (table_statements (desired_tables d ! 3))"
  "syncMySQLQueryRules ex d = execAll ex (table_statements (desired_tables d ! 4))"
  "syncPostgreSQLServers ex d = execAll ex (table_statements (desired_tables d ! 5))"
  "syncPostgreSQLUsers ex d = execAll ex (table_statements (desired_tables d ! 6))"
  "syncPostgreSQLQueryRules ex d = execAll ex (table_statements (desired_tables d ! 7))"
  "syncProxySQLServers ex d = execAll ex (table_statements (desired_tables d ! 8))"
  by (simp_all add: fun_eq_iff syncMySQLServers_def syncMySQLReplicationHostgroups_def
      syncMySQLHostgroupAttributes_def syncMySQLUsers_def syncMySQLQueryRules_def
      syncPostgreSQLServers_def syncPostgreSQLUsers_def syncPostgreSQLQueryRules_def
      syncProxySQLServers_def desired_tables_def table_statements_def rows_cells comp_def
      numeral_eq_Suc Let_def execAll_short)

lemma apply_section: "loadSave ex what = execAll ex (apply_statements what)"
  by (simp add: fun_eq_iff loadSave_def apply_statements_def execAll_short)

lemma variable_section:
  "syncVariables ex vars domain = execAll ex (variable_statements vars domain)"
  by (simp add: fun_eq_iff syncVariables_def variable_statements_def execAll_append apply_section)

lemma table_names:
  "fst (desired_tables d ! 0) = ''mysql_servers''"
  "fst (desired_tables d ! 1) = ''mysql_replication_hostgroups''"
  "fst (desired_tables d ! 2) = ''mysql_hostgroup_attributes''"
  "fst (desired_tables d ! 3) = ''mysql_users''"
  "fst (desired_tables d ! 4) = ''mysql_query_rules''"
  "fst (desired_tables d ! 5) = ''pgsql_servers''"
  "fst (desired_tables d ! 6) = ''pgsql_users''"
  "fst (desired_tables d ! 7) = ''pgsql_query_rules''"
  "fst (desired_tables d ! 8) = ''proxysql_servers''"
  by (simp_all add: desired_tables_def numeral_eq_Suc)

lemma syncSteps_plan:
  "syncSteps ex d aws =
     map (\<lambda>(name, qs). (name, execAll ex qs)) (sync_plan d aws)
     @ [(''sql_statements'', syncSQLStatementsFrom ex 0 (d_SQLStatements d))]"
proof -
  have raw: "syncSQLStatements ex d = syncSQLStatementsFrom ex 0 (d_SQLStatements d)"
    by (simp add: fun_eq_iff syncSQLStatements_def)
  show ?thesis
    by (cases aws)
      (simp_all only: syncSteps_def sync_plan_def Let_def table_sections apply_section
        variable_section raw table_names if_True if_False map_append list.map prod.case
        append.simps)
qed

text \<open>The sections of a push by plan, and the errors of a list of sections all of which are run.\<close>

definition plan_sections :: "'w executor \<Rightarrow> Desired \<Rightarrow> bool \<Rightarrow> (string \<times> ('w \<Rightarrow> 'w \<times> gerror)) list" where
  "plan_sections ex d aws =
     map (\<lambda>(name, qs). (name, execAll ex qs)) (sync_plan d aws)
     @ [(''sql_statements'', syncSQLStatementsFrom ex 0 (d_SQLStatements d))]"

fun section_errors :: "(string \<times> ('w \<Rightarrow> 'w \<times> gerror)) list \<Rightarrow> 'w \<Rightarrow> string list" where
  "section_errors [] w = []"
| "section_errors ((name, run) # ss) w =
     (case snd (run w) of None \<Rightarrow> [] | Some e \<Rightarrow> [name @ '': '' @ e]) @ section_errors ss (fst (run w))"

lemma runSyncSteps_all:
  "runSyncSteps ss err w =
     (fold (\<lambda>(_, run) w. fst (run w)) ss w,
      case err of Some e \<Rightarrow> Some e
      | None \<Rightarrow> (case section_errors ss w of [] \<Rightarrow> None | e # _ \<Rightarrow> Some e))"
proof (induction ss err w rule: runSyncSteps.induct)
  case (2 name run ss err w)
  then show ?case by (cases "run w"; cases "snd (run w)") (auto split: option.splits)
qed (simp split: option.splits)

text \<open>C1. A push executes exactly the sections of \<^const>\<open>sync_plan\<close>, in that order and every one of them
  whatever failed before, each with its statements run up to the first failure, then the raw
  \<open>sqlStatements\<close>; the error returned is that of the first section that failed, under its name. This
  holds for every endpoint and every failure pattern.\<close>

theorem sync_follows_plan:
  "SyncWithAWSDBProxy ex d aws w =
     (fold (\<lambda>(_, run) w. fst (run w)) (plan_sections ex d aws) w,
      case section_errors (plan_sections ex d aws) w of [] \<Rightarrow> None | e # _ \<Rightarrow> Some e)"
  by (simp only: SyncWithAWSDBProxy_def syncSteps_plan plan_sections_def runSyncSteps_all option.case)

section \<open>What an executor keeps, a push keeps\<close>

text \<open>The contract of an \<open>Executor\<close> that a caller of a push relies on: whatever each statement leaves true
  of the endpoint's state, under what the executor relies on itself.\<close>

locale executor_invariant =
  fixes relied :: bool and ex :: "'w executor" and inv :: "'w \<Rightarrow> bool"
  assumes keeps: "relied \<Longrightarrow> inv w \<Longrightarrow> inv (fst (ex w q))"
begin

lemma execAll_keeps: "relied \<Longrightarrow> inv w \<Longrightarrow> inv (fst (execAll ex qs w))"
proof (induction qs arbitrary: w)
  case (Cons q qs)
  then show ?case using keeps [of w q] by (auto simp: andThen_def split: prod.split option.split)
qed simp

lemma raw_keeps: "relied \<Longrightarrow> inv w \<Longrightarrow> inv (fst (syncSQLStatementsFrom ex i qs w))"
proof (induction qs arbitrary: i w)
  case (Cons q qs)
  then show ?case using keeps [of w q] by (auto split: prod.split option.split)
qed simp

lemma steps_keep:
  assumes "\<And>name run w. (name, run) \<in> set steps \<Longrightarrow> inv w \<Longrightarrow> inv (fst (run w))" and "inv w"
  shows "inv (fst (runSyncSteps steps err w))"
  using assms
proof (induction steps err w rule: runSyncSteps.induct)
  case (2 name run steps err w)
  have "inv (fst (run w))" using 2(3) [of name run w] 2(4) by simp
  with 2 show ?case by (cases "run w"; cases "snd (run w)") auto
qed simp

lemma sync_keeps: "relied \<Longrightarrow> inv w \<Longrightarrow> inv (fst (SyncWithAWSDBProxy ex d aws w))"
  unfolding SyncWithAWSDBProxy_def syncSteps_plan by (intro steps_keep) (auto intro: execAll_keeps raw_keeps)

end

section \<open>What reaches the endpoint\<close>

text \<open>An endpoint that records every statement and fails as \<open>f\<close> says.\<close>

definition recExec :: "(string \<Rightarrow> gerror) \<Rightarrow> string list executor" where
  "recExec f sent q = (sent @ [q], f q)"

fun runUpTo :: "(string \<Rightarrow> gerror) \<Rightarrow> string list \<Rightarrow> string list" where
  "runUpTo f [] = []"
| "runUpTo f (q # qs) = q # (if f q = None then runUpTo f qs else [])"

lemma runUpTo_ok: "(\<And>q. q \<in> set qs \<Longrightarrow> f q = None) \<Longrightarrow> runUpTo f qs = qs"
  by (induction qs) auto

lemma runUpTo_all [simp]: "runUpTo (\<lambda>_. None) qs = qs"
  by (rule runUpTo_ok) simp

text \<open>The record only grows.\<close>

interpretation trail: executor_invariant True "recExec f" "\<lambda>sent. \<exists>more. sent = start @ more" for f start
  by unfold_locales (auto simp: recExec_def)

lemma execAll_rec:
  "fst (execAll (recExec f) qs sent) = sent @ runUpTo f qs"
  "snd (execAll (recExec f) qs sent) = None \<longleftrightarrow> (\<forall>q \<in> set qs. f q = None)"
  by (induction qs arbitrary: sent) (auto simp: recExec_def andThen_def split: option.split)

lemma raw_rec:
  "fst (syncSQLStatementsFrom (recExec f) i qs sent) = sent @ runUpTo f qs"
  "snd (syncSQLStatementsFrom (recExec f) i qs sent) = None \<longleftrightarrow> (\<forall>q \<in> set qs. f q = None)"
  by (induction qs arbitrary: i sent) (auto simp: recExec_def split: option.split)

text \<open>A step that appends a fixed text to the record and succeeds under a fixed condition.\<close>

lemma runSyncSteps_rec:
  assumes "list_all2 (\<lambda>(name, run) (sent, ok).
             \<forall>w. fst (run w) = w @ sent \<and> (snd (run w) = None \<longleftrightarrow> ok)) steps outs"
  shows "fst (runSyncSteps steps e w) = w @ concat (map fst outs) \<and>
    (snd (runSyncSteps steps e w) = None \<longleftrightarrow> e = None \<and> list_all snd outs)"
  using assms
proof (induction steps outs arbitrary: e w rule: list_all2_induct)
  case (Cons step steps out outs)
  obtain name run where step: "step = (name, run)" by (cases step)
  obtain sent ok where out: "out = (sent, ok)" by (cases out)
  obtain w1 r where run: "run w = (w1, r)" by (cases "run w")
  have w1: "w1 = w @ sent" "r = None \<longleftrightarrow> ok"
    using Cons.hyps(1) step out run by auto (metis fst_conv, metis snd_conv, metis snd_conv)
  show ?case
    using Cons.IH w1(2) by (cases r) (auto simp: step out run w1(1) split: option.splits)
qed simp_all

lemma sync_rec:
  "fst (SyncWithAWSDBProxy (recExec f) d aws sent) =
     sent @ concat (map (runUpTo f \<circ> snd) (sync_plan d aws)) @ runUpTo f (d_SQLStatements d)"
  "snd (SyncWithAWSDBProxy (recExec f) d aws sent) = None \<longleftrightarrow>
     (\<forall>q \<in> set (concat (map snd (sync_plan d aws)) @ d_SQLStatements d). f q = None)"
proof -
  let ?outs = "map (\<lambda>(name, qs). (runUpTo f qs, \<forall>q \<in> set qs. f q = None)) (sync_plan d aws)
    @ [(runUpTo f (d_SQLStatements d), \<forall>q \<in> set (d_SQLStatements d). f q = None)]"
  let ?steps = "map (\<lambda>(name, qs). (name, execAll (recExec f) qs)) (sync_plan d aws)
    @ [(''sql_statements'', syncSQLStatementsFrom (recExec f) 0 (d_SQLStatements d))]"
  have all: "list_all2 (\<lambda>(name, run) (sent, ok).
      \<forall>w. fst (run w) = w @ sent \<and> (snd (run w) = None \<longleftrightarrow> ok)) ?steps ?outs"
    by (intro list_all2_appendI)
      (auto simp: list_all2_map1 list_all2_map2 list.rel_refl_strong execAll_rec raw_rec
        split: prod.splits)
  show "fst (SyncWithAWSDBProxy (recExec f) d aws sent) =
      sent @ concat (map (runUpTo f \<circ> snd) (sync_plan d aws)) @ runUpTo f (d_SQLStatements d)"
    using runSyncSteps_rec [OF all, of None sent]
    by (simp add: SyncWithAWSDBProxy_def syncSteps_plan comp_def case_prod_unfold)
  show "snd (SyncWithAWSDBProxy (recExec f) d aws sent) = None \<longleftrightarrow>
      (\<forall>q \<in> set (concat (map snd (sync_plan d aws)) @ d_SQLStatements d). f q = None)"
    using runSyncSteps_rec [OF all, of None sent]
    by (simp add: SyncWithAWSDBProxy_def syncSteps_plan list_all_iff case_prod_unfold) blast
qed

text \<open>Independence of sections: the statements that reach an endpoint are, for each section of
  the plan in turn, the section's statements up to and including its first failure, followed
  by the raw statements up to theirs; the push reports success exactly when no statement of
  the plan fails.\<close>

theorem sync_sections_independent:
  "fst (SyncWithAWSDBProxy (recExec f) d aws []) =
     concat (map (runUpTo f \<circ> snd) (sync_plan d aws)) @ runUpTo f (d_SQLStatements d)
   \<and> (snd (SyncWithAWSDBProxy (recExec f) d aws []) = None \<longleftrightarrow>
       list_all (\<lambda>q. f q = None) (concat (map snd (sync_plan d aws)) @ d_SQLStatements d))"
  by (simp add: sync_rec list_all_iff)

lemma desired_tables_rows:
  "(name, header, rows) \<in> set (desired_tables d) \<Longrightarrow> list_all (\<lambda>r. r \<noteq> []) rows"
  by (auto simp: desired_tables_def list_all_iff mysqlServerRow_def mysqlUserRow_def
      mysqlReplicationHostgroupRow_def mysqlHostgroupAttributesRow_def mysqlQueryRuleRow_def
      pgsqlServerRow_def pgsqlUserRow_def pgsqlQueryRuleRow_def proxysqlServerRow_def)

lemma desired_tables_in_plan:
  assumes "t \<in> set (desired_tables d)"
  shows "(fst t, table_statements t) \<in> set (sync_plan d False)"
proof -
  have "length (desired_tables d) = 9" by (simp add: desired_tables_def)
  with assms obtain i where "i < 9" and t: "t = desired_tables d ! i"
    by (metis in_set_conv_nth)
  then have "i = 0 \<or> i = 1 \<or> i = 2 \<or> i = 3 \<or> i = 4 \<or> i = 5 \<or> i = 6 \<or> i = 7 \<or> i = 8"
    by arith
  then show ?thesis
    unfolding sync_plan_def Let_def t by (elim disjE) (simp_all only: if_False set_append
      list.set insert_iff Un_iff simp_thms)
qed

text \<open>C2. No injection and no loss: for each of the nine tables with rows, a push sends one INSERT
  whose VALUES clause, read by an SQL server, is exactly the desired rows, in order and cell by
  cell, whatever characters their texts contain; only control characters are dropped.\<close>

theorem sync_rows_roundtrip:
  assumes "(name, header, rows) \<in> set (desired_tables d)" and "rows \<noteq> []"
  shows "\<exists>vals. header @ vals \<in> set (fst (Sync (recExec (\<lambda>_. None)) d []))
           \<and> sql_values vals = Some (map (map sql_stored) rows)"
proof (intro exI conjI)
  let ?vals = "fmtRows (map (map sql_render) rows)"
  have "(name, table_statements (name, header, rows)) \<in> set (sync_plan d False)"
    using desired_tables_in_plan [OF assms(1)] by simp
  moreover have "header @ ?vals \<in> set (table_statements (name, header, rows))"
    using assms(2) by (simp add: table_statements_def)
  ultimately show "header @ ?vals \<in> set (fst (Sync (recExec (\<lambda>_. None)) d []))"
    by (auto simp: Sync_def sync_rec intro!: bexI)
  show "sql_values ?vals = Some (map (map sql_stored) rows)"
    using assms(2) desired_tables_rows [OF assms(1)] by (rule sql_values_roundtrip)
qed

theorem sync_rows_roundtrip_witness:
  "\<exists>vals. mysqlUsersInsert @ vals
       \<in> set (fst (Sync (recExec (\<lambda>_. None))
              (emptyDesired\<lparr>d_MySQLUsers := [zeroMySQLUser\<lparr>mu_Username := ''a'', mu_Password := [CHR 0x27, CHR '')'']\<rparr>]\<rparr>) []))
     \<and> sql_values vals =
         Some [[SqlText ''a'', SqlText [CHR 0x27, CHR '')''], SqlInt 0, SqlInt 1, SqlInt 10000,
                SqlInt 0, SqlText [], SqlInt 1, SqlText []]]"
proof -
  let ?u = "zeroMySQLUser\<lparr>mu_Username := ''a'', mu_Password := [CHR 0x27, CHR '')'']\<rparr>"
  let ?d = "emptyDesired\<lparr>d_MySQLUsers := [?u]\<rparr>"
  have "(''mysql_users'', mysqlUsersInsert, [mysqlUserRow ?u]) \<in> set (desired_tables ?d)"
    by (simp add: desired_tables_def)
  from sync_rows_roundtrip [OF this] show ?thesis
    by (simp add: mysqlUserRow_def zero_defs boolOr_def intOr_def stripControl_def isStripControl_def)
qed


text \<open>A variable update is reported with both its value and its name masked: the redacted
  statement is one constant text for every variable and every value.\<close>

theorem redact_variable_update:
  "redactQuotedLiterals (updateVariable k v) =
     ''UPDATE global_variables SET variable_value='' @ [CHR 0x27] @ ''***'' @ [CHR 0x27]
     @ '' WHERE variable_name='' @ [CHR 0x27] @ ''***'' @ [CHR 0x27]"
proof -
  have pre: "list_all plain_char ''UPDATE global_variables SET variable_value=''"
    "list_all plain_char '' WHERE variable_name=''"
    by (simp_all add: plain_char_def)
  have "safe_next ('' WHERE variable_name='' @ quote k)" "safe_next []"
    by (simp_all add: safe_next_def plain_char_def)
  note red = redact_quote [OF this(1), of v] redact_quote [OF this(2), of k]
  have "redactLoop None (runes (quote k)) = singles ([CHR 0x27] @ ''***'' @ [CHR 0x27])"
    using red(2) by simp
  then show ?thesis
    unfolding redactQuotedLiterals_def updateVariable_def
    by (simp only: redact_plain [OF pre(1)] red(1) redact_plain [OF pre(2)] concat_append
        concat_map_singleton map_ident append_assoc)
qed

text \<open>The statements that would change the tables the AWS plugin owns.\<close>

definition touchesPluginTables :: "string \<Rightarrow> bool" where
  "touchesPluginTables q \<longleftrightarrow>
     list_ex (\<lambda>t. hasPrefix (''DELETE FROM '' @ t) q \<or> hasPrefix (''INSERT INTO '' @ t) q)
       [''mysql_servers'', ''mysql_users'', ''mysql_replication_hostgroups'',
        ''mysql_hostgroup_attributes'']
     \<or> list_ex (\<lambda>p. hasPrefix p q)
       [''LOAD MYSQL SERVERS'', ''SAVE MYSQL SERVERS'', ''LOAD MYSQL USERS'', ''SAVE MYSQL USERS'']"

text \<open>With the AWS plugin owning the MySQL servers and users, a push sends nothing that
  deletes, inserts, loads or saves those tables; what follows the structured sections is the
  user's own raw SQL, verbatim.\<close>

theorem sync_leaves_plugin_tables:
  "\<exists>sent. fst (SyncWithAWSDBProxy (recExec f) d True []) = sent @ runUpTo f (d_SQLStatements d)
     \<and> list_all (\<lambda>q. \<not> touchesPluginTables q) sent"
proof (intro exI conjI)
  let ?sent = "concat (map (runUpTo f \<circ> snd) (sync_plan d True))"
  show "fst (SyncWithAWSDBProxy (recExec f) d True []) = ?sent @ runUpTo f (d_SQLStatements d)"
    by (simp add: sync_rec)
  have sub: "q \<in> set (runUpTo f qs) \<Longrightarrow> q \<in> set qs" for q qs
    by (induction qs) (auto split: if_splits)
  have vars: "list_all (\<lambda>q. \<not> touchesPluginTables q) (variable_statements vars dm)"
    if "dm \<in> {''MYSQL'', ''PGSQL'', ''ADMIN''}" for vars dm
    using that by (auto simp: variable_statements_def apply_statements_def touchesPluginTables_def
        updateVariable_def list_all_iff)
  have "list_all (\<lambda>q. \<not> touchesPluginTables q) (concat (map snd (sync_plan d True)))"
    using vars
    by (simp add: sync_plan_def Let_def desired_tables_def table_statements_def
        apply_statements_def touchesPluginTables_def mysqlQueryRulesInsert_def
        pgsqlServersInsert_def pgsqlUsersInsert_def pgsqlQueryRulesInsert_def
        proxysqlServersInsert_def)
  then show "list_all (\<lambda>q. \<not> touchesPluginTables q) ?sent"
    by (auto simp: list_all_iff dest!: sub)
qed

end
