(* ===== verification/ConfigUnion.thy ===== *)
theory ConfigUnion
  imports AdminSync
begin

text \<open>
  Merging the configurations of one cluster into a single desired state:
  \<open>operator/internal/proxysqlclient/union.go\<close>. Every section is collected into a map under the
  section's key, later configurations overwriting earlier ones, and flattened in key order.
  The reference \<open>keyed_union\<close> says the same without maps: for every key in use, in order, the
  last row that carries it.
\<close>

section \<open>The operations\<close>

definition hostKey :: "int \<Rightarrow> string \<Rightarrow> int \<Rightarrow> string" where
  "hostKey hg host port = itoa hg @ '':'' @ host @ '':'' @ itoa port"

definition nilIfEmpty :: "(string, string) gomap \<Rightarrow> (string, string) gomap" where
  "nilIfEmpty m = (if length m = 0 then [] else m)"

definition sortedStrKeys :: "(string, 'v) gomap \<Rightarrow> string list" where
  "sortedStrKeys m = sort (mkeys m)"

definition sortedInt32Keys :: "(int, 'v) gomap \<Rightarrow> int list" where
  "sortedInt32Keys m = sort (mkeys m)"

text \<open>\<open>for _, x := range section { m[key(x)] = x }\<close>, and \<open>maps.Copy\<close>.\<close>

definition mergeInto :: "('a \<Rightarrow> 'k) \<Rightarrow> 'a list \<Rightarrow> ('k, 'a) gomap \<Rightarrow> ('k, 'a) gomap" where
  "mergeInto key xs m = fold (\<lambda>x. mput (key x) x) xs m"

definition mapsCopy :: "('k, 'v) gomap \<Rightarrow> ('k, 'v) gomap \<Rightarrow> ('k, 'v) gomap" where
  "mapsCopy src dst = fold (\<lambda>(k, v). mput k v) src dst"

record unionMaps =
  u_msrv :: "(string, MySQLServer) gomap"
  u_musr :: "(string, MySQLUser) gomap"
  u_mrule :: "(int, MySQLQueryRule) gomap"
  u_mrepl :: "(int, MySQLReplicationHostgroup) gomap"
  u_mattr :: "(int, MySQLHostgroupAttributes) gomap"
  u_pgsrv :: "(string, PostgreSQLServer) gomap"
  u_pgusr :: "(string, PostgreSQLUser) gomap"
  u_pgrule :: "(int, PostgreSQLQueryRule) gomap"
  u_psrv :: "(string, ProxySQLServer) gomap"
  u_adminVars :: "(string, string) gomap"
  u_mysqlVars :: "(string, string) gomap"
  u_pgVars :: "(string, string) gomap"
  u_sql :: "string list"

definition emptyUnionMaps :: unionMaps where
  "emptyUnionMaps =
     \<lparr>u_msrv = [], u_musr = [], u_mrule = [], u_mrepl = [], u_mattr = [], u_pgsrv = [],
      u_pgusr = [], u_pgrule = [], u_psrv = [], u_adminVars = [], u_mysqlVars = [],
      u_pgVars = [], u_sql = []\<rparr>"

definition mysqlServerKey :: "MySQLServer \<Rightarrow> string" where
  "mysqlServerKey s = hostKey (ms_Hostgroup s) (ms_Hostname s) (ms_Port s)"

definition pgsqlServerKey :: "PostgreSQLServer \<Rightarrow> string" where
  "pgsqlServerKey s = hostKey (ps_Hostgroup s) (ps_Hostname s) (ps_Port s)"

definition proxysqlServerKey :: "ProxySQLServer \<Rightarrow> string" where
  "proxysqlServerKey s = px_Hostname s @ '':'' @ itoa (px_Port s)"

text \<open>One iteration of the loop over the desired states; a nil entry is skipped.\<close>

definition unionStep :: "Desired option \<Rightarrow> unionMaps \<Rightarrow> unionMaps" where
  "unionStep od u =
     (case od of
        None \<Rightarrow> u
      | Some d \<Rightarrow>
          u\<lparr>u_msrv := mergeInto mysqlServerKey (d_MySQLServers d) (u_msrv u),
            u_musr := mergeInto mu_Username (d_MySQLUsers d) (u_musr u),
            u_mrule := mergeInto mr_RuleID (d_MySQLQueryRules d) (u_mrule u),
            u_mrepl := mergeInto rh_WriterHostgroup (d_MySQLReplicationHostgroups d) (u_mrepl u),
            u_mattr := mergeInto ha_Hostgroup (d_MySQLHostgroupAttributes d) (u_mattr u),
            u_pgsrv := mergeInto pgsqlServerKey (d_PostgreSQLServers d) (u_pgsrv u),
            u_pgusr := mergeInto pu_Username (d_PostgreSQLUsers d) (u_pgusr u),
            u_pgrule := mergeInto pr_RuleID (d_PostgreSQLQueryRules d) (u_pgrule u),
            u_psrv := mergeInto proxysqlServerKey (d_ProxySQLServers d) (u_psrv u),
            u_adminVars := mapsCopy (d_AdminVariables d) (u_adminVars u),
            u_mysqlVars := mapsCopy (d_MySQLVariables d) (u_mysqlVars u),
            u_pgVars := mapsCopy (d_PostgreSQLVariables d) (u_pgVars u),
            u_sql := u_sql u @ d_SQLStatements d\<rparr>)"

text \<open>\<open>for _, k := range sortedKeys(m) { out = append(out, m[k]) }\<close>.\<close>

definition flatten :: "('m \<Rightarrow> 'k list) \<Rightarrow> ('m \<Rightarrow> 'k \<Rightarrow> 'a option) \<Rightarrow> 'm \<Rightarrow> 'a list" where
  "flatten ks get m = List.map_filter (get m) (ks m)"

definition Union_desired :: "Desired option list \<Rightarrow> Desired" where
  "Union_desired desireds =
     (let u = fold unionStep desireds emptyUnionMaps in
      \<lparr>d_MySQLServers = flatten sortedStrKeys map_of (u_msrv u),
       d_MySQLUsers = flatten sortedStrKeys map_of (u_musr u),
       d_MySQLQueryRules = flatten sortedInt32Keys map_of (u_mrule u),
       d_MySQLReplicationHostgroups = flatten sortedInt32Keys map_of (u_mrepl u),
       d_MySQLHostgroupAttributes = flatten sortedInt32Keys map_of (u_mattr u),
       d_PostgreSQLServers = flatten sortedStrKeys map_of (u_pgsrv u),
       d_PostgreSQLUsers = flatten sortedStrKeys map_of (u_pgusr u),
       d_PostgreSQLQueryRules = flatten sortedInt32Keys map_of (u_pgrule u),
       d_ProxySQLServers = flatten sortedStrKeys map_of (u_psrv u),
       d_AdminVariables = nilIfEmpty (u_adminVars u),
       d_MySQLVariables = nilIfEmpty (u_mysqlVars u),
       d_PostgreSQLVariables = nilIfEmpty (u_pgVars u),
       d_SQLStatements = u_sql u\<rparr>)"

section \<open>The reference merge\<close>

definition keyed_union :: "('a \<Rightarrow> 'k::linorder) \<Rightarrow> 'a list \<Rightarrow> 'a list" where
  "keyed_union key xs =
     map (\<lambda>k. last (filter (\<lambda>x. key x = k) xs)) (sort (remdups (map key xs)))"

definition somes :: "'a option list \<Rightarrow> 'a list" where
  "somes xs = List.map_filter (\<lambda>x. x) xs"

definition last_value :: "('k \<times> 'v) list \<Rightarrow> 'k \<Rightarrow> 'v option" where
  "last_value kvs k = map_of (rev kvs) k"

lemma somes_simps [simp]:
  "somes [] = []" "somes (None # xs) = somes xs" "somes (Some x # xs) = x # somes xs"
  by (simp_all add: somes_def map_filter_simps)

lemma mergeInto_append: "mergeInto key (xs @ ys) m = mergeInto key ys (mergeInto key xs m)"
  by (simp add: mergeInto_def)

lemma mapsCopy_append: "mapsCopy (xs @ ys) m = mapsCopy ys (mapsCopy xs m)"
  by (simp add: mapsCopy_def)

lemma mergeInto_Nil [simp]: "mergeInto key [] m = m"
  by (simp add: mergeInto_def)

lemma mapsCopy_Nil [simp]: "mapsCopy [] m = m"
  by (simp add: mapsCopy_def)

text \<open>The loop over the states is, per section, one merge of the concatenated rows.\<close>

lemma union_loop:
  "fold unionStep ds u =
     u\<lparr>u_msrv := mergeInto mysqlServerKey (concat (map d_MySQLServers (somes ds))) (u_msrv u),
        u_musr := mergeInto mu_Username (concat (map d_MySQLUsers (somes ds))) (u_musr u),
        u_mrule := mergeInto mr_RuleID (concat (map d_MySQLQueryRules (somes ds))) (u_mrule u),
        u_mrepl := mergeInto rh_WriterHostgroup
          (concat (map d_MySQLReplicationHostgroups (somes ds))) (u_mrepl u),
        u_mattr := mergeInto ha_Hostgroup
          (concat (map d_MySQLHostgroupAttributes (somes ds))) (u_mattr u),
        u_pgsrv := mergeInto pgsqlServerKey (concat (map d_PostgreSQLServers (somes ds))) (u_pgsrv u),
        u_pgusr := mergeInto pu_Username (concat (map d_PostgreSQLUsers (somes ds))) (u_pgusr u),
        u_pgrule := mergeInto pr_RuleID
          (concat (map d_PostgreSQLQueryRules (somes ds))) (u_pgrule u),
        u_psrv := mergeInto proxysqlServerKey (concat (map d_ProxySQLServers (somes ds))) (u_psrv u),
        u_adminVars := mapsCopy (concat (map d_AdminVariables (somes ds))) (u_adminVars u),
        u_mysqlVars := mapsCopy (concat (map d_MySQLVariables (somes ds))) (u_mysqlVars u),
        u_pgVars := mapsCopy (concat (map d_PostgreSQLVariables (somes ds))) (u_pgVars u),
        u_sql := u_sql u @ concat (map d_SQLStatements (somes ds))\<rparr>"
proof (induction ds arbitrary: u)
  case (Cons od ds)
  then show ?case
    by (cases od) (simp_all add: unionStep_def mergeInto_append mapsCopy_append)
qed simp

lemma find_last: "find P (rev xs) = (if filter P xs = [] then None else Some (last (filter P xs)))"
  by (induction xs rule: rev_induct) (auto simp: find_None_iff)

lemma mget_mergeInto:
  "mget (mergeInto key xs []) k =
     (if filter (\<lambda>x. key x = k) xs = [] then None else Some (last (filter (\<lambda>x. key x = k) xs)))"
  using gm.get_fold_put_emp [of key "\<lambda>x. x" xs k] by (simp add: mergeInto_def find_last)

lemma mergeInto_keys:
  "mwf (mergeInto key xs [])" "set (mkeys (mergeInto key xs [])) = key ` set xs"
proof -
  show "mwf (mergeInto key xs [])"
    using gm.wf_fold_put [of "[]" key "\<lambda>x. x" xs] by (simp add: mergeInto_def)
  have "{k. mget (mergeInto key xs []) k \<noteq> None} = key ` set xs"
    using gm.dom_fold_put [of key "\<lambda>x. x" xs] by (simp add: mergeInto_def)
  then show "set (mkeys (mergeInto key xs [])) = key ` set xs"
    by (metis (mono_tags, lifting) Collect_mem_eq Collect_cong mkeys_mget)
qed

lemma flatten_mergeInto:
  "List.map_filter (map_of (mergeInto key xs [])) (sort (mkeys (mergeInto key xs []))) =
     keyed_union key xs"
proof -
  have ks: "sort (mkeys (mergeInto key xs [])) = sort (remdups (map key xs))"
    using mergeInto_keys [of key xs] by (intro sorted_distinct_set_unique) auto
  have "List.map_filter (map_of (mergeInto key xs [])) ks =
      map (\<lambda>k. last (filter (\<lambda>x. key x = k) xs)) ks"
    if "set ks \<subseteq> key ` set xs" for ks
    using that
    by (induction ks) (auto simp: map_filter_simps mget_mergeInto filter_empty_conv)
  from this [of "sort (remdups (map key xs))"] show ?thesis
    by (simp add: ks keyed_union_def)
qed

lemma flatten_str: "flatten sortedStrKeys map_of (mergeInto key xs []) = keyed_union key xs"
  by (simp add: flatten_def sortedStrKeys_def flatten_mergeInto)

lemma flatten_int32: "flatten sortedInt32Keys map_of (mergeInto key xs []) = keyed_union key xs"
  by (simp add: flatten_def sortedInt32Keys_def flatten_mergeInto)

lemma mget_mapsCopy: "mget (mapsCopy kvs []) k = last_value kvs k"
proof (induction kvs rule: rev_induct)
  case (snoc kv kvs)
  then show ?case by (cases kv) (simp add: mapsCopy_append mapsCopy_def last_value_def mput_mget)
qed (simp add: last_value_def)

lemma nilIfEmpty_id [simp]: "nilIfEmpty m = m"
  by (simp add: nilIfEmpty_def)

section \<open>Properties of the merge\<close>

lemma keyed_union_keys: "map key (keyed_union key xs) = sort (remdups (map key xs))"
proof -
  have "key (last (filter (\<lambda>x. key x = k) xs)) = k" if "k \<in> key ` set xs" for k
  proof -
    from that have "filter (\<lambda>x. key x = k) xs \<noteq> []" by (auto simp: filter_empty_conv)
    then have "last (filter (\<lambda>x. key x = k) xs) \<in> set (filter (\<lambda>x. key x = k) xs)"
      by (rule last_in_set)
    then show ?thesis by simp
  qed
  then show ?thesis
    unfolding keyed_union_def map_map comp_def by (intro map_idI) auto
qed

lemma keyed_union_subset: "set (keyed_union key xs) \<subseteq> set xs"
proof -
  have "last (filter (\<lambda>x. key x = k) xs) \<in> set xs" if "k \<in> key ` set xs" for k
  proof -
    from that have "filter (\<lambda>x. key x = k) xs \<noteq> []" by (auto simp: filter_empty_conv)
    then show ?thesis using last_in_set by fastforce
  qed
  then show ?thesis by (auto simp: keyed_union_def)
qed

lemma last_filter_inj:
  assumes "inj_on key (set xs)" and "x \<in> set xs"
  shows "last (filter (\<lambda>y. key y = key x) xs) = x"
proof -
  have "set (filter (\<lambda>y. key y = key x) xs) \<subseteq> {x}" "filter (\<lambda>y. key y = key x) xs \<noteq> []"
    using assms by (auto simp: filter_empty_conv dest: inj_onD)
  then show ?thesis using last_in_set by blast
qed

text \<open>Rows that do not compete for a key: the merge depends on the set of rows only.\<close>

lemma keyed_union_ext:
  assumes "set xs = set ys" and "inj_on key (set ys)"
  shows "keyed_union key xs = keyed_union key ys"
proof -
  have ks: "sort (remdups (map key xs)) = sort (remdups (map key ys))"
    using assms(1) by (intro sorted_distinct_set_unique) auto
  show ?thesis
    unfolding keyed_union_def ks
  proof (rule map_cong [OF refl])
    fix k
    assume "k \<in> set (sort (remdups (map key ys)))"
    then obtain x where x: "k = key x" "x \<in> set ys" by auto
    with assms show "last (filter (\<lambda>x. key x = k) xs) = last (filter (\<lambda>x. key x = k) ys)"
      by (simp add: last_filter_inj)
  qed
qed

lemma keyed_union_sorted_id:
  assumes "sorted (map key xs)" and "distinct (map key xs)"
  shows "keyed_union key xs = xs"
proof -
  have "inj_on key (set xs)" using assms(2) by (simp add: distinct_map)
  then have "map (\<lambda>k. last (filter (\<lambda>x. key x = k) xs)) (map key xs) = xs"
    by (simp add: map_idI last_filter_inj)
  then show ?thesis
    using assms by (simp add: keyed_union_def distinct_remdups_id sorted_sort_id)
qed

lemma keyed_union_idem [simp]: "keyed_union key (keyed_union key xs) = keyed_union key xs"
  by (rule keyed_union_sorted_id) (simp_all add: keyed_union_keys)

lemma mapsCopy_wf: "mwf m \<Longrightarrow> mwf (mapsCopy kvs m)"
  by (induction kvs arbitrary: m) (auto simp: mapsCopy_def distinct_update)

lemma update_fresh: "k \<notin> set (mkeys m) \<Longrightarrow> mput k v m = m @ [(k, v)]"
  by (induction m) auto

lemma mapsCopy_fresh: "mwf (m @ kvs) \<Longrightarrow> mapsCopy kvs m = m @ kvs"
proof (induction kvs arbitrary: m)
  case (Cons kv kvs)
  then show ?case by (cases kv) (simp add: mapsCopy_def update_fresh)
qed (simp add: mapsCopy_def)

lemma mapsCopy_idem: "mapsCopy (mapsCopy kvs []) [] = mapsCopy kvs []"
  using mapsCopy_fresh [of "[]" "mapsCopy kvs []"] mapsCopy_wf [of "[]" kvs] by simp

lemmas union_sections =
  Union_desired_def Let_def union_loop emptyUnionMaps_def flatten_str flatten_int32

lemma Union_desired_eq:
  "Union_desired ds =
     \<lparr>d_MySQLServers = keyed_union mysqlServerKey (concat (map d_MySQLServers (somes ds))),
      d_MySQLUsers = keyed_union mu_Username (concat (map d_MySQLUsers (somes ds))),
      d_MySQLQueryRules = keyed_union mr_RuleID (concat (map d_MySQLQueryRules (somes ds))),
      d_MySQLReplicationHostgroups =
        keyed_union rh_WriterHostgroup (concat (map d_MySQLReplicationHostgroups (somes ds))),
      d_MySQLHostgroupAttributes =
        keyed_union ha_Hostgroup (concat (map d_MySQLHostgroupAttributes (somes ds))),
      d_PostgreSQLServers =
        keyed_union pgsqlServerKey (concat (map d_PostgreSQLServers (somes ds))),
      d_PostgreSQLUsers = keyed_union pu_Username (concat (map d_PostgreSQLUsers (somes ds))),
      d_PostgreSQLQueryRules =
        keyed_union pr_RuleID (concat (map d_PostgreSQLQueryRules (somes ds))),
      d_ProxySQLServers =
        keyed_union proxysqlServerKey (concat (map d_ProxySQLServers (somes ds))),
      d_AdminVariables = mapsCopy (concat (map d_AdminVariables (somes ds))) [],
      d_MySQLVariables = mapsCopy (concat (map d_MySQLVariables (somes ds))) [],
      d_PostgreSQLVariables = mapsCopy (concat (map d_PostgreSQLVariables (somes ds))) [],
      d_SQLStatements = concat (map d_SQLStatements (somes ds))\<rparr>"
  by (simp add: union_sections)

lemma keyed_union_section_ext:
  assumes "set ds = set ds'" and "inj_on key (\<Union>d \<in> set ds. set (sec d))"
  shows "keyed_union key (concat (map sec ds)) = keyed_union key (concat (map sec ds'))"
  using assms by (intro keyed_union_ext) auto

text \<open>C3. The merged desired state is, section by section, the reference merge: for every key in
  use, in ascending key order, the row of the last configuration that has it; variables take
  the value of the last configuration that sets them; raw statements are concatenated.\<close>

theorem union_last_writer_wins:
  "d_MySQLServers (Union_desired ds) =
     keyed_union mysqlServerKey (concat (map d_MySQLServers (somes ds)))
   \<and> d_MySQLUsers (Union_desired ds) =
     keyed_union mu_Username (concat (map d_MySQLUsers (somes ds)))
   \<and> d_MySQLQueryRules (Union_desired ds) =
     keyed_union mr_RuleID (concat (map d_MySQLQueryRules (somes ds)))
   \<and> d_MySQLReplicationHostgroups (Union_desired ds) =
     keyed_union rh_WriterHostgroup (concat (map d_MySQLReplicationHostgroups (somes ds)))
   \<and> d_MySQLHostgroupAttributes (Union_desired ds) =
     keyed_union ha_Hostgroup (concat (map d_MySQLHostgroupAttributes (somes ds)))
   \<and> d_PostgreSQLServers (Union_desired ds) =
     keyed_union pgsqlServerKey (concat (map d_PostgreSQLServers (somes ds)))
   \<and> d_PostgreSQLUsers (Union_desired ds) =
     keyed_union pu_Username (concat (map d_PostgreSQLUsers (somes ds)))
   \<and> d_PostgreSQLQueryRules (Union_desired ds) =
     keyed_union pr_RuleID (concat (map d_PostgreSQLQueryRules (somes ds)))
   \<and> d_ProxySQLServers (Union_desired ds) =
     keyed_union proxysqlServerKey (concat (map d_ProxySQLServers (somes ds)))
   \<and> mget (d_AdminVariables (Union_desired ds)) =
     last_value (concat (map d_AdminVariables (somes ds)))
   \<and> mget (d_MySQLVariables (Union_desired ds)) =
     last_value (concat (map d_MySQLVariables (somes ds)))
   \<and> mget (d_PostgreSQLVariables (Union_desired ds)) =
     last_value (concat (map d_PostgreSQLVariables (somes ds)))
   \<and> d_SQLStatements (Union_desired ds) = concat (map d_SQLStatements (somes ds))"
  by (simp add: Union_desired_eq mget_mapsCopy fun_eq_iff)

text \<open>Merging is idempotent: a merged state merged again, alone, is itself, so the state that
  is fingerprinted and pushed is a fixed point.\<close>

theorem union_idempotent:
  "Union_desired [Some (Union_desired ds)] = Union_desired ds"
  by (simp add: Union_desired_eq mapsCopy_idem)

definition conflict_free :: "Desired list \<Rightarrow> bool" where
  "conflict_free ds \<longleftrightarrow>
     inj_on mysqlServerKey (\<Union>d \<in> set ds. set (d_MySQLServers d))
     \<and> inj_on mu_Username (\<Union>d \<in> set ds. set (d_MySQLUsers d))
     \<and> inj_on mr_RuleID (\<Union>d \<in> set ds. set (d_MySQLQueryRules d))
     \<and> inj_on rh_WriterHostgroup (\<Union>d \<in> set ds. set (d_MySQLReplicationHostgroups d))
     \<and> inj_on ha_Hostgroup (\<Union>d \<in> set ds. set (d_MySQLHostgroupAttributes d))
     \<and> inj_on pgsqlServerKey (\<Union>d \<in> set ds. set (d_PostgreSQLServers d))
     \<and> inj_on pu_Username (\<Union>d \<in> set ds. set (d_PostgreSQLUsers d))
     \<and> inj_on pr_RuleID (\<Union>d \<in> set ds. set (d_PostgreSQLQueryRules d))
     \<and> inj_on proxysqlServerKey (\<Union>d \<in> set ds. set (d_ProxySQLServers d))"

text \<open>The table sections of a desired state, which are what a push writes.\<close>

definition same_tables :: "Desired \<Rightarrow> Desired \<Rightarrow> bool" where
  "same_tables a b \<longleftrightarrow> desired_tables a = desired_tables b"

text \<open>Configurations that never claim one key with two different rows merge to the same tables
  in every order: the order the controller sorts them in matters only for real conflicts.\<close>

theorem union_order_irrelevant:
  assumes "set ds = set ds'" and "conflict_free ds"
  shows "same_tables (Union_desired (map Some ds)) (Union_desired (map Some ds'))"
proof -
  have somes: "somes (map Some xs) = xs" for xs :: "Desired list" by (induction xs) auto
  note ext = keyed_union_section_ext [OF assms(1)]
  note parts = assms(2) [unfolded conflict_free_def]
  show ?thesis
    using parts by (simp add: same_tables_def desired_tables_def Union_desired_eq somes ext)
qed

theorem union_order_irrelevant_witness:
  "same_tables
     (Union_desired (map Some [emptyDesired\<lparr>d_MySQLUsers := [zeroMySQLUser\<lparr>mu_Username := ''a''\<rparr>]\<rparr>,
                               emptyDesired\<lparr>d_MySQLUsers := [zeroMySQLUser\<lparr>mu_Username := ''b''\<rparr>]\<rparr>]))
     (Union_desired (map Some [emptyDesired\<lparr>d_MySQLUsers := [zeroMySQLUser\<lparr>mu_Username := ''b''\<rparr>]\<rparr>,
                               emptyDesired\<lparr>d_MySQLUsers := [zeroMySQLUser\<lparr>mu_Username := ''a''\<rparr>]\<rparr>]))"
  by (rule union_order_irrelevant) (auto simp: conflict_free_def zero_defs)

text \<open>Server keys are unambiguous: two servers have the same merge key exactly when hostgroup,
  host name and port all agree, even for host names that contain colons (IPv6).\<close>

theorem hostKey_injective:
  "hostKey hg host port = hostKey hg' host' port' \<longleftrightarrow> hg = hg' \<and> host = host' \<and> port = port'"
proof -
  have "CHR '':'' \<notin> set (itoa i)" for i by (rule itoa_not_in) (simp_all add: is_digit_def)
  then show ?thesis
    by (simp add: hostKey_def append_sep_inject append_sep_inject_last)
qed


end
