(* ===== verification/ReplClasses.thy ===== *)
theory ReplClasses
  imports ClientTypes "HOL-Library.Monad_Syntax"
begin

text \<open>
  Replication-hostgroup equivalence: \<open>replicationClasses\<close> of
  \<open>operator/internal/proxysqlclient/runtime.go\<close>, a union-find over the writer/reader pairs
  with path compression and the smaller hostgroup id as representative.

  The inner closure \<open>find\<close> recurses along parent pointers and writes the map it reads, so it
  is a partial function that threads the map: not returning is the value \<^term>\<open>None\<close>. The
  specification is connectivity: two hostgroups are equivalent when a chain of pairs joins
  them, and the representative of a class is its smallest member.
\<close>

section \<open>The operations\<close>

type_synonym parents = "(int, int) gomap"

partial_function (option) uf_find :: "int \<Rightarrow> parents \<Rightarrow> (int \<times> parents) option" where
  "uf_find x parent =
     (case mget parent x of
        None \<Rightarrow> Some (x, mput x x parent)
      | Some p \<Rightarrow>
          if p = x then Some (x, parent)
          else do {
            (root, parent') \<leftarrow> uf_find p parent;
            Some (root, mput x root parent')
          })"

declare uf_find.simps [code]

text \<open>One iteration of the loop over the pairs.\<close>

definition uf_join :: "int \<Rightarrow> int \<Rightarrow> parents \<Rightarrow> parents option" where
  "uf_join w r parent =
     do {
       (rw, parent1) \<leftarrow> uf_find w parent;
       (rr, parent2) \<leftarrow> uf_find r parent1;
       Some (if rw \<noteq> rr
             then (if rr < rw then mput rw rr parent2 else mput rr rw parent2)
             else parent2)
     }"

fun uf_pairs :: "MySQLReplicationHostgroup list \<Rightarrow> parents \<Rightarrow> parents option" where
  "uf_pairs [] parent = Some parent"
| "uf_pairs (p # ps) parent =
     uf_join (rh_WriterHostgroup p) (rh_ReaderHostgroup p) parent \<bind> uf_pairs ps"

fun uf_classes :: "int list \<Rightarrow> parents \<Rightarrow> (int, int) gomap \<Rightarrow> (int, int) gomap option" where
  "uf_classes [] parent classes = Some classes"
| "uf_classes (hg # hgs) parent classes =
     do {
       (root, parent') \<leftarrow> uf_find hg parent;
       uf_classes hgs parent' (mput hg root classes)
     }"

definition replicationClasses :: "MySQLReplicationHostgroup list \<Rightarrow> (int, int) gomap option" where
  "replicationClasses pairs =
     (if length pairs = 0 then Some []
      else do {
        parent \<leftarrow> uf_pairs pairs [];
        uf_classes (mkeys parent) parent []
      })"

section \<open>Connectivity\<close>

definition pair_edges :: "MySQLReplicationHostgroup list \<Rightarrow> (int \<times> int) set" where
  "pair_edges ps = (\<lambda>p. (rh_WriterHostgroup p, rh_ReaderHostgroup p)) ` set ps"

definition conn :: "(int \<times> int) set \<Rightarrow> (int \<times> int) set" where
  "conn E = (E \<union> E\<inverse>)\<^sup>*"

definition class_of :: "(int \<times> int) set \<Rightarrow> int \<Rightarrow> int set" where
  "class_of E x = {y. (x, y) \<in> conn E}"

definition rep :: "(int \<times> int) set \<Rightarrow> int \<Rightarrow> int" where
  "rep E x = Min (class_of E x)"

lemma conn_refl [simp]: "(x, x) \<in> conn E"
  by (simp add: conn_def)

lemma conn_sym: "(x, y) \<in> conn E \<Longrightarrow> (y, x) \<in> conn E"
  unfolding conn_def by (rule symD [OF sym_rtrancl]) (auto simp: sym_def)

lemma conn_trans: "(x, y) \<in> conn E \<Longrightarrow> (y, z) \<in> conn E \<Longrightarrow> (x, z) \<in> conn E"
  unfolding conn_def by (rule rtrancl_trans)

lemma conn_mono: "E \<subseteq> F \<Longrightarrow> (x, y) \<in> conn E \<Longrightarrow> (x, y) \<in> conn F"
  unfolding conn_def by (erule rtrancl_mono [THEN subsetD, rotated]) auto

lemma class_of_cong: "(x, y) \<in> conn E \<Longrightarrow> class_of E x = class_of E y"
  by (auto simp: class_of_def intro: conn_trans conn_sym)

lemma class_of_subset: "class_of E x \<subseteq> insert x (Field E)"
proof
  fix y
  assume "y \<in> class_of E x"
  then have "(x, y) \<in> (E \<union> E\<inverse>)\<^sup>*" by (simp add: class_of_def conn_def)
  then show "y \<in> insert x (Field E)" by cases (auto simp: Field_def)
qed

lemma self_in_class [simp]: "x \<in> class_of E x"
  by (simp add: class_of_def)

lemma class_nonempty [simp]: "class_of E x \<noteq> {}"
  using self_in_class by blast

lemma finite_class: "finite E \<Longrightarrow> finite (class_of E x)"
  using class_of_subset [of E x] by (meson finite_Field finite_insert finite_subset)

lemma rep_in_class: "finite E \<Longrightarrow> rep E x \<in> class_of E x"
  unfolding rep_def by (rule Min_in) (simp_all add: finite_class)

lemma rep_conn: "finite E \<Longrightarrow> (x, rep E x) \<in> conn E"
  using rep_in_class by (simp add: class_of_def)

lemma rep_le: "finite E \<Longrightarrow> rep E x \<le> x"
  unfolding rep_def by (rule Min_le) (simp_all add: finite_class)

lemma rep_cong: "(x, y) \<in> conn E \<Longrightarrow> rep E x = rep E y"
  by (simp add: rep_def class_of_cong)

lemma rep_eq_iff: "finite E \<Longrightarrow> rep E x = rep E y \<longleftrightarrow> (x, y) \<in> conn E"
  by (metis rep_cong rep_conn conn_sym conn_trans)

lemma rep_rep [simp]: "finite E \<Longrightarrow> rep E (rep E x) = rep E x"
  using rep_cong [OF rep_conn, symmetric] by metis

lemma rep_isolated: "x \<notin> Field E \<Longrightarrow> rep E x = x"
proof -
  assume x: "x \<notin> Field E"
  have "y = x" if "(x, y) \<in> (E \<union> E\<inverse>)\<^sup>*" for y
    using that x by (induction rule: converse_rtrancl_induct) (auto simp: Field_def)
  then have "class_of E x = {x}" by (auto simp: class_of_def conn_def)
  then show ?thesis by (simp add: rep_def)
qed

lemma conn_insert:
  "(x, y) \<in> conn (insert (a, b) E) \<longleftrightarrow>
     (x, y) \<in> conn E \<or> ((x, a) \<in> conn E \<or> (x, b) \<in> conn E) \<and> ((y, a) \<in> conn E \<or> (y, b) \<in> conn E)"
proof -
  have e: "insert (a, b) E \<union> (insert (a, b) E)\<inverse> = insert (a, b) (insert (b, a) (E \<union> E\<inverse>))"
    by auto
  have s: "(u, v) \<in> (E \<union> E\<inverse>)\<^sup>* \<longleftrightarrow> (v, u) \<in> (E \<union> E\<inverse>)\<^sup>*" for u v
    using conn_sym [unfolded conn_def] by blast
  have t: "(u, v) \<in> (E \<union> E\<inverse>)\<^sup>* \<Longrightarrow> (v, w) \<in> (E \<union> E\<inverse>)\<^sup>* \<Longrightarrow> (u, w) \<in> (E \<union> E\<inverse>)\<^sup>*" for u v w
    by (rule rtrancl_trans)
  show ?thesis
    unfolding conn_def e by (simp add: rtrancl_insert) (meson s t rtrancl.rtrancl_refl)
qed

lemma class_of_insert:
  "class_of (insert (a, b) E) x =
     (if x \<in> class_of E a \<union> class_of E b then class_of E a \<union> class_of E b else class_of E x)"
  by (auto simp: class_of_def conn_insert dest: conn_sym intro: conn_trans)

lemma rep_insert:
  assumes "finite E"
  shows "rep (insert (a, b) E) x =
     (if rep E x = rep E a \<or> rep E x = rep E b then min (rep E a) (rep E b) else rep E x)"
proof -
  have m: "x \<in> class_of E c \<longleftrightarrow> rep E x = rep E c" for c
    using assms by (auto simp: rep_eq_iff class_of_def dest: conn_sym)
  have "Min (class_of E a \<union> class_of E b) = min (Min (class_of E a)) (Min (class_of E b))"
    using assms by (intro Min_Un) (simp_all add: finite_class)
  then show ?thesis by (simp add: rep_def class_of_insert m [unfolded rep_def])
qed

section \<open>The union-find invariant\<close>

definition uf_inv :: "(int \<times> int) set \<Rightarrow> parents \<Rightarrow> bool" where
  "uf_inv E parent \<longleftrightarrow>
     finite E \<and> Field E \<subseteq> set (mkeys parent) \<and> mwf parent \<and>
     (\<forall>x p. mget parent x = Some p \<longrightarrow>
        p \<le> x \<and> p \<in> set (mkeys parent) \<and> (x, p) \<in> conn E \<and> (p = x \<longleftrightarrow> rep E x = x))"

lemma uf_inv_link:
  assumes "uf_inv E parent" and "x \<in> set (mkeys parent)" and "rep E x \<in> set (mkeys parent)"
  shows "uf_inv E (mput x (rep E x) parent)"
  using assms
  by (auto simp: uf_inv_def mput_mget dom_update distinct_update rep_le rep_conn insert_absorb)

lemma uf_inv_fresh:
  assumes "uf_inv E parent" and "x \<notin> set (mkeys parent)"
  shows "uf_inv E (mput x x parent)"
proof -
  have "x \<notin> Field E" using assms by (auto simp: uf_inv_def)
  then have "rep E x = x" by (rule rep_isolated)
  with assms show ?thesis
    by (auto simp: uf_inv_def mput_mget dom_update distinct_update)
qed

lemma uf_find_known:
  assumes "uf_inv E parent" and "x \<in> set (mkeys parent)"
  shows "\<exists>parent'. uf_find x parent = Some (rep E x, parent')
    \<and> uf_inv E parent' \<and> set (mkeys parent') = set (mkeys parent) \<and> rep E x \<in> set (mkeys parent)"
  using assms(2)
proof (induction "card {y \<in> set (mkeys parent). y < x}" arbitrary: x rule: less_induct)
  case less
  from less.prems obtain p where p: "mget parent x = Some p"
    using mkeys_mget by (metis not_None_eq)
  with assms(1) have inv: "p \<le> x" "p \<in> set (mkeys parent)" "(x, p) \<in> conn E"
    "p = x \<longleftrightarrow> rep E x = x" by (auto simp: uf_inv_def)
  show ?case
  proof (cases "p = x")
    case True
    then show ?thesis
      using p inv assms(1) less.prems by (subst uf_find.simps) simp
  next
    case False
    with inv have "p < x" by simp
    with inv(2) have "card {y \<in> set (mkeys parent). y < p} < card {y \<in> set (mkeys parent). y < x}"
      by (intro psubset_card_mono) auto
    from less.hyps [OF this inv(2)] obtain parent' where
      f: "uf_find p parent = Some (rep E p, parent')" "uf_inv E parent'"
        "set (mkeys parent') = set (mkeys parent)" "rep E p \<in> set (mkeys parent)" by blast
    have r: "rep E p = rep E x" using rep_cong [OF inv(3)] by simp
    show ?thesis
      using False p f less.prems
      by (subst uf_find.simps) (simp add: r uf_inv_link dom_update insert_absorb)
  qed
qed

text \<open>\<open>find\<close> always returns, with the representative, and registers a hostgroup it has not seen.\<close>

lemma uf_find_total:
  assumes "uf_inv E parent"
  shows "\<exists>parent'. uf_find x parent = Some (rep E x, parent')
    \<and> uf_inv E parent' \<and> set (mkeys parent') = insert x (set (mkeys parent))
    \<and> rep E x \<in> set (mkeys parent')"
proof (cases "x \<in> set (mkeys parent)")
  case True
  with uf_find_known [OF assms True] show ?thesis by (auto simp: insert_absorb)
next
  case False
  then have n: "mget parent x = None" using mkeys_mget by metis
  have "x \<notin> Field E" using assms False by (auto simp: uf_inv_def)
  then have "rep E x = x" by (rule rep_isolated)
  with n False assms show ?thesis
    by (subst uf_find.simps) (simp add: uf_inv_fresh dom_update)
qed

lemma uf_inv_insert_same:
  assumes "uf_inv E parent" and "rep E w = rep E r"
    and "w \<in> set (mkeys parent)" and "r \<in> set (mkeys parent)"
  shows "uf_inv (insert (w, r) E) parent"
proof -
  have "finite E" using assms(1) by (simp add: uf_inv_def)
  then have "rep (insert (w, r) E) x = rep E x" for x
    using assms(2) by (simp add: rep_insert)
  with assms show ?thesis
    by (auto simp: uf_inv_def Field_insert intro: conn_mono [OF subset_insertI])
qed

lemma uf_inv_link_roots:
  assumes inv: "uf_inv E parent" and lt: "a < b"
    and roots: "{a, b} = {rep E w, rep E r}"
    and dom: "w \<in> set (mkeys parent)" "r \<in> set (mkeys parent)" "a \<in> set (mkeys parent)"
      "b \<in> set (mkeys parent)"
  shows "uf_inv (insert (w, r) E) (mput b a parent)"
proof -
  let ?E = "insert (w, r) E"
  have fin: "finite E" using inv by (simp add: uf_inv_def)
  have ab: "rep E a = a" "rep E b = b" "min (rep E w) (rep E r) = a"
    using roots fin lt by (auto simp: doubleton_eq_iff)
  have r': "rep ?E x = (if rep E x = a \<or> rep E x = b then a else rep E x)" for x
  proof -
    have "rep E x = rep E w \<or> rep E x = rep E r \<longleftrightarrow> rep E x = a \<or> rep E x = b"
      using roots by (metis doubleton_eq_iff)
    with rep_insert [OF fin, of w r x] ab(3) show ?thesis by simp
  qed
  have ba: "(b, a) \<in> conn ?E"
    using fin ab r' [of b] r' [of a] by (simp flip: rep_eq_iff)
  show ?thesis
    unfolding uf_inv_def
  proof (intro conjI allI impI)
    show "finite ?E" using fin by simp
    show "Field ?E \<subseteq> set (mkeys (mput b a parent))"
      using inv dom by (auto simp: uf_inv_def Field_insert dom_update)
    show "mwf (mput b a parent)" using inv by (simp add: uf_inv_def distinct_update)
  next
    fix x p
    assume g: "mget (mput b a parent) x = Some p"
    have "p \<le> x \<and> p \<in> insert b (set (mkeys parent)) \<and> (x, p) \<in> conn ?E \<and> (p = x \<longleftrightarrow> rep ?E x = x)"
    proof (cases "x = b")
      case True
      with g lt dom ba show ?thesis by (simp add: mput_mget r' ab)
    next
      case False
      with g inv have "p \<le> x" "p \<in> set (mkeys parent)" "(x, p) \<in> conn ?E" "p = x \<longleftrightarrow> rep E x = x"
        by (auto simp: uf_inv_def mput_mget intro: conn_mono [OF subset_insertI])
      with False ab show ?thesis by (auto simp: r')
    qed
    then show "p \<le> x" "p \<in> set (mkeys (mput b a parent))" "(x, p) \<in> conn ?E"
      "p = x \<longleftrightarrow> rep ?E x = x" by (simp_all add: dom_update)
  qed
qed

lemma uf_join_total:
  assumes "uf_inv E parent"
  shows "\<exists>parent'. uf_join w r parent = Some parent' \<and> uf_inv (insert (w, r) E) parent'
    \<and> set (mkeys parent') = {w, r} \<union> set (mkeys parent)"
proof -
  from uf_find_total [OF assms, of w] obtain p1 where
    p1: "uf_find w parent = Some (rep E w, p1)" "uf_inv E p1"
      "set (mkeys p1) = insert w (set (mkeys parent))" "rep E w \<in> set (mkeys p1)" by blast
  from uf_find_total [OF p1(2), of r] obtain p2 where
    p2: "uf_find r p1 = Some (rep E r, p2)" "uf_inv E p2"
      "set (mkeys p2) = insert r (set (mkeys p1))" "rep E r \<in> set (mkeys p2)" by blast
  have dom: "w \<in> set (mkeys p2)" "r \<in> set (mkeys p2)" "rep E w \<in> set (mkeys p2)"
    using p1 p2 by auto
  consider "rep E w = rep E r" | "rep E r < rep E w" | "rep E w < rep E r" by linarith
  then show ?thesis
  proof cases
    case 1
    with uf_inv_insert_same [OF p2(2) 1 dom(1,2)] p1 p2 show ?thesis
      by (auto simp: uf_join_def)
  next
    case 2
    with uf_inv_link_roots [OF p2(2) 2 insert_commute dom(1,2) p2(4) dom(3)] p1 p2 dom
    show ?thesis by (auto simp: uf_join_def dom_update)
  next
    case 3
    with uf_inv_link_roots [OF p2(2) 3 refl dom p2(4)] p1 p2 dom show ?thesis
      by (auto simp: uf_join_def dom_update)
  qed
qed

lemma pair_edges_Cons:
  "pair_edges (p # ps) = insert (rh_WriterHostgroup p, rh_ReaderHostgroup p) (pair_edges ps)"
  by (simp add: pair_edges_def)

lemma uf_pairs_total:
  "uf_inv E parent \<Longrightarrow> set (mkeys parent) = Field E \<Longrightarrow>
     \<exists>parent'. uf_pairs ps parent = Some parent' \<and> uf_inv (E \<union> pair_edges ps) parent'
       \<and> set (mkeys parent') = Field (E \<union> pair_edges ps)"
proof (induction ps arbitrary: E parent)
  case Nil
  then show ?case by (simp add: pair_edges_def)
next
  case (Cons p ps)
  let ?w = "rh_WriterHostgroup p" and ?r = "rh_ReaderHostgroup p"
  from uf_join_total [OF Cons.prems(1), of ?w ?r] obtain p1 where
    p1: "uf_join ?w ?r parent = Some p1" "uf_inv (insert (?w, ?r) E) p1"
      "set (mkeys p1) = {?w, ?r} \<union> set (mkeys parent)" by blast
  from p1(3) Cons.prems(2) have "set (mkeys p1) = Field (insert (?w, ?r) E)"
    by (simp add: Field_insert)
  from Cons.IH [OF p1(2) this] p1(1) show ?case by (simp add: pair_edges_Cons)
qed

lemma uf_classes_total:
  "uf_inv E parent \<Longrightarrow> set hgs \<subseteq> set (mkeys parent) \<Longrightarrow>
     \<exists>c. uf_classes hgs parent classes = Some c \<and>
       (mwf classes \<longrightarrow> mwf c) \<and>
       (\<forall>x. mget c x = (if x \<in> set hgs then Some (rep E x) else mget classes x))"
proof (induction hgs arbitrary: parent classes)
  case (Cons h hgs)
  from Cons.prems(2) have "h \<in> set (mkeys parent)" by simp
  from uf_find_known [OF Cons.prems(1) this] obtain p1 where
    p1: "uf_find h parent = Some (rep E h, p1)" "uf_inv E p1" "set (mkeys p1) = set (mkeys parent)"
    by blast
  from p1(3) Cons.prems(2) have "set hgs \<subseteq> set (mkeys p1)" by simp
  from Cons.IH [OF p1(2) this, of "mput h (rep E h) classes"] p1(1) show ?case
    by (auto simp: mput_mget distinct_update)
qed simp

lemma finite_pair_edges [simp]: "finite (pair_edges pairs)"
  by (simp add: pair_edges_def)

lemma replicationClasses_spec:
  obtains classes where "replicationClasses pairs = Some classes" and "mwf classes"
    and "mget classes = (\<lambda>x. if x \<in> Field (pair_edges pairs)
                                then Some (rep (pair_edges pairs) x) else None)"
proof (cases "pairs = []")
  case True
  then show ?thesis using that [of "[]"]
    by (simp add: replicationClasses_def pair_edges_def fun_eq_iff)
next
  case False
  have "uf_inv {} []" by (simp add: uf_inv_def)
  from uf_pairs_total [OF this, of pairs] obtain parent where
    p: "uf_pairs pairs [] = Some parent" "uf_inv (pair_edges pairs) parent"
      "set (mkeys parent) = Field (pair_edges pairs)" by auto
  from uf_classes_total [OF p(2) order_refl, of "[]"] obtain c where
    "uf_classes (mkeys parent) parent [] = Some c" "mwf c"
    "\<And>x. mget c x = (if x \<in> set (mkeys parent) then Some (rep (pair_edges pairs) x) else None)"
    by auto
  then show ?thesis using that [of c] p False by (simp add: replicationClasses_def fun_eq_iff)
qed

text \<open>C14. The union-find always returns, and computes connectivity: exactly the hostgroups that
  occur in a pair are classified, each with the smallest hostgroup of its class, so two of
  them get the same representative exactly when a chain of shared pairs joins them. With no
  pairs there are no classes.\<close>

theorem replicationClasses_correct:
  "\<exists>classes. replicationClasses pairs = Some classes \<and> mwf classes
     \<and> mget classes = (\<lambda>x. if x \<in> Field (pair_edges pairs)
                           then Some (rep (pair_edges pairs) x) else None)
     \<and> (\<forall>x y. (mget classes x = mget classes y \<and> mget classes x \<noteq> None) \<longleftrightarrow>
            x \<in> Field (pair_edges pairs) \<and> y \<in> Field (pair_edges pairs)
            \<and> (x, y) \<in> conn (pair_edges pairs))"
proof -
  obtain classes where c: "replicationClasses pairs = Some classes" "mwf classes"
    "mget classes = (\<lambda>x. if x \<in> Field (pair_edges pairs)
                            then Some (rep (pair_edges pairs) x) else None)"
    by (rule replicationClasses_spec)
  then show ?thesis
    using rep_eq_iff [OF finite_pair_edges, of pairs] by (auto simp: fun_eq_iff)
qed

end
