(* ===== verification/RuntimeDrift.thy ===== *)
theory RuntimeDrift
  imports ConfigUnion ReplClasses
begin

text \<open>
  Reading a ProxySQL instance back and comparing it with the desired state:
  \<open>operator/internal/proxysqlclient/runtime.go\<close>.

  A querier answers a query with an error message or with rows; every query of a read is
  issued once, so a function of the query text stands for it. \<open>Drift\<close> goes through
  \<open>replicationClasses\<close>, whose loop is a partial function, and therefore returns an option;
  \<open>drift_classes\<close> is the body once the classes are known.
\<close>

section \<open>Reading the runtime tables\<close>

type_synonym querier = "string \<Rightarrow> string + string list list"

record RuntimeState =
  rs_MySQLServers :: "(string, string) gomap"
  rs_MySQLUsers :: "(string, bool) gomap"
  rs_MySQLUserHostgroups :: "(string, int) gomap"
  rs_MySQLRules :: "(string, bool) gomap"
  rs_PgSQLServers :: "(string, string) gomap"
  rs_PgSQLUsers :: "(string, bool) gomap"
  rs_PgSQLRules :: "(string, bool) gomap"

definition emptyRuntime :: RuntimeState where
  "emptyRuntime =
     \<lparr>rs_MySQLServers = [], rs_MySQLUsers = [], rs_MySQLUserHostgroups = [], rs_MySQLRules = [],
      rs_PgSQLServers = [], rs_PgSQLUsers = [], rs_PgSQLRules = []\<rparr>"

text \<open>\<open>if err := ...; err != nil { return nil, err }\<close> followed by the rest.\<close>

definition andRead :: "'e + 'a \<Rightarrow> ('a \<Rightarrow> 'e + 'b) \<Rightarrow> 'e + 'b" where
  "andRead r k = (case r of Inl e \<Rightarrow> Inl e | Inr x \<Rightarrow> k x)"

definition readServers :: "querier \<Rightarrow> string \<Rightarrow> (string, string) gomap \<Rightarrow> string + (string, string) gomap" where
  "readServers q table dst =
     andRead (q (''SELECT hostgroup_id, hostname, port, status FROM '' @ table))
       (\<lambda>rows. Inr (fold (\<lambda>r dst.
          if length r \<ge> 4 then mput (r ! 0 @ '':'' @ r ! 1 @ '':'' @ r ! 2) (r ! 3) dst else dst)
          rows dst))"

definition readKeys :: "querier \<Rightarrow> string \<Rightarrow> (string, bool) gomap \<Rightarrow> string + (string, bool) gomap" where
  "readKeys q query dst =
     andRead (q query)
       (\<lambda>rows. Inr (fold (\<lambda>r dst. if length r \<ge> 1 then mput (r ! 0) True dst else dst) rows dst))"

definition readMySQLUsers ::
  "querier \<Rightarrow> (string, bool) gomap \<Rightarrow> (string, int) gomap
     \<Rightarrow> string + (string, bool) gomap \<times> (string, int) gomap" where
  "readMySQLUsers q users hostgroups =
     andRead (q ''SELECT DISTINCT username, default_hostgroup FROM runtime_mysql_users'')
       (\<lambda>rows. Inr (fold (\<lambda>row (users, hostgroups).
          if length row = 0 then (users, hostgroups)
          else (mput (row ! 0) True users,
                if length row > 1
                then (case parseInt32 (row ! 1) of
                        Some hostgroup \<Rightarrow> mput (row ! 0) hostgroup hostgroups
                      | None \<Rightarrow> hostgroups)
                else hostgroups)) rows (users, hostgroups)))"

definition ReadRuntime :: "querier \<Rightarrow> string + RuntimeState" where
  "ReadRuntime q =
     andRead (readServers q ''runtime_mysql_servers'' []) (\<lambda>ms.
     andRead (readMySQLUsers q [] []) (\<lambda>(mu, muh).
     andRead (readKeys q ''SELECT rule_id FROM runtime_mysql_query_rules'' []) (\<lambda>mr.
     andRead (readServers q ''runtime_pgsql_servers'' []) (\<lambda>ps.
     andRead (readKeys q ''SELECT DISTINCT username FROM runtime_pgsql_users'' []) (\<lambda>pu.
     andRead (readKeys q ''SELECT rule_id FROM runtime_pgsql_query_rules'' []) (\<lambda>pr.
       Inr \<lparr>rs_MySQLServers = ms, rs_MySQLUsers = mu, rs_MySQLUserHostgroups = muh,
             rs_MySQLRules = mr, rs_PgSQLServers = ps, rs_PgSQLUsers = pu,
             rs_PgSQLRules = pr\<rparr>))))))"

definition copyStringMap :: "(string, string) gomap \<Rightarrow> (string, string) gomap" where
  "copyStringMap source = mapsCopy source []"

definition copyBoolMap :: "(string, bool) gomap \<Rightarrow> (string, bool) gomap" where
  "copyBoolMap source = mapsCopy source []"

definition copyInt32Map :: "(string, int) gomap \<Rightarrow> (string, int) gomap" where
  "copyInt32Map source = mapsCopy source []"

text \<open>The hostgroup id in front of the first colon of a key, when the key has the usual form.\<close>

definition leadingHostgroup :: "string \<Rightarrow> (int \<times> string) option" where
  "leadingHostgroup k =
     (case cutAt CHR '':'' k of
        Some (a, b) \<Rightarrow>
          if a = [] then None
          else (case parseInt32 a of Some hg \<Rightarrow> Some (hg, b) | None \<Rightarrow> None)
      | None \<Rightarrow> None)"

definition NativeRuntime ::
  "RuntimeState option \<Rightarrow> Desired \<Rightarrow> (int, bool) gomap \<Rightarrow> RuntimeState option" where
  "NativeRuntime ors desired claimedHostgroups =
     (case ors of
        None \<Rightarrow> None
      | Some rs \<Rightarrow>
          if length claimedHostgroups = 0 then Some rs
          else
            let servers = copyStringMap (rs_MySQLServers rs);
                users = copyBoolMap (rs_MySQLUsers rs);
                hostgroups = copyInt32Map (rs_MySQLUserHostgroups rs);
                nativeUsers = fold (\<lambda>u. mput (mu_Username u) True) (d_MySQLUsers desired) [];
                claimed = filter (\<lambda>(username, hostgroup).
                  \<not> mgetBool nativeUsers username \<and> mgetBool claimedHostgroups hostgroup) hostgroups
            in Some
              \<lparr>rs_MySQLServers =
                 fold (\<lambda>key m.
                   case leadingHostgroup key of
                     Some (hostgroup, _) \<Rightarrow>
                       if mgetBool claimedHostgroups hostgroup then mdel key m else m
                   | None \<Rightarrow> m) (mkeys servers) servers,
               rs_MySQLUsers = fold (\<lambda>(username, _). mdel username) claimed users,
               rs_MySQLUserHostgroups = fold (\<lambda>(username, _). mdel username) claimed hostgroups,
               rs_MySQLRules = copyBoolMap (rs_MySQLRules rs),
               rs_PgSQLServers = copyStringMap (rs_PgSQLServers rs),
               rs_PgSQLUsers = copyBoolMap (rs_PgSQLUsers rs),
               rs_PgSQLRules = copyBoolMap (rs_PgSQLRules rs)\<rparr>)"

definition NativeRuntimeWithAWSDBProxy :: "RuntimeState option \<Rightarrow> RuntimeState option" where
  "NativeRuntimeWithAWSDBProxy ors =
     (case ors of
        None \<Rightarrow> None
      | Some rs \<Rightarrow> Some
          \<lparr>rs_MySQLServers = [], rs_MySQLUsers = [], rs_MySQLUserHostgroups = [],
           rs_MySQLRules = copyBoolMap (rs_MySQLRules rs),
           rs_PgSQLServers = copyStringMap (rs_PgSQLServers rs),
           rs_PgSQLUsers = copyBoolMap (rs_PgSQLUsers rs),
           rs_PgSQLRules = copyBoolMap (rs_PgSQLRules rs)\<rparr>)"

definition NativeDesiredWithAWSDBProxy :: "Desired option \<Rightarrow> Desired option" where
  "NativeDesiredWithAWSDBProxy od =
     (case od of
        None \<Rightarrow> None
      | Some d \<Rightarrow> Some (d\<lparr>d_MySQLServers := [], d_MySQLUsers := [],
                         d_MySQLReplicationHostgroups := [], d_MySQLHostgroupAttributes := []\<rparr>))"

definition ShunnedCount :: "RuntimeState \<Rightarrow> int" where
  "ShunnedCount rs =
     (let count = \<lambda>(_, status) n. if status = ''SHUNNED'' then wrap32 (n + 1) else n
      in fold count (rs_PgSQLServers rs) (fold count (rs_MySQLServers rs) 0))"

section \<open>Keys\<close>

definition canonServerKey :: "int \<Rightarrow> string \<Rightarrow> (int, int) gomap \<Rightarrow> string" where
  "canonServerKey hg hostPort classes =
     (case mget classes hg of
        Some r \<Rightarrow> ''rhg'' @ itoa r @ '':'' @ hostPort
      | None \<Rightarrow> itoa hg @ '':'' @ hostPort)"

text \<open>\<open>if prev, ok := keys[canon]; !ok || display < prev { keys[canon] = display }\<close>.\<close>

definition putMin :: "string \<Rightarrow> string \<Rightarrow> (string, string) gomap \<Rightarrow> (string, string) gomap" where
  "putMin canon display keys =
     (case mget keys canon of
        None \<Rightarrow> mput canon display keys
      | Some prev \<Rightarrow> if display < prev then mput canon display keys else keys)"

definition mysqlHostPort :: "MySQLServer \<Rightarrow> string" where
  "mysqlHostPort s = ms_Hostname s @ '':'' @ itoa (defaultInt32 (ms_Port s) 3306)"

definition mysqlServerKeys :: "MySQLServer list \<Rightarrow> (int, int) gomap \<Rightarrow> (string, string) gomap" where
  "mysqlServerKeys servers classes =
     fold (\<lambda>s. putMin (canonServerKey (ms_Hostgroup s) (mysqlHostPort s) classes)
                      (itoa (ms_Hostgroup s) @ '':'' @ mysqlHostPort s)) servers []"

definition pgsqlServerKeys :: "PostgreSQLServer list \<Rightarrow> (string, string) gomap" where
  "pgsqlServerKeys servers =
     fold (\<lambda>s. let k = itoa (ps_Hostgroup s) @ '':'' @ ps_Hostname s @ '':''
                        @ itoa (defaultInt32 (ps_Port s) 5432) in mput k k) servers []"

definition runtimeCanon :: "(int, int) gomap \<Rightarrow> string \<Rightarrow> string" where
  "runtimeCanon classes k =
     (if length classes > 0
      then (case leadingHostgroup k of
              Some (hg, rest) \<Rightarrow> canonServerKey hg rest classes
            | None \<Rightarrow> k)
      else k)"

definition runtimeServerStatuses ::
  "(string, string) gomap \<Rightarrow> (int, int) gomap
     \<Rightarrow> (string, string) gomap \<times> (string, string list) gomap" where
  "runtimeServerStatuses have classes =
     (let (keys, statuses) = fold (\<lambda>(k, status) (keys, statuses).
        let canon = runtimeCanon classes k in
        (putMin canon k keys,
         mput canon ((case mget statuses canon of None \<Rightarrow> [] | Some l \<Rightarrow> l) @ [status]) statuses))
        have ([], [])
      in (keys, map (\<lambda>(k, v). (k, sort v)) statuses))"

definition runtimeServerKeys :: "(string, string) gomap \<Rightarrow> (int, int) gomap \<Rightarrow> (string, string) gomap" where
  "runtimeServerKeys have classes = fst (runtimeServerStatuses have classes)"

definition isAdminOffline :: "string \<Rightarrow> bool" where
  "isAdminOffline status \<longleftrightarrow> status = statusOfflineSoft \<or> status = statusOfflineHard"

definition desiredStatusStep ::
  "(int, int) gomap \<Rightarrow> MySQLServer \<Rightarrow> (string, string) gomap \<times> (string, bool) gomap
     \<Rightarrow> (string, string) gomap \<times> (string, bool) gomap" where
  "desiredStatusStep classes s = (\<lambda>(want, mixed).
     let canon = canonServerKey (ms_Hostgroup s) (mysqlHostPort s) classes in
     if mgetBool mixed canon then (want, mixed)
     else if \<not> isAdminOffline (ms_Status s) then (mdel canon want, mput canon True mixed)
     else if mget want canon \<noteq> None \<and> mget want canon \<noteq> Some (ms_Status s)
     then (mdel canon want, mput canon True mixed)
     else (mput canon (ms_Status s) want, mixed))"

definition mysqlDesiredStatuses :: "MySQLServer list \<Rightarrow> (int, int) gomap \<Rightarrow> (string, string) gomap" where
  "mysqlDesiredStatuses servers classes = fst (fold (desiredStatusStep classes) servers ([], []))"

definition mysqlUsernames :: "MySQLUser list \<Rightarrow> string list" where
  "mysqlUsernames users = map mu_Username users"

definition pgsqlUsernames :: "PostgreSQLUser list \<Rightarrow> string list" where
  "pgsqlUsernames users = map pu_Username users"

definition mysqlRuleIDs :: "MySQLQueryRule list \<Rightarrow> int list" where
  "mysqlRuleIDs rules = map mr_RuleID rules"

definition pgsqlRuleIDs :: "PostgreSQLQueryRule list \<Rightarrow> int list" where
  "pgsqlRuleIDs rules = map pr_RuleID rules"

definition userKeys :: "string list \<Rightarrow> (string, bool) gomap" where
  "userKeys names = fold (\<lambda>n. mput n True) names []"

definition ruleKeys :: "int list \<Rightarrow> (string, bool) gomap" where
  "ruleKeys ids = fold (\<lambda>i. mput (itoa i) True) ids []"

section \<open>Differences\<close>

definition mysqlStatusDrift ::
  "(string, string) gomap \<Rightarrow> (string, string) gomap \<Rightarrow> (string, string list) gomap \<Rightarrow> string list" where
  "mysqlStatusDrift display want have =
     List.map_filter (\<lambda>(canon, status).
       let got = (case mget have canon of None \<Rightarrow> [] | Some l \<Rightarrow> l);
           present = (mget have canon \<noteq> None)
       in if status = statusOfflineSoft \<and> (\<not> present \<or> statusOfflineSoft \<in> set got) then None
          else if status = statusOfflineHard \<and> \<not> present then None
          else Some (''mysql_servers: status '' @ mgetStr display canon @ '' want '' @ status
                       @ '' have '' @ joinStr '','' got)) want"

definition diffKeys :: "string \<Rightarrow> (string, bool) gomap \<Rightarrow> (string, bool) gomap \<Rightarrow> string list" where
  "diffKeys table want have =
     map (\<lambda>k. table @ '': missing '' @ k) (filter (\<lambda>k. \<not> mgetBool have k) (mkeys want))
     @ map (\<lambda>k. table @ '': extra '' @ k) (filter (\<lambda>k. \<not> mgetBool want k) (mkeys have))"

definition diffServers ::
  "string \<Rightarrow> (string, string) gomap \<Rightarrow> (string, string) gomap \<Rightarrow> (string, string) gomap \<Rightarrow> string list" where
  "diffServers table want have known =
     map (\<lambda>(_, display). table @ '': missing '' @ display)
         (filter (\<lambda>(canon, _). mget have canon = None) want)
     @ map (\<lambda>(_, display). table @ '': extra '' @ display)
         (filter (\<lambda>(canon, _). mget known canon = None) have)"

definition drift_classes :: "Desired \<Rightarrow> RuntimeState \<Rightarrow> (int, int) gomap \<Rightarrow> string list" where
  "drift_classes d rs classes =
     (let wantServers = mysqlServerKeys (d_MySQLServers d) classes;
          (haveServers, haveStatus) = runtimeServerStatuses (rs_MySQLServers rs) classes;
          wantStatus = mysqlDesiredStatuses (d_MySQLServers d) classes;
          membership = filter (\<lambda>(canon, _). mgetStr wantStatus canon \<noteq> statusOfflineHard) wantServers;
          pgWant = pgsqlServerKeys (d_PostgreSQLServers d)
      in sort
        (diffServers ''mysql_servers'' membership haveServers wantServers
         @ mysqlStatusDrift wantServers wantStatus haveStatus
         @ diffKeys ''mysql_users'' (userKeys (mysqlUsernames (d_MySQLUsers d))) (rs_MySQLUsers rs)
         @ diffKeys ''mysql_query_rules'' (ruleKeys (mysqlRuleIDs (d_MySQLQueryRules d)))
             (rs_MySQLRules rs)
         @ diffServers ''pgsql_servers'' pgWant (runtimeServerKeys (rs_PgSQLServers rs) []) pgWant
         @ diffKeys ''pgsql_users'' (userKeys (pgsqlUsernames (d_PostgreSQLUsers d)))
             (rs_PgSQLUsers rs)
         @ diffKeys ''pgsql_query_rules'' (ruleKeys (pgsqlRuleIDs (d_PostgreSQLQueryRules d)))
             (rs_PgSQLRules rs)))"

definition Drift :: "Desired \<Rightarrow> RuntimeState \<Rightarrow> string list option" where
  "Drift d rs = map_option (drift_classes d rs) (replicationClasses (d_MySQLReplicationHostgroups d))"

definition ReadGlobalVariables :: "querier \<Rightarrow> string list \<Rightarrow> string + (string, string) gomap" where
  "ReadGlobalVariables q names =
     (if length names = 0 then Inr []
      else
        andRead (q (''SELECT variable_name, variable_value FROM runtime_global_variables WHERE variable_name IN (''
                    @ joinStr '','' (map quote (sort names)) @ '')''))
          (\<lambda>rows. Inr (fold (\<lambda>row result.
             if length row \<ge> 2 then mput (row ! 0) (row ! 1) result else result) rows [])))"

section \<open>What the key builders compute\<close>

lemma putMin_keys [simp]: "fst ` set (putMin c k m) = insert c (fst ` set m)"
proof (cases "mget m c")
  case None
  then show ?thesis by (simp add: putMin_def dom_update)
next
  case (Some prev)
  then have "c \<in> fst ` set m" by (metis map_of_eq_None_iff option.distinct(1))
  with Some show ?thesis by (simp add: putMin_def dom_update insert_absorb)
qed

lemma fold_putMin_keys: "fst ` set (fold (\<lambda>x. putMin (f x) (g x)) xs m) = f ` set xs \<union> fst ` set m"
  by (induction xs arbitrary: m) auto

lemma mysqlServerKeys_keys:
  "fst ` set (mysqlServerKeys ss cl) =
     (\<lambda>s. canonServerKey (ms_Hostgroup s) (mysqlHostPort s) cl) ` set ss"
  by (simp add: mysqlServerKeys_def fold_putMin_keys)

lemma fold_mput_keys: "fst ` set (fold (\<lambda>x. mput (f x) (g x)) xs m) = f ` set xs \<union> fst ` set m"
  by (induction xs arbitrary: m) (auto simp: dom_update)

lemma pgsqlServerKeys_keys:
  "fst ` set (pgsqlServerKeys ss) =
     (\<lambda>s. itoa (ps_Hostgroup s) @ '':'' @ ps_Hostname s @ '':'' @ itoa (defaultInt32 (ps_Port s) 5432))
       ` set ss"
  unfolding pgsqlServerKeys_def Let_def by (simp add: fold_mput_keys)

lemma fold_mput_True: "mgetBool (fold (\<lambda>x. mput (f x) True) xs m) k \<longleftrightarrow> k \<in> f ` set xs \<or> mgetBool m k"
  by (induction xs arbitrary: m) (auto simp: mgetBool_def mput_mget)

lemma userKeys_props:
  "fst ` set (userKeys ns) = set ns" "mgetBool (userKeys ns) k \<longleftrightarrow> k \<in> set ns"
  using fold_mput_keys [of "\<lambda>n. n" "\<lambda>_. True" ns "[]"] fold_mput_True [of "\<lambda>n. n" ns "[]" k]
  by (simp_all add: userKeys_def mgetBool_def)

lemma ruleKeys_props:
  "fst ` set (ruleKeys is) = itoa ` set is" "mgetBool (ruleKeys is) k \<longleftrightarrow> k \<in> itoa ` set is"
  using fold_mput_keys [of itoa "\<lambda>_. True" "is" "[]"] fold_mput_True [of itoa "is" "[]" k]
  by (simp_all add: ruleKeys_def mgetBool_def)

lemma statuses_loop:
  "fold (\<lambda>(k, status) (keys, statuses).
      (putMin (c k) k keys,
       mput (c k) ((case mget statuses (c k) of None \<Rightarrow> [] | Some l \<Rightarrow> l) @ [status]) statuses))
     hv (keys, statuses) =
   (fold (\<lambda>(k, _). putMin (c k) k) hv keys,
    fold (\<lambda>(k, status) m. mput (c k) ((case mget m (c k) of None \<Rightarrow> [] | Some l \<Rightarrow> l) @ [status]) m)
      hv statuses)"
  by (induction hv arbitrary: keys statuses) auto

lemma mget_append_fold:
  "mget (fold (\<lambda>(k, status) m. mput (c k) ((case mget m (c k) of None \<Rightarrow> [] | Some l \<Rightarrow> l) @ [status]) m)
      hv m) x =
    (let l = map snd (filter (\<lambda>(k, _). c k = x) hv) in
     if l = [] then mget m x else Some ((case mget m x of None \<Rightarrow> [] | Some l0 \<Rightarrow> l0) @ l))"
  by (induction hv arbitrary: m) (auto simp: Let_def mput_mget split: option.split)

lemma runtimeServerStatuses_keys:
  "fst ` set (fst (runtimeServerStatuses hv cl)) = (\<lambda>(k, _). runtimeCanon cl k) ` set hv"
proof -
  have "fold (\<lambda>(k, _). putMin (runtimeCanon cl k) k) hv [] =
      fold (\<lambda>kv. putMin (runtimeCanon cl (fst kv)) (fst kv)) hv []"
    by (intro fold_cong) auto
  then show ?thesis
    by (simp add: runtimeServerStatuses_def Let_def statuses_loop fold_putMin_keys split_beta)
qed

lemma runtimeServerStatuses_mget:
  "mget (snd (runtimeServerStatuses hv cl)) x =
    (let l = map snd (filter (\<lambda>(k, _). runtimeCanon cl k = x) hv) in
     if l = [] then None else Some (sort l))"
  by (simp add: runtimeServerStatuses_def Let_def statuses_loop map_of_map mget_append_fold)

definition agreed :: "string list \<Rightarrow> string option" where
  "agreed ss = (case ss of [] \<Rightarrow> None
     | st # _ \<Rightarrow> if isAdminOffline st \<and> list_all (\<lambda>x. x = st) ss then Some st else None)"

lemma agreed_snoc:
  "agreed (ss @ [st]) =
     (if ss = [] then (if isAdminOffline st then Some st else None)
      else if agreed ss = Some st then Some st else None)"
  by (cases ss) (auto simp: agreed_def)

lemma agreed_admin: "agreed ss = Some st \<Longrightarrow> isAdminOffline st"
  by (auto simp: agreed_def split: list.splits if_splits)

lemma agreed_Nil [simp]: "agreed [] = None"
  by (simp add: agreed_def)

abbreviation mysqlCanon :: "(int, int) gomap \<Rightarrow> MySQLServer \<Rightarrow> string" where
  "mysqlCanon cl s \<equiv> canonServerKey (ms_Hostgroup s) (mysqlHostPort s) cl"

lemma desiredStatus_fold:
  assumes "(want, mixed) = fold (desiredStatusStep cl) xs ([], [])"
  shows "mget want c = agreed (map ms_Status (filter (\<lambda>s. mysqlCanon cl s = c) xs))
    \<and> (mgetBool mixed c \<longleftrightarrow>
         filter (\<lambda>s. mysqlCanon cl s = c) xs \<noteq> []
         \<and> agreed (map ms_Status (filter (\<lambda>s. mysqlCanon cl s = c) xs)) = None)"
  using assms
proof (induction xs arbitrary: want mixed c rule: rev_induct)
  case Nil
  then show ?case by (simp add: agreed_def mgetBool_def)
next
  case (snoc s xs)
  obtain w m where f: "fold (desiredStatusStep cl) xs ([], []) = (w, m)" by fastforce
  note ih = snoc.IH [OF f [symmetric]]
  from snoc.prems f have st: "(want, mixed) = desiredStatusStep cl s (w, m)" by simp
  show ?case
  proof (cases "mysqlCanon cl s = c")
    case True
    with st ih [of c] show ?thesis
      by (auto simp: desiredStatusStep_def Let_def agreed_snoc mput_mget delete_conv' mgetBool_def
          split: if_splits option.splits dest: agreed_admin)
  next
    case False
    with st ih [of c] show ?thesis
      by (auto simp: desiredStatusStep_def Let_def mput_mget delete_conv' mgetBool_def
          split: if_splits)
  qed
qed

lemma mysqlDesiredStatuses_mget:
  "mget (mysqlDesiredStatuses xs cl) c =
     agreed (map ms_Status (filter (\<lambda>s. mysqlCanon cl s = c) xs))"
proof -
  obtain w m where f: "fold (desiredStatusStep cl) xs ([], []) = (w, m)" by fastforce
  with desiredStatus_fold [OF f [symmetric], of c] show ?thesis
    by (simp add: mysqlDesiredStatuses_def)
qed

lemma mysqlDesiredStatuses_admin:
  "mget (mysqlDesiredStatuses xs cl) c = Some st \<Longrightarrow> isAdminOffline st"
  by (auto simp: mysqlDesiredStatuses_mget dest: agreed_admin)

lemma desiredStatusStep_wf:
  "mwf (fst wm) \<Longrightarrow> mwf (fst (desiredStatusStep cl s wm))"
  by (cases wm) (auto simp: desiredStatusStep_def Let_def distinct_update distinct_delete)

lemma mysqlDesiredStatuses_wf: "mwf (mysqlDesiredStatuses xs cl)"
proof -
  have "mwf (fst (fold (desiredStatusStep cl) xs wm))" if "mwf (fst wm)" for wm
    using that by (induction xs arbitrary: wm) (simp_all add: desiredStatusStep_wf)
  then show ?thesis by (simp add: mysqlDesiredStatuses_def)
qed

section \<open>Canonical keys\<close>

text \<open>Where a hostgroup is compared: in its replication class, or exactly.\<close>

definition placement :: "(int, int) gomap \<Rightarrow> int \<Rightarrow> int + int" where
  "placement cl hg = (case mget cl hg of Some r \<Rightarrow> Inl r | None \<Rightarrow> Inr hg)"

lemma itoa_no_colon [simp]: "CHR '':'' \<notin> set (itoa i)"
  by (rule itoa_not_in) (simp_all add: is_digit_def)

lemma itoa_head: "itoa i \<noteq> CHR ''r'' # t"
  using itoa_not_in [of "CHR ''r''" i] by (auto simp: is_digit_def)

lemma canonServerKey_inject:
  "canonServerKey hg hp cl = canonServerKey hg' hp' cl \<longleftrightarrow> placement cl hg = placement cl hg' \<and> hp = hp'"
proof -
  have lit: "itoa i @ CHR '':'' # x = itoa j @ CHR '':'' # y \<longleftrightarrow> i = j \<and> x = y" for i j x y
    by (simp add: append_sep_inject)
  have cls: "itoa i @ CHR '':'' # x \<noteq> ''rhg'' @ t" for i x t
    using itoa_head [of i] itoa_nonempty [of i] by (cases "itoa i") auto
  show ?thesis
    using lit cls cls [symmetric]
    by (auto simp: canonServerKey_def placement_def split: option.splits)
qed

lemma hostPort_inject:
  "h @ '':'' @ itoa p = h' @ '':'' @ itoa p' \<longleftrightarrow> h = h' \<and> p = p'"
  by (simp add: append_sep_inject_last)

lemma leadingHostgroup_key:
  "is_int32 hg \<Longrightarrow> leadingHostgroup (itoa hg @ '':'' @ rest) = Some (hg, rest)"
  by (simp add: leadingHostgroup_def cutAt_append parseInt32_itoa)

lemma runtimeCanon_key:
  "is_int32 hg \<Longrightarrow> runtimeCanon cl (itoa hg @ '':'' @ rest) = canonServerKey hg rest cl"
  using leadingHostgroup_key [of hg rest] by (simp add: runtimeCanon_def canonServerKey_def)

section \<open>When there is nothing to report\<close>

lemma diffKeys_empty:
  "diffKeys t want hv = [] \<longleftrightarrow>
     (\<forall>k \<in> fst ` set want. mgetBool hv k) \<and> (\<forall>k \<in> fst ` set hv. mgetBool want k)"
  by (auto simp: diffKeys_def filter_empty_conv)

lemma diffServers_empty:
  "diffServers t want hv known = [] \<longleftrightarrow>
     fst ` set want \<subseteq> fst ` set hv \<and> fst ` set hv \<subseteq> fst ` set known"
  by (auto simp: diffServers_def filter_empty_conv map_of_eq_None_iff split_beta subset_iff)

definition status_ok :: "string list option \<Rightarrow> string \<Rightarrow> bool" where
  "status_ok got st \<longleftrightarrow>
     st = statusOfflineSoft \<and> (case got of None \<Rightarrow> True | Some l \<Rightarrow> statusOfflineSoft \<in> set l)
     \<or> st = statusOfflineHard \<and> got = None"

lemma statusDrift_empty:
  assumes "mwf want" and "\<And>c st. mget want c = Some st \<Longrightarrow> isAdminOffline st"
  shows "mysqlStatusDrift disp want hv = [] \<longleftrightarrow>
    (\<forall>c. (mget want c = Some statusOfflineSoft \<longrightarrow>
            (case mget hv c of None \<Rightarrow> True | Some l \<Rightarrow> statusOfflineSoft \<in> set l))
       \<and> (mget want c = Some statusOfflineHard \<longrightarrow> mget hv c = None))"
    (is "_ \<longleftrightarrow> ?rhs")
proof -
  have e: "List.map_filter f xs = [] \<longleftrightarrow> (\<forall>x \<in> set xs. f x = None)" for f :: "_ \<Rightarrow> string option" and xs
    by (induction xs) (auto simp: map_filter_simps split: option.splits)
  have ne: "statusOfflineSoft \<noteq> statusOfflineHard"
    by (simp add: statusOfflineSoft_def statusOfflineHard_def)
  have "mysqlStatusDrift disp want hv = [] \<longleftrightarrow>
      (\<forall>(c, st) \<in> set want. status_ok (mget hv c) st)"
    unfolding mysqlStatusDrift_def e
    by (intro ball_cong) (auto simp: status_ok_def split: option.splits if_splits)
  also have "\<dots> \<longleftrightarrow> (\<forall>c st. mget want c = Some st \<longrightarrow> status_ok (mget hv c) st)"
    using assms(1) by auto
  also have "\<dots> \<longleftrightarrow> ?rhs"
  proof -
    have "(\<forall>st. mget want c = Some st \<longrightarrow> status_ok (mget hv c) st) \<longleftrightarrow>
        (mget want c = Some statusOfflineSoft \<longrightarrow>
            (case mget hv c of None \<Rightarrow> True | Some l \<Rightarrow> statusOfflineSoft \<in> set l))
       \<and> (mget want c = Some statusOfflineHard \<longrightarrow> mget hv c = None)" for c
      using assms(2) [of c] ne
      by (cases "mget want c") (auto simp: status_ok_def isAdminOffline_def split: option.splits)
    then show ?thesis by blast
  qed
  finally show ?thesis .
qed

end
