(* ===== verification/DriftConvergence.thy ===== *)
theory DriftConvergence
  imports RuntimeDrift
begin

text \<open>
  What an empty drift report means. \<open>converged\<close> states, over the rows of an instance and without
  keys or strings, when the instance runs what the configuration asks for; reading the rows and
  comparing them reports nothing exactly then. The section also shows that monitor moves inside
  a replication class and health statuses are not drift, and what the plugin filter removes.
\<close>

section \<open>Convergence, stated without keys\<close>

text \<open>A row of a \<open>runtime_*_servers\<close> table, and the key under which a read stores it.\<close>

record rtServer =
  rt_Hostgroup :: int
  rt_Hostname :: string
  rt_Port :: int
  rt_Status :: string

definition rtKey :: "rtServer \<Rightarrow> string" where
  "rtKey r = itoa (rt_Hostgroup r) @ '':'' @ rt_Hostname r @ '':'' @ itoa (rt_Port r)"

definition rtMap :: "rtServer list \<Rightarrow> (string, string) gomap" where
  "rtMap rows = map (\<lambda>r. (rtKey r, rt_Status r)) rows"

text \<open>
  Two hostgroups stand for each other when they are equal or when replication pairs connect
  them; a runtime row is an instance of a desired server when their hostgroups stand for each
  other and host name and port (3306 when unset) agree.
\<close>

definition same_place :: "(int \<times> int) set \<Rightarrow> int \<Rightarrow> int \<Rightarrow> bool" where
  "same_place E hg hg' \<longleftrightarrow>
     hg = hg' \<or> hg \<in> Field E \<and> hg' \<in> Field E \<and> (hg, hg') \<in> conn E"

definition same_desired :: "(int \<times> int) set \<Rightarrow> MySQLServer \<Rightarrow> MySQLServer \<Rightarrow> bool" where
  "same_desired E s t \<longleftrightarrow>
     same_place E (ms_Hostgroup s) (ms_Hostgroup t) \<and> ms_Hostname s = ms_Hostname t
     \<and> defaultInt32 (ms_Port s) 3306 = defaultInt32 (ms_Port t) 3306"

definition instance_of :: "(int \<times> int) set \<Rightarrow> rtServer \<Rightarrow> MySQLServer \<Rightarrow> bool" where
  "instance_of E r s \<longleftrightarrow>
     same_place E (ms_Hostgroup s) (rt_Hostgroup r) \<and> rt_Hostname r = ms_Hostname s
     \<and> rt_Port r = defaultInt32 (ms_Port s) 3306"

text \<open>Every desired row of the server asks for the status.\<close>

definition all_ask :: "Desired \<Rightarrow> MySQLServer \<Rightarrow> string \<Rightarrow> bool" where
  "all_ask d s st \<longleftrightarrow>
     (\<forall>t \<in> set (d_MySQLServers d).
        same_desired (pair_edges (d_MySQLReplicationHostgroups d)) s t \<longrightarrow> ms_Status t = st)"

definition mysql_servers_converged :: "Desired \<Rightarrow> rtServer list \<Rightarrow> bool" where
  "mysql_servers_converged d rows \<longleftrightarrow>
     (let E = pair_edges (d_MySQLReplicationHostgroups d) in
      (\<forall>r \<in> set rows. \<exists>s \<in> set (d_MySQLServers d). instance_of E r s)
      \<and> (\<forall>s \<in> set (d_MySQLServers d).
           if all_ask d s statusOfflineHard then \<not> (\<exists>r \<in> set rows. instance_of E r s)
           else (\<exists>r \<in> set rows. instance_of E r s)
             \<and> (all_ask d s statusOfflineSoft \<longrightarrow>
                  (\<exists>r \<in> set rows. instance_of E r s \<and> rt_Status r = statusOfflineSoft))))"

definition pgsql_servers_converged :: "Desired \<Rightarrow> rtServer list \<Rightarrow> bool" where
  "pgsql_servers_converged d rows \<longleftrightarrow>
     (\<lambda>s. (ps_Hostgroup s, ps_Hostname s, defaultInt32 (ps_Port s) 5432)) ` set (d_PostgreSQLServers d)
       = (\<lambda>r. (rt_Hostgroup r, rt_Hostname r, rt_Port r)) ` set rows"

text \<open>A read only ever stores \<open>true\<close> in the sets it fills.\<close>

definition true_set :: "('k, bool) gomap \<Rightarrow> bool" where
  "true_set m \<longleftrightarrow> mwf m \<and> list_all snd m"

lemma true_set_get: "true_set m \<Longrightarrow> mgetBool m k \<longleftrightarrow> k \<in> fst ` set m"
proof -
  assume t: "true_set m"
  show ?thesis
  proof (cases "mget m k")
    case None
    then have "k \<notin> fst ` set m" by (simp add: map_of_eq_None_iff)
    then show ?thesis by (simp add: mgetBool_def None)
  next
    case (Some v)
    then have "(k, v) \<in> set m" by (rule map_of_SomeD)
    with t Some show ?thesis by (force simp: true_set_def mgetBool_def list_all_iff)
  qed
qed

lemma diffKeys_users:
  "true_set m \<Longrightarrow> diffKeys t (userKeys ns) m = [] \<longleftrightarrow> fst ` set m = set ns"
  by (auto simp: diffKeys_empty true_set_get userKeys_props)

lemma diffKeys_rules:
  "true_set m \<Longrightarrow> diffKeys t (ruleKeys is) m = [] \<longleftrightarrow> fst ` set m = itoa ` set is"
  by (auto simp: diffKeys_empty true_set_get ruleKeys_props)

lemma pgsql_diff_empty:
  "diffServers t (pgsqlServerKeys ss) (runtimeServerKeys (rtMap rows) []) (pgsqlServerKeys ss) = []
   \<longleftrightarrow> (\<lambda>s. (ps_Hostgroup s, ps_Hostname s, defaultInt32 (ps_Port s) 5432)) ` set ss
       = (\<lambda>r. (rt_Hostgroup r, rt_Hostname r, rt_Port r)) ` set rows"
proof -
  let ?k = "\<lambda>(hg, h, p). hostKey hg h p"
  let ?S = "(\<lambda>s. (ps_Hostgroup s, ps_Hostname s, defaultInt32 (ps_Port s) 5432)) ` set ss"
  let ?R = "(\<lambda>r. (rt_Hostgroup r, rt_Hostname r, rt_Port r)) ` set rows"
  have inj: "inj ?k"
  proof (rule injI)
    fix x y
    assume "?k x = ?k y"
    then show "x = y"
      by (cases x; cases y) (simp add: hostKey_def append_sep_inject append_sep_inject_last)
  qed
  have w: "fst ` set (pgsqlServerKeys ss) = ?k ` ?S"
    by (simp add: pgsqlServerKeys_keys image_image hostKey_def)
  have h: "fst ` set (runtimeServerKeys (rtMap rows) []) = ?k ` ?R"
    by (simp add: runtimeServerKeys_def runtimeServerStatuses_keys rtMap_def runtimeCanon_def
        rtKey_def image_image hostKey_def)
  have "?k ` ?S = ?k ` ?R \<longleftrightarrow> ?S = ?R" by (rule inj_image_eq_iff [OF inj])
  then show ?thesis by (simp only: diffServers_empty w h set_eq_subset)
qed

text \<open>The classes that \<open>replicationClasses\<close> computes place hostgroups as connectivity says.\<close>

abbreviation edges :: "Desired \<Rightarrow> (int \<times> int) set" where
  "edges d \<equiv> pair_edges (d_MySQLReplicationHostgroups d)"

definition class_map :: "Desired \<Rightarrow> (int, int) gomap \<Rightarrow> bool" where
  "class_map d cl \<longleftrightarrow> mget cl = (\<lambda>x. if x \<in> Field (edges d) then Some (rep (edges d) x) else None)"

lemma placement_eq:
  "class_map d cl \<Longrightarrow> placement cl hg = placement cl hg' \<longleftrightarrow> same_place (edges d) hg hg'"
  by (auto simp: class_map_def placement_def same_place_def rep_eq_iff)

lemma canon_same:
  "class_map d cl \<Longrightarrow> mysqlCanon cl s = mysqlCanon cl t \<longleftrightarrow> same_desired (edges d) s t"
  using hostPort_inject
  by (simp add: canonServerKey_inject placement_eq mysqlHostPort_def same_desired_def)

lemma canon_row:
  assumes "class_map d cl" and "is_int32 (rt_Hostgroup r)"
  shows "runtimeCanon cl (rtKey r) = mysqlCanon cl s \<longleftrightarrow> instance_of (edges d) r s"
proof -
  have "runtimeCanon cl (rtKey r) =
      canonServerKey (rt_Hostgroup r) (rt_Hostname r @ '':'' @ itoa (rt_Port r)) cl"
    unfolding rtKey_def by (rule runtimeCanon_key [OF assms(2)])
  then show ?thesis
    using hostPort_inject
    by (auto simp: canonServerKey_inject placement_eq [OF assms(1)] mysqlHostPort_def
        instance_of_def same_place_def dest: conn_sym)
qed

lemma desiredStatus_all_ask:
  assumes "class_map d cl" and "s \<in> set (d_MySQLServers d)" and "isAdminOffline st"
  shows "mget (mysqlDesiredStatuses (d_MySQLServers d) cl) (mysqlCanon cl s) = Some st
    \<longleftrightarrow> all_ask d s st"
proof -
  have f: "agreed ss = Some st \<longleftrightarrow> ss \<noteq> [] \<and> (\<forall>x \<in> set ss. x = st)" for ss
    using assms(3) by (auto simp: agreed_def list_all_iff split: list.splits)
  have same: "mysqlCanon cl t = mysqlCanon cl s \<longleftrightarrow> same_desired (edges d) s t" for t
    using canon_same [OF assms(1), of s t] by metis
  have "same_desired (edges d) s s" by (simp add: same_desired_def same_place_def)
  then have "filter (same_desired (edges d) s) (d_MySQLServers d) \<noteq> []"
    using assms(2) by (auto simp: filter_empty_conv)
  then show ?thesis
    by (auto simp: mysqlDesiredStatuses_mget f same all_ask_def)
qed

lemma desiredStatus_dom:
  assumes "mget (mysqlDesiredStatuses ss cl) c = Some x"
  shows "\<exists>s \<in> set ss. c = mysqlCanon cl s"
proof -
  from assms have "filter (\<lambda>s. mysqlCanon cl s = c) ss \<noteq> []"
    by (auto simp: mysqlDesiredStatuses_mget)
  then show ?thesis by (auto simp: filter_empty_conv)
qed

lemma admin_offline [simp]:
  "isAdminOffline statusOfflineHard" "isAdminOffline statusOfflineSoft" "statusOfflineHard \<noteq> []"
  by (simp_all add: statusOfflineHard_def isAdminOffline_def)

lemma keys_filter: "fst ` set (filter (\<lambda>(c, _). P c) m) = {c \<in> fst ` set m. P c}"
  by force

lemma rtMap_keys:
  "fst ` set (fst (runtimeServerStatuses (rtMap rows) cl)) = (\<lambda>r. runtimeCanon cl (rtKey r)) ` set rows"
  by (simp add: runtimeServerStatuses_keys rtMap_def image_image)

lemma mgetStr_eq: "v \<noteq> [] \<Longrightarrow> mgetStr m k = v \<longleftrightarrow> mget m k = Some v"
  by (cases "mget m k") (auto simp: mgetStr_def)

lemma membership_empty:
  fixes d cl
  defines "want \<equiv> mysqlServerKeys (d_MySQLServers d) cl"
    and "st \<equiv> mysqlDesiredStatuses (d_MySQLServers d) cl"
  assumes cl: "class_map d cl" and i32: "list_all (is_int32 \<circ> rt_Hostgroup) rows"
  shows "diffServers t (filter (\<lambda>(c, _). mgetStr st c \<noteq> statusOfflineHard) want)
      (fst (runtimeServerStatuses (rtMap rows) cl)) want = []
    \<longleftrightarrow> (\<forall>s \<in> set (d_MySQLServers d). all_ask d s statusOfflineHard
            \<or> (\<exists>r \<in> set rows. instance_of (edges d) r s))
      \<and> (\<forall>r \<in> set rows. \<exists>s \<in> set (d_MySQLServers d). instance_of (edges d) r s)"
proof -
  have row: "runtimeCanon cl (rtKey r) = mysqlCanon cl s \<longleftrightarrow> instance_of (edges d) r s"
    if "r \<in> set rows" for r s
    using canon_row [OF cl] i32 that by (simp add: list_all_iff)
  have hard: "mgetStr st (mysqlCanon cl s) = statusOfflineHard \<longleftrightarrow> all_ask d s statusOfflineHard"
    if "s \<in> set (d_MySQLServers d)" for s
    using desiredStatus_all_ask [OF cl that admin_offline(1)]
    by (simp add: mgetStr_eq [OF admin_offline(3)] st_def)
  have wk: "fst ` set want = mysqlCanon cl ` set (d_MySQLServers d)"
    by (simp add: want_def mysqlServerKeys_keys)
  show ?thesis
    unfolding diffServers_empty keys_filter wk rtMap_keys using row hard
    by (auto simp: image_iff subset_iff) metis+
qed

lemma rtMap_statuses:
  assumes "class_map d cl" and "list_all (is_int32 \<circ> rt_Hostgroup) rows"
  shows "mget (snd (runtimeServerStatuses (rtMap rows) cl)) (mysqlCanon cl s) =
      (let l = map rt_Status (filter (\<lambda>r. instance_of (edges d) r s) rows)
       in if l = [] then None else Some (sort l))"
proof -
  have "map snd (filter (\<lambda>(k, _). runtimeCanon cl k = mysqlCanon cl s) (rtMap rows)) =
      map rt_Status (filter (\<lambda>r. runtimeCanon cl (rtKey r) = mysqlCanon cl s) rows)"
    by (simp add: rtMap_def filter_map comp_def)
  also have "filter (\<lambda>r. runtimeCanon cl (rtKey r) = mysqlCanon cl s) rows =
      filter (\<lambda>r. instance_of (edges d) r s) rows"
    using canon_row [OF assms(1)] assms(2) by (auto simp: list_all_iff intro: filter_cong)
  finally show ?thesis by (simp add: runtimeServerStatuses_mget)
qed

lemma status_empty:
  fixes d cl
  defines "want \<equiv> mysqlServerKeys (d_MySQLServers d) cl"
    and "st \<equiv> mysqlDesiredStatuses (d_MySQLServers d) cl"
  assumes cl: "class_map d cl" and i32: "list_all (is_int32 \<circ> rt_Hostgroup) rows"
  shows "mysqlStatusDrift want st (snd (runtimeServerStatuses (rtMap rows) cl)) = [] \<longleftrightarrow>
      (\<forall>s \<in> set (d_MySQLServers d).
         (all_ask d s statusOfflineSoft \<longrightarrow> (\<exists>r \<in> set rows. instance_of (edges d) r s) \<longrightarrow>
            (\<exists>r \<in> set rows. instance_of (edges d) r s \<and> rt_Status r = statusOfflineSoft))
         \<and> (all_ask d s statusOfflineHard \<longrightarrow> \<not> (\<exists>r \<in> set rows. instance_of (edges d) r s)))"
    (is "?l \<longleftrightarrow> (\<forall>s \<in> ?D. ?Q s)")
proof -
  let ?hv = "snd (runtimeServerStatuses (rtMap rows) cl)"
  have soft: "(case mget ?hv (mysqlCanon cl s) of None \<Rightarrow> True | Some l \<Rightarrow> statusOfflineSoft \<in> set l)
      \<longleftrightarrow> (\<exists>r \<in> set rows. instance_of (edges d) r s) \<longrightarrow>
          (\<exists>r \<in> set rows. instance_of (edges d) r s \<and> rt_Status r = statusOfflineSoft)"
    and absent: "mget ?hv (mysqlCanon cl s) = None \<longleftrightarrow>
      \<not> (\<exists>r \<in> set rows. instance_of (edges d) r s)" for s
    by (auto simp: rtMap_statuses [OF cl i32] Let_def filter_empty_conv image_iff)
  have "?l \<longleftrightarrow> (\<forall>s \<in> ?D.
      (mget st (mysqlCanon cl s) = Some statusOfflineSoft \<longrightarrow>
        (case mget ?hv (mysqlCanon cl s) of None \<Rightarrow> True | Some l \<Rightarrow> statusOfflineSoft \<in> set l))
      \<and> (mget st (mysqlCanon cl s) = Some statusOfflineHard \<longrightarrow> mget ?hv (mysqlCanon cl s) = None))"
    using statusDrift_empty [of st want ?hv] mysqlDesiredStatuses_wf
      mysqlDesiredStatuses_admin desiredStatus_dom unfolding st_def by metis
  also have "\<dots> \<longleftrightarrow> (\<forall>s \<in> ?D. ?Q s)"
    unfolding st_def
    by (intro ball_cong refl) (simp only: soft absent desiredStatus_all_ask [OF cl] admin_offline)
  finally show ?thesis .
qed

section \<open>The tables of an instance and what a read makes of them\<close>

record rtTables =
  rtt_mysql_servers :: "rtServer list"
  rtt_mysql_users :: "(string \<times> int) list"
  rtt_mysql_rules :: "int list"
  rtt_pgsql_servers :: "rtServer list"
  rtt_pgsql_users :: "string list"
  rtt_pgsql_rules :: "int list"

definition serverRow :: "rtServer \<Rightarrow> string list" where
  "serverRow r = [itoa (rt_Hostgroup r), rt_Hostname r, itoa (rt_Port r), rt_Status r]"

text \<open>An instance that answers the six queries of a read from its tables.\<close>

definition answers :: "querier \<Rightarrow> rtTables \<Rightarrow> bool" where
  "answers q T \<longleftrightarrow>
     q ''SELECT hostgroup_id, hostname, port, status FROM runtime_mysql_servers''
       = Inr (map serverRow (rtt_mysql_servers T))
     \<and> q ''SELECT DISTINCT username, default_hostgroup FROM runtime_mysql_users''
       = Inr (map (\<lambda>(u, hg). [u, itoa hg]) (rtt_mysql_users T))
     \<and> q ''SELECT rule_id FROM runtime_mysql_query_rules'' = Inr (map (\<lambda>i. [itoa i]) (rtt_mysql_rules T))
     \<and> q ''SELECT hostgroup_id, hostname, port, status FROM runtime_pgsql_servers''
       = Inr (map serverRow (rtt_pgsql_servers T))
     \<and> q ''SELECT DISTINCT username FROM runtime_pgsql_users'' = Inr (map (\<lambda>u. [u]) (rtt_pgsql_users T))
     \<and> q ''SELECT rule_id FROM runtime_pgsql_query_rules'' = Inr (map (\<lambda>i. [itoa i]) (rtt_pgsql_rules T))"

text \<open>Hostgroup, host name and port are the primary key of the server tables; ids are 32-bit.\<close>

definition wf_tables :: "rtTables \<Rightarrow> bool" where
  "wf_tables T \<longleftrightarrow>
     distinct (map rtKey (rtt_mysql_servers T)) \<and> distinct (map rtKey (rtt_pgsql_servers T))
     \<and> list_all (is_int32 \<circ> rt_Hostgroup) (rtt_mysql_servers T)
     \<and> list_all (is_int32 \<circ> snd) (rtt_mysql_users T)"

definition trueMap :: "string list \<Rightarrow> (string, bool) gomap" where
  "trueMap ks = fold (\<lambda>k. mput k True) ks []"

definition snapshot :: "rtTables \<Rightarrow> RuntimeState" where
  "snapshot T =
     \<lparr>rs_MySQLServers = rtMap (rtt_mysql_servers T),
      rs_MySQLUsers = trueMap (map fst (rtt_mysql_users T)),
      rs_MySQLUserHostgroups = mapsCopy (rtt_mysql_users T) [],
      rs_MySQLRules = trueMap (map itoa (rtt_mysql_rules T)),
      rs_PgSQLServers = rtMap (rtt_pgsql_servers T),
      rs_PgSQLUsers = trueMap (rtt_pgsql_users T),
      rs_PgSQLRules = trueMap (map itoa (rtt_pgsql_rules T))\<rparr>"

definition converged :: "Desired \<Rightarrow> rtTables \<Rightarrow> bool" where
  "converged d T \<longleftrightarrow>
     mysql_servers_converged d (rtt_mysql_servers T)
     \<and> pgsql_servers_converged d (rtt_pgsql_servers T)
     \<and> fst ` set (rtt_mysql_users T) = mu_Username ` set (d_MySQLUsers d)
     \<and> set (rtt_pgsql_users T) = pu_Username ` set (d_PostgreSQLUsers d)
     \<and> set (rtt_mysql_rules T) = mr_RuleID ` set (d_MySQLQueryRules d)
     \<and> set (rtt_pgsql_rules T) = pr_RuleID ` set (d_PostgreSQLQueryRules d)"

lemma true_set_put: "true_set m \<Longrightarrow> true_set (mput k True m)"
proof -
  assume "true_set m"
  moreover have "list_all snd m \<Longrightarrow> list_all snd (mput k True m)" by (induction m) auto
  ultimately show ?thesis by (simp add: true_set_def distinct_update)
qed

lemma trueMap_props: "true_set (trueMap ks)" "fst ` set (trueMap ks) = set ks"
proof -
  have "true_set m \<Longrightarrow> true_set (fold (\<lambda>k. mput k True) ks m)" for m
    by (induction ks arbitrary: m) (simp_all add: true_set_put)
  then show "true_set (trueMap ks)" by (simp add: trueMap_def true_set_def)
  show "fst ` set (trueMap ks) = set ks"
    using fold_mput_keys [of "\<lambda>k. k" "\<lambda>_. True" ks "[]"] by (simp add: trueMap_def)
qed

lemma fold_serverRows:
  "fold (\<lambda>r dst. if length r \<ge> 4 then mput (r ! 0 @ '':'' @ r ! 1 @ '':'' @ r ! 2) (r ! 3) dst else dst)
     (map serverRow rows) m = mapsCopy (rtMap rows) m"
  by (induction rows arbitrary: m) (simp_all add: serverRow_def rtMap_def rtKey_def mapsCopy_def)

lemma readServers_answer:
  "q (''SELECT hostgroup_id, hostname, port, status FROM '' @ t) = Inr (map serverRow rows) \<Longrightarrow>
   distinct (map rtKey rows) \<Longrightarrow> readServers q t [] = Inr (rtMap rows)"
  using mapsCopy_fresh [of "[]" "rtMap rows"]
  by (simp add: readServers_def andRead_def fold_serverRows) (simp add: rtMap_def comp_def)

lemma readKeys_answer:
  "q query = Inr (map (\<lambda>i. [f i]) is) \<Longrightarrow> readKeys q query [] = Inr (trueMap (map f is))"
  by (simp add: readKeys_def andRead_def trueMap_def fold_map comp_def)

lemma readMySQLUsers_answer:
  assumes "q ''SELECT DISTINCT username, default_hostgroup FROM runtime_mysql_users''
      = Inr (map (\<lambda>(u, hg). [u, itoa hg]) us)" and "list_all (is_int32 \<circ> snd) us"
  shows "readMySQLUsers q [] [] = Inr (trueMap (map fst us), mapsCopy us [])"
proof -
  have "fold (\<lambda>row (users, hostgroups).
          if length row = 0 then (users, hostgroups)
          else (mput (row ! 0) True users,
                if length row > 1
                then (case parseInt32 (row ! 1) of
                        Some hostgroup \<Rightarrow> mput (row ! 0) hostgroup hostgroups
                      | None \<Rightarrow> hostgroups)
                else hostgroups)) (map (\<lambda>(u, hg). [u, itoa hg]) us) (a, b) =
      (fold (\<lambda>k. mput k True) (map fst us) a, mapsCopy us b)" for a b
    using assms(2)
    by (induction us arbitrary: a b) (auto simp: mapsCopy_def parseInt32_itoa)
  with assms(1) show ?thesis by (simp add: readMySQLUsers_def andRead_def trueMap_def)
qed

lemma ReadRuntime_snapshot:
  assumes "answers q T" and "wf_tables T"
  shows "ReadRuntime q = Inr (snapshot T)"
proof -
  note a = assms(1) [unfolded answers_def] and w = assms(2) [unfolded wf_tables_def]
  have "readServers q ''runtime_mysql_servers'' [] = Inr (rtMap (rtt_mysql_servers T))"
    "readServers q ''runtime_pgsql_servers'' [] = Inr (rtMap (rtt_pgsql_servers T))"
    using a w by (auto intro!: readServers_answer)
  moreover have "readMySQLUsers q [] [] =
      Inr (trueMap (map fst (rtt_mysql_users T)), mapsCopy (rtt_mysql_users T) [])"
    using a w by (intro readMySQLUsers_answer) auto
  moreover have
    "readKeys q ''SELECT rule_id FROM runtime_mysql_query_rules'' [] = Inr (trueMap (map itoa (rtt_mysql_rules T)))"
    "readKeys q ''SELECT rule_id FROM runtime_pgsql_query_rules'' [] = Inr (trueMap (map itoa (rtt_pgsql_rules T)))"
    using a by (auto intro!: readKeys_answer)
  moreover have "readKeys q ''SELECT DISTINCT username FROM runtime_pgsql_users'' [] =
      Inr (trueMap (rtt_pgsql_users T))"
    using a readKeys_answer [of q _ "\<lambda>u. u" "rtt_pgsql_users T"] by simp
  ultimately show ?thesis by (simp add: ReadRuntime_def andRead_def snapshot_def)
qed

lemma Drift_classes:
  obtains cl where "class_map d cl" and "Drift d rs = Some (drift_classes d rs cl)"
  using replicationClasses_spec [of "d_MySQLReplicationHostgroups d"]
  by (metis Drift_def class_map_def option.simps(9))

lemma sort_Nil_iff: "sort xs = [] \<longleftrightarrow> xs = []"
  by (metis length_0_conv length_sort)

lemma Drift_snapshot:
  assumes "list_all (is_int32 \<circ> rt_Hostgroup) (rtt_mysql_servers T)"
  shows "Drift d (snapshot T) = Some [] \<longleftrightarrow> converged d T"
proof -
  obtain cl where cl: "class_map d cl" "Drift d (snapshot T) = Some (drift_classes d (snapshot T) cl)"
    by (rule Drift_classes)
  have inj: "itoa ` A = itoa ` B \<longleftrightarrow> A = B" for A B
    by (rule inj_image_eq_iff) (simp add: inj_def)
  have "drift_classes d (snapshot T) cl = [] \<longleftrightarrow> converged d T"
    using membership_empty [OF cl(1) assms] status_empty [OF cl(1) assms]
    unfolding drift_classes_def Let_def split_beta sort_Nil_iff append_is_Nil_conv
    by (simp add: snapshot_def trueMap_props diffKeys_users diffKeys_rules pgsql_diff_empty inj
        converged_def pgsql_servers_converged_def mysql_servers_converged_def Let_def
        mysqlUsernames_def pgsqlUsernames_def mysqlRuleIDs_def pgsqlRuleIDs_def) auto
  with cl(2) show ?thesis by simp
qed

lemma Drift_sorted: "\<exists>ms. Drift d rs = Some ms \<and> sorted ms"
proof -
  obtain cl where "class_map d cl" "Drift d rs = Some (drift_classes d rs cl)"
    by (rule Drift_classes)
  then show ?thesis by (simp add: drift_classes_def Let_def split_beta)
qed

text \<open>C4. Reading an instance and comparing it always returns, with a sorted list of
  differences, and the list is empty exactly when the instance has converged: every desired
  MySQL server runs in some hostgroup of its replication class (or, when it must be
  OFFLINE_HARD, nowhere), no unknown server runs, an agreed OFFLINE_SOFT shows on some row,
  PostgreSQL servers are placed exactly, and users and rule ids are equal as sets.\<close>

theorem drift_reports_divergence:
  assumes "answers q T" and "wf_tables T"
  shows "\<exists>rs ms. ReadRuntime q = Inr rs \<and> Drift d rs = Some ms \<and> sorted ms
    \<and> (ms = [] \<longleftrightarrow> converged d T)"
proof -
  obtain ms where ms: "Drift d (snapshot T) = Some ms" "sorted ms" using Drift_sorted by blast
  with Drift_snapshot [of T d] ReadRuntime_snapshot [OF assms] assms(2) show ?thesis
    by (simp add: wf_tables_def)
qed

text \<open>A server declared in writer hostgroup 10 that the monitor moved to reader hostgroup 20 and
  shunned: converged, although the row differs from the specification.\<close>

definition moved_desired :: Desired where
  "moved_desired = emptyDesired
     \<lparr>d_MySQLServers := [zeroMySQLServer\<lparr>ms_Hostgroup := 10, ms_Hostname := ''db''\<rparr>],
      d_MySQLReplicationHostgroups :=
        [\<lparr>rh_WriterHostgroup = 10, rh_ReaderHostgroup = 20, rh_CheckType = [], rh_Comment = []\<rparr>]\<rparr>"

definition moved_tables :: rtTables where
  "moved_tables =
     \<lparr>rtt_mysql_servers = [\<lparr>rt_Hostgroup = 20, rt_Hostname = ''db'', rt_Port = 3306, rt_Status = ''SHUNNED''\<rparr>],
      rtt_mysql_users = [], rtt_mysql_rules = [], rtt_pgsql_servers = [], rtt_pgsql_users = [],
      rtt_pgsql_rules = []\<rparr>"

definition moved_querier :: querier where
  "moved_querier query =
     (if query = ''SELECT hostgroup_id, hostname, port, status FROM runtime_mysql_servers''
      then Inr [[itoa 20, ''db'', itoa 3306, ''SHUNNED'']] else Inr [])"

lemma conn_pair: "(a, b) \<in> conn {(a, b)}"
  by (auto simp: conn_def)

lemma moved_converged: "converged moved_desired moved_tables"
  using conn_pair [of 10 20]
  by (simp add: converged_def moved_desired_def moved_tables_def mysql_servers_converged_def
      pgsql_servers_converged_def Let_def instance_of_def same_place_def pair_edges_def Field_def
      all_ask_def same_desired_def zero_defs statusOfflineHard_def statusOfflineSoft_def
      defaultInt32_def)

theorem drift_reports_divergence_witness:
  "\<exists>rs. ReadRuntime moved_querier = Inr rs \<and> Drift moved_desired rs = Some []"
proof -
  have "answers moved_querier moved_tables"
    by (simp add: answers_def moved_querier_def moved_tables_def serverRow_def)
  moreover have "wf_tables moved_tables"
    by (simp add: wf_tables_def moved_tables_def is_int32_def)
  ultimately show ?thesis
    using drift_reports_divergence [of moved_querier moved_tables moved_desired] moved_converged
    by auto
qed

lemma same_place_sym: "same_place E a b \<Longrightarrow> same_place E b a"
  by (auto simp: same_place_def dest: conn_sym)

lemma same_place_trans: "same_place E a b \<Longrightarrow> same_place E b c \<Longrightarrow> same_place E a c"
  by (auto simp: same_place_def intro: conn_trans)

definition moved :: "(int \<times> int) set \<Rightarrow> rtServer \<Rightarrow> rtServer \<Rightarrow> bool" where
  "moved E r r' \<longleftrightarrow>
     r' = r\<lparr>rt_Hostgroup := rt_Hostgroup r'\<rparr> \<and> same_place E (rt_Hostgroup r) (rt_Hostgroup r')"

lemma moved_instance: "moved E r r' \<Longrightarrow> instance_of E r' = instance_of E r \<and> rt_Status r' = rt_Status r"
  unfolding moved_def instance_of_def fun_eq_iff
  by (metis (no_types, lifting) rtServer.select_convs rtServer.surjective rtServer.update_convs(1)
      same_place_sym same_place_trans)

lemma servers_converged_sig:
  assumes "(\<lambda>r. (instance_of (edges d) r, rt_Status r)) ` set rows =
           (\<lambda>r. (instance_of (edges d) r, rt_Status r)) ` set rows'"
  shows "mysql_servers_converged d rows \<longleftrightarrow> mysql_servers_converged d rows'"
proof -
  have ex: "(\<exists>r \<in> set rows. Q (instance_of (edges d) r) (rt_Status r)) \<longleftrightarrow>
      (\<exists>r \<in> set rows'. Q (instance_of (edges d) r) (rt_Status r))" for Q
  proof -
    have h: "(\<exists>r \<in> set xs. Q (instance_of (edges d) r) (rt_Status r)) \<longleftrightarrow>
        (\<exists>(p, st) \<in> (\<lambda>r. (instance_of (edges d) r, rt_Status r)) ` set xs. Q p st)" for xs by auto
    show ?thesis unfolding h assms ..
  qed
  have all: "(\<forall>r \<in> set rows. \<exists>s \<in> set (d_MySQLServers d). instance_of (edges d) r s) \<longleftrightarrow>
      (\<forall>r \<in> set rows'. \<exists>s \<in> set (d_MySQLServers d). instance_of (edges d) r s)"
    using ex [of "\<lambda>p _. \<not> (\<exists>s \<in> set (d_MySQLServers d). p s)"] by blast
  have i: "(\<exists>r \<in> set rows. instance_of (edges d) r s) \<longleftrightarrow> (\<exists>r \<in> set rows'. instance_of (edges d) r s)"
    and j: "(\<exists>r \<in> set rows. instance_of (edges d) r s \<and> rt_Status r = x) \<longleftrightarrow>
      (\<exists>r \<in> set rows'. instance_of (edges d) r s \<and> rt_Status r = x)" for s x
    using ex [of "\<lambda>p _. p s"] ex [of "\<lambda>p st. p s \<and> st = x"] by simp_all
  show ?thesis
    unfolding mysql_servers_converged_def Let_def all i j ..
qed

text \<open>C31. The moves the read-only monitor makes inside a replication class never turn a converged
  instance into a drifted one, nor hide a drift.\<close>

theorem monitor_moves_are_not_drift:
  assumes "list_all2 (moved (edges d)) rows rows'"
    and "list_all (is_int32 \<circ> rt_Hostgroup) rows" and "list_all (is_int32 \<circ> rt_Hostgroup) rows'"
  shows "Drift d (snapshot (T\<lparr>rtt_mysql_servers := rows'\<rparr>)) = Some []
    \<longleftrightarrow> Drift d (snapshot (T\<lparr>rtt_mysql_servers := rows\<rparr>)) = Some []"
proof -
  have "map (\<lambda>r. (instance_of (edges d) r, rt_Status r)) rows' =
      map (\<lambda>r. (instance_of (edges d) r, rt_Status r)) rows"
    using assms(1) by (induction rule: list_all2_induct) (simp_all add: moved_instance)
  then have "(\<lambda>r. (instance_of (edges d) r, rt_Status r)) ` set rows' =
      (\<lambda>r. (instance_of (edges d) r, rt_Status r)) ` set rows"
    by (metis list.set_map)
  from servers_converged_sig [OF this] show ?thesis
    using assms(2,3) by (simp add: Drift_snapshot converged_def)
qed

theorem monitor_moves_are_not_drift_witness:
  "Drift moved_desired (snapshot (moved_tables\<lparr>rtt_mysql_servers :=
     [\<lparr>rt_Hostgroup = 10, rt_Hostname = ''db'', rt_Port = 3306, rt_Status = ''SHUNNED''\<rparr>]\<rparr>)) = Some []"
proof -
  let ?to = "[\<lparr>rt_Hostgroup = 10, rt_Hostname = ''db'', rt_Port = 3306, rt_Status = ''SHUNNED''\<rparr>]"
  have E: "edges moved_desired = {(10, 20)}" by (simp add: moved_desired_def pair_edges_def)
  have "list_all2 (moved (edges moved_desired)) (rtt_mysql_servers moved_tables) ?to"
    using conn_sym [OF conn_pair [of 10 20]]
    by (simp add: E moved_tables_def moved_def same_place_def Field_def)
  moreover have "list_all (is_int32 \<circ> rt_Hostgroup) (rtt_mysql_servers moved_tables)"
    "list_all (is_int32 \<circ> rt_Hostgroup) ?to"
    by (simp_all add: moved_tables_def is_int32_def)
  moreover from this(1) have "Drift moved_desired (snapshot (moved_tables\<lparr>rtt_mysql_servers :=
      rtt_mysql_servers moved_tables\<rparr>)) = Some []"
    by (simp add: Drift_snapshot moved_converged)
  ultimately show ?thesis
    using monitor_moves_are_not_drift [of moved_desired "rtt_mysql_servers moved_tables" ?to moved_tables]
    by blast
qed


lemma runtimeServerKeys_fold:
  "fst (runtimeServerStatuses hv cl) = fold (\<lambda>k. putMin (runtimeCanon cl k) k) (map fst hv) []"
proof -
  have "fold (\<lambda>(k, _). putMin (runtimeCanon cl k) k) hv m =
      fold (\<lambda>k. putMin (runtimeCanon cl k) k) (map fst hv) m" for m
    by (induction hv arbitrary: m) auto
  then show ?thesis by (simp add: runtimeServerStatuses_def Let_def statuses_loop)
qed

lemma no_admin_status:
  assumes "list_all (\<lambda>s. \<not> isAdminOffline (ms_Status s)) ss"
  shows "mysqlDesiredStatuses ss cl = []"
proof (rule ccontr)
  assume "mysqlDesiredStatuses ss cl \<noteq> []"
  then obtain c st l where "mysqlDesiredStatuses ss cl = (c, st) # l"
    by (metis list.exhaust surj_pair)
  then have "mget (mysqlDesiredStatuses ss cl) c = Some st" by simp
  then have "agreed (map ms_Status (filter (\<lambda>s. mysqlCanon cl s = c) ss)) = Some st"
    by (simp add: mysqlDesiredStatuses_mget)
  with assms show False
    by (fastforce simp: agreed_def list_all_iff filter_eq_Cons_iff split: list.splits if_splits)
qed

text \<open>Health never counts as drift: unless the specification asks for an OFFLINE status, the
  statuses at runtime (SHUNNED, OFFLINE_SOFT, ONLINE) have no influence on the reported
  differences, only which rows are there does.\<close>

theorem drift_ignores_health:
  assumes "list_all (\<lambda>s. \<not> isAdminOffline (ms_Status s)) (d_MySQLServers d)"
    and "mkeys ms = mkeys (rs_MySQLServers rs)" and "mkeys ps = mkeys (rs_PgSQLServers rs)"
  shows "Drift d (rs\<lparr>rs_MySQLServers := ms, rs_PgSQLServers := ps\<rparr>) = Drift d rs"
proof -
  have "drift_classes d (rs\<lparr>rs_MySQLServers := ms, rs_PgSQLServers := ps\<rparr>) = drift_classes d rs"
    using assms(2,3)
    by (simp add: fun_eq_iff drift_classes_def Let_def split_beta runtimeServerKeys_def runtimeServerKeys_fold
        no_admin_status [OF assms(1)] mysqlStatusDrift_def map_filter_simps)
  then show ?thesis by (simp add: Drift_def)
qed

theorem drift_ignores_health_witness:
  "Drift moved_desired (emptyRuntime\<lparr>rs_MySQLServers := [(''20:db:3306'', ''SHUNNED'')]\<rparr>) =
   Drift moved_desired (emptyRuntime\<lparr>rs_MySQLServers := [(''20:db:3306'', ''ONLINE'')]\<rparr>)"
  using drift_ignores_health [of moved_desired "[(''20:db:3306'', ''SHUNNED'')]"
      "emptyRuntime\<lparr>rs_MySQLServers := [(''20:db:3306'', ''ONLINE'')]\<rparr>" "[]"]
  by (simp add: moved_desired_def emptyRuntime_def zero_defs isAdminOffline_def
      statusOfflineSoft_def statusOfflineHard_def)

lemma wrap32_wrap32_add: "wrap32 (wrap32 a + b) = wrap32 (a + b)"
proof -
  have "wrap32 (wrap32 a + b) = ((a + 2 ^ 31) mod 2 ^ 32 + b) mod 2 ^ 32 - 2 ^ 31"
    by (simp add: wrap32_def algebra_simps)
  also have "\<dots> = (a + 2 ^ 31 + b) mod 2 ^ 32 - 2 ^ 31" by (simp only: mod_add_left_eq)
  also have "\<dots> = wrap32 (a + b)" by (simp add: wrap32_def algebra_simps)
  finally show ?thesis .
qed

lemma shunned_fold:
  "fold (\<lambda>(_, status) n. if status = ''SHUNNED'' then wrap32 (n + 1) else n) xs (wrap32 n) =
     wrap32 (n + int (length (filter (\<lambda>(_, status). status = ''SHUNNED'') xs)))"
proof (induction xs arbitrary: n)
  case (Cons x xs)
  then show ?case by (cases x) (simp add: add.assoc wrap32_wrap32_add)
qed simp

text \<open>The count of shunned backends is the number of MySQL and PostgreSQL rows whose status is
  SHUNNED, reduced to 32 bits.\<close>

theorem ShunnedCount_counts:
  "ShunnedCount rs =
     wrap32 (int (length (filter (\<lambda>(_, status). status = ''SHUNNED'')
                    (rs_MySQLServers rs @ rs_PgSQLServers rs))))"
  using shunned_fold [of "rs_MySQLServers rs" 0] shunned_fold [of "rs_PgSQLServers rs"]
  by (simp add: ShunnedCount_def wrap32_def [of 0])


lemma fold_del: "mget (fold (\<lambda>k m. if P k then mdel k m else m) ks m) k =
    (if k \<in> set ks \<and> P k then None else mget m k)"
  by (induction ks arbitrary: m) (auto simp: delete_conv')

definition claimedKey :: "(int, bool) gomap \<Rightarrow> string \<Rightarrow> bool" where
  "claimedKey claimed key =
     (case leadingHostgroup key of Some (hg, _) \<Rightarrow> mgetBool claimed hg | None \<Rightarrow> False)"

definition pluginUser :: "RuntimeState \<Rightarrow> Desired \<Rightarrow> (int, bool) gomap \<Rightarrow> string \<Rightarrow> bool" where
  "pluginUser rs d claimed u \<longleftrightarrow>
     u \<notin> mu_Username ` set (d_MySQLUsers d)
     \<and> (case mget (rs_MySQLUserHostgroups rs) u of Some hg \<Rightarrow> mgetBool claimed hg | None \<Rightarrow> False)"

lemma mapsCopy_id: "mwf m \<Longrightarrow> mapsCopy m [] = m"
  using mapsCopy_fresh [of "[]" m] by simp

lemma fold_del_users:
  "mget (fold (\<lambda>(u, _). mdel u) l m) k = (if k \<in> fst ` set l then None else mget m k)"
  by (induction l arbitrary: m) (auto simp: delete_conv')

definition wf_runtime :: "RuntimeState \<Rightarrow> bool" where
  "wf_runtime rs \<longleftrightarrow>
     mwf (rs_MySQLServers rs) \<and> mwf (rs_MySQLUsers rs) \<and> mwf (rs_MySQLUserHostgroups rs)
     \<and> mwf (rs_MySQLRules rs) \<and> mwf (rs_PgSQLServers rs) \<and> mwf (rs_PgSQLUsers rs)
     \<and> mwf (rs_PgSQLRules rs)"

lemma claimed_users:
  assumes "mwf (rs_MySQLUserHostgroups rs)"
  shows "u \<in> fst ` {x \<in> set (rs_MySQLUserHostgroups rs).
      case x of (u, hg) \<Rightarrow> u \<notin> mu_Username ` set (d_MySQLUsers d) \<and> mgetBool claimed hg}
    \<longleftrightarrow> pluginUser rs d claimed u"
proof -
  have "(u, hg) \<in> set (rs_MySQLUserHostgroups rs) \<longleftrightarrow> mget (rs_MySQLUserHostgroups rs) u = Some hg" for hg
    using assms by simp
  then show ?thesis
    by (auto simp: pluginUser_def image_iff Bex_def split: option.splits)
qed

text \<open>Filtering a snapshot for native comparison takes out exactly the plugin's rows: a server
  goes when its hostgroup is claimed, a user goes when its default hostgroup is claimed and no
  native configuration wants it; every other part of the snapshot stays as it was read.\<close>

theorem NativeRuntime_filters:
  assumes "wf_runtime rs" and "claimed \<noteq> []"
  shows "\<exists>f. NativeRuntime (Some rs) d claimed = Some f
    \<and> mget (rs_MySQLServers f) = (\<lambda>k. if claimedKey claimed k then None else mget (rs_MySQLServers rs) k)
    \<and> mget (rs_MySQLUsers f) =
        (\<lambda>u. if pluginUser rs d claimed u then None else mget (rs_MySQLUsers rs) u)
    \<and> f = rs\<lparr>rs_MySQLServers := rs_MySQLServers f, rs_MySQLUsers := rs_MySQLUsers f,
             rs_MySQLUserHostgroups := rs_MySQLUserHostgroups f\<rparr>"
proof -
  have body: "(\<lambda>key m. case leadingHostgroup key of
        Some (hg, _) \<Rightarrow> if mgetBool claimed hg then mdel key m else m | None \<Rightarrow> m) =
      (\<lambda>key m. if claimedKey claimed key then mdel key m else m)"
    by (auto simp: fun_eq_iff claimedKey_def split: option.splits)
  have nat: "mgetBool (fold (\<lambda>u. mput (mu_Username u) True) us []) u \<longleftrightarrow> u \<in> mu_Username ` set us" for us u
    using fold_mput_True [of mu_Username us "[]"] by (simp add: mgetBool_def)
  have srv: "mget (fold (\<lambda>key m. if claimedKey claimed key then mdel key m else m) (mkeys m) m) k =
      (if claimedKey claimed k then None else mget m k)" for m :: "(string, string) gomap" and k
    using mkeys_mget [of k m] by (auto simp: fold_del)
  show ?thesis
    using assms
    by (simp add: NativeRuntime_def Let_def body nat srv wf_runtime_def copyStringMap_def
        copyBoolMap_def copyInt32Map_def mapsCopy_id fold_del_users claimed_users fun_eq_iff)
qed

theorem NativeRuntime_filters_witness:
  "\<exists>f. NativeRuntime (Some (emptyRuntime\<lparr>rs_MySQLServers := [(''7:db:3306'', ''ONLINE'')]\<rparr>))
        emptyDesired [(7, True)] = Some f
     \<and> mget (rs_MySQLServers f) ''7:db:3306'' = None"
  using NativeRuntime_filters [of "emptyRuntime\<lparr>rs_MySQLServers := [(''7:db:3306'', ''ONLINE'')]\<rparr>"
      "[(7, True)]" emptyDesired]
  by (fastforce simp: wf_runtime_def emptyRuntime_def claimedKey_def leadingHostgroup_def parseInt32_def
      parseNat_def is_digit_def mgetBool_def)

end
