(* ===== verification/CnfVariables.thy ===== *)
theory CnfVariables
  imports GoPrelude
begin

text \<open>
  Reading a rendered \<open>proxysql.cnf\<close> back: \<open>operator/internal/controller/builders/cnf_variables.go\<close>.
  The two regular expressions are written out as functions of a line: a variable line is white
  space, a non-empty run of \<open>[a-z0-9_]\<close>, an equals sign and a value, which the lazy match ends
  before the trailing white space (Go's \<open>\s\<close> is tab, newline, form feed, carriage return and space).
\<close>

section \<open>The operations\<close>

definition proxySQLCnfKey :: string where "proxySQLCnfKey = ''proxysql.cnf''"

definition structuralCnfKeys :: "string list" where
  "structuralCnfKeys =
     [''admin-admin_credentials'', ''admin-mysql_ifaces'', ''mysql-interfaces'', ''pgsql-interfaces'',
      ''mysql-ssl_p2s_ca'', ''mysql-ssl_p2s_cert'', ''mysql-ssl_p2s_key'',
      ''pgsql-ssl_p2s_ca'', ''pgsql-ssl_p2s_cert'', ''pgsql-ssl_p2s_key'']"

definition cnfSectionStart :: "string \<Rightarrow> string option" where
  "cnfSectionStart line =
     (if line = ''admin_variables='' then Some ''admin''
      else if line = ''mysql_variables='' then Some ''mysql''
      else if line = ''pgsql_variables='' then Some ''pgsql''
      else None)"

definition re_space :: "char \<Rightarrow> bool" where
  "re_space c \<longleftrightarrow> code c \<in> {9, 10, 12, 13, 32}"

definition re_key :: "char \<Rightarrow> bool" where
  "re_key c \<longleftrightarrow> 97 \<le> code c \<and> code c \<le> 122 \<or> 48 \<le> code c \<and> code c \<le> 57 \<or> code c = 95"

definition trimRightSpace :: "string \<Rightarrow> string" where
  "trimRightSpace s = rev (dropWhile re_space (rev s))"

definition cnfVarLine :: "string \<Rightarrow> (string \<times> string \<times> string) option" where
  "cnfVarLine line =
     (let leading = takeWhile re_space line; rest = dropWhile re_space line;
          key = takeWhile re_key rest
      in case dropWhile re_key rest of
           c # value \<Rightarrow> if key \<noteq> [] \<and> c = CHR ''='' then Some (leading, key, trimRightSpace value)
                       else None
         | [] \<Rightarrow> None)"

record cnfLine =
  cl_text :: string
  cl_prefix :: string
  cl_key :: string
  cl_fullName :: string
  cl_value :: string
  cl_isVar :: bool

definition textLine :: "string \<Rightarrow> cnfLine" where
  "textLine line =
     \<lparr>cl_text = line, cl_prefix = [], cl_key = [], cl_fullName = [], cl_value = [], cl_isVar = False\<rparr>"

text \<open>The loop over the lines; the state is the section's prefix, if inside one.\<close>

fun scanLines :: "string option \<Rightarrow> string list \<Rightarrow> cnfLine list" where
  "scanLines sec [] = []"
| "scanLines None (line # ls) = textLine line # scanLines (cnfSectionStart line) ls"
| "scanLines (Some prefix) (line # ls) =
     (if line = ''}'' then textLine line # scanLines None ls
      else (case cnfVarLine line of
              Some (leading, key, value) \<Rightarrow>
                \<lparr>cl_text = line, cl_prefix = leading, cl_key = key,
                 cl_fullName = prefix @ ''-'' @ key, cl_value = value, cl_isVar = True\<rparr>
            | None \<Rightarrow> textLine line) # scanLines (Some prefix) ls)"

definition scanCnf :: "string \<Rightarrow> cnfLine list" where
  "scanCnf cnf = scanLines None (splitOn (CHR 0x0A) cnf)"

definition unquote :: "string \<Rightarrow> string" where
  "unquote v =
     (if length v \<ge> 2 \<and> hd v = CHR 0x22 \<and> last v = CHR 0x22 then butlast (tl v) else v)"

definition ParseCnfVariables :: "string \<Rightarrow> (string, string) gomap" where
  "ParseCnfVariables cnf =
     fold (\<lambda>l out.
       if \<not> cl_isVar l then out
       else if cl_fullName l \<in> set structuralCnfKeys then out
       else mput (cl_fullName l) (unquote (cl_value l)) out) (scanCnf cnf) []"

definition normLine :: "cnfLine \<Rightarrow> string" where
  "normLine l =
     (if \<not> cl_isVar l then cl_text l
      else if cl_fullName l \<in> set structuralCnfKeys then cl_text l
      else cl_prefix l @ cl_key l @ ''=<runtime>'')"

definition NormalizeCnf :: "string \<Rightarrow> string" where
  "NormalizeCnf cnf = joinStr [CHR 0x0A] (map normLine (scanCnf cnf))"

section \<open>Normalising and scanning\<close>

text \<open>What normalisation keeps of a line: all of a structural line, the place and name of a variable.\<close>

definition appliable :: "cnfLine \<Rightarrow> bool" where
  "appliable l \<longleftrightarrow> cl_isVar l \<and> cl_fullName l \<notin> set structuralCnfKeys"

definition shape :: "cnfLine \<Rightarrow> string + string \<times> string" where
  "shape l = (if appliable l then Inr (cl_prefix l, cl_fullName l) else Inl (cl_text l))"

lemma cnfVarLine_norm:
  assumes "cnfVarLine line = Some (p, k, v)"
  shows "cnfVarLine (p @ k @ ''=<runtime>'') = Some (p, k, ''<runtime>'')"
proof -
  from assms have p: "p = takeWhile re_space line" and k: "k = takeWhile re_key (dropWhile re_space line)"
    and ne: "k \<noteq> []"
    by (auto simp: cnfVarLine_def Let_def split: list.splits if_splits)
  have ps: "\<forall>c \<in> set p. re_space c" and ks: "\<forall>c \<in> set k. re_key c"
    by (auto simp: p k dest: set_takeWhileD)
  obtain c t where kc: "k = c # t" using ne by (cases k) auto
  then have "\<not> re_space c" using ks by (auto simp: re_space_def re_key_def)
  then have 1: "takeWhile re_space (p @ k @ ''=<runtime>'') = p"
    "dropWhile re_space (p @ k @ ''=<runtime>'') = k @ ''=<runtime>''"
    using ps kc by (simp_all add: takeWhile_append2 dropWhile_append2)
  have "\<not> re_key (CHR ''='')" by (simp add: re_key_def)
  then have 2: "takeWhile re_key (k @ ''=<runtime>'') = k"
    "dropWhile re_key (k @ ''=<runtime>'') = ''=<runtime>''"
    using ks by (simp_all add: takeWhile_append2 dropWhile_append2)
  show ?thesis
    using ne by (simp add: cnfVarLine_def Let_def 1 2 trimRightSpace_def re_space_def)
qed

lemma norm_not_close: "p @ k @ ''=<runtime>'' \<noteq> ''}''"
  by (cases p; cases k) auto

lemma shape_text [simp]: "shape (textLine t) = Inl t" and norm_text [simp]: "normLine (textLine t) = t"
  by (simp_all add: shape_def appliable_def textLine_def normLine_def)

text \<open>Scanning a normalised text sees the same lines: same sections, same variables.\<close>

lemma scanLines_norm:
  "scanLines sec (map normLine (scanLines sec ls)) =
     map (\<lambda>l. if appliable l then l\<lparr>cl_text := normLine l, cl_value := ''<runtime>''\<rparr> else l)
       (scanLines sec ls)"
proof (induction sec ls rule: scanLines.induct)
  case (1 sec)
  then show ?case by simp
next
  case (2 line ls)
  then show ?case by (simp add: appliable_def textLine_def normLine_def)
next
  case (3 prefix line ls)
  show ?case
  proof (cases "line = ''}''")
    case True
    then show ?thesis using 3 by (simp add: appliable_def textLine_def normLine_def)
  next
    case False
    note ih = "3.IH"(2) [OF False]
    show ?thesis
    proof (cases "cnfVarLine line")
      case None
      then show ?thesis using ih False by (simp add: appliable_def textLine_def normLine_def)
    next
      case (Some m)
      obtain p k v where m: "m = (p, k, v)" by (cases m)
      have n: "cnfVarLine (p @ k @ ''=<runtime>'') = Some (p, k, ''<runtime>'')"
        using cnfVarLine_norm Some m by simp
      show ?thesis
        using ih False Some m n norm_not_close [of p k]
        by (auto simp: appliable_def normLine_def)
    qed
  qed
qed

lemma scanLines_texts: "map cl_text (scanLines sec ls) = ls"
  by (induction sec ls rule: scanLines.induct)
     (auto simp: textLine_def split: option.splits prod.splits)

lemma cnfVarLine_subset: "cnfVarLine line = Some (p, k, v) \<Longrightarrow> set p \<union> set k \<subseteq> set line"
  using set_takeWhileD set_dropWhileD
  by (fastforce simp: cnfVarLine_def Let_def split: list.splits if_splits)

lemma scanLines_no_newline:
  "list_all (\<lambda>w. c \<notin> set w) ls \<Longrightarrow> c \<notin> set ''=<runtime>'' \<Longrightarrow>
   list_all (\<lambda>w. c \<notin> set w) (map normLine (scanLines sec ls))"
proof (induction sec ls rule: scanLines.induct)
  case (3 prefix line ls)
  have tl: "list_all (\<lambda>w. c \<notin> set w) (map normLine (scanLines sec' ls))"
    if "sec' = (if line = ''}'' then None else Some prefix)" for sec'
    using that 3 by (cases "line = ''}''") simp_all
  show ?case
  proof (cases "line = ''}'' \<or> cnfVarLine line = None")
    case True
    then show ?thesis using tl "3.prems"(1) by auto
  next
    case False
    then obtain pr k v where m: "cnfVarLine line = Some (pr, k, v)" and ne: "line \<noteq> ''}''" by auto
    have "c \<notin> set pr" "c \<notin> set k"
      using cnfVarLine_subset [OF m] "3.prems"(1) by auto
    then have "c \<notin> set (normLine \<lparr>cl_text = line, cl_prefix = pr, cl_key = k,
        cl_fullName = prefix @ ''-'' @ k, cl_value = v, cl_isVar = True\<rparr>)"
      using "3.prems" by (simp add: normLine_def)
    then show ?thesis using m ne tl by simp
  qed
qed simp_all

lemma scanLines_Nil [simp]: "scanLines sec ls = [] \<longleftrightarrow> ls = []"
  by (cases "(sec, ls)" rule: scanLines.cases) auto

lemma split_normalized: "splitOn (CHR 0x0A) (NormalizeCnf cnf) = map normLine (scanCnf cnf)"
  unfolding NormalizeCnf_def scanCnf_def
  by (intro splitOn_joinStr scanLines_no_newline) (auto simp: list_all_iff dest: splitOn_no_sep)

lemma scan_normalized:
  "scanCnf (NormalizeCnf cnf) =
     map (\<lambda>l. if appliable l then l\<lparr>cl_text := normLine l, cl_value := ''<runtime>''\<rparr> else l)
       (scanCnf cnf)"
  unfolding scanCnf_def [of "NormalizeCnf cnf"] split_normalized
  by (simp add: scanCnf_def scanLines_norm)

lemma shape_normalized: "map shape (scanCnf (NormalizeCnf cnf)) = map shape (scanCnf cnf)"
  by (auto simp: scan_normalized shape_def appliable_def)

text \<open>The name of a scanned variable determines its key: both are the section and the key.\<close>

lemma scanLines_fullName:
  "sec \<in> {None, Some ''admin'', Some ''mysql'', Some ''pgsql''} \<Longrightarrow>
   list_all (\<lambda>l. cl_isVar l \<longrightarrow> cl_key l = drop 6 (cl_fullName l)) (scanLines sec ls)"
proof (induction sec ls rule: scanLines.induct)
  case (2 line ls)
  then show ?case by (auto simp: textLine_def cnfSectionStart_def)
next
  case (3 prefix line ls)
  then show ?case by (auto simp: textLine_def split: option.splits)
qed simp

lemma norm_from_shape:
  assumes "l \<in> set (scanCnf cnf)"
  shows "normLine l = (case shape l of Inl t \<Rightarrow> t | Inr (p, n) \<Rightarrow> p @ drop 6 n @ ''=<runtime>'')"
proof -
  have "cl_isVar l \<longrightarrow> cl_key l = drop 6 (cl_fullName l)"
    using assms scanLines_fullName [of None] by (auto simp: scanCnf_def list_all_iff)
  then show ?thesis by (auto simp: normLine_def shape_def appliable_def)
qed

text \<open>Two rendered files normalise to the same text exactly when they agree line by line on
  everything but the values of runtime-appliable variables: same sections, same structural
  lines verbatim, same variables in the same places. Normalising is idempotent.\<close>

theorem NormalizeCnf_characterised:
  "(NormalizeCnf a = NormalizeCnf b \<longleftrightarrow> map shape (scanCnf a) = map shape (scanCnf b))
   \<and> NormalizeCnf (NormalizeCnf a) = NormalizeCnf a"
proof -
  have det: "NormalizeCnf x = joinStr [CHR 0x0A]
      (map (\<lambda>s. case s of Inl t \<Rightarrow> t | Inr (p, n) \<Rightarrow> p @ drop 6 n @ ''=<runtime>'') (map shape (scanCnf x)))" for x
    unfolding NormalizeCnf_def by (auto simp: norm_from_shape intro!: arg_cong [of _ _ "joinStr _"])
  have eqI: "NormalizeCnf x = NormalizeCnf y" if "map shape (scanCnf x) = map shape (scanCnf y)" for x y
    by (simp only: det [of x] det [of y] that)
  have "map shape (scanCnf a) = map shape (scanCnf b)" if "NormalizeCnf a = NormalizeCnf b"
    using that shape_normalized by metis
  with eqI [of a b] eqI [OF shape_normalized] show ?thesis by blast
qed

end
