(* ===== verification/PodDiscovery.thy ===== *)
theory PodDiscovery
  imports GoPrelude
begin

text \<open>
  The replicas the operator dials: \<open>operator/internal/controller/pod_discovery.go\<close>. The pods are
  what the API server lists for the cluster's label, an error or a list; only the fields the code
  reads are kept.
\<close>

record podCondition =
  pc_Type :: string
  pc_Status :: string

record pod =
  pod_Name :: string
  pod_IP :: string
  pod_Deleting :: bool
  pod_Conditions :: "podCondition list"

record podEndpoint =
  ep_Pod :: string
  ep_Addr :: string
  ep_ServerName :: string

definition podDNSName :: "string \<Rightarrow> string \<Rightarrow> string \<Rightarrow> string" where
  "podDNSName podName clusterName namespace =
     podName @ ''.'' @ clusterName @ ''-headless.'' @ namespace @ ''.svc''"

fun readyIn :: "podCondition list \<Rightarrow> bool" where
  "readyIn [] = False"
| "readyIn (c # cs) = (if pc_Type c = ''Ready'' then pc_Status c = ''True'' else readyIn cs)"

definition isPodReady :: "pod \<Rightarrow> bool" where
  "isPodReady p = readyIn (pod_Conditions p)"

definition discoverPodEndpoints ::
  "string + pod list \<Rightarrow> string \<Rightarrow> string \<Rightarrow> int \<Rightarrow> string + podEndpoint list" where
  "discoverPodEndpoints listed clusterName namespace port =
     (case listed of
        Inl e \<Rightarrow> Inl e
      | Inr pods \<Rightarrow> Inr (sort_key ep_Addr (List.map_filter (\<lambda>p.
          if pod_IP p = [] \<or> pod_Deleting p then None
          else if \<not> isPodReady p then None
          else Some \<lparr>ep_Pod = pod_Name p, ep_Addr = pod_IP p @ '':'' @ itoa port,
                     ep_ServerName = podDNSName (pod_Name p) clusterName namespace\<rparr>) pods)))"

end
