(* ===== verification/RestartChecksum.thy ===== *)
theory RestartChecksum
  imports CnfVariables RuntimeDrift PodDiscovery
begin

text \<open>
  Deciding between a runtime push and a rolling restart:
  \<open>operator/internal/controller/restart_checksum.go\<close>, with \<open>CnfChecksum\<close> of
  \<open>builders/loggingsidecar.go\<close>. The digest (SHA-256 in hexadecimal) is a parameter \<open>sha\<close> of
  the definitions; theorems that need it assume that it has no collisions and is never empty.

  \<open>resolveRestartChecksum\<close> also lists pods, dials them and pushes SQL; those are the fields of
  \<open>pushEnv\<close>, with the admin servers' state \<open>'w\<close> threaded through the statements.
\<close>

section \<open>Digests\<close>

type_synonym secretData = "(string, string) gomap"
type_synonym digest = "string \<Rightarrow> string"

text \<open>\<open>fmt.Fprintf(h, "%d:%s:%d:", len(k), k, len(v)); h.Write(v)\<close>.\<close>

definition frame :: "string \<times> string \<Rightarrow> string" where
  "frame = (\<lambda>(k, v). itoa (int (length k)) @ '':'' @ k @ '':'' @ itoa (int (length v)) @ '':'' @ v)"

definition CnfChecksum :: "digest \<Rightarrow> secretData \<Rightarrow> string" where
  "CnfChecksum sha data = sha (concat (map (\<lambda>k. frame (k, mgetStr data k)) (sortedKeys data)))"

definition structuralValue :: "string \<Rightarrow> string \<Rightarrow> string" where
  "structuralValue k v = (if k = proxySQLCnfKey then NormalizeCnf v else v)"

definition structuralHash :: "digest \<Rightarrow> secretData \<Rightarrow> string" where
  "structuralHash sha data =
     sha (concat (map (\<lambda>k. frame (k, structuralValue k (mgetStr data k))) (sortedKeys data)))"

definition varsHash :: "digest \<Rightarrow> (string, string) gomap \<Rightarrow> string" where
  "varsHash sha vars =
     sha (concat (map (\<lambda>k. k @ ''='' @ mgetStr vars k @ [CHR 0x0A]) (sortedKeys vars)))"

section \<open>Classification\<close>

datatype cnfVerdict = verdictBootHash | verdictKeepPrev | verdictRuntimeTry | verdictStructural

definition diffNonCnfKeys :: "secretData \<Rightarrow> secretData \<Rightarrow> string list" where
  "diffNonCnfKeys oldData newData =
     sort (filter (\<lambda>k. k \<noteq> proxySQLCnfKey \<and> mget oldData k \<noteq> mget newData k)
             (remdups (mkeys oldData @ mkeys newData)))"

definition changedVars :: "(string, string) gomap \<Rightarrow> (string, string) gomap \<Rightarrow> (string, string) gomap" where
  "changedVars oldVars newVars = filter (\<lambda>(k, v). mgetStr oldVars k \<noteq> v) newVars"

definition classifyCnfChange ::
  "digest \<Rightarrow> secretData \<Rightarrow> secretData \<Rightarrow> string \<Rightarrow> string \<Rightarrow> string \<Rightarrow> string
     \<Rightarrow> cnfVerdict \<times> (string, string) gomap \<times> string list \<times> bool" where
  "classifyCnfChange sha oldData newData prev newHash appliedVars structuralApplied =
     (let oldCnf = mgetStr oldData proxySQLCnfKey;
          newCnf = mgetStr newData proxySQLCnfKey;
          newVars = ParseCnfVariables newCnf in
      if prev = [] then (verdictBootHash, [], [], False)
      else if prev = newHash then
        (if length oldData > 0 \<and> appliedVars \<noteq> [] \<and> appliedVars \<noteq> varsHash sha newVars
         then (verdictRuntimeTry, newVars, [], False)
         else (verdictBootHash, [], [], False))
      else if length oldData = 0 \<or> oldCnf = [] then (verdictBootHash, [], [], False)
      else if length (diffNonCnfKeys oldData newData) > 0
      then (verdictStructural, [], diffNonCnfKeys oldData newData, False)
      else if NormalizeCnf oldCnf \<noteq> NormalizeCnf newCnf then (verdictStructural, [], [], False)
      else if structuralApplied \<noteq> [] \<and> structuralApplied \<noteq> structuralHash sha newData
      then (verdictStructural, [], [], True)
      else
        let changed = changedVars (ParseCnfVariables oldCnf) newVars in
        if length changed = 0 then
          (if appliedVars = varsHash sha newVars then (verdictKeepPrev, [], [], False)
           else (verdictRuntimeTry, newVars, [], False))
        else (verdictRuntimeTry, changed, [], False))"

definition domainForFullName :: "string \<Rightarrow> string option" where
  "domainForFullName fullName =
     (if hasPrefix ''admin-'' fullName then Some ''ADMIN''
      else if hasPrefix ''mysql-'' fullName then Some ''MYSQL''
      else if hasPrefix ''pgsql-'' fullName then Some ''PGSQL''
      else None)"

text \<open>The nested map of \<open>groupByDomain\<close>, read at a domain; a missing domain reads as the nil map.\<close>

definition groupByDomain :: "(string, string) gomap \<Rightarrow> (string, (string, string) gomap) gomap" where
  "groupByDomain vars =
     fold (\<lambda>(k, v) out.
       case domainForFullName k of
         None \<Rightarrow> out
       | Some domain \<Rightarrow>
           mput domain (mput k v (case mget out domain of None \<Rightarrow> [] | Some m \<Rightarrow> m)) out) vars []"

section \<open>Pushing to the replicas\<close>

record 'w pushEnv =
  pe_replicas :: int
  pe_endpoints :: "string + podEndpoint list"
  pe_dialTLS :: gerror
  pe_dial :: "string \<Rightarrow> gerror"
  pe_exec :: "string \<Rightarrow> 'w executor"
  pe_query :: "string \<Rightarrow> 'w \<Rightarrow> querier"

definition pushMonitorKeys :: "string list" where
  "pushMonitorKeys = [''mysql-monitor_username'', ''mysql-monitor_password'',
     ''pgsql-monitor_username'', ''pgsql-monitor_password'']"

fun applyDomains ::
  "'w executor \<Rightarrow> string \<Rightarrow> (string, (string, string) gomap) gomap \<Rightarrow> string list \<Rightarrow> 'w \<Rightarrow> 'w \<times> gerror" where
  "applyDomains ex addr byDomain [] w = (w, None)"
| "applyDomains ex addr byDomain (domain # ds) w =
     (let vars = (case mget byDomain domain of None \<Rightarrow> [] | Some m \<Rightarrow> m) in
      if length vars = 0 then applyDomains ex addr byDomain ds w
      else (case ApplyVariables ex vars domain w of
              (w1, Some e) \<Rightarrow> (w1, Some (''apply variables on '' @ addr @ '': '' @ e))
            | (w1, None) \<Rightarrow> applyDomains ex addr byDomain ds w1))"

text \<open>One replica: dial, push per domain, read back, collect the names that did not take.\<close>

definition pushEndpoint ::
  "'w pushEnv \<Rightarrow> (string, string) gomap \<Rightarrow> podEndpoint \<Rightarrow> 'w \<Rightarrow> 'w \<times> (string + string list)" where
  "pushEndpoint env changed ep w =
     (let addr = ep_Addr ep in
      case pe_dial env addr of
        Some e \<Rightarrow> (w, Inl (''dial '' @ addr @ '': '' @ e))
      | None \<Rightarrow>
          (case applyDomains (pe_exec env addr) addr (groupByDomain changed)
                  [''ADMIN'', ''MYSQL'', ''PGSQL''] w of
             (w1, Some e) \<Rightarrow> (w1, Inl e)
           | (w1, None) \<Rightarrow>
               (case ReadGlobalVariables (pe_query env addr w1) (sortedKeys changed) of
                  Inl e \<Rightarrow> (w1, Inl (''read back variables on '' @ addr @ '': '' @ e))
                | Inr got \<Rightarrow> (w1, Inr (mkeys (filter (\<lambda>(k, want). mgetStr got k \<noteq> want) changed))))))"

fun pushAll ::
  "'w pushEnv \<Rightarrow> (string, string) gomap \<Rightarrow> podEndpoint list \<Rightarrow> string list \<Rightarrow> 'w
     \<Rightarrow> 'w \<times> (string + string list)" where
  "pushAll env changed [] mismatched w = (w, Inr mismatched)"
| "pushAll env changed (ep # eps) mismatched w =
     (case pushEndpoint env changed ep w of
        (w1, Inl e) \<Rightarrow> (w1, Inl e)
      | (w1, Inr ks) \<Rightarrow> pushAll env changed eps (mismatched @ ks) w1)"

record restartDecision =
  rd_annotation :: string
  rd_varsApplied :: string
  rd_structuralApplied :: string
  rd_summary :: string

definition structuralMessage :: "string list \<Rightarrow> bool \<Rightarrow> string" where
  "structuralMessage structuralKeys pendingStructural =
     (if pendingStructural then ''RestartRequired: structural change pending from interrupted reconcile''
      else if length structuralKeys > 0
      then ''RestartRequired: structural cnf change ('' @ joinStr '', '' structuralKeys @ '')''
      else ''RestartRequired: structural cnf change'')"

definition resolveRestartChecksum ::
  "digest \<Rightarrow> 'w pushEnv \<Rightarrow> secretData \<Rightarrow> secretData \<Rightarrow> string \<Rightarrow> string \<Rightarrow> string \<Rightarrow> string
     \<Rightarrow> 'w \<Rightarrow> 'w \<times> (string + restartDecision)" where
  "resolveRestartChecksum sha env oldData newData prev newHash appliedVars structuralApplied w =
     (let newVarsHash = varsHash sha (ParseCnfVariables (mgetStr newData proxySQLCnfKey));
          newStructuralHash = structuralHash sha newData;
          decide = \<lambda>annotation summary.
            Inr \<lparr>rd_annotation = annotation, rd_varsApplied = newVarsHash,
                 rd_structuralApplied = newStructuralHash, rd_summary = summary\<rparr>
      in case classifyCnfChange sha oldData newData prev newHash appliedVars structuralApplied of
           (verdictBootHash, _, _, _) \<Rightarrow> (w, decide newHash [])
         | (verdictStructural, _, structuralKeys, pending) \<Rightarrow>
             (w, decide newHash (structuralMessage structuralKeys pending))
         | (verdictKeepPrev, _, _, _) \<Rightarrow> (w, decide prev [])
         | (verdictRuntimeTry, changed, _, _) \<Rightarrow>
             (case pe_endpoints env of
                Inl e \<Rightarrow> (w, Inl e)
              | Inr endpoints \<Rightarrow>
                  if list_ex (\<lambda>key. mget changed key \<noteq> None
                                \<and> int (length endpoints) < pe_replicas env) pushMonitorKeys
                  then (w, decide newHash
                         ''RestartRequired: monitor credentials could not reach every replica'')
                  else if length endpoints = 0 then (w, decide prev [])
                  else (case pe_dialTLS env of
                          Some e \<Rightarrow> (w, Inl e)
                        | None \<Rightarrow>
                            (case pushAll env changed endpoints [] w of
                               (w1, Inl e) \<Rightarrow> (w1, Inl e)
                             | (w1, Inr mismatched) \<Rightarrow>
                                 if length mismatched > 0
                                 then (w1, decide newHash (''RestartRequired: ''
                                        @ joinStr '', '' (sort (remdups mismatched))
                                        @ '' (runtime read-back mismatch)''))
                                 else (w1, decide prev (''RuntimeApplied: ''
                                        @ joinStr '', '' (sortedKeys changed)))))))"

section \<open>What equal digests mean\<close>

lemma itoa_colon_inject:
  "itoa i @ CHR '':'' # x = itoa j @ CHR '':'' # y \<longleftrightarrow> i = j \<and> x = y"
  by (simp add: append_sep_inject)

lemma frame_inject: "frame (k, v) @ x = frame (k', v') @ y \<longleftrightarrow> k = k' \<and> v = v' \<and> x = y"
proof
  assume "frame (k, v) @ x = frame (k', v') @ y"
  then have 1: "length k = length k'"
    "k @ CHR '':'' # itoa (int (length v)) @ CHR '':'' # v @ x =
     k' @ CHR '':'' # itoa (int (length v')) @ CHR '':'' # v' @ y"
    using itoa_colon_inject by (auto simp: frame_def)
  then have 2: "k = k'" "itoa (int (length v)) @ CHR '':'' # v @ x = itoa (int (length v')) @ CHR '':'' # v' @ y"
    by simp_all
  from 2(2) have "length v = length v'" "v @ x = v' @ y" using itoa_colon_inject by auto
  with 2(1) show "k = k' \<and> v = v' \<and> x = y" by simp
qed auto

lemma frame_nonempty: "frame kv \<noteq> []"
  by (cases kv) (simp add: frame_def)

lemma frames_inject: "concat (map frame xs) = concat (map frame ys) \<longleftrightarrow> xs = ys"
proof (induction xs arbitrary: ys)
  case Nil
  then show ?case using frame_nonempty by (cases ys) auto
next
  case (Cons x xs)
  show ?case
  proof (cases ys)
    case Nil
    then show ?thesis using frame_nonempty [of x] by simp
  next
    case (Cons y zs)
    then show ?thesis
      using frame_inject [of "fst x" "snd x" _ "fst y" "snd y"] Cons.IH [of zs]
      by (auto simp: prod_eq_iff)
  qed
qed

text \<open>Reading a map in key order determines it.\<close>

lemma keyed_reading:
  assumes "mwf m" and "mwf m'"
  shows "map (\<lambda>k. (k, f k (mgetStr m k))) (sortedKeys m) = map (\<lambda>k. (k, f k (mgetStr m' k))) (sortedKeys m')
    \<longleftrightarrow> (\<lambda>k. map_option (f k) (mget m k)) = (\<lambda>k. map_option (f k) (mget m' k))"
    (is "?l = ?r \<longleftrightarrow> ?L = ?R")
proof
  have get: "map_of (map (\<lambda>k. (k, f k (mgetStr m k))) (sortedKeys m)) k = map_option (f k) (mget m k)"
    for m :: "(_, string) gomap" and k
  proof (cases "mget m k")
    case None
    then have "k \<notin> set (sortedKeys m)"
      using sortedKeys_props(1) [of m] mkeys_mget [of k m] by blast
    then show ?thesis by (simp add: None map_of_map_restrict)
  next
    case (Some v)
    then have "k \<in> set (sortedKeys m)"
      using sortedKeys_props(1) [of m] mkeys_mget [of k m] by blast
    then show ?thesis using Some by (simp add: map_of_map_restrict mgetStr_def)
  qed
  show "?L = ?R" if "?l = ?r"
  proof (rule ext)
    fix k
    have "map_of ?l k = map_of ?r k" by (simp only: that)
    then show "map_option (f k) (mget m k) = map_option (f k) (mget m' k)" by (simp only: get)
  qed
  assume eq: "?L = ?R"
  have some: "mget m k = None \<longleftrightarrow> mget m' k = None" for k
    using fun_cong [OF eq, of k] by (cases "mget m k"; cases "mget m' k") auto
  have "set (mkeys m) = set (mkeys m')"
    by (intro set_eqI) (simp only: mkeys_mget some)
  then have ks: "sortedKeys m = sortedKeys m'" using assms by (intro sortedKeys_ext) auto
  have "f k (mgetStr m k) = f k (mgetStr m' k)" if "k \<in> set (sortedKeys m')" for k
  proof -
    have "mget m' k \<noteq> None" using that sortedKeys_props(1) [of m'] mkeys_mget [of k m'] by blast
    with fun_cong [OF eq, of k] show ?thesis by (auto simp: mgetStr_def split: option.splits)
  qed
  then show "?l = ?r" by (simp add: ks)
qed

text \<open>Equal structure: same keys, same bytes under every key but \<open>proxysql.cnf\<close>, and there the
  same text up to the values of runtime-appliable variables.\<close>

definition same_structure :: "secretData \<Rightarrow> secretData \<Rightarrow> bool" where
  "same_structure a b \<longleftrightarrow>
     (\<forall>k. if k = proxySQLCnfKey
          then map_option NormalizeCnf (mget a k) = map_option NormalizeCnf (mget b k)
          else mget a k = mget b k)"

lemma same_structure_values:
  "same_structure a b \<longleftrightarrow>
     (\<lambda>k. map_option (structuralValue k) (mget a k)) = (\<lambda>k. map_option (structuralValue k) (mget b k))"
proof -
  have v: "structuralValue k = (if k = proxySQLCnfKey then NormalizeCnf else (\<lambda>v. v))" for k
    by (auto simp: structuralValue_def)
  have "(if k = proxySQLCnfKey then map_option NormalizeCnf (mget a k) = map_option NormalizeCnf (mget b k)
         else mget a k = mget b k) \<longleftrightarrow>
      map_option (structuralValue k) (mget a k) = map_option (structuralValue k) (mget b k)" for k
    by (simp add: v option.map_ident)
  then show ?thesis by (simp add: same_structure_def fun_eq_iff)
qed

lemma structural_pre:
  "structuralHash sha d =
     sha (concat (map frame (map (\<lambda>k. (k, structuralValue k (mgetStr d k))) (sortedKeys d))))"
  by (simp add: structuralHash_def comp_def)

lemma checksum_pre:
  "CnfChecksum sha d = sha (concat (map frame (map (\<lambda>k. (k, (\<lambda>_ v. v) k (mgetStr d k))) (sortedKeys d))))"
  by (simp add: CnfChecksum_def comp_def)

lemma structuralHash_eq:
  assumes "inj sha" and "mwf a" and "mwf b"
  shows "structuralHash sha a = structuralHash sha b \<longleftrightarrow> same_structure a b"
  unfolding structural_pre same_structure_values inj_eq [OF assms(1)] frames_inject
  by (rule keyed_reading [OF assms(2,3)])

lemma CnfChecksum_eq:
  assumes "inj sha" and "mwf a" and "mwf b"
  shows "CnfChecksum sha a = CnfChecksum sha b \<longleftrightarrow> mget a = mget b"
  unfolding checksum_pre inj_eq [OF assms(1)] frames_inject
  by (subst keyed_reading [OF assms(2,3)]) (simp add: option.map_ident fun_eq_iff)

end
