(* ===== verification/RestartSafety.thy ===== *)
theory RestartSafety
  imports RestartChecksum
begin

text \<open>
  Crash safety of the restart decision. The reconcile loop is a step relation on what it leaves
  behind (Secret, StatefulSet annotations, the content the pods booted from); an invariant over
  reachable states shows that no structural restart is lost to an interruption. For variable
  values the section shows what a push achieves, and the case in which one is lost.
\<close>

section \<open>Interrupted reconciles\<close>

text \<open>
  What the cluster controller leaves behind of a reconcile (\<open>Reconcile\<close> in
  \<open>proxysqlcluster_controller.go\<close>): the cnf Secret, which it writes first, the three annotations
  of the StatefulSet, which it writes last, and the Secret content the pods booted from, which
  changes when the pod-template annotation does. An interrupted reconcile (a crash, or a push
  that fails) has written the Secret only.
\<close>

record 'w opState =
  os_world :: 'w
  os_secret :: secretData
  os_sts :: "(string \<times> string \<times> string) option"
  os_running :: secretData

definition currentAnnotations :: "'w opState \<Rightarrow> string \<times> string \<times> string" where
  "currentAnnotations s = (case os_sts s of None \<Rightarrow> ([], [], []) | Some a \<Rightarrow> a)"

definition commit :: "'w opState \<Rightarrow> secretData \<Rightarrow> restartDecision \<Rightarrow> 'w \<Rightarrow> 'w opState" where
  "commit s newData rd w =
     \<lparr>os_world = w, os_secret = newData,
      os_sts = Some (rd_annotation rd, rd_varsApplied rd, rd_structuralApplied rd),
      os_running = (if os_sts s = None \<or> rd_annotation rd \<noteq> fst (currentAnnotations s)
                    then newData else os_running s)\<rparr>"

inductive op_step :: "digest \<Rightarrow> 'w opState \<Rightarrow> secretData \<Rightarrow> 'w opState \<Rightarrow> bool" for sha where
  interrupted: "mwf newData \<Longrightarrow> op_step sha s newData (s\<lparr>os_world := w, os_secret := newData\<rparr>)"
| completed:
    "mwf newData \<Longrightarrow> currentAnnotations s = (prev, vm, sm) \<Longrightarrow>
     resolveRestartChecksum sha env (os_secret s) newData prev (CnfChecksum sha newData) vm sm (os_world s)
       = (w', Inr rd) \<Longrightarrow>
     op_step sha s newData (commit s newData rd w')"

inductive reachable :: "digest \<Rightarrow> 'w opState \<Rightarrow> bool" for sha where
  fresh: "reachable sha \<lparr>os_world = w, os_secret = [], os_sts = None, os_running = []\<rparr>"
| step: "reachable sha s \<Longrightarrow> op_step sha s newData s' \<Longrightarrow> reachable sha s'"

inductive_cases op_stepE: "op_step sha s newData s'"

definition op_inv :: "digest \<Rightarrow> 'w opState \<Rightarrow> bool" where
  "op_inv sha s \<longleftrightarrow>
     mwf (os_running s) \<and>
     (case os_sts s of
        None \<Rightarrow> True
      | Some (prev, vm, sm) \<Rightarrow>
          prev = CnfChecksum sha (os_running s) \<and> sm = structuralHash sha (os_running s))"

text \<open>What a decision says about the pod template: the new checksum, or the old one and then only
  when the structural marker vouches for the new content.\<close>

lemma resolve_annotation:
  assumes "resolveRestartChecksum sha env old new prev newHash vm sm w = (w', Inr rd)"
  shows "rd_structuralApplied rd = structuralHash sha new
    \<and> (rd_annotation rd = newHash \<or> rd_annotation rd = prev \<and> prev \<noteq> [] \<and>
         (prev = newHash \<or> sm = [] \<or> sm = structuralHash sha new))"
proof -
  obtain v ch sk pd where c: "classifyCnfChange sha old new prev newHash vm sm = (v, ch, sk, pd)"
    by (metis prod_cases4)
  have ok: "prev \<noteq> [] \<and> (prev = newHash \<or> sm = [] \<or> sm = structuralHash sha new)"
    if "v = verdictKeepPrev \<or> v = verdictRuntimeTry"
    using c that by (auto simp: classifyCnfChange_def Let_def split: if_splits)
  show ?thesis
  proof (cases v)
    case verdictRuntimeTry
    with assms c ok show ?thesis
      by (auto simp: resolveRestartChecksum_def Let_def split: sum.splits if_splits option.splits prod.splits)
  qed (use assms c ok in \<open>auto simp: resolveRestartChecksum_def Let_def\<close>)
qed

lemma op_inv_step:
  assumes "inj sha" and "\<And>x. sha x \<noteq> []" and "op_inv sha s" and "op_step sha s new s'"
  shows "op_inv sha s'"
  using assms(4)
proof (cases rule: op_step.cases)
  case interrupted
  then show ?thesis using assms(3) by (auto simp: op_inv_def split: option.splits)
next
  case (completed prev vm sm env w' rd)
  have hash: "structuralHash sha x \<noteq> []" "CnfChecksum sha x \<noteq> []" for x
    using assms(2) by (simp_all add: structuralHash_def CnfChecksum_def)
  note ra = resolve_annotation [OF completed(4)]
  show ?thesis
  proof (cases "os_sts s")
    case None
    then have "prev = []" using completed(3) by (simp add: currentAnnotations_def)
    then show ?thesis
      using None completed ra by (auto simp: op_inv_def commit_def)
  next
    case (Some a)
    then have a: "a = (prev, vm, sm)" using completed(3) by (simp add: currentAnnotations_def)
    then have inv: "mwf (os_running s)" "prev = CnfChecksum sha (os_running s)"
      "sm = structuralHash sha (os_running s)"
      using assms(3) Some by (simp_all add: op_inv_def)
    have same: "structuralHash sha (os_running s) = structuralHash sha new"
      if "prev = CnfChecksum sha new"
    proof -
      have "mget (os_running s) = mget new"
        using that inv CnfChecksum_eq [OF assms(1) inv(1) completed(2)] by simp
      then show ?thesis
        using structuralHash_eq [OF assms(1) inv(1) completed(2)] by (simp add: same_structure_def)
    qed
    show ?thesis
    proof (cases "rd_annotation rd = prev")
      case True
      with ra hash inv same have "structuralHash sha (os_running s) = structuralHash sha new" by auto
      with True show ?thesis
        using Some a inv ra completed(1,3) by (simp add: op_inv_def commit_def)
    next
      case False
      with ra have "rd_annotation rd = CnfChecksum sha new" by auto
      then show ?thesis
        using False ra completed by (simp add: op_inv_def commit_def)
    qed
  qed
qed

lemma op_inv_reachable:
  assumes "inj sha" and "\<And>x. sha x \<noteq> []" and "reachable sha s"
  shows "op_inv sha s"
  using assms(3)
proof (induction rule: reachable.induct)
  case fresh
  then show ?case by (simp add: op_inv_def)
next
  case (step s new s')
  then show ?case using op_inv_step [OF assms(1,2)] by blast
qed


text \<open>C5. No restart is lost to an interruption: whatever sequence of completed and interrupted
  reconciles led here, with whatever configurations and whatever the pods answered, a reconcile
  that completes leaves the pods booted from content with the structure of the configuration it
  reconciled, so that at most runtime-appliable variable values differ.\<close>

theorem completed_reconcile_structure:
  assumes "inj sha" and "\<And>x. sha x \<noteq> []" and "reachable sha s" and "mwf newData"
    and "currentAnnotations s = (prev, vm, sm)"
    and "resolveRestartChecksum sha env (os_secret s) newData prev (CnfChecksum sha newData) vm sm
           (os_world s) = (w', Inr rd)"
  shows "same_structure (os_running (commit s newData rd w')) newData"
proof -
  have inv: "op_inv sha (commit s newData rd w')"
    using op_inv_step [OF assms(1,2) op_inv_reachable [OF assms(1-3)]
        op_step.completed [OF assms(4-6)]] .
  have "rd_structuralApplied rd = structuralHash sha newData"
    using resolve_annotation [OF assms(6)] by simp
  with inv have "structuralHash sha (os_running (commit s newData rd w')) = structuralHash sha newData"
    "mwf (os_running (commit s newData rd w'))"
    by (simp_all add: op_inv_def commit_def)
  then show ?thesis using structuralHash_eq [OF assms(1) _ assms(4)] by blast
qed

text \<open>The history: configuration \<open>A\<close> completes, \<open>B\<close> (a different data directory) is interrupted
  after the Secret is written, and \<open>B\<close> again completes: the Secret no longer differs, yet the
  pods are restarted.\<close>

definition cnf_A :: secretData where
  "cnf_A = [(proxySQLCnfKey, ''datadir=a'')]"

definition cnf_B :: secretData where
  "cnf_B = [(proxySQLCnfKey, ''datadir=b'')]"

definition mark :: digest where
  "mark s = CHR ''#'' # s"

definition no_pods :: "unit pushEnv" where
  "no_pods = \<lparr>pe_replicas = 1, pe_endpoints = Inr [], pe_dialTLS = None, pe_dial = (\<lambda>_. None),
     pe_exec = (\<lambda>_ w _. (w, None)), pe_query = (\<lambda>_ _ _. Inr [])\<rparr>"

definition decision_for :: "secretData \<Rightarrow> string \<Rightarrow> restartDecision" where
  "decision_for d msg = \<lparr>rd_annotation = CnfChecksum mark d, rd_varsApplied = varsHash mark [],
     rd_structuralApplied = structuralHash mark d, rd_summary = msg\<rparr>"

definition pending_B :: "unit opState" where
  "pending_B = (commit \<lparr>os_world = (), os_secret = [], os_sts = None, os_running = []\<rparr> cnf_A
     (decision_for cnf_A []) ())\<lparr>os_world := (), os_secret := cnf_B\<rparr>"

lemma no_vars_AB:
  "ParseCnfVariables (mgetStr cnf_A proxySQLCnfKey) = []" "ParseCnfVariables (mgetStr cnf_B proxySQLCnfKey) = []"
  by code_simp+

lemma checksums_AB:
  "CnfChecksum mark cnf_A \<noteq> CnfChecksum mark cnf_B" "structuralHash mark cnf_A \<noteq> structuralHash mark cnf_B"
  "CnfChecksum mark cnf_A \<noteq> []" "structuralHash mark cnf_A \<noteq> []"
  by code_simp+

lemma reachable_pending: "reachable mark pending_B"
proof -
  let ?s0 = "\<lparr>os_world = (), os_secret = [], os_sts = None, os_running = []\<rparr>"
  have "op_step mark ?s0 cnf_A (commit ?s0 cnf_A (decision_for cnf_A []) ())"
    by (rule op_step.completed [where env = no_pods])
       (simp_all add: cnf_A_def currentAnnotations_def resolveRestartChecksum_def classifyCnfChange_def
        Let_def decision_for_def no_vars_AB [unfolded cnf_A_def])
  from reachable.step [OF reachable.fresh this]
  have "reachable mark (commit ?s0 cnf_A (decision_for cnf_A []) ())" .
  moreover have "op_step mark (commit ?s0 cnf_A (decision_for cnf_A []) ()) cnf_B pending_B"
    using op_step.interrupted [of cnf_B mark "commit ?s0 cnf_A (decision_for cnf_A []) ()" "()"]
    by (simp add: pending_B_def cnf_B_def)
  ultimately show ?thesis by (rule reachable.step)
qed

theorem completed_reconcile_structure_witness:
  "same_structure (os_running (commit pending_B cnf_B (decision_for cnf_B
     ''RestartRequired: structural change pending from interrupted reconcile'') ())) cnf_B"
proof (rule completed_reconcile_structure [OF _ _ reachable_pending])
  show "inj mark" by (simp add: inj_def mark_def)
  show "mark x \<noteq> []" for x by (simp add: mark_def)
  show "mwf cnf_B" by (simp add: cnf_B_def)
  show "currentAnnotations pending_B =
      (CnfChecksum mark cnf_A, varsHash mark [], structuralHash mark cnf_A)"
    by (simp add: pending_B_def commit_def currentAnnotations_def decision_for_def)
  show "resolveRestartChecksum mark no_pods (os_secret pending_B) cnf_B (CnfChecksum mark cnf_A)
      (CnfChecksum mark cnf_B) (varsHash mark []) (structuralHash mark cnf_A) (os_world pending_B) =
    ((), Inr (decision_for cnf_B ''RestartRequired: structural change pending from interrupted reconcile''))"
    using checksums_AB no_vars_AB
    by (simp add: resolveRestartChecksum_def classifyCnfChange_def Let_def decision_for_def
        pending_B_def commit_def structuralMessage_def diffNonCnfKeys_def)
       (simp add: cnf_B_def mgetStr_def)
qed

text \<open>The structural digest means what it says: for a digest without collisions, two Secrets
  have equal structural hashes exactly when they have the same keys, the same bytes under every
  key but \<open>proxysql.cnf\<close>, and there texts that differ at most in the values of
  runtime-appliable variables; and equal checksums exactly when they are equal.\<close>

theorem structuralHash_means_structure:
  assumes "inj sha" and "mwf a" and "mwf b"
  shows "(structuralHash sha a = structuralHash sha b \<longleftrightarrow> same_structure a b)
    \<and> (CnfChecksum sha a = CnfChecksum sha b \<longleftrightarrow> mget a = mget b)"
  using structuralHash_eq [OF assms] CnfChecksum_eq [OF assms] by blast

theorem structuralHash_means_structure_witness:
  "structuralHash mark cnf_A = structuralHash mark cnf_A \<longleftrightarrow> same_structure cnf_A cnf_A"
proof -
  have "inj mark" by (simp add: inj_def mark_def)
  moreover have "mwf cnf_A" by (simp add: cnf_A_def)
  ultimately show ?thesis using structuralHash_means_structure [of mark cnf_A cnf_A] by blast
qed

section \<open>What a runtime push achieves\<close>

definition overlay :: "(string, string) gomap \<Rightarrow> (string, string) gomap \<Rightarrow> string \<Rightarrow> string option" where
  "overlay live changed = mget live ++ mget changed"

definition appliableNames :: "string \<Rightarrow> string set" where
  "appliableNames cnf = {n. \<exists>p. Inr (p, n) \<in> set (map shape (scanCnf cnf))}"

lemma parse_fold:
  "mwf m \<Longrightarrow>
   (let r = fold (\<lambda>l out. if \<not> cl_isVar l then out
                    else if cl_fullName l \<in> set structuralCnfKeys then out
                    else mput (cl_fullName l) (unquote (cl_value l)) out) ls m
    in mwf r \<and> fst ` set r = fst ` set m \<union> {n. \<exists>p. Inr (p, n) \<in> shape ` set ls})"
proof (induction ls arbitrary: m)
  case (Cons l ls)
  show ?case
  proof (cases "appliable l")
    case True
    have "mwf (mput (cl_fullName l) (unquote (cl_value l)) m)"
      using Cons.prems by (simp add: distinct_update)
    from Cons.IH [OF this] True show ?thesis
      by (auto simp: Let_def shape_def dom_update appliable_def)
  next
    case False
    from Cons.IH [OF Cons.prems] False show ?thesis
      by (auto simp: Let_def shape_def appliable_def)
  qed
qed simp

lemma ParseCnfVariables_dom:
  "mwf (ParseCnfVariables cnf)" "fst ` set (ParseCnfVariables cnf) = appliableNames cnf"
  using parse_fold [of "[]" "scanCnf cnf"]
  by (simp_all add: ParseCnfVariables_def Let_def appliableNames_def)

lemma normalized_same_names:
  "NormalizeCnf a = NormalizeCnf b \<Longrightarrow> appliableNames a = appliableNames b"
  using shape_normalized by (metis appliableNames_def)

lemma mget_filter:
  "mwf m \<Longrightarrow> mget (filter (\<lambda>(k, v). P k v) m) k =
     (case mget m k of Some v \<Rightarrow> if P k v then Some v else None | None \<Rightarrow> None)"
proof (induction m)
  case (Cons kv m)
  then have "fst kv = k \<Longrightarrow> mget m k = None" by (auto simp: map_of_eq_None_iff)
  with Cons show ?case by (cases kv) (auto split: option.splits)
qed simp

lemma overlay_changed:
  assumes "fst ` set old = fst ` set new" and "mwf new"
  shows "overlay old (changedVars old new) = mget new"
proof
  fix k
  show "overlay old (changedVars old new) k = mget new k"
  proof (cases "mget new k")
    case None
    then have "k \<notin> fst ` set new" by (simp add: map_of_eq_None_iff)
    then have "mget old k = None" "mget (changedVars old new) k = None"
      using assms(1) by (auto simp: map_of_eq_None_iff changedVars_def)
    then show ?thesis by (simp add: overlay_def map_add_def None)
  next
    case (Some v)
    have c: "mget (changedVars old new) k = (if mgetStr old k \<noteq> v then Some v else None)"
      using assms(2) Some by (simp add: changedVars_def mget_filter)
    have "k \<in> fst ` set old" using Some assms(1) by (metis map_of_eq_None_iff option.distinct(1))
    then obtain o' where "mget old k = Some o'" by (metis map_of_eq_None_iff not_None_eq)
    with c Some show ?thesis by (auto simp: overlay_def map_add_def mgetStr_def)
  qed
qed

lemma overlay_full:
  assumes "fst ` set old = fst ` set new"
  shows "overlay old new = mget new"
proof
  fix k
  have "mget new k = None \<Longrightarrow> mget old k = None" using assms by (simp add: map_of_eq_None_iff)
  then show "overlay old new k = mget new k" by (auto simp: overlay_def map_add_def split: option.splits)
qed

text \<open>A runtime push is complete for replicas that run the previous Secret's variables: writing
  the variables it is given over those of the old configuration yields exactly the variables of
  the new one, so nothing outside the push has to change.\<close>

theorem runtime_push_reaches_new_vars:
  assumes "classifyCnfChange sha old new prev newHash vm sm = (verdictRuntimeTry, changed, ks, p)"
    and "prev \<noteq> newHash"
  shows "overlay (ParseCnfVariables (mgetStr old proxySQLCnfKey)) changed =
    mget (ParseCnfVariables (mgetStr new proxySQLCnfKey))"
proof -
  let ?o = "ParseCnfVariables (mgetStr old proxySQLCnfKey)"
  let ?n = "ParseCnfVariables (mgetStr new proxySQLCnfKey)"
  have norm: "NormalizeCnf (mgetStr old proxySQLCnfKey) = NormalizeCnf (mgetStr new proxySQLCnfKey)"
    and ch: "changed = ?n \<or> changed = changedVars ?o ?n"
    using assms by (auto simp: classifyCnfChange_def Let_def split: if_splits)
  have "fst ` set ?o = fst ` set ?n"
    using normalized_same_names [OF norm] by (simp add: ParseCnfVariables_dom)
  with ch show ?thesis
    using overlay_changed overlay_full ParseCnfVariables_dom(1) by metis
qed

text \<open>Three versions of one file: \<open>B\<close> changes the first variable, \<open>C\<close> the second as well.\<close>

definition varsCnf :: "string \<Rightarrow> string \<Rightarrow> secretData" where
  "varsCnf a b = [(proxySQLCnfKey, joinStr [CHR 0x0A]
     [''mysql_variables='', ''{'', ''  threads='' @ a, ''  weight='' @ b, ''}''])]"

theorem runtime_push_reaches_new_vars_witness:
  "overlay (ParseCnfVariables (mgetStr (varsCnf ''4'' ''1'') proxySQLCnfKey)) [(''mysql-threads'', ''8'')] =
    mget (ParseCnfVariables (mgetStr (varsCnf ''8'' ''1'') proxySQLCnfKey))"
proof (rule runtime_push_reaches_new_vars)
  show "classifyCnfChange mark (varsCnf ''4'' ''1'') (varsCnf ''8'' ''1'') ''x'' ''y'' [] [] =
      (verdictRuntimeTry, [(''mysql-threads'', ''8'')], [], False)"
    by code_simp
  show "''x'' \<noteq> ''y''" by simp
qed


end
