(* ===== verification/ConfigTypes.thy ===== *)
theory ConfigTypes
  imports ClientTypes
begin

text \<open>
  The user-facing resource types the configuration controller reads and writes:
  \<open>operator/api/v1alpha1/proxysqlconfig_types.go\<close>. Names that coincide with the resolved types
  of \<open>ClientTypes\<close> carry the prefix \<open>Cfg\<close>. Of the object metadata the fields the code reads are
  kept; time stamps are integers (nanoseconds), \<^term>\<open>None\<close> for a nil pointer.
\<close>

section \<open>The specification\<close>

record SecretKeySelector =
  sk_Name :: string
  sk_Key :: string

record AWSAuthSpec =
  aa_AuthScheme :: string
  aa_ClientPasswordAuthType :: string
  aa_Description :: string
  aa_IAMAuth :: string
  aa_SecretARN :: string
  aa_UserName :: string

record AWSConnectionPoolConfigSpec =
  ac_ConnectionBorrowTimeout :: "int option"
  ac_InitQuery :: "string option"
  ac_MaxConnectionsPercent :: "int option"
  ac_MaxIdleConnectionsPercent :: "int option"
  ac_SessionPinningFilters :: "string list"

record AWSTargetGroupSpec =
  ag_TargetGroupName :: string
  ag_ConnectionPoolConfig :: AWSConnectionPoolConfigSpec

record AWSTargetSpec =
  at_TargetGroupName :: string
  at_DBClusterIdentifiers :: "string list"
  at_DBInstanceIdentifiers :: "string list"

record AWSTagSpec =
  ak_Key :: string
  ak_Value :: string

record AWSDBProxySpec =
  ad_EngineFamily :: string
  ad_Auth :: "AWSAuthSpec list"
  ad_DefaultAuthScheme :: string
  ad_RoleARN :: string
  ad_DebugLogging :: bool
  ad_IdleClientTimeout :: int
  ad_RequireTLS :: bool
  ad_TargetGroups :: "AWSTargetGroupSpec list"
  ad_Targets :: "AWSTargetSpec list"
  ad_Tags :: "AWSTagSpec list"

record AWSConfigSpec =
  aw_DBProxy :: "AWSDBProxySpec option"

record ConfigPluginSpec =
  pl_AWS :: "AWSConfigSpec option"

record CfgMySQLServer =
  cms_Hostgroup :: int
  cms_Hostname :: string
  cms_Port :: int
  cms_Weight :: "int option"
  cms_MaxConnections :: "int option"
  cms_MaxReplicationLag :: "int option"
  cms_UseSSL :: "bool option"
  cms_Status :: string
  cms_Comment :: string

record CfgMySQLUser =
  cmu_Username :: string
  cmu_PasswordSecretRef :: SecretKeySelector
  cmu_DefaultHostgroup :: int
  cmu_Active :: "bool option"
  cmu_MaxConnections :: "int option"
  cmu_UseSSL :: "bool option"
  cmu_DefaultSchema :: string
  cmu_TransactionPersistent :: "bool option"
  cmu_Comment :: string

record CfgMySQLQueryRule =
  cmr_RuleID :: int
  cmr_Active :: "bool option"
  cmr_Username :: string
  cmr_SchemaName :: string
  cmr_MatchPattern :: string
  cmr_MatchDigest :: string
  cmr_DestinationHostgroup :: "int option"
  cmr_ReplacePattern :: string
  cmr_MirrorHostgroup :: "int option"
  cmr_Timeout :: "int option"
  cmr_Delay :: "int option"
  cmr_ErrorMessage :: string
  cmr_FlagIn :: "int option"
  cmr_FlagOut :: "int option"
  cmr_Log :: "bool option"
  cmr_CacheTTL :: "int option"
  cmr_CacheEmptyResult :: "bool option"
  cmr_Apply :: "bool option"
  cmr_Comment :: string

record CfgMySQLReplicationHostgroup =
  crh_WriterHostgroup :: int
  crh_ReaderHostgroup :: int
  crh_CheckType :: string
  crh_Comment :: string

record CfgMySQLHostgroupAttributes =
  cha_Hostgroup :: int
  cha_MaxNumOnlineServers :: "int option"
  cha_Autocommit :: "int option"
  cha_FreeConnectionsPct :: "int option"
  cha_InitConnect :: string
  cha_Multiplex :: "bool option"
  cha_ConnectionWarming :: "bool option"
  cha_ThrottleConnectionsPerSec :: "int option"
  cha_IgnoreSessionVariables :: string
  cha_Comment :: string

record CfgPostgreSQLServer =
  cps_Hostgroup :: int
  cps_Hostname :: string
  cps_Port :: int
  cps_Weight :: "int option"
  cps_MaxConnections :: "int option"
  cps_UseSSL :: "bool option"
  cps_Comment :: string

record CfgPostgreSQLUser =
  cpu_Username :: string
  cpu_PasswordSecretRef :: SecretKeySelector
  cpu_DefaultHostgroup :: int
  cpu_Active :: "bool option"
  cpu_Comment :: string

record CfgPostgreSQLQueryRule =
  cpr_RuleID :: int
  cpr_Active :: "bool option"
  cpr_MatchPattern :: string
  cpr_DestinationHostgroup :: "int option"
  cpr_ReplacePattern :: string
  cpr_MirrorHostgroup :: "int option"
  cpr_Timeout :: "int option"
  cpr_Delay :: "int option"
  cpr_ErrorMessage :: string
  cpr_FlagIn :: "int option"
  cpr_FlagOut :: "int option"
  cpr_Log :: "bool option"
  cpr_CacheTTL :: "int option"
  cpr_CacheEmptyResult :: "bool option"
  cpr_Apply :: "bool option"
  cpr_Comment :: string

record ProxySQLServerEntry =
  cpx_Hostname :: string
  cpx_Port :: int
  cpx_Weight :: int
  cpx_Comment :: string

record ProxySQLConfigSpec =
  sp_ClusterRef :: string
  sp_Version :: int
  sp_Plugin :: "ConfigPluginSpec option"
  sp_MySQLServers :: "CfgMySQLServer list"
  sp_MySQLUsers :: "CfgMySQLUser list"
  sp_MySQLQueryRules :: "CfgMySQLQueryRule list"
  sp_MySQLReplicationHostgroups :: "CfgMySQLReplicationHostgroup list"
  sp_MySQLHostgroupAttributes :: "CfgMySQLHostgroupAttributes list"
  sp_PostgreSQLServers :: "CfgPostgreSQLServer list"
  sp_PostgreSQLUsers :: "CfgPostgreSQLUser list"
  sp_PostgreSQLQueryRules :: "CfgPostgreSQLQueryRule list"
  sp_ProxySQLServers :: "ProxySQLServerEntry list"
  sp_AdminVariables :: "(string, string) gomap"
  sp_MySQLVariables :: "(string, string) gomap"
  sp_PostgreSQLVariables :: "(string, string) gomap"
  sp_SQLStatements :: "string list"

section \<open>The status\<close>

record Condition =
  cd_Type :: string
  cd_Status :: string
  cd_Reason :: string
  cd_Message :: string
  cd_ObservedGeneration :: int

record ProxySQLConfigReplicaStatus =
  rp_Pod :: string
  rp_ObservedVersion :: int
  rp_Converged :: bool
  rp_Drifted :: bool
  rp_Reason :: string
  rp_LastCheckTime :: "int option"

record ProxySQLConfigStatus =
  st_ObservedGeneration :: int
  st_ObservedVersion :: int
  st_LastAppliedHash :: string
  st_LastSyncTime :: "int option"
  st_SyncedReplicas :: int
  st_DriftedReplicas :: int
  st_ShunnedBackends :: int
  st_LastRuntimeCheckTime :: "int option"
  st_Replicas :: "ProxySQLConfigReplicaStatus list"
  st_Conditions :: "Condition list"

record ProxySQLConfig =
  cf_Name :: string
  cf_Namespace :: string
  cf_Generation :: int
  cf_Deleting :: bool
  cf_Finalizers :: "string list"
  cf_Annotations :: "(string, string) gomap"
  cf_Spec :: ProxySQLConfigSpec
  cf_Status :: ProxySQLConfigStatus

definition zeroConfigSpec :: ProxySQLConfigSpec where
  "zeroConfigSpec =
     \<lparr>sp_ClusterRef = [], sp_Version = 0, sp_Plugin = None, sp_MySQLServers = [], sp_MySQLUsers = [],
      sp_MySQLQueryRules = [], sp_MySQLReplicationHostgroups = [], sp_MySQLHostgroupAttributes = [],
      sp_PostgreSQLServers = [], sp_PostgreSQLUsers = [], sp_PostgreSQLQueryRules = [],
      sp_ProxySQLServers = [], sp_AdminVariables = [], sp_MySQLVariables = [],
      sp_PostgreSQLVariables = [], sp_SQLStatements = []\<rparr>"

definition zeroConfigStatus :: ProxySQLConfigStatus where
  "zeroConfigStatus =
     \<lparr>st_ObservedGeneration = 0, st_ObservedVersion = 0, st_LastAppliedHash = [], st_LastSyncTime = None,
      st_SyncedReplicas = 0, st_DriftedReplicas = 0, st_ShunnedBackends = 0,
      st_LastRuntimeCheckTime = None, st_Replicas = [], st_Conditions = []\<rparr>"

definition zeroConfig :: ProxySQLConfig where
  "zeroConfig =
     \<lparr>cf_Name = [], cf_Namespace = [], cf_Generation = 0, cf_Deleting = False, cf_Finalizers = [],
      cf_Annotations = [], cf_Spec = zeroConfigSpec, cf_Status = zeroConfigStatus\<rparr>"

end
