(* ===== verification/AwsPlugin.thy ===== *)
theory AwsPlugin
  imports ConfigTypes "HOL-Library.Multiset"
begin

text \<open>
  The AWS DB proxy plugin: the desired state built from a configuration
  (\<open>operator/internal/plugin/aws/config.go\<close>) and the operations on the plugin's API
  (\<open>operator/internal/rdsclient/model.go\<close>). The HTTP transport, the request signing and the XML
  decoding behind \<open>Client.Call\<close> are the fields of \<open>rdsApi\<close>: a call that changes state takes an
  action and its parameters, a describing call returns the decoded items or an error.
\<close>

section \<open>Types\<close>

record Auth =
  au_AuthScheme :: string
  au_ClientPasswordAuthType :: string
  au_Description :: string
  au_IAMAuth :: string
  au_SecretARN :: string
  au_UserName :: string

record Proxy =
  py_Name :: string
  py_ARN :: string
  py_EngineFamily :: string
  py_DefaultAuthScheme :: string
  py_DebugLogging :: bool
  py_IdleClientTimeout :: int
  py_RequireTLS :: bool
  py_RoleARN :: string
  py_EndpointNetworkType :: string
  py_TargetConnectionNetworkType :: string
  py_VpcSecurityGroupIDs :: "string list"
  py_Auth :: "Auth list"

record Pool =
  po_ConnectionBorrowTimeout :: int
  po_InitQuery :: string
  po_MaxConnectionsPercent :: int
  po_MaxIdleConnectionsPercent :: int
  po_SessionPinningFilters :: "string list"

record TargetGroup =
  tg_Name :: string
  tg_Pool :: Pool

record Target =
  ta_Identifier :: string
  ta_Type :: string

record Tag =
  tt_Key :: string
  tt_Value :: string

record RdsState =
  rst_Proxy :: Proxy
  rst_TargetGroup :: TargetGroup
  rst_Targets :: "Target list"
  rst_Tags :: "Tag list"

record RdsDesired =
  rde_Proxy :: Proxy
  rde_TargetGroup :: TargetGroup
  rde_Targets :: "Target list"
  rde_Tags :: "Tag list"

type_synonym urlValues = "(string, string) gomap"

record 'w rdsApi =
  api_call :: "'w \<Rightarrow> string \<Rightarrow> urlValues \<Rightarrow> 'w \<times> gerror"
  api_proxies :: "'w \<Rightarrow> urlValues \<Rightarrow> string + Proxy list"
  api_groups :: "'w \<Rightarrow> urlValues \<Rightarrow> string + TargetGroup list"
  api_targets :: "'w \<Rightarrow> urlValues \<Rightarrow> string + Target list"
  api_tags :: "'w \<Rightarrow> urlValues \<Rightarrow> string + Tag list"

definition defaultTargetGroup :: string where
  "defaultTargetGroup = ''default''"

section \<open>The desired state\<close>

definition authKey :: "Auth \<Rightarrow> string" where
  "authKey v = au_SecretARN v @ [CHR 0x00] @ au_UserName v @ [CHR 0x00] @ au_IAMAuth v
     @ [CHR 0x00] @ au_AuthScheme v"

definition targetKey :: "Target \<Rightarrow> string" where
  "targetKey v = ta_Type v @ [CHR 0x00] @ ta_Identifier v"

definition normalizeDesired :: "RdsDesired \<Rightarrow> RdsDesired" where
  "normalizeDesired v =
     v\<lparr>rde_TargetGroup :=
         (if tg_Name (rde_TargetGroup v) = [] then (rde_TargetGroup v)\<lparr>tg_Name := defaultTargetGroup\<rparr>
          else rde_TargetGroup v),
       rde_Proxy := (rde_Proxy v)\<lparr>py_VpcSecurityGroupIDs := sort (py_VpcSecurityGroupIDs (rde_Proxy v)),
                                  py_Auth := sort_key authKey (py_Auth (rde_Proxy v))\<rparr>,
       rde_Targets := sort_key targetKey (rde_Targets v),
       rde_Tags := sort_key tt_Key (rde_Tags v)\<rparr>"

definition normalizeState :: "RdsState \<Rightarrow> RdsState" where
  "normalizeState v =
     (let d = normalizeDesired \<lparr>rde_Proxy = rst_Proxy v, rde_TargetGroup = rst_TargetGroup v,
                                rde_Targets = rst_Targets v, rde_Tags = rst_Tags v\<rparr> in
      \<lparr>rst_Proxy = rde_Proxy d, rst_TargetGroup = rde_TargetGroup d, rst_Targets = rde_Targets d,
       rst_Tags = rde_Tags d\<rparr>)"

definition proxyIntent :: "Proxy \<Rightarrow> Proxy" where
  "proxyIntent v = v\<lparr>py_ARN := [], py_EndpointNetworkType := [], py_TargetConnectionNetworkType := [],
     py_VpcSecurityGroupIDs := []\<rparr>"

definition poolIntent :: "AWSConnectionPoolConfigSpec \<Rightarrow> Pool" where
  "poolIntent v =
     \<lparr>po_ConnectionBorrowTimeout = (case ac_ConnectionBorrowTimeout v of None \<Rightarrow> 120 | Some x \<Rightarrow> x),
      po_InitQuery = (case ac_InitQuery v of None \<Rightarrow> [] | Some x \<Rightarrow> x),
      po_MaxConnectionsPercent = (case ac_MaxConnectionsPercent v of None \<Rightarrow> 100 | Some x \<Rightarrow> x),
      po_MaxIdleConnectionsPercent = (case ac_MaxIdleConnectionsPercent v of None \<Rightarrow> 50 | Some x \<Rightarrow> x),
      po_SessionPinningFilters = ac_SessionPinningFilters v\<rparr>"

text \<open>The errors of \<open>FromSpec\<close>, with the value their message quotes.\<close>

datatype rdsSpecError =
    SpecIncomplete
  | UnsupportedEngineFamily string
  | NotOneDefaultTargetGroup
  | UnsupportedTargetGroup string

text \<open>The loop over the target registrations; the first one outside the default group is an error.\<close>

fun specTargets :: "AWSTargetSpec list \<Rightarrow> rdsSpecError + Target list" where
  "specTargets [] = Inr []"
| "specTargets (v # vs) =
     (if at_TargetGroupName v \<noteq> defaultTargetGroup
      then Inl (UnsupportedTargetGroup (at_TargetGroupName v))
      else (case specTargets vs of
              Inl e \<Rightarrow> Inl e
            | Inr ts \<Rightarrow> Inr (map (\<lambda>i. \<lparr>ta_Identifier = i, ta_Type = ''TRACKED_CLUSTER''\<rparr>) (at_DBClusterIdentifiers v)
                 @ map (\<lambda>i. \<lparr>ta_Identifier = i, ta_Type = ''RDS_INSTANCE''\<rparr>) (at_DBInstanceIdentifiers v)
                 @ ts)))"

definition FromSpec :: "AWSDBProxySpec option \<Rightarrow> string \<Rightarrow> rdsSpecError + RdsDesired" where
  "FromSpec src proxyName =
     (case src of
        None \<Rightarrow> Inl SpecIncomplete
      | Some s \<Rightarrow>
          if proxyName = [] then Inl SpecIncomplete
          else if ad_EngineFamily s \<noteq> ''MYSQL''
          then Inl (UnsupportedEngineFamily (ad_EngineFamily s))
          else (case ad_TargetGroups s of
                  [g] \<Rightarrow>
                    if ag_TargetGroupName g \<noteq> defaultTargetGroup
                    then Inl NotOneDefaultTargetGroup
                    else (case specTargets (ad_Targets s) of
                            Inl e \<Rightarrow> Inl e
                          | Inr ts \<Rightarrow> Inr (normalizeDesired
                              \<lparr>rde_Proxy =
                                 \<lparr>py_Name = proxyName, py_ARN = [], py_EngineFamily = ad_EngineFamily s,
                                  py_DefaultAuthScheme = ad_DefaultAuthScheme s,
                                  py_DebugLogging = ad_DebugLogging s,
                                  py_IdleClientTimeout = ad_IdleClientTimeout s,
                                  py_RequireTLS = ad_RequireTLS s, py_RoleARN = ad_RoleARN s,
                                  py_EndpointNetworkType = [], py_TargetConnectionNetworkType = [],
                                  py_VpcSecurityGroupIDs = [],
                                  py_Auth = map (\<lambda>a.
                                    \<lparr>au_AuthScheme = aa_AuthScheme a,
                                     au_ClientPasswordAuthType = aa_ClientPasswordAuthType a,
                                     au_Description = aa_Description a, au_IAMAuth = aa_IAMAuth a,
                                     au_SecretARN = aa_SecretARN a, au_UserName = aa_UserName a\<rparr>)
                                    (ad_Auth s)\<rparr>,
                               rde_TargetGroup =
                                 \<lparr>tg_Name = ag_TargetGroupName g,
                                  tg_Pool = poolIntent (ag_ConnectionPoolConfig g)\<rparr>,
                               rde_Targets = ts,
                               rde_Tags = map (\<lambda>t. \<lparr>tt_Key = ak_Key t, tt_Value = ak_Value t\<rparr>)
                                 (ad_Tags s)\<rparr>))
                | _ \<Rightarrow> Inl NotOneDefaultTargetGroup))"

definition rdsDrift :: "RdsDesired \<Rightarrow> RdsState \<Rightarrow> string list" where
  "rdsDrift desired observed =
     (let d = normalizeDesired desired; o' = normalizeState observed in
      (if proxyIntent (rde_Proxy d) \<noteq> proxyIntent (rst_Proxy o') then [''proxy''] else [])
      @ (if rde_TargetGroup d \<noteq> rst_TargetGroup o' then [''target-group''] else [])
      @ (if rde_Targets d \<noteq> rst_Targets o' then [''targets''] else [])
      @ (if rde_Tags d \<noteq> rst_Tags o' then [''tags''] else []))"

section \<open>The API operations\<close>

definition apiThen :: "'w \<times> gerror \<Rightarrow> ('w \<Rightarrow> 'w \<times> gerror) \<Rightarrow> 'w \<times> gerror" where
  "apiThen r k = (case r of (w, None) \<Rightarrow> k w | (w, Some e) \<Rightarrow> (w, Some e))"

definition Describe :: "'w rdsApi \<Rightarrow> 'w \<Rightarrow> string \<Rightarrow> string + RdsState" where
  "Describe api w proxyName =
     (case api_proxies api w [(''DBProxyName'', proxyName)] of
        Inl e \<Rightarrow> Inl e
      | Inr [p] \<Rightarrow>
          (case api_groups api w [(''DBProxyName'', py_Name p), (''TargetGroupName'', defaultTargetGroup)] of
             Inl e \<Rightarrow> Inl e
           | Inr [g] \<Rightarrow>
               (case api_targets api w [(''DBProxyName'', py_Name p), (''TargetGroupName'', defaultTargetGroup)] of
                  Inl e \<Rightarrow> Inl e
                | Inr ts \<Rightarrow>
                    (case api_tags api w [(''ResourceName'', py_ARN p)] of
                       Inl e \<Rightarrow> Inl e
                     | Inr tags \<Rightarrow> Inr \<lparr>rst_Proxy = p, rst_TargetGroup = g, rst_Targets = ts,
                                       rst_Tags = tags\<rparr>))
           | Inr gs \<Rightarrow> Inl (''DescribeDBProxyTargetGroups returned '' @ itoa (int (length gs)) @ '' groups''))
      | Inr ps \<Rightarrow> Inl (''DescribeDBProxies returned '' @ itoa (int (length ps)) @ '' proxies''))"

definition formatBool :: "bool \<Rightarrow> string" where
  "formatBool b = (if b then ''true'' else ''false'')"

definition setBool :: "urlValues \<Rightarrow> string \<Rightarrow> bool \<Rightarrow> urlValues" where
  "setBool values name value = mput name (formatBool value) values"

definition setInt :: "urlValues \<Rightarrow> string \<Rightarrow> int \<Rightarrow> urlValues" where
  "setInt values name value = mput name (itoa value) values"

text \<open>\<open>for i, x := range xs { values.Set(fmt.Sprintf(pre + "%d" + post, i+1), f(x)) }\<close>.\<close>

fun setMembers :: "string \<Rightarrow> string \<Rightarrow> ('a \<Rightarrow> string) \<Rightarrow> int \<Rightarrow> 'a list \<Rightarrow> urlValues \<Rightarrow> urlValues" where
  "setMembers pre post f i [] values = values"
| "setMembers pre post f i (x # xs) values =
     setMembers pre post f (i + 1) xs (mput (pre @ itoa i @ post) (f x) values)"

definition setIfText :: "string \<Rightarrow> string \<Rightarrow> urlValues \<Rightarrow> urlValues" where
  "setIfText name value values = (if value \<noteq> [] then mput name value values else values)"

fun setAuths :: "int \<Rightarrow> Auth list \<Rightarrow> urlValues \<Rightarrow> urlValues" where
  "setAuths i [] values = values"
| "setAuths i (a # as) values =
     (let prefix = ''Auth.member.'' @ itoa i @ ''.'' in
      setAuths (i + 1) as
        (setIfText (prefix @ ''UserName'') (au_UserName a)
        (setIfText (prefix @ ''SecretArn'') (au_SecretARN a)
        (setIfText (prefix @ ''IAMAuth'') (au_IAMAuth a)
        (setIfText (prefix @ ''Description'') (au_Description a)
        (setIfText (prefix @ ''ClientPasswordAuthType'') (au_ClientPasswordAuthType a)
        (setIfText (prefix @ ''AuthScheme'') (au_AuthScheme a) values)))))))"

definition modifyProxyValues :: "string \<Rightarrow> Proxy \<Rightarrow> urlValues" where
  "modifyProxyValues currentName proxy =
     (let v = [(''DBProxyName'', currentName), (''Auth'', [])];
          v = (if currentName \<noteq> py_Name proxy then mput ''NewDBProxyName'' (py_Name proxy) v else v);
          v = setIfText ''DefaultAuthScheme'' (py_DefaultAuthScheme proxy) v;
          v = setBool v ''DebugLogging'' (py_DebugLogging proxy);
          v = setInt v ''IdleClientTimeout'' (py_IdleClientTimeout proxy);
          v = setBool v ''RequireTLS'' (py_RequireTLS proxy);
          v = setIfText ''RoleArn'' (py_RoleARN proxy) v;
          v = setMembers ''SecurityGroups.member.'' [] (\<lambda>g. g) 1 (py_VpcSecurityGroupIDs proxy) v;
          v = setAuths 1 (py_Auth proxy) v
      in if length (py_Auth proxy) > 0 then mdel ''Auth'' v else v)"

definition ModifyProxy :: "'w rdsApi \<Rightarrow> string \<Rightarrow> Proxy \<Rightarrow> 'w \<Rightarrow> 'w \<times> gerror" where
  "ModifyProxy api currentName proxy w =
     api_call api w ''ModifyDBProxy'' (modifyProxyValues currentName proxy)"

definition poolValues :: "string \<Rightarrow> Pool \<Rightarrow> urlValues" where
  "poolValues proxyName pool =
     (let v = [(''DBProxyName'', proxyName), (''TargetGroupName'', defaultTargetGroup),
               (''ConnectionPoolConfig.SessionPinningFilters'', [])];
          v = setInt v ''ConnectionPoolConfig.ConnectionBorrowTimeout'' (po_ConnectionBorrowTimeout pool);
          v = setInt v ''ConnectionPoolConfig.MaxConnectionsPercent'' (po_MaxConnectionsPercent pool);
          v = setInt v ''ConnectionPoolConfig.MaxIdleConnectionsPercent'' (po_MaxIdleConnectionsPercent pool);
          v = mput ''ConnectionPoolConfig.InitQuery'' (po_InitQuery pool) v;
          v = setMembers ''ConnectionPoolConfig.SessionPinningFilters.member.'' [] (\<lambda>x. x) 1
                (po_SessionPinningFilters pool) v
      in if length (po_SessionPinningFilters pool) > 0
         then mdel ''ConnectionPoolConfig.SessionPinningFilters'' v else v)"

definition ModifyPool :: "'w rdsApi \<Rightarrow> string \<Rightarrow> Pool \<Rightarrow> 'w \<Rightarrow> 'w \<times> gerror" where
  "ModifyPool api proxyName pool w =
     api_call api w ''ModifyDBProxyTargetGroup'' (poolValues proxyName pool)"

fun setTargets :: "int \<Rightarrow> int \<Rightarrow> Target list \<Rightarrow> urlValues \<Rightarrow> urlValues" where
  "setTargets instances clusters [] values = values"
| "setTargets instances clusters (t # ts) values =
     (if ta_Type t = ''RDS_INSTANCE''
      then setTargets (instances + 1) clusters ts
             (mput (''DBInstanceIdentifiers.member.'' @ itoa (instances + 1)) (ta_Identifier t) values)
      else setTargets instances (clusters + 1) ts
             (mput (''DBClusterIdentifiers.member.'' @ itoa (clusters + 1)) (ta_Identifier t) values))"

definition targetValues :: "string \<Rightarrow> Target list \<Rightarrow> urlValues" where
  "targetValues proxyName targets =
     setTargets 0 0 targets [(''DBProxyName'', proxyName), (''TargetGroupName'', defaultTargetGroup)]"

definition RegisterTargets :: "'w rdsApi \<Rightarrow> string \<Rightarrow> Target list \<Rightarrow> 'w \<Rightarrow> 'w \<times> gerror" where
  "RegisterTargets api proxyName targets w =
     (if length targets = 0 then (w, None)
      else api_call api w ''RegisterDBProxyTargets'' (targetValues proxyName targets))"

definition DeregisterTargets :: "'w rdsApi \<Rightarrow> string \<Rightarrow> Target list \<Rightarrow> 'w \<Rightarrow> 'w \<times> gerror" where
  "DeregisterTargets api proxyName targets w =
     (if length targets = 0 then (w, None)
      else api_call api w ''DeregisterDBProxyTargets'' (targetValues proxyName targets))"

fun setTags :: "int \<Rightarrow> Tag list \<Rightarrow> urlValues \<Rightarrow> urlValues" where
  "setTags i [] values = values"
| "setTags i (t # ts) values =
     setTags (i + 1) ts
       (mput (''Tags.Tag.'' @ itoa i @ ''.Value'') (tt_Value t)
         (mput (''Tags.Tag.'' @ itoa i @ ''.Key'') (tt_Key t) values))"

definition AddTags :: "'w rdsApi \<Rightarrow> string \<Rightarrow> Tag list \<Rightarrow> 'w \<Rightarrow> 'w \<times> gerror" where
  "AddTags api proxyARN tags w =
     (if length tags = 0 then (w, None)
      else api_call api w ''AddTagsToResource'' (setTags 1 tags [(''ResourceName'', proxyARN)]))"

definition RemoveTags :: "'w rdsApi \<Rightarrow> string \<Rightarrow> Tag list \<Rightarrow> 'w \<Rightarrow> 'w \<times> gerror" where
  "RemoveTags api proxyARN tags w =
     (if length tags = 0 then (w, None)
      else api_call api w ''RemoveTagsFromResource''
             (setMembers ''TagKeys.member.'' [] tt_Key 1 tags [(''ResourceName'', proxyARN)]))"

definition clearedPool :: Pool where
  "clearedPool = \<lparr>po_ConnectionBorrowTimeout = 120, po_InitQuery = [], po_MaxConnectionsPercent = 100,
     po_MaxIdleConnectionsPercent = 50, po_SessionPinningFilters = []\<rparr>"

definition ClearMutable :: "'w rdsApi \<Rightarrow> RdsState \<Rightarrow> 'w \<Rightarrow> 'w \<times> gerror" where
  "ClearMutable api state w =
     apiThen (DeregisterTargets api (py_Name (rst_Proxy state)) (rst_Targets state) w) (\<lambda>w.
     apiThen (RemoveTags api (py_ARN (rst_Proxy state)) (rst_Tags state) w) (\<lambda>w.
     apiThen (api_call api w ''ModifyDBProxy'' [(''DBProxyName'', py_Name (rst_Proxy state)), (''Auth'', [])]) (\<lambda>w.
       ModifyPool api (py_Name (rst_Proxy state)) clearedPool w)))"

definition Apply :: "'w rdsApi \<Rightarrow> RdsState \<Rightarrow> RdsState \<Rightarrow> 'w \<Rightarrow> 'w \<times> gerror" where
  "Apply api current desired w =
     apiThen (ModifyProxy api (py_Name (rst_Proxy current)) (rst_Proxy desired) w) (\<lambda>w.
     apiThen (ModifyPool api (py_Name (rst_Proxy desired)) (tg_Pool (rst_TargetGroup desired)) w) (\<lambda>w.
     apiThen (RegisterTargets api (py_Name (rst_Proxy desired)) (rst_Targets desired) w) (\<lambda>w.
       AddTags api (py_ARN (rst_Proxy current)) (rst_Tags desired) w)))"

section \<open>What the drift report means\<close>

lemma sort_key_eq_iff:
  assumes "inj_on f (set xs \<union> set ys)"
  shows "sort_key f xs = sort_key f ys \<longleftrightarrow> mset xs = mset ys"
proof
  assume "sort_key f xs = sort_key f ys"
  then have "mset (sort_key f xs) = mset (sort_key f ys)" by simp
  then show "mset xs = mset ys" by simp
next
  assume m: "mset xs = mset ys"
  have "inj_on f (set xs)" using assms by (rule inj_on_subset) simp
  then show "sort_key f xs = sort_key f ys"
    using m by (intro sort_key_inj_key_eq) simp_all
qed

lemma targetKey_inj:
  assumes "list_all (\<lambda>t. CHR 0x00 \<notin> set (ta_Type t)) (xs @ ys)"
  shows "inj_on targetKey (set xs \<union> set ys)"
proof (rule inj_onI)
  fix a b
  assume "a \<in> set xs \<union> set ys" "b \<in> set xs \<union> set ys" "targetKey a = targetKey b"
  with assms show "a = b"
    by (auto simp: targetKey_def list_all_iff append_sep_inject Target.equality)
qed

text \<open>What matters of a proxy: everything but its ARN, network types and security groups, with the
  credentials as a multiset.\<close>

definition same_proxy :: "Proxy \<Rightarrow> Proxy \<Rightarrow> bool" where
  "same_proxy a b \<longleftrightarrow>
     proxyIntent (a\<lparr>py_Auth := []\<rparr>) = proxyIntent (b\<lparr>py_Auth := []\<rparr>)
     \<and> mset (py_Auth a) = mset (py_Auth b)"

definition named_group :: "TargetGroup \<Rightarrow> TargetGroup" where
  "named_group g = (if tg_Name g = [] then g\<lparr>tg_Name := defaultTargetGroup\<rparr> else g)"

lemma proxy_intent_eq:
  assumes "inj_on authKey (set (py_Auth a) \<union> set (py_Auth b))"
  shows "proxyIntent (a\<lparr>py_VpcSecurityGroupIDs := u, py_Auth := sort_key authKey (py_Auth a)\<rparr>) =
         proxyIntent (b\<lparr>py_VpcSecurityGroupIDs := v, py_Auth := sort_key authKey (py_Auth b)\<rparr>)
    \<longleftrightarrow> same_proxy a b"
  using sort_key_eq_iff [OF assms]
  by (cases a; cases b) (auto simp: proxyIntent_def same_proxy_def)

text \<open>The drift report of the plugin's state is empty exactly when the observed state carries
  the desired intent, regardless of the order in which the API lists credentials, targets and
  tags, provided no two credentials share a key and no two tags a name.\<close>

theorem rdsDrift_empty_iff:
  assumes "inj_on authKey (set (py_Auth (rde_Proxy d)) \<union> set (py_Auth (rst_Proxy s)))"
    and "list_all (\<lambda>t. CHR 0x00 \<notin> set (ta_Type t)) (rde_Targets d @ rst_Targets s)"
    and "inj_on tt_Key (set (rde_Tags d) \<union> set (rst_Tags s))"
  shows "rdsDrift d s = [] \<longleftrightarrow>
     same_proxy (rde_Proxy d) (rst_Proxy s)
     \<and> named_group (rde_TargetGroup d) = named_group (rst_TargetGroup s)
     \<and> mset (rde_Targets d) = mset (rst_Targets s) \<and> mset (rde_Tags d) = mset (rst_Tags s)"
  using proxy_intent_eq [OF assms(1)] sort_key_eq_iff [OF targetKey_inj [OF assms(2)]]
    sort_key_eq_iff [OF assms(3)]
  by (simp add: rdsDrift_def Let_def normalizeDesired_def normalizeState_def named_group_def)

definition plainProxy :: Proxy where
  "plainProxy = \<lparr>py_Name = ''p'', py_ARN = [], py_EngineFamily = ''MYSQL'', py_DefaultAuthScheme = [],
     py_DebugLogging = False, py_IdleClientTimeout = 0, py_RequireTLS = False, py_RoleARN = [],
     py_EndpointNetworkType = [], py_TargetConnectionNetworkType = [], py_VpcSecurityGroupIDs = [],
     py_Auth = []\<rparr>"

theorem rdsDrift_empty_iff_witness:
  "let ts = [\<lparr>ta_Identifier = ''b'', ta_Type = ''RDS_INSTANCE''\<rparr>, \<lparr>ta_Identifier = ''a'', ta_Type = ''RDS_INSTANCE''\<rparr>];
       g = \<lparr>tg_Name = ''default'', tg_Pool = clearedPool\<rparr>
   in rdsDrift \<lparr>rde_Proxy = plainProxy, rde_TargetGroup = g, rde_Targets = ts, rde_Tags = []\<rparr>
        \<lparr>rst_Proxy = plainProxy\<lparr>py_ARN := ''arn''\<rparr>, rst_TargetGroup = g, rst_Targets = rev ts, rst_Tags = []\<rparr> = []"
  unfolding Let_def
  by (subst rdsDrift_empty_iff)
     (simp_all add: plainProxy_def same_proxy_def proxyIntent_def add_mset_commute)

end
