(* ===== verification/ClusterSpec.thy ===== *)
theory ClusterSpec
  imports ConfigTypes
begin

text \<open>
  The cluster resource, \<open>operator/api/v1alpha1/proxysqlcluster_types.go\<close>, and its defaulting and
  naming, \<open>operator/internal/controller/builders/builders.go\<close>.

  Values of Kubernetes API types that the operator only copies (affinities, tolerations, probes,
  resource requirements, quantities) are opaque texts of type \<open>k8s\<close>, the empty text standing for
  the zero value; durations are integers (nanoseconds).
\<close>

type_synonym k8s = string

section \<open>Types\<close>

record ConfigMapKeySelector =
  cm_Name :: string
  cm_Key :: string
  cm_Optional :: "bool option"

record AWSBootstrapSpec =
  ab_ConfigMapRef :: ConfigMapKeySelector

record AWSClusterPluginSpec =
  ap_Bootstrap :: AWSBootstrapSpec

record ClusterPluginSpec =
  cp_AWS :: "AWSClusterPluginSpec option"

record ProbesSpec =
  pb_Startup :: "k8s option"
  pb_Readiness :: "k8s option"
  pb_Liveness :: "k8s option"

record VariablesSpec =
  va_Admin :: "(string, string) gomap"
  va_MySQL :: "(string, string) gomap"
  va_PostgreSQL :: "(string, string) gomap"

record S3SinkSpec =
  s3_Bucket :: string
  s3_Region :: string
  s3_Prefix :: string
  s3_Endpoint :: string
  s3_CredentialsSecretRef :: string

record HTTPSinkSpec =
  hs_Host :: string
  hs_Port :: int
  hs_URI :: string
  hs_TLS :: bool
  hs_AuthTokenSecretRef :: "string option"

record ResourceRequirements =
  rr_Requests :: "(string, string) gomap option"
  rr_Limits :: "(string, string) gomap option"

record LoggingSpec =
  lg_Enabled :: bool
  lg_QueryLog :: bool
  lg_SinkType :: string
  lg_S3 :: "S3SinkSpec option"
  lg_HTTP :: "HTTPSinkSpec option"
  lg_Image :: string
  lg_Resources :: ResourceRequirements
  lg_BufferSize :: k8s

record ExternalPortSpec =
  xp_NodePort :: int

record ExternalServiceSpec =
  xs_Enabled :: bool
  xs_Type :: string
  xs_Annotations :: "(string, string) gomap"
  xs_LoadBalancerClass :: "string option"
  xs_ExternalTrafficPolicy :: string
  xs_InternalTrafficPolicy :: "string option"
  xs_LoadBalancerSourceRanges :: "string list"
  xs_AllocateLoadBalancerNodePorts :: "bool option"
  xs_HealthCheckNodePort :: int
  xs_IPFamilyPolicy :: "string option"
  xs_IPFamilies :: "string list"
  xs_Ports :: "(string, ExternalPortSpec) gomap"
  xs_ExposeAdmin :: bool

record ServiceSpec =
  sv_Annotations :: "(string, string) gomap"
  sv_SessionAffinityTimeoutSeconds :: "int option"
  sv_Type :: string
  sv_External :: "ExternalServiceSpec option"

record TCPKeepaliveSpec =
  ka_Time :: "int option"
  ka_Interval :: "int option"
  ka_Probes :: "int option"

record NetworkingSpec =
  nw_TCPKeepalive :: TCPKeepaliveSpec

record ImageSpec =
  im_Repository :: string
  im_Tag :: string
  im_PullPolicy :: string

record AuthKeys =
  ky_AdminPassword :: string
  ky_RadminPassword :: string
  ky_MonitorPassword :: string

record AuthSpec =
  as_SecretName :: string
  as_Keys :: AuthKeys

record PersistenceSpec =
  pe_Enabled :: "bool option"
  pe_Size :: k8s
  pe_StorageClass :: "string option"
  pe_AccessModes :: "string list"

record ProtocolSpec =
  pt_Enabled :: "bool option"
  pt_Port :: int

record ProtocolsSpec =
  pts_MySQL :: ProtocolSpec
  pts_PostgreSQL :: ProtocolSpec
  pts_Admin :: ProtocolSpec
  pts_Web :: ProtocolSpec

record ServiceMonitorSpec =
  sm_Enabled :: bool
  sm_Interval :: string
  sm_ScrapeTimeout :: string
  sm_Labels :: "(string, string) gomap"

record MetricsSpec =
  me_Enabled :: "bool option"
  me_Port :: int
  me_ServiceMonitor :: ServiceMonitorSpec

record PDBSpec =
  pd_Enabled :: "bool option"
  pd_MinAvailable :: "k8s option"
  pd_MaxUnavailable :: "k8s option"

record TLSIssuerRef =
  ti_Name :: string
  ti_Kind :: string
  ti_Group :: string

record TLSBackendSpec =
  tb_CASecretName :: string
  tb_ClientCertSecretName :: string

record TLSSpec =
  tl_Enabled :: bool
  tl_SecretName :: string
  tl_IssuerRef :: "TLSIssuerRef option"
  tl_Duration :: int
  tl_RenewBefore :: int
  tl_ExtraSANs :: "string list"
  tl_Backend :: "TLSBackendSpec option"

record GracefulShutdownSpec =
  gs_Enabled :: bool
  gs_DrainTimeoutSeconds :: "int option"

record TopologySpreadConstraint =
  tc_LabelSelector :: "(string, string) gomap option"
  tc_Other :: k8s

record PodSecurityContext =
  psc_RunAsNonRoot :: "bool option"
  psc_RunAsUser :: "int option"
  psc_RunAsGroup :: "int option"
  psc_FSGroup :: "int option"
  psc_SeccompProfile :: "string option"
  psc_Sysctls :: "(string \<times> string) list"
  psc_Other :: k8s

record SecurityContext =
  csc_AllowPrivilegeEscalation :: "bool option"
  csc_ReadOnlyRootFilesystem :: "bool option"
  csc_DropCapabilities :: "string list"
  csc_RunAsNonRoot :: "bool option"
  csc_RunAsUser :: "int option"
  csc_RunAsGroup :: "int option"
  csc_SeccompProfile :: "string option"
  csc_Other :: k8s

record ProxySQLClusterSpec =
  cs_ServiceAccountName :: string
  cs_Plugin :: "ClusterPluginSpec option"
  cs_Replicas :: "int option"
  cs_Pause :: bool
  cs_Image :: ImageSpec
  cs_ImagePullSecrets :: "string list"
  cs_Auth :: AuthSpec
  cs_Persistence :: PersistenceSpec
  cs_Protocols :: ProtocolsSpec
  cs_Resources :: k8s
  cs_NodeSelector :: "(string, string) gomap"
  cs_Tolerations :: k8s
  cs_Affinity :: "k8s option"
  cs_TopologySpreadConstraints :: "TopologySpreadConstraint list"
  cs_PodSecurityContext :: "PodSecurityContext option"
  cs_ContainerSecurityContext :: "SecurityContext option"
  cs_Metrics :: MetricsSpec
  cs_PodDisruptionBudget :: PDBSpec
  cs_PodAnnotations :: "(string, string) gomap"
  cs_PodLabels :: "(string, string) gomap"
  cs_Service :: ServiceSpec
  cs_Networking :: NetworkingSpec
  cs_Logging :: "LoggingSpec option"
  cs_Variables :: VariablesSpec
  cs_Probes :: ProbesSpec
  cs_GracefulShutdown :: "GracefulShutdownSpec option"
  cs_TLS :: "TLSSpec option"

record ClusterEndpoints =
  ept_MySQL :: string
  ept_PostgreSQL :: string
  ept_Admin :: string
  ept_Web :: string
  ept_Metrics :: string
  ept_External :: string

record ProxySQLClusterStatus =
  cst_ObservedGeneration :: int
  cst_Replicas :: int
  cst_ReadyReplicas :: int
  cst_UpdatedReplicas :: int
  cst_Phase :: string
  cst_Endpoints :: "ClusterEndpoints option"
  cst_AdminSecretName :: string
  cst_Conditions :: "Condition list"

text \<open>Of the metadata: the name, the namespace, the unique identifier, the generation, and whether a
  deletion timestamp is set.\<close>

record ProxySQLCluster =
  clu_Name :: string
  clu_Namespace :: string
  clu_UID :: string
  clu_Generation :: int
  clu_Deleting :: bool
  clu_Spec :: ProxySQLClusterSpec
  clu_Status :: ProxySQLClusterStatus

definition zeroClusterStatus :: ProxySQLClusterStatus where
  "zeroClusterStatus = \<lparr>cst_ObservedGeneration = 0, cst_Replicas = 0, cst_ReadyReplicas = 0,
     cst_UpdatedReplicas = 0, cst_Phase = [], cst_Endpoints = None, cst_AdminSecretName = [], cst_Conditions = []\<rparr>"

text \<open>The specification of a manifest that sets nothing.\<close>

definition zeroClusterSpec :: ProxySQLClusterSpec where
  "zeroClusterSpec =
     \<lparr>cs_ServiceAccountName = [], cs_Plugin = None, cs_Replicas = None, cs_Pause = False,
      cs_Image = \<lparr>im_Repository = [], im_Tag = [], im_PullPolicy = []\<rparr>, cs_ImagePullSecrets = [],
      cs_Auth = \<lparr>as_SecretName = [], as_Keys = \<lparr>ky_AdminPassword = [], ky_RadminPassword = [], ky_MonitorPassword = []\<rparr>\<rparr>,
      cs_Persistence = \<lparr>pe_Enabled = None, pe_Size = [], pe_StorageClass = None, pe_AccessModes = []\<rparr>,
      cs_Protocols = \<lparr>pts_MySQL = \<lparr>pt_Enabled = None, pt_Port = 0\<rparr>, pts_PostgreSQL = \<lparr>pt_Enabled = None, pt_Port = 0\<rparr>,
        pts_Admin = \<lparr>pt_Enabled = None, pt_Port = 0\<rparr>, pts_Web = \<lparr>pt_Enabled = None, pt_Port = 0\<rparr>\<rparr>,
      cs_Resources = [], cs_NodeSelector = [], cs_Tolerations = [], cs_Affinity = None,
      cs_TopologySpreadConstraints = [], cs_PodSecurityContext = None, cs_ContainerSecurityContext = None,
      cs_Metrics = \<lparr>me_Enabled = None, me_Port = 0,
        me_ServiceMonitor = \<lparr>sm_Enabled = False, sm_Interval = [], sm_ScrapeTimeout = [], sm_Labels = []\<rparr>\<rparr>,
      cs_PodDisruptionBudget = \<lparr>pd_Enabled = None, pd_MinAvailable = None, pd_MaxUnavailable = None\<rparr>,
      cs_PodAnnotations = [], cs_PodLabels = [],
      cs_Service = \<lparr>sv_Annotations = [], sv_SessionAffinityTimeoutSeconds = None, sv_Type = [], sv_External = None\<rparr>,
      cs_Networking = \<lparr>nw_TCPKeepalive = \<lparr>ka_Time = None, ka_Interval = None, ka_Probes = None\<rparr>\<rparr>,
      cs_Logging = None, cs_Variables = \<lparr>va_Admin = [], va_MySQL = [], va_PostgreSQL = []\<rparr>,
      cs_Probes = \<lparr>pb_Startup = None, pb_Readiness = None, pb_Liveness = None\<rparr>,
      cs_GracefulShutdown = None, cs_TLS = None\<rparr>"

section \<open>Predicates of the specification\<close>

definition AWSPluginEnabled :: "ProxySQLClusterSpec \<Rightarrow> bool" where
  "AWSPluginEnabled s =
     (case cs_Plugin s of None \<Rightarrow> False | Some p \<Rightarrow> cp_AWS p \<noteq> None)"

definition TLSEnabled :: "ProxySQLClusterSpec \<Rightarrow> bool" where
  "TLSEnabled s = (case cs_TLS s of None \<Rightarrow> False | Some t \<Rightarrow> tl_Enabled t)"

definition GracefulShutdownEnabled :: "ProxySQLClusterSpec \<Rightarrow> bool" where
  "GracefulShutdownEnabled s = (case cs_GracefulShutdown s of None \<Rightarrow> False | Some g \<Rightarrow> gs_Enabled g)"

definition DrainTimeoutSecondsOrDefault :: "ProxySQLClusterSpec \<Rightarrow> int" where
  "DrainTimeoutSecondsOrDefault s =
     (case cs_GracefulShutdown s of
        None \<Rightarrow> 30
      | Some g \<Rightarrow> (case gs_DrainTimeoutSeconds g of None \<Rightarrow> 30 | Some v \<Rightarrow> v))"

definition IsEnabled :: "ProtocolSpec \<Rightarrow> bool" where
  "IsEnabled p \<longleftrightarrow> pt_Enabled p = Some True"

section \<open>Defaulting\<close>

definition DefaultAdminPort :: int where "DefaultAdminPort = 6032"
definition DefaultMySQLPort :: int where "DefaultMySQLPort = 6033"
definition DefaultPostgreSQLPort :: int where "DefaultPostgreSQLPort = 6133"
definition DefaultMetricsPort :: int where "DefaultMetricsPort = 6070"
definition DefaultWebPort :: int where "DefaultWebPort = 6080"

definition orText :: "string \<Rightarrow> string \<Rightarrow> string" where
  "orText v d = (if v = [] then d else v)"

definition orPort :: "int \<Rightarrow> int \<Rightarrow> int" where
  "orPort v d = (if v = 0 then d else v)"

definition orSet :: "'a option \<Rightarrow> 'a \<Rightarrow> 'a option" where
  "orSet v d = (case v of None \<Rightarrow> Some d | Some x \<Rightarrow> Some x)"

text \<open>A listener: its switch, defaulted, and its port, defaulted when the listener is on.\<close>

definition defaultListener :: "bool \<Rightarrow> int \<Rightarrow> ProtocolSpec \<Rightarrow> ProtocolSpec" where
  "defaultListener on port p =
     (let p1 = p\<lparr>pt_Enabled := orSet (pt_Enabled p) on\<rparr> in
      if IsEnabled p1 then p1\<lparr>pt_Port := orPort (pt_Port p1) port\<rparr> else p1)"

definition plainTLS :: TLSSpec where
  "plainTLS = \<lparr>tl_Enabled = True, tl_SecretName = [], tl_IssuerRef = None, tl_Duration = 0,
     tl_RenewBefore = 0, tl_ExtraSANs = [], tl_Backend = None\<rparr>"

definition defaultProtocols :: "ProxySQLClusterSpec \<Rightarrow> ProxySQLClusterSpec" where
  "defaultProtocols spec =
     (let p = cs_Protocols spec;
          p1 = \<lparr>pts_MySQL = defaultListener True DefaultMySQLPort (pts_MySQL p),
                pts_PostgreSQL = defaultListener (pt_Port (pts_PostgreSQL p) \<noteq> 0) DefaultPostgreSQLPort
                  (pts_PostgreSQL p),
                pts_Admin = \<lparr>pt_Enabled = Some True, pt_Port = orPort (pt_Port (pts_Admin p)) DefaultAdminPort\<rparr>,
                pts_Web = defaultListener (pt_Port (pts_Web p) \<noteq> 0) DefaultWebPort (pts_Web p)\<rparr>
      in if \<not> AWSPluginEnabled spec then spec\<lparr>cs_Protocols := p1\<rparr>
         else spec\<lparr>cs_Protocols := p1\<lparr>pts_Web := \<lparr>pt_Enabled = Some True,
                                       pt_Port = orPort (pt_Port (pts_Web p1)) DefaultWebPort\<rparr>\<rparr>,
                   cs_TLS := (if TLSEnabled spec then cs_TLS spec else Some plainTLS)\<rparr>)"

definition hours :: "int \<Rightarrow> int" where
  "hours h = h * 3600 * 10 ^ 9"

definition defaultTLS :: "TLSSpec \<Rightarrow> TLSSpec" where
  "defaultTLS t =
     t\<lparr>tl_Duration := orPort (tl_Duration t) (hours 2160),
       tl_RenewBefore := orPort (tl_RenewBefore t) (hours 720),
       tl_IssuerRef := map_option (\<lambda>r. r\<lparr>ti_Kind := orText (ti_Kind r) ''Issuer'',
                                        ti_Group := orText (ti_Group r) ''cert-manager.io''\<rparr>)
                         (tl_IssuerRef t)\<rparr>"

text \<open>The images and sizes are constants of \<open>loggingsidecar.go\<close> and \<open>builders.go\<close>.\<close>

definition DefaultFluentBitImage :: string where
  "DefaultFluentBitImage = ''fluent/fluent-bit:4.0.3''"

definition DefaultLogBufferSize :: string where
  "DefaultLogBufferSize = ''1Gi''"

definition defaultLogging :: "string \<Rightarrow> LoggingSpec \<Rightarrow> LoggingSpec" where
  "defaultLogging clusterName l =
     l\<lparr>lg_SinkType := orText (lg_SinkType l) ''stdout'',
       lg_Image := orText (lg_Image l) DefaultFluentBitImage,
       lg_BufferSize := orText (lg_BufferSize l) DefaultLogBufferSize,
       lg_Resources :=
         \<lparr>rr_Requests = orSet (rr_Requests (lg_Resources l)) [(''cpu'', ''50m''), (''memory'', ''64Mi'')],
          rr_Limits = orSet (rr_Limits (lg_Resources l)) [(''cpu'', ''200m''), (''memory'', ''128Mi'')]\<rparr>,
       lg_S3 := map_option (\<lambda>s. s\<lparr>s3_Prefix := orText (s3_Prefix s) (''/proxysql/'' @ clusterName)\<rparr>) (lg_S3 l),
       lg_HTTP := map_option (\<lambda>h. h\<lparr>hs_Port := orPort (hs_Port h) (if hs_TLS h then 443 else 80),
                                   hs_URI := orText (hs_URI h) ''/''\<rparr>) (lg_HTTP l)\<rparr>"

definition defaultPersistence :: "PersistenceSpec \<Rightarrow> PersistenceSpec" where
  "defaultPersistence p =
     (let p1 = p\<lparr>pe_Enabled := orSet (pe_Enabled p) True\<rparr> in
      if pe_Enabled p1 = Some True
      then p1\<lparr>pe_Size := orText (pe_Size p1) ''1Gi'',
              pe_AccessModes := (if pe_AccessModes p1 = [] then [''ReadWriteOnce''] else pe_AccessModes p1)\<rparr>
      else p1)"

definition restrictedPodSecurity :: PodSecurityContext where
  "restrictedPodSecurity = \<lparr>psc_RunAsNonRoot = Some True, psc_RunAsUser = Some 999,
     psc_RunAsGroup = Some 999, psc_FSGroup = Some 999, psc_SeccompProfile = Some ''RuntimeDefault'',
     psc_Sysctls = [], psc_Other = []\<rparr>"

definition restrictedSecurity :: SecurityContext where
  "restrictedSecurity = \<lparr>csc_AllowPrivilegeEscalation = Some False, csc_ReadOnlyRootFilesystem = Some True,
     csc_DropCapabilities = [''ALL''], csc_RunAsNonRoot = None, csc_RunAsUser = None, csc_RunAsGroup = None,
     csc_SeccompProfile = None, csc_Other = []\<rparr>"

definition defaultKeys :: "AuthKeys \<Rightarrow> AuthKeys" where
  "defaultKeys k = \<lparr>ky_AdminPassword = orText (ky_AdminPassword k) ''admin-password'',
     ky_RadminPassword = orText (ky_RadminPassword k) ''radmin-password'',
     ky_MonitorPassword = orText (ky_MonitorPassword k) ''monitor-password''\<rparr>"

definition DefaultedSpec :: "ProxySQLCluster \<Rightarrow> ProxySQLClusterSpec" where
  "DefaultedSpec c =
     (let spec = clu_Spec c;
          spec = spec\<lparr>cs_Replicas := orSet (cs_Replicas spec) 3,
                     cs_Image := \<lparr>im_Repository = orText (im_Repository (cs_Image spec)) ''proxysql/proxysql'',
                                  im_Tag = orText (im_Tag (cs_Image spec)) ''3.0'',
                                  im_PullPolicy = orText (im_PullPolicy (cs_Image spec)) ''IfNotPresent''\<rparr>\<rparr>;
          spec = defaultProtocols spec
      in spec\<lparr>cs_Persistence := defaultPersistence (cs_Persistence spec),
              cs_Auth := (cs_Auth spec)\<lparr>as_Keys := defaultKeys (as_Keys (cs_Auth spec))\<rparr>,
              cs_Metrics := (cs_Metrics spec)\<lparr>me_Enabled := orSet (me_Enabled (cs_Metrics spec)) True,
                                             me_Port := orPort (me_Port (cs_Metrics spec)) DefaultMetricsPort\<rparr>,
              cs_PodDisruptionBudget := (cs_PodDisruptionBudget spec)
                \<lparr>pd_Enabled := orSet (pd_Enabled (cs_PodDisruptionBudget spec)) True\<rparr>,
              cs_Logging := map_option (defaultLogging (clu_Name c)) (cs_Logging spec),
              cs_TLS := map_option defaultTLS (cs_TLS spec),
              cs_PodSecurityContext := orSet (cs_PodSecurityContext spec) restrictedPodSecurity,
              cs_ContainerSecurityContext := orSet (cs_ContainerSecurityContext spec) restrictedSecurity\<rparr>)"

section \<open>The builder and its names\<close>

record Passwords =
  pw_Admin :: string
  pw_Radmin :: string
  pw_Monitor :: string
  pw_MonitorUsername :: string
  pw_ExtraAdminUser :: string
  pw_ExtraAdminPassword :: string

record Builder =
  b_Cluster :: ProxySQLCluster
  b_Spec :: ProxySQLClusterSpec
  b_Pw :: Passwords
  b_TLSMountSecret :: string
  b_TLSRestartValue :: string
  b_TLSCleanup :: bool
  b_AWSBootstrapChecksum :: string

definition New :: "ProxySQLCluster \<Rightarrow> Passwords \<Rightarrow> Builder" where
  "New cluster pw =
     \<lparr>b_Cluster = cluster, b_Spec = DefaultedSpec cluster,
      b_Pw = pw\<lparr>pw_MonitorUsername := orText (pw_MonitorUsername pw) ''monitor''\<rparr>,
      b_TLSMountSecret = [], b_TLSRestartValue = [], b_TLSCleanup = False,
      b_AWSBootstrapChecksum = []\<rparr>"

definition b_Name :: "Builder \<Rightarrow> string" where
  "b_Name b = clu_Name (b_Cluster b)"

definition b_Namespace :: "Builder \<Rightarrow> string" where
  "b_Namespace b = clu_Namespace (b_Cluster b)"

definition HeadlessName :: "Builder \<Rightarrow> string" where
  "HeadlessName b = clu_Name (b_Cluster b) @ ''-headless''"

definition CnfSecretName :: "Builder \<Rightarrow> string" where
  "CnfSecretName b = b_Name b @ ''-cnf''"

definition AWSCredentialsSecretName :: "Builder \<Rightarrow> string" where
  "AWSCredentialsSecretName b = clu_Name (b_Cluster b) @ ''-rds-api''"

definition TLSSecretName :: "Builder \<Rightarrow> string" where
  "TLSSecretName b = clu_Name (b_Cluster b) @ ''-tls''"

definition TLSCASecretName :: "Builder \<Rightarrow> string" where
  "TLSCASecretName b = clu_Name (b_Cluster b) @ ''-tls-ca''"

definition tlsMountSecretName :: "Builder \<Rightarrow> string" where
  "tlsMountSecretName b = (if b_TLSMountSecret b \<noteq> [] then b_TLSMountSecret b else TLSSecretName b)"

definition backendTLSEnabled :: "Builder \<Rightarrow> bool" where
  "backendTLSEnabled b \<longleftrightarrow>
     TLSEnabled (b_Spec b)
     \<and> (case cs_TLS (b_Spec b) of
          None \<Rightarrow> False
        | Some t \<Rightarrow> (case tl_Backend t of None \<Rightarrow> False | Some be \<Rightarrow> tb_CASecretName be \<noteq> []))"

definition SecretName :: "Builder \<Rightarrow> string" where
  "SecretName b =
     (if as_SecretName (cs_Auth (b_Spec b)) \<noteq> [] then as_SecretName (cs_Auth (b_Spec b))
      else clu_Name (b_Cluster b))"

definition SecretKeys :: "Builder \<Rightarrow> AuthKeys" where
  "SecretKeys b = defaultKeys (as_Keys (cs_Auth (b_Spec b)))"

definition Image :: "Builder \<Rightarrow> string" where
  "Image b = im_Repository (cs_Image (b_Spec b)) @ '':'' @ im_Tag (cs_Image (b_Spec b))"

definition ManagesAuthSecret :: "Builder \<Rightarrow> bool" where
  "ManagesAuthSecret b \<longleftrightarrow> as_SecretName (cs_Auth (b_Spec b)) = []"

definition Labels :: "Builder \<Rightarrow> (string, string) gomap" where
  "Labels b =
     [(''app.kubernetes.io/name'', ''proxysql''),
      (''app.kubernetes.io/instance'', clu_Name (b_Cluster b)),
      (''app.kubernetes.io/component'', ''proxysql-cluster''),
      (''app.kubernetes.io/managed-by'', ''proxysql-operator''),
      (''proxysql.com/cluster'', clu_Name (b_Cluster b))]"

definition SelectorLabels :: "Builder \<Rightarrow> (string, string) gomap" where
  "SelectorLabels b =
     [(''app.kubernetes.io/name'', ''proxysql''),
      (''app.kubernetes.io/instance'', clu_Name (b_Cluster b)),
      (''proxysql.com/cluster'', clu_Name (b_Cluster b))]"

definition ProxySQLServerDNS :: "Builder \<Rightarrow> string list" where
  "ProxySQLServerDNS b =
     (case cs_Replicas (b_Spec b) of
        None \<Rightarrow> []
      | Some n \<Rightarrow>
          if n \<le> 1 then []
          else map (\<lambda>i. b_Name b @ ''-'' @ itoa i @ ''.'' @ HeadlessName b @ ''.'' @ b_Namespace b @ ''.svc'')
                 [0..n - 1])"

section \<open>Properties of defaulting\<close>

lemma orText_idem [simp]: "d \<noteq> [] \<Longrightarrow> orText (orText v d) d = orText v d"
  by (simp add: orText_def)

lemma orText_set [simp]: "d \<noteq> [] \<Longrightarrow> orText v d \<noteq> []"
  by (simp add: orText_def)

lemma orPort_idem [simp]: "orPort (orPort v d) d = orPort v d"
  by (simp add: orPort_def)

lemma orPort_set [simp]: "d \<noteq> 0 \<Longrightarrow> orPort v d \<noteq> 0"
  by (simp add: orPort_def)

lemma orSet_idem [simp]: "orSet (orSet v d) d' = orSet v d"
  by (cases v) (simp_all add: orSet_def)

lemma defaultListener_idem:
  "port \<noteq> 0 \<Longrightarrow> defaultListener on' port (defaultListener on port p) = defaultListener on port p"
  by (cases p) (simp add: defaultListener_def Let_def IsEnabled_def orPort_def orSet_def split: option.splits)

lemma defaultListener_port: "port \<noteq> 0 \<Longrightarrow> IsEnabled (defaultListener on port p) \<Longrightarrow> pt_Port (defaultListener on port p) \<noteq> 0"
  by (simp add: defaultListener_def Let_def IsEnabled_def split: if_splits)

lemma defaultPersistence_idem: "defaultPersistence (defaultPersistence p) = defaultPersistence p"
  by (cases p) (auto simp: defaultPersistence_def Let_def orText_def orSet_def split: option.splits)

lemma defaultKeys_idem: "defaultKeys (defaultKeys k) = defaultKeys k"
  by (simp add: defaultKeys_def)

lemma defaultTLS_idem: "defaultTLS (defaultTLS t) = defaultTLS t"
proof -
  have "hours 2160 \<noteq> 0" "hours 720 \<noteq> 0" by (simp_all add: hours_def)
  then show ?thesis
    by (cases t) (simp add: defaultTLS_def option.map_comp comp_def)
qed

lemma defaultLogging_idem: "defaultLogging n (defaultLogging n l) = defaultLogging n l"
proof -
  have "DefaultFluentBitImage \<noteq> []" "DefaultLogBufferSize \<noteq> []"
    by (simp_all add: DefaultFluentBitImage_def DefaultLogBufferSize_def)
  then show ?thesis
    by (cases l) (simp add: defaultLogging_def option.map_comp comp_def)
qed

lemma ports_nonzero:
  "DefaultAdminPort \<noteq> 0" "DefaultMySQLPort \<noteq> 0" "DefaultPostgreSQLPort \<noteq> 0" "DefaultWebPort \<noteq> 0"
  "DefaultMetricsPort \<noteq> 0"
  by (simp_all add: DefaultAdminPort_def DefaultMySQLPort_def DefaultPostgreSQLPort_def
      DefaultWebPort_def DefaultMetricsPort_def)

text \<open>What \<^const>\<open>defaultProtocols\<close> does to the two fields it writes.\<close>

definition listenerDefaults :: "bool \<Rightarrow> ProtocolsSpec \<Rightarrow> ProtocolsSpec" where
  "listenerDefaults aws p =
     \<lparr>pts_MySQL = defaultListener True DefaultMySQLPort (pts_MySQL p),
      pts_PostgreSQL = defaultListener (pt_Port (pts_PostgreSQL p) \<noteq> 0) DefaultPostgreSQLPort (pts_PostgreSQL p),
      pts_Admin = \<lparr>pt_Enabled = Some True, pt_Port = orPort (pt_Port (pts_Admin p)) DefaultAdminPort\<rparr>,
      pts_Web = (let w = defaultListener (pt_Port (pts_Web p) \<noteq> 0) DefaultWebPort (pts_Web p) in
                 if aws then \<lparr>pt_Enabled = Some True, pt_Port = orPort (pt_Port w) DefaultWebPort\<rparr> else w)\<rparr>"

definition tlsOn :: "TLSSpec option \<Rightarrow> bool" where
  "tlsOn t \<longleftrightarrow> (case t of None \<Rightarrow> False | Some x \<Rightarrow> tl_Enabled x)"

definition ensureTLS :: "bool \<Rightarrow> TLSSpec option \<Rightarrow> TLSSpec option" where
  "ensureTLS aws t = (if aws \<and> \<not> tlsOn t then Some plainTLS else t)"

lemma TLSEnabled_tlsOn: "TLSEnabled s = tlsOn (cs_TLS s)"
  by (auto simp: TLSEnabled_def tlsOn_def split: option.splits)

lemma defaultProtocols_alt:
  "defaultProtocols s =
     s\<lparr>cs_Protocols := listenerDefaults (AWSPluginEnabled s) (cs_Protocols s),
       cs_TLS := ensureTLS (AWSPluginEnabled s) (cs_TLS s)\<rparr>"
  by (cases "AWSPluginEnabled s")
    (simp_all add: defaultProtocols_def listenerDefaults_def ensureTLS_def Let_def TLSEnabled_tlsOn)

lemma listenerDefaults_idem: "listenerDefaults aws (listenerDefaults aws p) = listenerDefaults aws p"
proof -
  have web: "defaultListener on DefaultWebPort \<lparr>pt_Enabled = Some True, pt_Port = orPort n DefaultWebPort\<rparr> =
      \<lparr>pt_Enabled = Some True, pt_Port = orPort n DefaultWebPort\<rparr>" for on n
    by (simp add: defaultListener_def Let_def IsEnabled_def orSet_def)
  show ?thesis
    using ports_nonzero by (cases aws) (simp_all add: listenerDefaults_def Let_def defaultListener_idem web)
qed

lemma listenerDefaults_ports:
  "list_all (\<lambda>p. IsEnabled p \<longrightarrow> pt_Port p \<noteq> 0)
     [pts_Admin (listenerDefaults aws p), pts_MySQL (listenerDefaults aws p),
      pts_PostgreSQL (listenerDefaults aws p), pts_Web (listenerDefaults aws p)]"
  using ports_nonzero by (simp add: listenerDefaults_def Let_def defaultListener_port)

lemma tlsOn_defaultTLS [simp]: "tlsOn (map_option defaultTLS t) = tlsOn t"
  by (cases t) (simp_all add: tlsOn_def defaultTLS_def)

lemma tlsOn_ensureTLS [simp]: "tlsOn (ensureTLS aws t) \<longleftrightarrow> aws \<or> tlsOn t"
  by (auto simp: ensureTLS_def tlsOn_def plainTLS_def)

lemma ensureTLS_again: "ensureTLS aws (map_option defaultTLS (ensureTLS aws t)) = map_option defaultTLS (ensureTLS aws t)"
  by (auto simp: ensureTLS_def [of aws "map_option defaultTLS (ensureTLS aws t)"])

lemma AWSPluginEnabled_cong: "cs_Plugin s = cs_Plugin s' \<Longrightarrow> AWSPluginEnabled s = AWSPluginEnabled s'"
  by (simp add: AWSPluginEnabled_def)

lemma DefaultedSpec_plugins [simp]: "cs_Plugin (DefaultedSpec c) = cs_Plugin (clu_Spec c)"
  by (simp add: DefaultedSpec_def Let_def defaultProtocols_alt)

lemma DefaultedSpec_aws [simp]: "AWSPluginEnabled (DefaultedSpec c) = AWSPluginEnabled (clu_Spec c)"
  by (rule AWSPluginEnabled_cong) simp

lemma AWSPluginEnabled_frame [simp]:
  "AWSPluginEnabled (s\<lparr>cs_Replicas := r, cs_Image := i\<rparr>) = AWSPluginEnabled s"
  by (rule AWSPluginEnabled_cong) simp

definition well_defaulted :: "ProxySQLClusterSpec \<Rightarrow> bool" where
  "well_defaulted s \<longleftrightarrow>
     list_all (\<lambda>p. IsEnabled p \<longrightarrow> pt_Port p \<noteq> 0)
       [pts_Admin (cs_Protocols s), pts_MySQL (cs_Protocols s), pts_PostgreSQL (cs_Protocols s),
        pts_Web (cs_Protocols s)]
     \<and> IsEnabled (pts_Admin (cs_Protocols s))
     \<and> (AWSPluginEnabled s \<longrightarrow> TLSEnabled s \<and> IsEnabled (pts_Web (cs_Protocols s)))
     \<and> cs_Replicas s \<noteq> None \<and> pe_Enabled (cs_Persistence s) \<noteq> None \<and> me_Enabled (cs_Metrics s) \<noteq> None"

text \<open>Defaulting is a fixed point, so a controller that reads back a defaulted specification
  renders the same objects; every listener that is on has a port, every switch a value, and a
  cluster with the AWS plugin always gets TLS and its web listener.\<close>

theorem DefaultedSpec_fixed_point:
  "DefaultedSpec (c\<lparr>clu_Spec := DefaultedSpec c\<rparr>) = DefaultedSpec c \<and> well_defaulted (DefaultedSpec c)"
proof
  let ?d = "DefaultedSpec c" and ?e = "DefaultedSpec (c\<lparr>clu_Spec := DefaultedSpec c\<rparr>)"
  note fields = DefaultedSpec_def [of c] Let_def defaultProtocols_alt
  have protocols: "cs_Protocols ?d = listenerDefaults (AWSPluginEnabled (clu_Spec c)) (cs_Protocols (clu_Spec c))"
    and tls: "cs_TLS ?d = map_option defaultTLS (ensureTLS (AWSPluginEnabled (clu_Spec c)) (cs_TLS (clu_Spec c)))"
    by (simp_all add: fields)
  show "?e = ?d"
    using ports_nonzero
    by (simp add: DefaultedSpec_def [of "c\<lparr>clu_Spec := DefaultedSpec c\<rparr>"] Let_def defaultProtocols_alt
        protocols tls listenerDefaults_idem ensureTLS_again)
      (simp add: fields defaultPersistence_idem defaultKeys_idem
        option.map_comp comp_def defaultTLS_idem defaultLogging_idem)
  have "pe_Enabled (cs_Persistence ?d) \<noteq> None" "me_Enabled (cs_Metrics ?d) \<noteq> None" "cs_Replicas ?d \<noteq> None"
    by (auto simp: fields defaultPersistence_def orSet_def split: option.split)
  moreover have "IsEnabled (pts_Admin (cs_Protocols ?d))"
    "AWSPluginEnabled ?d \<longrightarrow> IsEnabled (pts_Web (cs_Protocols ?d))"
    by (simp_all add: protocols listenerDefaults_def Let_def IsEnabled_def)
  moreover have "AWSPluginEnabled ?d \<longrightarrow> TLSEnabled ?d"
    by (simp add: TLSEnabled_tlsOn tls)
  ultimately show "well_defaulted ?d"
    using listenerDefaults_ports by (simp add: well_defaulted_def protocols)
qed

end
