(* ===== verification/BootstrapCnf.thy ===== *)
theory BootstrapCnf
  imports ClusterSpec CnfVariables
begin

text \<open>
  The credentials of a cluster and the bootstrap \<open>proxysql.cnf\<close> rendered from them:
  \<open>PasswordsFromSecret\<close> and its helpers of \<open>operator/internal/controller/builders/builders.go\<close>,
  and \<open>operator/internal/controller/builders/proxysql_cnf.go\<close>. The template is written out as the
  list of its lines. Regular expressions are predicates on the bytes of a text; the errors carry
  the values their messages quote.
\<close>

section \<open>Credentials\<close>

definition re_user :: "char \<Rightarrow> bool" where
  "re_user c \<longleftrightarrow> 65 \<le> code c \<and> code c \<le> 90 \<or> 97 \<le> code c \<and> code c \<le> 122
     \<or> 48 \<le> code c \<and> code c \<le> 57 \<or> code c = 95 \<or> code c = 46 \<or> code c = 45"

definition cnfUsernameRe :: "string \<Rightarrow> bool" where
  "cnfUsernameRe s \<longleftrightarrow> s \<noteq> [] \<and> list_all re_user s"

datatype passwordError = ForbiddenCharacter string | ControlCharacter string

fun validRunes :: "string list \<Rightarrow> passwordError option" where
  "validRunes [] = None"
| "validRunes (r # rs) =
     (if r = [CHR 0x22] \<or> r = '';'' then Some (ForbiddenCharacter r)
      else (case r of
              [c] \<Rightarrow> if code c < 32 \<or> code c = 127 then Some (ControlCharacter r) else validRunes rs
            | _ \<Rightarrow> validRunes rs))"

definition validCnfPassword :: "string \<Rightarrow> passwordError option" where
  "validCnfPassword s = validRunes (runes s)"

datatype authError =
    PartialOperatorSchema "string list"
  | KeyInvalid string passwordError
  | MonitorUsernameKeyInvalid
  | UsernameKeyInvalid
  | NeitherSchema AuthKeys

definition MonitorUsernameFromSecret :: "(string, string) gomap \<Rightarrow> authError + string" where
  "MonitorUsernameFromSecret data =
     (case mget data ''monitor_username'' of
        None \<Rightarrow> Inr ''monitor''
      | Some name \<Rightarrow> if cnfUsernameRe name then Inr name else Inl MonitorUsernameKeyInvalid)"

definition zeroPasswords :: Passwords where
  "zeroPasswords = \<lparr>pw_Admin = [], pw_Radmin = [], pw_Monitor = [], pw_MonitorUsername = [],
     pw_ExtraAdminUser = [], pw_ExtraAdminPassword = []\<rparr>"

text \<open>
  The loop that validates the three passwords ranges over a map literal; the order below is that of
  the literal. Another order names another invalid key, but rejects the same Secrets.
\<close>

fun firstInvalid :: "(string \<times> string) list \<Rightarrow> authError option" where
  "firstInvalid [] = None"
| "firstInvalid ((key, val) # rest) =
     (case validCnfPassword val of Some e \<Rightarrow> Some (KeyInvalid key e) | None \<Rightarrow> firstInvalid rest)"

definition missingKeys :: "AuthKeys \<Rightarrow> string \<Rightarrow> string \<Rightarrow> string \<Rightarrow> string list" where
  "missingKeys keys admin radmin monitor =
     (if admin = [] then [ky_AdminPassword keys] else [])
     @ (if radmin = [] then [ky_RadminPassword keys] else [])
     @ (if monitor = [] then [ky_MonitorPassword keys] else [])"

definition PasswordsFromSecret :: "(string, string) gomap \<Rightarrow> AuthKeys \<Rightarrow> authError + Passwords" where
  "PasswordsFromSecret data keys =
     (let admin = mgetStr data (ky_AdminPassword keys);
          radmin = mgetStr data (ky_RadminPassword keys);
          monitor = mgetStr data (ky_MonitorPassword keys)
      in if admin \<noteq> [] \<or> radmin \<noteq> [] then
           (if missingKeys keys admin radmin monitor \<noteq> []
            then Inl (PartialOperatorSchema (missingKeys keys admin radmin monitor))
            else (case firstInvalid [(ky_AdminPassword keys, admin), (ky_RadminPassword keys, radmin),
                                     (ky_MonitorPassword keys, monitor)] of
                    Some e \<Rightarrow> Inl e
                  | None \<Rightarrow> (case MonitorUsernameFromSecret data of
                      Inl e \<Rightarrow> Inl e
                    | Inr name \<Rightarrow> Inr (zeroPasswords\<lparr>pw_Admin := admin, pw_Radmin := radmin,
                                        pw_Monitor := monitor, pw_MonitorUsername := name\<rparr>))))
         else let user = mgetStr data ''username''; pass = mgetStr data ''password'' in
           if user \<noteq> [] \<and> pass \<noteq> [] then
             (if \<not> cnfUsernameRe user then Inl UsernameKeyInvalid
              else (case validCnfPassword pass of
                 Some e \<Rightarrow> Inl (KeyInvalid ''password'' e)
               | None \<Rightarrow> (case MonitorUsernameFromSecret data of
                   Inl e \<Rightarrow> Inl e
                 | Inr name \<Rightarrow>
                     let pw = zeroPasswords\<lparr>pw_Admin := pass, pw_Radmin := pass, pw_Monitor := pass,
                                pw_MonitorUsername := name\<rparr>;
                         extra = (\<lambda>pw. if user \<noteq> ''admin'' \<and> user \<noteq> ''radmin''
                                       then pw\<lparr>pw_ExtraAdminUser := user, pw_ExtraAdminPassword := pass\<rparr> else pw)
                     in if monitor \<noteq> [] then
                          (case validCnfPassword monitor of
                             Some e \<Rightarrow> Inl (KeyInvalid (ky_MonitorPassword keys) e)
                           | None \<Rightarrow> Inr (extra (pw\<lparr>pw_Monitor := monitor\<rparr>)))
                        else Inr (extra pw))))
           else Inl (NeitherSchema keys))"

section \<open>Variables of the bootstrap file\<close>

definition cnfTrue :: string where "cnfTrue = ''true''"

definition reservedCnfKeys :: "string list" where
  "reservedCnfKeys =
     [''admin-admin_credentials'', ''admin-mysql_ifaces'', ''mysql-interfaces'', ''pgsql-interfaces'',
      ''mysql-monitor_username'', ''mysql-monitor_password'', ''pgsql-monitor_username'',
      ''pgsql-monitor_password'', ''admin-cluster_username'', ''admin-cluster_password'',
      ''admin-restapi_enabled'', ''admin-restapi_port'', ''admin-web_enabled'', ''admin-web_port'',
      ''mysql-ssl_p2s_ca'', ''mysql-ssl_p2s_cert'', ''mysql-ssl_p2s_key'',
      ''pgsql-ssl_p2s_ca'', ''pgsql-ssl_p2s_cert'', ''pgsql-ssl_p2s_key'']"

definition backendTLSMountPath :: string where "backendTLSMountPath = ''/etc/proxysql/backend-tls''"

definition tlsCnfVars :: "(string, string) gomap" where
  "tlsCnfVars = [(''ssl_p2s_ca'', backendTLSMountPath @ ''/ca.crt''),
     (''ssl_p2s_cert'', backendTLSMountPath @ ''/tls.crt''),
     (''ssl_p2s_key'', backendTLSMountPath @ ''/tls.key'')]"

definition cnfVarName :: "string \<Rightarrow> bool" where
  "cnfVarName s \<longleftrightarrow> s \<noteq> [] \<and> list_all re_key s"

datatype cnfError =
    MonitorUsernameInvalid
  | ReservedVariable string
  | InvalidVariableName string
  | DisallowedValue string

definition disallowedRune :: "string \<Rightarrow> bool" where
  "disallowedRune r \<longleftrightarrow>
     (case r of [c] \<Rightarrow> code c = 34 \<or> code c = 92 \<or> code c < 32 \<or> code c = 127 | _ \<Rightarrow> False)"

fun validateCnfVars :: "(string, string) gomap \<Rightarrow> string \<Rightarrow> cnfError option" where
  "validateCnfVars [] prefix = None"
| "validateCnfVars ((k, v) # vars) prefix =
     (if k \<in> set reservedCnfKeys then Some (ReservedVariable k)
      else if \<not> cnfVarName (trimPrefix prefix k) then Some (InvalidVariableName k)
      else if list_ex disallowedRune (runes v) then Some (DisallowedValue k)
      else validateCnfVars vars prefix)"

record cnfVar =
  cv_Name :: string
  cv_Value :: string

definition mergedCnfVars :: "(string, string) gomap \<Rightarrow> (string, string) gomap \<Rightarrow> string \<Rightarrow> cnfVar list" where
  "mergedCnfVars defaults user prefix =
     (let merged = fold (\<lambda>(k, v). mput (trimPrefix prefix k) v) user (fold (\<lambda>(k, v). mput k v) defaults [])
      in sort_key cv_Name (map (\<lambda>(k, v). \<lparr>cv_Name = k, cv_Value = v\<rparr>) merged))"

definition isTrue :: "bool option \<Rightarrow> bool" where
  "isTrue p \<longleftrightarrow> p = Some True"

definition LoggingEnabled :: "Builder \<Rightarrow> bool" where
  "LoggingEnabled b \<longleftrightarrow> (case cs_Logging (b_Spec b) of None \<Rightarrow> False | Some l \<Rightarrow> lg_Enabled l)"

definition adminDefaultVars :: "Builder \<Rightarrow> bool \<Rightarrow> (string, string) gomap" where
  "adminDefaultVars b clusterSync =
     (if isTrue (me_Enabled (cs_Metrics (b_Spec b)))
      then [(''restapi_enabled'', cnfTrue), (''restapi_port'', itoa (me_Port (cs_Metrics (b_Spec b))))]
      else [])
     @ (if IsEnabled (pts_Web (cs_Protocols (b_Spec b)))
        then [(''web_enabled'', cnfTrue), (''web_port'', itoa (pt_Port (pts_Web (cs_Protocols (b_Spec b)))))]
        else [])
     @ (if clusterSync
        then [(''cluster_check_interval_ms'', ''200''), (''cluster_check_status_frequency'', ''100''),
              (''cluster_mysql_query_rules_save_to_disk'', cnfTrue),
              (''cluster_mysql_servers_save_to_disk'', cnfTrue),
              (''cluster_mysql_users_save_to_disk'', cnfTrue),
              (''cluster_proxysql_servers_save_to_disk'', cnfTrue),
              (''cluster_mysql_query_rules_diffs_before_sync'', ''3''),
              (''cluster_mysql_servers_diffs_before_sync'', ''3''),
              (''cluster_mysql_users_diffs_before_sync'', ''3''),
              (''cluster_proxysql_servers_diffs_before_sync'', ''3'')]
        else [])"

definition addBackendTLSVars :: "Builder \<Rightarrow> (string, string) gomap \<Rightarrow> (string, string) gomap" where
  "addBackendTLSVars b d =
     (if \<not> backendTLSEnabled b then d
      else let d = mput ''ssl_p2s_ca'' (mgetStr tlsCnfVars ''ssl_p2s_ca'') d in
        (case cs_TLS (b_Spec b) of
           None \<Rightarrow> d
         | Some t \<Rightarrow> (case tl_Backend t of
             None \<Rightarrow> d
           | Some be \<Rightarrow>
               if tb_ClientCertSecretName be \<noteq> []
               then mput ''ssl_p2s_key'' (mgetStr tlsCnfVars ''ssl_p2s_key'')
                      (mput ''ssl_p2s_cert'' (mgetStr tlsCnfVars ''ssl_p2s_cert'') d)
               else d)))"

definition mysqlDefaultVars :: "Builder \<Rightarrow> (string, string) gomap" where
  "mysqlDefaultVars b =
     addBackendTLSVars b
       ([(''threads'', ''4'')]
        @ (if LoggingEnabled b \<and> (case cs_Logging (b_Spec b) of None \<Rightarrow> False | Some l \<Rightarrow> lg_QueryLog l)
           then [(''eventslog_filename'', ''/var/log/proxysql/queries''), (''eventslog_default_log'', ''1''),
                 (''eventslog_format'', ''2''), (''eventslog_filesize'', ''52428800'')]
           else []))"

definition pgsqlDefaultVars :: "Builder \<Rightarrow> (string, string) gomap" where
  "pgsqlDefaultVars b = addBackendTLSVars b [(''threads'', ''4'')]"

section \<open>The file\<close>

record cnfData =
  cn_ClusterName :: string
  cn_AWSManaged :: bool
  cn_AdminPassword :: string
  cn_RadminPassword :: string
  cn_MonitorPassword :: string
  cn_MonitorUsername :: string
  cn_ExtraAdminUser :: string
  cn_ExtraAdminPassword :: string
  cn_AdminPort :: int
  cn_MySQLEnabled :: bool
  cn_MySQLPort :: int
  cn_PostgreSQLEnabled :: bool
  cn_PostgreSQLPort :: int
  cn_ClusterSync :: bool
  cn_ProxySQLServers :: "string list"
  cn_AdminExtra :: "cnfVar list"
  cn_MySQLExtra :: "cnfVar list"
  cn_PgSQLExtra :: "cnfVar list"

definition setting :: "string \<Rightarrow> string \<Rightarrow> string" where
  "setting name value = ''  '' @ name @ ''='' @ [CHR 0x22] @ value @ [CHR 0x22]"

definition extraLines :: "cnfVar list \<Rightarrow> string list" where
  "extraLines vs = map (\<lambda>v. setting (cv_Name v) (cv_Value v)) vs"

definition adminCredentials :: "cnfData \<Rightarrow> string" where
  "adminCredentials d =
     ''admin:'' @ cn_AdminPassword d @ '';radmin:'' @ cn_RadminPassword d
     @ (if cn_ExtraAdminUser d \<noteq> [] then '';'' @ cn_ExtraAdminUser d @ '':'' @ cn_ExtraAdminPassword d else [])"

definition adminLines :: "cnfData \<Rightarrow> string list" where
  "adminLines d =
     [setting ''admin_credentials'' (adminCredentials d),
      setting ''mysql_ifaces'' (''0.0.0.0:'' @ itoa (cn_AdminPort d))]
     @ (if cn_ClusterSync d
        then [setting ''cluster_username'' ''radmin'', setting ''cluster_password'' (cn_RadminPassword d)] else [])
     @ extraLines (cn_AdminExtra d)"

definition backendLines :: "cnfData \<Rightarrow> int \<Rightarrow> cnfVar list \<Rightarrow> string list" where
  "backendLines d port extra =
     [setting ''interfaces'' (''0.0.0.0:'' @ itoa port),
      setting ''monitor_username'' (cn_MonitorUsername d),
      setting ''monitor_password'' (cn_MonitorPassword d)]
     @ extraLines extra"

definition peerLine :: "cnfData \<Rightarrow> string \<Rightarrow> string" where
  "peerLine d s = ''  { hostname='' @ [CHR 0x22] @ s @ [CHR 0x22] @ '', port='' @ itoa (cn_AdminPort d)
     @ '', weight=0, comment='' @ [CHR 0x22, CHR 0x22] @ '' }''"

text \<open>A comma separates an entry from the one before it, at the end of the earlier line.\<close>

fun peerLines :: "cnfData \<Rightarrow> string list \<Rightarrow> string list" where
  "peerLines d [] = []"
| "peerLines d [s] = [peerLine d s]"
| "peerLines d (s # ss) = (peerLine d s @ '','') # peerLines d ss"

definition sectionLines :: "string \<Rightarrow> string list \<Rightarrow> string list" where
  "sectionLines name ls = [[], name @ ''_variables='', ''{''] @ ls @ [''}'']"

definition headerLines :: "cnfData \<Rightarrow> string list" where
  "headerLines d =
     [''# Operator-managed bootstrap config for ProxySQLCluster '' @ cn_ClusterName d @ ''.'',
      ''# Backends, users, query rules, and runtime tuning are pushed via ProxySQLConfig.'',
      ''datadir='' @ [CHR 0x22] @ ''/var/lib/proxysql'' @ [CHR 0x22]]
     @ (if cn_AWSManaged d
        then [''plugins=('' @ [CHR 0x22] @ ''/usr/lib/proxysql/ProxySQL_Aws_Plugin.so'' @ [CHR 0x22] @ '');'',
              ''web_interface_plugin='' @ [CHR 0x22] @ ''/usr/lib/proxysql/Web_Interface_plugin.so'' @ [CHR 0x22] @ '';'',
              ''aws_managed=true;'']
        else [])"

definition peerSection :: "cnfData \<Rightarrow> string list" where
  "peerSection d =
     (if cn_ProxySQLServers d \<noteq> []
      then [[], ''proxysql_servers='', ''(''] @ peerLines d (cn_ProxySQLServers d) @ ['')''] else [])"

definition bootstrapCnfTemplate :: "cnfData \<Rightarrow> string list" where
  "bootstrapCnfTemplate d =
     headerLines d
     @ sectionLines ''admin'' (adminLines d)
     @ (if cn_MySQLEnabled d
        then sectionLines ''mysql'' (backendLines d (cn_MySQLPort d) (cn_MySQLExtra d)) else [])
     @ (if cn_PostgreSQLEnabled d
        then sectionLines ''pgsql'' (backendLines d (cn_PostgreSQLPort d) (cn_PgSQLExtra d)) else [])
     @ peerSection d @ [[]]"

definition trimRightNewlines :: "string \<Rightarrow> string" where
  "trimRightNewlines s = rev (dropWhile (\<lambda>c. code c = 10) (rev s))"

definition bootstrapData :: "Builder \<Rightarrow> string list \<Rightarrow> cnfData" where
  "bootstrapData b proxysqlServers =
     (let clusterSync = (length proxysqlServers > 0); s = b_Spec b; p = cs_Protocols s; pw = b_Pw b in
      \<lparr>cn_ClusterName = b_Name b, cn_AWSManaged = AWSPluginEnabled s, cn_AdminPassword = pw_Admin pw,
       cn_RadminPassword = pw_Radmin pw, cn_MonitorPassword = pw_Monitor pw,
       cn_MonitorUsername = pw_MonitorUsername pw, cn_ExtraAdminUser = pw_ExtraAdminUser pw,
       cn_ExtraAdminPassword = pw_ExtraAdminPassword pw, cn_AdminPort = pt_Port (pts_Admin p),
       cn_MySQLEnabled = IsEnabled (pts_MySQL p), cn_MySQLPort = pt_Port (pts_MySQL p),
       cn_PostgreSQLEnabled = IsEnabled (pts_PostgreSQL p), cn_PostgreSQLPort = pt_Port (pts_PostgreSQL p),
       cn_ClusterSync = clusterSync, cn_ProxySQLServers = proxysqlServers,
       cn_AdminExtra = mergedCnfVars (adminDefaultVars b clusterSync) (va_Admin (cs_Variables s)) ''admin-'',
       cn_MySQLExtra = mergedCnfVars (mysqlDefaultVars b) (va_MySQL (cs_Variables s)) ''mysql-'',
       cn_PgSQLExtra = mergedCnfVars (pgsqlDefaultVars b) (va_PostgreSQL (cs_Variables s)) ''pgsql-''\<rparr>)"

definition BootstrapCnf :: "Builder \<Rightarrow> string list \<Rightarrow> cnfError + string" where
  "BootstrapCnf b proxysqlServers =
     (if \<not> cnfUsernameRe (pw_MonitorUsername (b_Pw b)) then Inl MonitorUsernameInvalid
      else let v = cs_Variables (b_Spec b) in
        (case validateCnfVars (va_Admin v) ''admin-'' of Some e \<Rightarrow> Inl e | None \<Rightarrow>
        (case validateCnfVars (va_MySQL v) ''mysql-'' of Some e \<Rightarrow> Inl e | None \<Rightarrow>
        (case validateCnfVars (va_PostgreSQL v) ''pgsql-'' of Some e \<Rightarrow> Inl e | None \<Rightarrow>
           Inr (trimRightNewlines (joinStr [CHR 0x0A] (bootstrapCnfTemplate (bootstrapData b proxysqlServers)))
                @ [CHR 0x0A])))))"

section \<open>Credentials are safe to render\<close>

definition password_char :: "char \<Rightarrow> bool" where
  "password_char c \<longleftrightarrow> 32 \<le> code c \<and> code c \<notin> {34, 59, 127}"

lemma code_eq: "code c = 34 \<longleftrightarrow> c = CHR 0x22" "code c = 59 \<longleftrightarrow> c = CHR '';''" "code c = 10 \<longleftrightarrow> c = CHR 0x0A"
  "code c = 58 \<longleftrightarrow> c = CHR '':''"
  using of_char_eq_iff [where 'a = nat, of c "CHR 0x22"] of_char_eq_iff [where 'a = nat, of c "CHR '';''"]
    of_char_eq_iff [where 'a = nat, of c "CHR 0x0A"] of_char_eq_iff [where 'a = nat, of c "CHR '':''"]
  by simp_all

lemma validRunes_None:
  "validRunes rs = None \<longleftrightarrow> (\<forall>r \<in> set rs. \<forall>c. r = [c] \<longrightarrow> password_char c)"
proof (induction rs)
  case Nil
  then show ?case by simp
next
  case (Cons r rs)
  have q: "r = [CHR 0x22] \<or> r = '';'' \<longleftrightarrow> (\<exists>c. r = [c] \<and> code c \<in> {34, 59})"
    by (cases r; cases "tl r") (auto simp: code_eq)
  then show ?case
    by (cases r; cases "tl r") (auto simp: Cons password_char_def)
qed

text \<open>Byte by byte, what the validation accepts.\<close>

lemma validCnfPassword_None: "validCnfPassword s = None \<longleftrightarrow> list_all password_char s"
proof -
  have non_ascii: "ascii c \<or> password_char c" for c by (auto simp: password_char_def)
  have "(\<forall>c. [c] \<in> set (runes s) \<longrightarrow> password_char c) \<longleftrightarrow> (\<forall>c \<in> set s. password_char c)"
    using ascii_rune_iff [of _ s] runes_single_ascii [of _ s] non_ascii by blast
  then show ?thesis by (auto simp: validCnfPassword_def validRunes_None list_all_iff)
qed

lemma firstInvalid_None: "firstInvalid kvs = None \<longleftrightarrow> list_all (\<lambda>(k, v). list_all password_char v) kvs"
  by (induction kvs rule: firstInvalid.induct)
    (auto simp: validCnfPassword_None [symmetric] split: option.splits)

definition safe_credentials :: "Passwords \<Rightarrow> bool" where
  "safe_credentials pw \<longleftrightarrow>
     list_all (\<lambda>p. p \<noteq> [] \<and> list_all password_char p) [pw_Admin pw, pw_Radmin pw, pw_Monitor pw]
     \<and> cnfUsernameRe (pw_MonitorUsername pw)
     \<and> (pw_ExtraAdminUser pw \<noteq> [] \<longrightarrow>
          cnfUsernameRe (pw_ExtraAdminUser pw) \<and> pw_ExtraAdminUser pw \<notin> {''admin'', ''radmin''}
          \<and> pw_ExtraAdminPassword pw \<noteq> [] \<and> list_all password_char (pw_ExtraAdminPassword pw))"

lemma monitor_name_ok: "MonitorUsernameFromSecret data = Inr n \<Longrightarrow> cnfUsernameRe n"
  by (auto simp: MonitorUsernameFromSecret_def cnfUsernameRe_def re_user_def split: option.splits if_splits)

lemma PasswordsFromSecret_safe: "PasswordsFromSecret data keys = Inr pw \<Longrightarrow> safe_credentials pw"
  by (auto simp: PasswordsFromSecret_def Let_def safe_credentials_def zeroPasswords_def missingKeys_def
      validCnfPassword_None dest: monitor_name_ok
      split: if_splits option.splits sum.splits)

lemma user_char_free: "list_all re_user u \<Longrightarrow> CHR '':'' \<notin> set u \<and> CHR '';'' \<notin> set u \<and> CHR 0x0A \<notin> set u"
  by (auto simp: list_all_iff re_user_def)

lemma password_free: "list_all password_char p \<Longrightarrow> CHR '';'' \<notin> set p \<and> CHR 0x22 \<notin> set p \<and> CHR 0x0A \<notin> set p"
  by (auto simp: list_all_iff password_char_def)

text \<open>The credentials taken from an accepted Secret come out of the rendered \<open>admin_credentials\<close>
  unchanged: splitting it at the semicolons and each part at its first colon gives exactly the
  users and passwords of the Secret, no user twice.\<close>

theorem admin_credentials_split:
  assumes "PasswordsFromSecret data keys = Inr pw"
  shows "map (cutAt CHR '':'') (splitOn CHR '';'' (adminCredentials (bootstrapData (New c pw) servers))) =
      map Some ([(''admin'', pw_Admin pw), (''radmin'', pw_Radmin pw)]
        @ (if pw_ExtraAdminUser pw \<noteq> [] then [(pw_ExtraAdminUser pw, pw_ExtraAdminPassword pw)] else []))
    \<and> distinct ([''admin'', ''radmin'']
        @ (if pw_ExtraAdminUser pw \<noteq> [] then [pw_ExtraAdminUser pw] else []))"
proof -
  let ?a = "''admin:'' @ pw_Admin pw" and ?r = "''radmin:'' @ pw_Radmin pw"
    and ?e = "pw_ExtraAdminUser pw @ '':'' @ pw_ExtraAdminPassword pw"
  have s: "safe_credentials pw" by (rule PasswordsFromSecret_safe [OF assms])
  have a: "CHR '';'' \<notin> set ?a" and r: "CHR '';'' \<notin> set ?r"
    using s by (simp_all add: safe_credentials_def password_free)
  have cut: "cutAt CHR '':'' ?a = Some (''admin'', pw_Admin pw)" "cutAt CHR '':'' ?r = Some (''radmin'', pw_Radmin pw)"
    by simp_all
  show ?thesis
  proof (cases "pw_ExtraAdminUser pw = []")
    case True
    have "adminCredentials (bootstrapData (New c pw) servers) = ?a @ CHR '';'' # ?r"
      using True by (simp add: adminCredentials_def bootstrapData_def Let_def New_def)
    then show ?thesis using True cut splitOn_append [OF a] splitOn_free [OF r] by simp
  next
    case False
    then have u: "list_all re_user (pw_ExtraAdminUser pw)" and p: "list_all password_char (pw_ExtraAdminPassword pw)"
      and new: "pw_ExtraAdminUser pw \<notin> {''admin'', ''radmin''}"
      using s by (simp_all add: safe_credentials_def cnfUsernameRe_def)
    have e: "CHR '';'' \<notin> set ?e" using user_char_free [OF u] password_free [OF p] by simp
    have "cutAt CHR '':'' ?e = Some (pw_ExtraAdminUser pw, pw_ExtraAdminPassword pw)"
      using cutAt_append [of "CHR '':''"] user_char_free [OF u] by simp
    moreover have "adminCredentials (bootstrapData (New c pw) servers) = ?a @ CHR '';'' # ?r @ CHR '';'' # ?e"
      using False by (simp add: adminCredentials_def bootstrapData_def Let_def New_def)
    ultimately show ?thesis
      using False new cut splitOn_append [OF a] splitOn_append [OF r] splitOn_free [OF e] by auto
  qed
qed

section \<open>The settings of the rendered file\<close>

definition adminSettings :: "cnfData \<Rightarrow> (string \<times> string) list" where
  "adminSettings d =
     [(''admin_credentials'', adminCredentials d), (''mysql_ifaces'', ''0.0.0.0:'' @ itoa (cn_AdminPort d))]
     @ (if cn_ClusterSync d then [(''cluster_username'', ''radmin''), (''cluster_password'', cn_RadminPassword d)]
        else [])
     @ map (\<lambda>v. (cv_Name v, cv_Value v)) (cn_AdminExtra d)"

definition backendSettings :: "cnfData \<Rightarrow> int \<Rightarrow> cnfVar list \<Rightarrow> (string \<times> string) list" where
  "backendSettings d port extra =
     [(''interfaces'', ''0.0.0.0:'' @ itoa port), (''monitor_username'', cn_MonitorUsername d),
      (''monitor_password'', cn_MonitorPassword d)]
     @ map (\<lambda>v. (cv_Name v, cv_Value v)) extra"

definition cnfSections :: "cnfData \<Rightarrow> (string \<times> (string \<times> string) list) list" where
  "cnfSections d =
     [(''admin'', adminSettings d)]
     @ (if cn_MySQLEnabled d then [(''mysql'', backendSettings d (cn_MySQLPort d) (cn_MySQLExtra d))] else [])
     @ (if cn_PostgreSQLEnabled d then [(''pgsql'', backendSettings d (cn_PostgreSQLPort d) (cn_PgSQLExtra d))] else [])"

definition fullSettings :: "cnfData \<Rightarrow> (string \<times> string) list" where
  "fullSettings d = concat (map (\<lambda>(sec, ss). map (\<lambda>(n, v). (sec @ ''-'' @ n, v)) ss) (cnfSections d))"

definition good_settings :: "(string \<times> string) list \<Rightarrow> bool" where
  "good_settings ss \<longleftrightarrow> list_all (\<lambda>(n, v). cnfVarName n \<and> CHR 0x0A \<notin> set v) ss"

definition settingLines :: "(string \<times> string) list \<Rightarrow> string list" where
  "settingLines ss = map (\<lambda>(n, v). setting n v) ss"

lemma lines_settings:
  "adminLines d = settingLines (adminSettings d)"
  "backendLines d port extra = settingLines (backendSettings d port extra)"
  by (simp_all add: adminLines_def adminSettings_def backendLines_def backendSettings_def extraLines_def
      settingLines_def comp_def)

definition varLine :: "string \<Rightarrow> string \<times> string \<Rightarrow> cnfLine" where
  "varLine sec nv = \<lparr>cl_text = setting (fst nv) (snd nv), cl_prefix = ''  '', cl_key = fst nv,
     cl_fullName = sec @ ''-'' @ fst nv, cl_value = [CHR 0x22] @ snd nv @ [CHR 0x22], cl_isVar = True\<rparr>"

lemma cnfVarLine_setting:
  assumes "cnfVarName n"
  shows "cnfVarLine (setting n v) = Some (''  '', n, [CHR 0x22] @ v @ [CHR 0x22])"
proof -
  obtain c t where n: "n = c # t" using assms by (cases n) (auto simp: cnfVarName_def)
  then have "\<not> re_space c" using assms by (auto simp: cnfVarName_def re_space_def re_key_def)
  then have lead: "takeWhile re_space (setting n v) = ''  ''"
    "dropWhile re_space (setting n v) = n @ ''='' @ [CHR 0x22] @ v @ [CHR 0x22]"
    by (simp_all add: setting_def n re_space_def)
  have "\<forall>c \<in> set n. re_key c" "\<not> re_key (CHR ''='')"
    using assms by (auto simp: cnfVarName_def list_all_iff re_key_def)
  then have key: "takeWhile re_key (n @ ''='' @ [CHR 0x22] @ v @ [CHR 0x22]) = n"
    "dropWhile re_key (n @ ''='' @ [CHR 0x22] @ v @ [CHR 0x22]) = ''='' @ [CHR 0x22] @ v @ [CHR 0x22]"
    by (simp_all add: takeWhile_append2 dropWhile_append2)
  have "n \<noteq> []" by (simp add: n)
  then show ?thesis
    by (simp only: cnfVarLine_def Let_def lead key) (simp add: trimRightSpace_def re_space_def)
qed

lemma scan_settings:
  "good_settings ss \<Longrightarrow>
     scanLines (Some sec) (settingLines ss @ rest) = map (varLine sec) ss @ scanLines (Some sec) rest"
proof (induction ss)
  case Nil
  then show ?case by (simp add: settingLines_def)
next
  case (Cons nv ss)
  obtain n v where nv: "nv = (n, v)" by (cases nv)
  then have "cnfVarName n" "good_settings ss" using Cons.prems by (simp_all add: good_settings_def)
  then show ?case
    using Cons.IH
    by (simp add: nv settingLines_def cnfVarLine_setting varLine_def) (simp add: setting_def)
qed

lemma scan_section:
  assumes "good_settings ss" and "sec \<in> {''admin'', ''mysql'', ''pgsql''}"
  shows "scanLines None (sectionLines sec (settingLines ss) @ rest) =
     [textLine [], textLine (sec @ ''_variables=''), textLine ''{''] @ map (varLine sec) ss
       @ textLine ''}'' # scanLines None rest"
proof -
  have start: "cnfSectionStart (sec @ ''_variables='') = Some sec" and blank: "cnfSectionStart [] = None"
    using assms(2) by (auto simp: cnfSectionStart_def)
  have brace: "cnfVarLine ''{'' = None" by (simp add: cnfVarLine_def re_space_def re_key_def)
  show ?thesis
    using scan_settings [OF assms(1), of sec "''}'' # rest"]
    by (simp add: sectionLines_def start blank brace)
qed

lemma scan_text:
  "list_all (\<lambda>l. cnfSectionStart l = None) ls \<Longrightarrow> scanLines None (ls @ rest) = map textLine ls @ scanLines None rest"
  by (induction ls) auto

section \<open>Reading the rendered file back\<close>

text \<open>A file is cleanly rendered when no interpolated text holds a newline and every variable has
  a proper name.\<close>

definition clean :: "string \<Rightarrow> bool" where
  "clean s \<longleftrightarrow> CHR 0x0A \<notin> set s"

definition clean_data :: "cnfData \<Rightarrow> bool" where
  "clean_data d \<longleftrightarrow> clean (cn_ClusterName d) \<and> list_all clean (cn_ProxySQLServers d)
     \<and> list_all (\<lambda>(sec, ss). good_settings ss) (cnfSections d)"

lemma clean_simps [simp]: "clean []" "clean (a @ b) \<longleftrightarrow> clean a \<and> clean b" "clean (x # a) \<longleftrightarrow> x \<noteq> CHR 0x0A \<and> clean a"
  by (auto simp: clean_def)

lemma clean_itoa [simp]: "clean (itoa i)"
  by (simp add: clean_def itoa_not_in is_digit_def)

lemma clean_name: "cnfVarName n \<Longrightarrow> clean n"
  by (auto simp: cnfVarName_def clean_def list_all_iff re_key_def)

lemma clean_settingLines: "good_settings ss \<Longrightarrow> list_all clean (settingLines ss)"
  by (fastforce simp: good_settings_def settingLines_def list_all_iff setting_def clean_def dest: clean_name)

lemma clean_peerLines: "list_all clean ss \<Longrightarrow> list_all clean (peerLines d ss)"
  by (induction d ss rule: peerLines.induct) (simp_all add: peerLine_def)

lemma clean_template: "clean_data d \<Longrightarrow> list_all clean (bootstrapCnfTemplate d)"
  by (simp add: clean_data_def cnfSections_def bootstrapCnfTemplate_def headerLines_def peerSection_def sectionLines_def lines_settings
      clean_settingLines clean_peerLines split: if_splits)

lemma joinStr_snoc: "ws \<noteq> [] \<Longrightarrow> joinStr sep (ws @ [w]) = joinStr sep ws @ sep @ w"
  by (induction sep ws rule: joinStr.induct) (simp_all add: joinStr_Cons)

lemma template_end: "\<exists>ls e. bootstrapCnfTemplate d = ls @ [[e], []] \<and> e \<noteq> CHR 0x0A"
proof -
  have snoc: "\<exists>ls e. xs @ (ys @ [[a]]) @ [[]] = ls @ [[e], []] \<and> e \<noteq> CHR 0x0A"
    if "a \<noteq> CHR 0x0A" for xs ys :: "string list" and a
    using that by (intro exI [of _ "xs @ ys"] exI [of _ a]) simp
  show ?thesis
    unfolding bootstrapCnfTemplate_def peerSection_def sectionLines_def
    using snoc [where a = "CHR ''}''"] snoc [where a = "CHR '')''"]
    by (cases "cn_ProxySQLServers d \<noteq> []"; cases "cn_PostgreSQLEnabled d"; cases "cn_MySQLEnabled d")
      (simp only: append_assoc [symmetric] if_True if_False append_Nil2; force)+
qed

lemma rendered_text:
  "trimRightNewlines (joinStr [CHR 0x0A] (bootstrapCnfTemplate d)) @ [CHR 0x0A] =
     joinStr [CHR 0x0A] (bootstrapCnfTemplate d)"
proof -
  obtain ls e where t: "bootstrapCnfTemplate d = ls @ [[e], []]" and e: "e \<noteq> CHR 0x0A"
    using template_end by blast
  have body: "\<exists>p. joinStr [CHR 0x0A] (ls @ [[e]]) = p @ [e]"
    using joinStr_snoc [of ls "[CHR 0x0A]" "[e]"] by (cases ls) simp_all
  have "joinStr [CHR 0x0A] (bootstrapCnfTemplate d) = joinStr [CHR 0x0A] (ls @ [[e]]) @ [CHR 0x0A]"
    using joinStr_snoc [of "ls @ [[e]]" "[CHR 0x0A]" "[]"] by (simp add: t)
  then show ?thesis using body e by (auto simp: trimRightNewlines_def code_eq)
qed

text \<open>What the parser accumulates over a list of settings.\<close>

definition accumulate :: "(string \<times> string) list \<Rightarrow> (string, string) gomap \<Rightarrow> (string, string) gomap" where
  "accumulate = fold (\<lambda>(k, v) out. if k \<in> set structuralCnfKeys then out else mput k v out)"

lemma header_text: "list_all (\<lambda>l. cnfSectionStart l = None) (headerLines d)"
  by (simp add: headerLines_def cnfSectionStart_def)

lemma peers_text: "list_all (\<lambda>l. cnfSectionStart l = None) (peerLines d ss)"
  by (induction d ss rule: peerLines.induct) (simp_all add: peerLine_def cnfSectionStart_def)

lemma tail_text: "list_all (\<lambda>l. cnfSectionStart l = None) (peerSection d @ [[]])"
  using peers_text by (simp add: peerSection_def cnfSectionStart_def)

definition parseStep :: "cnfLine \<Rightarrow> (string, string) gomap \<Rightarrow> (string, string) gomap" where
  "parseStep l out =
     (if \<not> cl_isVar l then out else if cl_fullName l \<in> set structuralCnfKeys then out
      else mput (cl_fullName l) (unquote (cl_value l)) out)"

lemma Parse_steps: "ParseCnfVariables cnf = fold parseStep (scanCnf cnf) []"
  by (simp add: ParseCnfVariables_def parseStep_def [abs_def])

lemma parse_text [simp]: "fold parseStep (map textLine ls) out = out"
  by (induction ls arbitrary: out) (simp_all add: parseStep_def textLine_def)

lemma parse_textLine [simp]: "parseStep (textLine l) out = out"
  by (simp add: parseStep_def textLine_def)

lemma parse_vars:
  "fold parseStep (map (varLine sec) ss) out = accumulate (map (\<lambda>(n, v). (sec @ ''-'' @ n, v)) ss) out"
  by (induction ss arbitrary: out)
    (auto simp: accumulate_def parseStep_def varLine_def unquote_def)

lemma parse_template:
  assumes "clean_data d"
  shows "ParseCnfVariables (joinStr [CHR 0x0A] (bootstrapCnfTemplate d)) = accumulate (fullSettings d) []"
proof -
  have "bootstrapCnfTemplate d \<noteq> []" by (simp add: bootstrapCnfTemplate_def headerLines_def)
  moreover have "list_all (\<lambda>w. CHR 0x0A \<notin> set w) (bootstrapCnfTemplate d)"
    using clean_template [OF assms] by (simp add: clean_def [abs_def])
  ultimately have split: "splitOn (CHR 0x0A) (joinStr [CHR 0x0A] (bootstrapCnfTemplate d)) = bootstrapCnfTemplate d"
    by (rule splitOn_joinStr)
  have good: "good_settings (adminSettings d)"
    "cn_MySQLEnabled d \<Longrightarrow> good_settings (backendSettings d (cn_MySQLPort d) (cn_MySQLExtra d))"
    "cn_PostgreSQLEnabled d \<Longrightarrow> good_settings (backendSettings d (cn_PostgreSQLPort d) (cn_PgSQLExtra d))"
    using assms by (simp_all add: clean_data_def cnfSections_def)
  have tail: "fold parseStep (scanLines None (peerSection d @ [[]])) out = out" for out
    using scan_text [OF tail_text [of d], of "[]"] by simp
  have header: "fold parseStep (scanLines None (headerLines d @ rest)) out = fold parseStep (scanLines None rest) out"
    for rest out
    by (simp add: scan_text [OF header_text])
  have pg: "fold parseStep (scanLines None ((if cn_PostgreSQLEnabled d
       then sectionLines ''pgsql'' (settingLines (backendSettings d (cn_PostgreSQLPort d) (cn_PgSQLExtra d))) else []) @ rest)) out =
     fold parseStep (scanLines None rest) (accumulate (if cn_PostgreSQLEnabled d
       then map (\<lambda>(n, v). (''pgsql'' @ ''-'' @ n, v)) (backendSettings d (cn_PostgreSQLPort d) (cn_PgSQLExtra d)) else []) out)" for rest out
    using good(3) by (simp add: scan_section parse_vars) (simp add: accumulate_def)
  have my: "fold parseStep (scanLines None ((if cn_MySQLEnabled d
       then sectionLines ''mysql'' (settingLines (backendSettings d (cn_MySQLPort d) (cn_MySQLExtra d))) else []) @ rest)) out =
     fold parseStep (scanLines None rest) (accumulate (if cn_MySQLEnabled d
       then map (\<lambda>(n, v). (''mysql'' @ ''-'' @ n, v)) (backendSettings d (cn_MySQLPort d) (cn_MySQLExtra d)) else []) out)" for rest out
    using good(2) by (simp add: scan_section parse_vars) (simp add: accumulate_def)
  have ad: "fold parseStep (scanLines None (sectionLines ''admin'' (settingLines (adminSettings d)) @ rest)) out =
     fold parseStep (scanLines None rest) (accumulate (map (\<lambda>(n, v). (''admin'' @ ''-'' @ n, v)) (adminSettings d)) out)" for rest out
    using good(1) by (simp add: scan_section parse_vars)
  have app: "accumulate (a @ b) out = accumulate b (accumulate a out)" for a b out
    by (simp add: accumulate_def)
  have full: "fullSettings d =
     map (\<lambda>(n, v). (''admin'' @ ''-'' @ n, v)) (adminSettings d)
     @ (if cn_MySQLEnabled d then map (\<lambda>(n, v). (''mysql'' @ ''-'' @ n, v)) (backendSettings d (cn_MySQLPort d) (cn_MySQLExtra d)) else [])
     @ (if cn_PostgreSQLEnabled d then map (\<lambda>(n, v). (''pgsql'' @ ''-'' @ n, v)) (backendSettings d (cn_PostgreSQLPort d) (cn_PgSQLExtra d)) else [])"
    by (simp add: fullSettings_def cnfSections_def)
  show ?thesis
    unfolding Parse_steps scanCnf_def split
    unfolding bootstrapCnfTemplate_def lines_settings
    by (simp only: header ad my pg tail full app)
qed

lemma mget_accumulate:
  assumes "distinct (map fst kvs)"
  shows "mget (accumulate kvs []) k = (if k \<in> set structuralCnfKeys then None else map_of kvs k)"
proof -
  have "mget (accumulate kvs m) k = (if k \<in> set structuralCnfKeys then mget m k
      else (case map_of kvs k of Some v \<Rightarrow> Some v | None \<Rightarrow> mget m k))" for m
    using assms
  proof (induction kvs arbitrary: m)
    case Nil
    then show ?case by (simp add: accumulate_def)
  next
    case (Cons kv kvs)
    obtain k' v where kv: "kv = (k', v)" by (cases kv)
    have acc: "accumulate ((k', v) # kvs) m = accumulate kvs (if k' \<in> set structuralCnfKeys then m else mput k' v m)"
      by (simp add: accumulate_def)
    have "map_of kvs k' = None" using Cons.prems by (simp add: kv map_of_eq_None_iff)
    then show ?case
      using Cons by (simp add: acc kv update_conv' split: option.split)
  qed
  from this [of "[]"] show ?thesis by (simp split: option.split)
qed

section \<open>Every setting once\<close>

lemma mput_set: "x \<in> set (mput k v m) \<Longrightarrow> x = (k, v) \<or> x \<in> set m"
  by (induction m) (auto split: if_splits)

lemma merge_invariant:
  assumes "list_all P m" and "list_all (\<lambda>(k, v). P (f k, v)) kvs"
  shows "list_all P (fold (\<lambda>(k, v). mput (f k) v) kvs m)"
  using assms
proof (induction kvs arbitrary: m)
  case (Cons kv kvs)
  obtain k v where kv: "kv = (k, v)" by (cases kv)
  have "P x" if "x \<in> set (mput (f k) v m)" for x
    using mput_set [OF that] Cons.prems by (auto simp: kv list_all_iff)
  then have "list_all P (mput (f k) v m)" by (simp add: list_all_iff)
  then show ?case using Cons by (simp add: kv)
qed simp

lemma merge_distinct: "mwf m \<Longrightarrow> mwf (fold (\<lambda>(k, v). mput (f k) v) kvs m)"
  using gm.wf_fold_put [of m "\<lambda>x. f (fst x)" snd kvs] by (simp add: split_def)

lemma validateCnfVars_None:
  "validateCnfVars vars p = None \<longleftrightarrow>
     list_all (\<lambda>(k, v). k \<notin> set reservedCnfKeys \<and> cnfVarName (trimPrefix p k)
       \<and> \<not> list_ex disallowedRune (runes v)) vars"
  by (induction vars p rule: validateCnfVars.induct) auto

lemma allowed_clean:
  assumes "\<not> list_ex disallowedRune (runes v)"
  shows "clean v"
proof -
  have "[CHR 0x0A] \<notin> set (runes v)" using assms by (auto simp: list_ex_iff disallowedRune_def)
  then show ?thesis using runes_has_ascii [of "CHR 0x0A" v] by (auto simp: clean_def)
qed

definition prefixed :: "string \<Rightarrow> (string, string) gomap \<Rightarrow> bool" where
  "prefixed p vars \<longleftrightarrow> list_all (\<lambda>(k, v). hasPrefix p k) vars"

lemma distinct_map_sort: "distinct (map f (sort_key g xs)) = distinct (map f xs)"
  by (simp add: distinct_map)

lemma mergedCnfVars_props:
  assumes "validateCnfVars user p = None" and "prefixed p user"
    and "list_all (\<lambda>(k, v). cnfVarName k \<and> clean v \<and> k \<notin> set lits) defaults"
    and "list_all (\<lambda>n. p @ n \<in> set reservedCnfKeys) lits"
  shows "distinct (map cv_Name (mergedCnfVars defaults user p))"
    and "list_all (\<lambda>v. cnfVarName (cv_Name v) \<and> clean (cv_Value v) \<and> cv_Name v \<notin> set lits)
           (mergedCnfVars defaults user p)"
proof -
  let ?d = "fold (\<lambda>(k, v). mput k v) defaults []"
  let ?m = "fold (\<lambda>(k, v). mput (trimPrefix p k) v) user ?d"
  have names: "map cv_Name (map (\<lambda>(k, v). \<lparr>cv_Name = k, cv_Value = v\<rparr>) m) = map fst m" for m
    by (induction m) auto
  have "mwf ?d" using merge_distinct [of "[]" "\<lambda>k. k" defaults] by simp
  then have "mwf ?m" by (rule merge_distinct)
  then show "distinct (map cv_Name (mergedCnfVars defaults user p))"
    unfolding mergedCnfVars_def Let_def distinct_map_sort names .
  let ?P = "\<lambda>(k, v). cnfVarName k \<and> clean v \<and> k \<notin> set lits"
  have "list_all ?P ?d" using merge_invariant [of ?P "[]" "\<lambda>k. k" defaults] assms(3) by simp
  moreover have "?P (trimPrefix p k, v)" if kv: "(k, v) \<in> set user" for k v
  proof -
    obtain n where k: "k = p @ n" using assms(2) kv by (auto simp: prefixed_def list_all_iff hasPrefix_iff)
    have "case (k, v) of (k, v) \<Rightarrow> k \<notin> set reservedCnfKeys \<and> cnfVarName (trimPrefix p k)
        \<and> \<not> list_ex disallowedRune (runes v)"
      using assms(1) kv unfolding validateCnfVars_None list_all_iff by (rule bspec)
    then have ok: "p @ n \<notin> set reservedCnfKeys" "cnfVarName n" "clean v"
      by (simp_all add: k allowed_clean)
    then have "n \<notin> set lits" using assms(4) unfolding list_all_iff by blast
    with ok show ?thesis by (simp add: k)
  qed
  then have "list_all (\<lambda>(k, v). ?P (trimPrefix p k, v)) user"
    unfolding list_all_iff by blast
  ultimately have "list_all ?P ?m" by (rule merge_invariant)
  then show "list_all (\<lambda>v. cnfVarName (cv_Name v) \<and> clean (cv_Value v) \<and> cv_Name v \<notin> set lits)
      (mergedCnfVars defaults user p)"
    by (auto simp: mergedCnfVars_def list_all_iff)
qed

lemma list_all_mput: "list_all P m \<Longrightarrow> P (k, v) \<Longrightarrow> list_all P (mput k v m)"
  by (auto simp: list_all_iff dest: mput_set)

text \<open>The settings the template writes itself, per section; all of them are reserved names.\<close>

definition adminLiterals :: "string list" where
  "adminLiterals = [''admin_credentials'', ''mysql_ifaces'', ''cluster_username'', ''cluster_password'']"

definition backendLiterals :: "string list" where
  "backendLiterals = [''interfaces'', ''monitor_username'', ''monitor_password'']"

lemma literals_reserved:
  "list_all (\<lambda>n. ''admin-'' @ n \<in> set reservedCnfKeys) adminLiterals"
  "list_all (\<lambda>n. ''mysql-'' @ n \<in> set reservedCnfKeys) backendLiterals"
  "list_all (\<lambda>n. ''pgsql-'' @ n \<in> set reservedCnfKeys) backendLiterals"
  by (simp_all add: adminLiterals_def backendLiterals_def reservedCnfKeys_def)

lemma adminDefaults_ok:
  "list_all (\<lambda>(k, v). cnfVarName k \<and> clean v \<and> k \<notin> set adminLiterals) (adminDefaultVars b sync)"
  by (simp add: adminDefaultVars_def adminLiterals_def cnfVarName_def re_key_def cnfTrue_def)

lemma addBackendTLSVars_all:
  assumes "list_all P d"
    and "P (''ssl_p2s_ca'', mgetStr tlsCnfVars ''ssl_p2s_ca'')" "P (''ssl_p2s_cert'', mgetStr tlsCnfVars ''ssl_p2s_cert'')"
      "P (''ssl_p2s_key'', mgetStr tlsCnfVars ''ssl_p2s_key'')"
  shows "list_all P (addBackendTLSVars b d)"
  using assms by (auto simp: addBackendTLSVars_def Let_def list_all_mput split: option.split)

lemma backendDefaults_ok:
  "list_all (\<lambda>(k, v). cnfVarName k \<and> clean v \<and> k \<notin> set backendLiterals) (mysqlDefaultVars b)"
  "list_all (\<lambda>(k, v). cnfVarName k \<and> clean v \<and> k \<notin> set backendLiterals) (pgsqlDefaultVars b)"
  unfolding mysqlDefaultVars_def pgsqlDefaultVars_def
  by (rule addBackendTLSVars_all;
      simp add: backendLiterals_def cnfVarName_def re_key_def mgetStr_def tlsCnfVars_def backendTLSMountPath_def)+

definition section_ok :: "(string \<times> string) list \<Rightarrow> bool" where
  "section_ok ss \<longleftrightarrow> good_settings ss \<and> distinct (map fst ss)"

lemma section_okI:
  assumes "good_settings lit" and "distinct (map fst lit)" and "set (map fst lit) \<subseteq> set lits"
    and "distinct (map cv_Name vs)"
    and "list_all (\<lambda>v. cnfVarName (cv_Name v) \<and> clean (cv_Value v) \<and> cv_Name v \<notin> set lits) vs"
  shows "section_ok (lit @ map (\<lambda>v. (cv_Name v, cv_Value v)) vs)"
proof -
  have "n \<notin> set (map cv_Name vs)" if "n \<in> set lits" for n
    using assms(5) that by (auto simp: list_all_iff)
  then have "set (map fst lit) \<inter> set (map cv_Name vs) = {}" using assms(3) by blast
  then have "distinct (map fst lit @ map cv_Name vs)"
    using assms(2,4) by (simp only: distinct_append)
  then have "distinct (map fst (lit @ map (\<lambda>v. (cv_Name v, cv_Value v)) vs))" by (simp add: comp_def)
  moreover have "good_settings (map (\<lambda>v. (cv_Name v, cv_Value v)) vs)"
    using assms(5) by (auto simp: good_settings_def list_all_iff clean_def)
  ultimately show ?thesis using assms(1) by (simp add: section_ok_def good_settings_def)
qed

definition valid_variables :: "VariablesSpec \<Rightarrow> bool" where
  "valid_variables v \<longleftrightarrow>
     prefixed ''admin-'' (va_Admin v) \<and> prefixed ''mysql-'' (va_MySQL v) \<and> prefixed ''pgsql-'' (va_PostgreSQL v)"

lemma rendered_sections:
  assumes "safe_credentials (b_Pw b)" and "valid_variables (cs_Variables (b_Spec b))"
    and "BootstrapCnf b servers = Inr cnf"
  shows "list_all (\<lambda>(sec, ss). section_ok ss) (cnfSections (bootstrapData b servers))"
    and "cnf = joinStr [CHR 0x0A] (bootstrapCnfTemplate (bootstrapData b servers))"
proof -
  let ?d = "bootstrapData b servers" and ?v = "cs_Variables (b_Spec b)"
  have va: "validateCnfVars (va_Admin ?v) ''admin-'' = None" and vm: "validateCnfVars (va_MySQL ?v) ''mysql-'' = None"
    and vp: "validateCnfVars (va_PostgreSQL ?v) ''pgsql-'' = None"
    and out: "cnf = trimRightNewlines (joinStr [CHR 0x0A] (bootstrapCnfTemplate ?d)) @ [CHR 0x0A]"
    using assms(3) by (auto simp: BootstrapCnf_def Let_def split: if_splits option.splits)
  show "cnf = joinStr [CHR 0x0A] (bootstrapCnfTemplate ?d)" by (simp only: out rendered_text)
  have pwc: "CHR 0x0A \<notin> set (pw_Admin (b_Pw b))" "CHR 0x0A \<notin> set (pw_Radmin (b_Pw b))"
    "CHR 0x0A \<notin> set (pw_Monitor (b_Pw b))" "CHR 0x0A \<notin> set (pw_MonitorUsername (b_Pw b))"
    "pw_ExtraAdminUser (b_Pw b) \<noteq> [] \<Longrightarrow> CHR 0x0A \<notin> set (pw_ExtraAdminUser (b_Pw b))"
    "pw_ExtraAdminUser (b_Pw b) \<noteq> [] \<Longrightarrow> CHR 0x0A \<notin> set (pw_ExtraAdminPassword (b_Pw b))"
    using assms(1) by (simp_all add: safe_credentials_def cnfUsernameRe_def password_free user_char_free)
  have pre: "prefixed ''admin-'' (va_Admin ?v)" "prefixed ''mysql-'' (va_MySQL ?v)" "prefixed ''pgsql-'' (va_PostgreSQL ?v)"
    using assms(2) by (simp_all add: valid_variables_def)
  have port: "CHR 0x0A \<notin> set (itoa i)" for i by (simp add: itoa_not_in is_digit_def)
  let ?a = "[(''admin_credentials'', adminCredentials ?d), (''mysql_ifaces'', ''0.0.0.0:'' @ itoa (cn_AdminPort ?d))]
     @ (if cn_ClusterSync ?d then [(''cluster_username'', ''radmin''), (''cluster_password'', cn_RadminPassword ?d)] else [])"
  have "CHR 0x0A \<notin> set (adminCredentials ?d)"
    using pwc by (auto simp: adminCredentials_def bootstrapData_def Let_def)
  then have alit: "good_settings ?a" "distinct (map fst ?a)" "set (map fst ?a) \<subseteq> set adminLiterals"
    using pwc port
    by (cases "cn_ClusterSync ?d"; simp add: good_settings_def bootstrapData_def Let_def adminLiterals_def
        cnfVarName_def re_key_def)+
  have "section_ok (?a @ map (\<lambda>v. (cv_Name v, cv_Value v)) (cn_AdminExtra ?d))"
    using mergedCnfVars_props [OF va pre(1) adminDefaults_ok literals_reserved(1)]
    by (intro section_okI [OF alit]) (simp_all add: bootstrapData_def Let_def)
  then have "section_ok (adminSettings ?d)" by (simp add: adminSettings_def)
  moreover have "section_ok (backendSettings ?d p vs)" if
    "distinct (map cv_Name vs)"
    "list_all (\<lambda>v. cnfVarName (cv_Name v) \<and> clean (cv_Value v) \<and> cv_Name v \<notin> set backendLiterals) vs" for p vs
  proof -
    let ?b = "[(''interfaces'', ''0.0.0.0:'' @ itoa p), (''monitor_username'', cn_MonitorUsername ?d),
      (''monitor_password'', cn_MonitorPassword ?d)]"
    have blit: "good_settings ?b" "distinct (map fst ?b)" "set (map fst ?b) \<subseteq> set backendLiterals"
      using pwc port
      by (simp_all add: good_settings_def bootstrapData_def Let_def backendLiterals_def cnfVarName_def re_key_def)
    show ?thesis unfolding backendSettings_def by (rule section_okI [OF blit that])
  qed
  moreover have "cn_MySQLExtra ?d = mergedCnfVars (mysqlDefaultVars b) (va_MySQL ?v) ''mysql-''"
    "cn_PgSQLExtra ?d = mergedCnfVars (pgsqlDefaultVars b) (va_PostgreSQL ?v) ''pgsql-''"
    by (simp_all add: bootstrapData_def Let_def)
  ultimately show "list_all (\<lambda>(sec, ss). section_ok ss) (cnfSections ?d)"
    using mergedCnfVars_props [OF vm pre(2) backendDefaults_ok(1) literals_reserved(2)]
      mergedCnfVars_props [OF vp pre(3) backendDefaults_ok(2) literals_reserved(3)]
    by (simp add: cnfSections_def)
qed

lemma distinct_names:
  assumes "distinct as" and "distinct ms" and "distinct ps"
  shows "distinct (map (\<lambda>n. ''admin'' @ ''-'' @ n) as @ map (\<lambda>n. ''mysql'' @ ''-'' @ n) ms
    @ map (\<lambda>n. ''pgsql'' @ ''-'' @ n) ps)"
  using assms by (auto simp: distinct_map inj_on_def)

lemma fullSettings_distinct:
  assumes "list_all (\<lambda>(sec, ss). section_ok ss) (cnfSections d)"
  shows "distinct (map fst (fullSettings d))"
proof -
  let ?my = "if cn_MySQLEnabled d then backendSettings d (cn_MySQLPort d) (cn_MySQLExtra d) else []"
    and ?pg = "if cn_PostgreSQLEnabled d then backendSettings d (cn_PostgreSQLPort d) (cn_PgSQLExtra d) else []"
  have "map fst (fullSettings d) =
      map (\<lambda>n. ''admin'' @ ''-'' @ n) (map fst (adminSettings d)) @ map (\<lambda>n. ''mysql'' @ ''-'' @ n) (map fst ?my)
      @ map (\<lambda>n. ''pgsql'' @ ''-'' @ n) (map fst ?pg)"
    by (simp add: fullSettings_def cnfSections_def split_def comp_def)
  moreover have "distinct (map fst (adminSettings d))" "distinct (map fst ?my)" "distinct (map fst ?pg)"
    using assms by (auto simp: cnfSections_def section_ok_def)
  ultimately show ?thesis using distinct_names by metis
qed

lemma merged_user:
  assumes "prefixed p user" and "mwf user" and "(k, v) \<in> set user"
  shows "\<lparr>cv_Name = trimPrefix p k, cv_Value = v\<rparr> \<in> set (mergedCnfVars defaults user p)"
proof -
  let ?d = "fold (\<lambda>(k, v). mput k v) defaults []"
  let ?m = "fold (\<lambda>(k, v). mput (trimPrefix p k) v) user ?d"
  have same: "x = (k, v)" if "x \<in> set user" "trimPrefix p (fst x) = trimPrefix p k" for x
  proof -
    have "hasPrefix p (fst x)" "hasPrefix p k"
      using assms(1,3) that(1) by (auto simp: prefixed_def list_all_iff)
    then have "fst x = k" using that(2) by (auto simp: hasPrefix_iff)
    then show ?thesis using assms(2,3) that(1) by (metis eq_key_imp_eq_value prod.collapse)
  qed
  have "find (\<lambda>x. trimPrefix p (fst x) = trimPrefix p k) (rev user) = Some (k, v)"
  proof (cases "find (\<lambda>x. trimPrefix p (fst x) = trimPrefix p k) (rev user)")
    case None
    then show ?thesis using assms(3) by (auto simp: find_None_iff)
  next
    case (Some y)
    then have "y \<in> set user" "trimPrefix p (fst y) = trimPrefix p k"
      by (auto simp: find_Some_iff) (metis in_set_conv_nth length_rev set_rev)
    then show ?thesis using Some same by simp
  qed
  then have "mget ?m (trimPrefix p k) = Some v"
    using gm.get_fold_put [of "\<lambda>x. trimPrefix p (fst x)" snd user ?d "trimPrefix p k"] by (simp add: split_def)
  then have "(trimPrefix p k, v) \<in> set ?m" by (rule map_of_SomeD)
  then show ?thesis by (force simp: mergedCnfVars_def)
qed

text \<open>The variables of the specification that belong to a rendered section.\<close>

definition activeVariables :: "ProxySQLClusterSpec \<Rightarrow> (string \<times> string) list" where
  "activeVariables s =
     va_Admin (cs_Variables s)
     @ (if IsEnabled (pts_MySQL (cs_Protocols s)) then va_MySQL (cs_Variables s) else [])
     @ (if IsEnabled (pts_PostgreSQL (cs_Protocols s)) then va_PostgreSQL (cs_Variables s) else [])"

definition wf_variables :: "VariablesSpec \<Rightarrow> bool" where
  "wf_variables v \<longleftrightarrow> valid_variables v \<and> mwf (va_Admin v) \<and> mwf (va_MySQL v) \<and> mwf (va_PostgreSQL v)"

lemma user_setting:
  assumes "prefixed p user" and "mwf user" and "p = sec @ ''-''" and "(k, v) \<in> set user"
  shows "(k, v) \<in> (\<lambda>x. (sec @ ''-'' @ cv_Name x, cv_Value x)) ` set (mergedCnfVars defaults user p)"
proof -
  obtain n where k: "k = p @ n" using assms(1,4) by (auto simp: prefixed_def list_all_iff hasPrefix_iff)
  have "\<lparr>cv_Name = n, cv_Value = v\<rparr> \<in> set (mergedCnfVars defaults user p)"
    using merged_user [OF assms(1,2,4)] by (simp add: k)
  then show ?thesis using k assms(3) by force
qed

lemma variables_rendered:
  assumes "wf_variables (cs_Variables (b_Spec b))"
  shows "set (activeVariables (b_Spec b)) \<subseteq> set (fullSettings (bootstrapData b servers))"
proof
  fix kv assume kv: "kv \<in> set (activeVariables (b_Spec b))"
  obtain k v where [simp]: "kv = (k, v)" by (cases kv)
  let ?v = "cs_Variables (b_Spec b)"
  note u = user_setting [where v = v and k = k]
  have w: "prefixed ''admin-'' (va_Admin ?v)" "prefixed ''mysql-'' (va_MySQL ?v)" "prefixed ''pgsql-'' (va_PostgreSQL ?v)"
    "mwf (va_Admin ?v)" "mwf (va_MySQL ?v)" "mwf (va_PostgreSQL ?v)"
    using assms by (simp_all add: wf_variables_def valid_variables_def)
  have a: "(k, v) \<in> (\<lambda>x. (''admin'' @ ''-'' @ cv_Name x, cv_Value x)) ` set (cn_AdminExtra (bootstrapData b servers))"
    if "(k, v) \<in> set (va_Admin ?v)"
    using u [OF w(1,4) _ that, of "''admin''"] by (simp add: bootstrapData_def Let_def)
  have m: "(k, v) \<in> (\<lambda>x. (''mysql'' @ ''-'' @ cv_Name x, cv_Value x)) ` set (cn_MySQLExtra (bootstrapData b servers))"
    if "(k, v) \<in> set (va_MySQL ?v)"
    using u [OF w(2,5) _ that, of "''mysql''"] by (simp add: bootstrapData_def Let_def)
  have p: "(k, v) \<in> (\<lambda>x. (''pgsql'' @ ''-'' @ cv_Name x, cv_Value x)) ` set (cn_PgSQLExtra (bootstrapData b servers))"
    if "(k, v) \<in> set (va_PostgreSQL ?v)"
    using u [OF w(3,6) _ that, of "''pgsql''"] by (simp add: bootstrapData_def Let_def)
  have full: "set (fullSettings d) \<supseteq> (\<lambda>x. (''admin'' @ ''-'' @ cv_Name x, cv_Value x)) ` set (cn_AdminExtra d)"
    "cn_MySQLEnabled d \<Longrightarrow> set (fullSettings d) \<supseteq> (\<lambda>x. (''mysql'' @ ''-'' @ cv_Name x, cv_Value x)) ` set (cn_MySQLExtra d)"
    "cn_PostgreSQLEnabled d \<Longrightarrow> set (fullSettings d) \<supseteq> (\<lambda>x. (''pgsql'' @ ''-'' @ cv_Name x, cv_Value x)) ` set (cn_PgSQLExtra d)" for d
    by (simp add: fullSettings_def cnfSections_def adminSettings_def image_image Un_upper1 Un_upper2 le_supI1 le_supI2 subset_insertI2)
      (simp add: fullSettings_def cnfSections_def backendSettings_def image_image Un_upper1 Un_upper2 le_supI1 le_supI2 subset_insertI2)+
  have on: "cn_MySQLEnabled (bootstrapData b servers) = IsEnabled (pts_MySQL (cs_Protocols (b_Spec b)))"
    "cn_PostgreSQLEnabled (bootstrapData b servers) = IsEnabled (pts_PostgreSQL (cs_Protocols (b_Spec b)))"
    by (simp_all add: bootstrapData_def Let_def)
  consider "(k, v) \<in> set (va_Admin ?v)"
    | "cn_MySQLEnabled (bootstrapData b servers)" "(k, v) \<in> set (va_MySQL ?v)"
    | "cn_PostgreSQLEnabled (bootstrapData b servers)" "(k, v) \<in> set (va_PostgreSQL ?v)"
    using kv by (auto simp: activeVariables_def on split: if_splits)
  then have "(k, v) \<in> set (fullSettings (bootstrapData b servers))"
  proof cases
    case 1
    then show ?thesis by (rule subsetD [OF full(1) a])
  next
    case 2
    then show ?thesis by (rule subsetD [OF full(2) m])
  next
    case 3
    then show ?thesis by (rule subsetD [OF full(3) p])
  qed
  then show "kv \<in> set (fullSettings (bootstrapData b servers))" by simp
qed

lemma New_credentials: "safe_credentials pw \<Longrightarrow> b_Pw (New c pw) = pw"
  by (cases pw) (simp add: New_def orText_def safe_credentials_def cnfUsernameRe_def)

lemma New_variables: "cs_Variables (b_Spec (New c pw)) = cs_Variables (clu_Spec c)"
  by (simp add: New_def DefaultedSpec_def Let_def defaultProtocols_alt)

text \<open>In the rendered file every setting occurs once (a repeated setting makes the parser of
  ProxySQL reject the file), and the variables of the specification are among them with the
  values the specification gives, defaults overridden.\<close>

theorem cnf_settings_once:
  assumes "PasswordsFromSecret data keys = Inr pw" and "wf_variables (cs_Variables (clu_Spec c))"
    and "BootstrapCnf (New c pw) servers = Inr cnf"
  shows "distinct (map fst (fullSettings (bootstrapData (New c pw) servers)))
    \<and> set (activeVariables (b_Spec (New c pw))) \<subseteq> set (fullSettings (bootstrapData (New c pw) servers))"
proof
  have safe: "safe_credentials (b_Pw (New c pw))"
    using PasswordsFromSecret_safe [OF assms(1)] by (simp add: New_credentials)
  have vars: "wf_variables (cs_Variables (b_Spec (New c pw)))" using assms(2) by (simp add: New_variables)
  then have "valid_variables (cs_Variables (b_Spec (New c pw)))" by (simp add: wf_variables_def)
  from fullSettings_distinct [OF rendered_sections(1) [OF safe this assms(3)]]
  show "distinct (map fst (fullSettings (bootstrapData (New c pw) servers)))" .
  from variables_rendered [OF vars]
  show "set (activeVariables (b_Spec (New c pw))) \<subseteq> set (fullSettings (bootstrapData (New c pw) servers))" .
qed

lemma rendered_readback:
  assumes "PasswordsFromSecret data keys = Inr pw" and "valid_variables (cs_Variables (clu_Spec c))"
    and "clean (clu_Name c)" and "list_all clean servers" and "BootstrapCnf (New c pw) servers = Inr cnf"
  shows "mget (ParseCnfVariables cnf) k =
    (if k \<in> set structuralCnfKeys then None else map_of (fullSettings (bootstrapData (New c pw) servers)) k)"
proof -
  have safe: "safe_credentials (b_Pw (New c pw))"
    using PasswordsFromSecret_safe [OF assms(1)] by (simp add: New_credentials)
  have "valid_variables (cs_Variables (b_Spec (New c pw)))" using assms(2) by (simp add: New_variables)
  note r = rendered_sections [OF safe this assms(5)]
  have "clean_data (bootstrapData (New c pw) servers)"
    using r(1) assms(3,4)
    by (auto simp: clean_data_def section_ok_def list_all_iff bootstrapData_def Let_def b_Name_def New_def)
  then show ?thesis
    unfolding r(2) by (simp only: parse_template mget_accumulate [OF fullSettings_distinct [OF r(1)]])
qed

text \<open>C11. Reading the rendered file back gives every setting with its value, the structural ones
  left out: what the operator later compares and pushes is what the file says.\<close>

theorem cnf_reads_back:
  assumes "PasswordsFromSecret data keys = Inr pw" and "valid_variables (cs_Variables (clu_Spec c))"
    and "clean (clu_Name c)" and "list_all clean servers" and "BootstrapCnf (New c pw) servers = Inr cnf"
  shows "mget (ParseCnfVariables cnf) k =
    (if k \<in> set structuralCnfKeys then None else map_of (fullSettings (bootstrapData (New c pw) servers)) k)"
  by (rule rendered_readback [OF assms])

section \<open>A concrete cluster\<close>

definition exampleCluster :: ProxySQLCluster where
  "exampleCluster = \<lparr>clu_Name = ''golden'', clu_Namespace = ''golden-ns'', clu_UID = ''u1'', clu_Generation = 1,
     clu_Deleting = False,
     clu_Spec = zeroClusterSpec\<lparr>cs_Variables := \<lparr>va_Admin = [], va_MySQL = [(''mysql-threads'', ''8'')],
       va_PostgreSQL = []\<rparr>\<rparr>, clu_Status = zeroClusterStatus\<rparr>"

definition exampleSecret :: "(string, string) gomap" where
  "exampleSecret = [(''admin-password'', ''a:1''), (''radmin-password'', ''r2''), (''monitor-password'', ''m3'')]"

definition exampleUserSecret :: "(string, string) gomap" where
  "exampleUserSecret = [(''username'', ''ops''), (''password'', ''p:1'')]"

definition exampleKeys :: AuthKeys where
  "exampleKeys = SecretKeys (New exampleCluster zeroPasswords)"

definition examplePasswords :: Passwords where
  "examplePasswords = zeroPasswords\<lparr>pw_Admin := ''a:1'', pw_Radmin := ''r2'', pw_Monitor := ''m3'',
     pw_MonitorUsername := ''monitor''\<rparr>"

lemmas example_defs = exampleCluster_def exampleSecret_def exampleUserSecret_def examplePasswords_def
  zeroClusterSpec_def zeroPasswords_def

lemma exampleKeys_eq: "exampleKeys = \<lparr>ky_AdminPassword = ''admin-password'', ky_RadminPassword = ''radmin-password'',
    ky_MonitorPassword = ''monitor-password''\<rparr>"
  by (simp add: exampleKeys_def SecretKeys_def New_def defaultKeys_def orText_def example_defs DefaultedSpec_def
      Let_def defaultProtocols_alt)

lemma example_passwords: "PasswordsFromSecret exampleSecret exampleKeys = Inr examplePasswords"
  by (simp add: PasswordsFromSecret_def exampleKeys_eq example_defs mgetStr_def Let_def missingKeys_def
      validCnfPassword_def MonitorUsernameFromSecret_def)

lemma example_variables: "wf_variables (cs_Variables (clu_Spec exampleCluster))"
  by (simp add: wf_variables_def valid_variables_def prefixed_def example_defs)

lemma example_rendered: "\<exists>cnf. BootstrapCnf (New exampleCluster examplePasswords) [] = Inr cnf"
proof -
  have "cs_Variables (b_Spec (New exampleCluster examplePasswords)) =
      \<lparr>va_Admin = [], va_MySQL = [(''mysql-threads'', ''8'')], va_PostgreSQL = []\<rparr>"
    unfolding New_variables by (simp add: example_defs)
  moreover have "pw_MonitorUsername (b_Pw (New exampleCluster examplePasswords)) = ''monitor''"
    by (simp add: New_def example_defs orText_def)
  ultimately show ?thesis
    by (simp add: BootstrapCnf_def Let_def cnfUsernameRe_def re_user_def reservedCnfKeys_def cnfVarName_def
        trimPrefix_def re_key_def disallowedRune_def)
qed

theorem admin_credentials_split_witness:
  "\<exists>pw. PasswordsFromSecret exampleUserSecret exampleKeys = Inr pw \<and>
     map (cutAt CHR '':'') (splitOn CHR '';'' (adminCredentials (bootstrapData (New exampleCluster pw) []))) =
     [Some (''admin'', ''p:1''), Some (''radmin'', ''p:1''), Some (''ops'', ''p:1'')]"
proof -
  let ?pw = "zeroPasswords\<lparr>pw_Admin := ''p:1'', pw_Radmin := ''p:1'', pw_Monitor := ''p:1'',
     pw_MonitorUsername := ''monitor'', pw_ExtraAdminUser := ''ops'', pw_ExtraAdminPassword := ''p:1''\<rparr>"
  have pw: "PasswordsFromSecret exampleUserSecret exampleKeys = Inr ?pw"
    by (simp add: PasswordsFromSecret_def exampleKeys_eq example_defs mgetStr_def Let_def validCnfPassword_def
        MonitorUsernameFromSecret_def cnfUsernameRe_def re_user_def)
  have "pw_Admin ?pw = ''p:1''" "pw_Radmin ?pw = ''p:1''" "pw_ExtraAdminUser ?pw = ''ops''"
    "pw_ExtraAdminPassword ?pw = ''p:1''" by simp_all
  with admin_credentials_split [OF pw, of exampleCluster "[]"] pw show ?thesis by auto
qed

theorem cnf_settings_once_witness:
  "\<exists>cnf. BootstrapCnf (New exampleCluster examplePasswords) [] = Inr cnf \<and>
     (''mysql-threads'', ''8'') \<in> set (fullSettings (bootstrapData (New exampleCluster examplePasswords) []))"
proof -
  have "(''mysql-threads'', ''8'') \<in> set (activeVariables (b_Spec (New exampleCluster examplePasswords)))"
    unfolding activeVariables_def New_variables
    by (simp add: New_def DefaultedSpec_def Let_def defaultProtocols_alt listenerDefaults_def defaultListener_def
        IsEnabled_def orSet_def example_defs)
  with example_rendered cnf_settings_once [OF example_passwords example_variables] show ?thesis by blast
qed

theorem cnf_reads_back_witness:
  "\<exists>cnf. BootstrapCnf (New exampleCluster examplePasswords) [] = Inr cnf \<and>
     mget (ParseCnfVariables cnf) ''admin-mysql_ifaces'' = None \<and>
     mget (ParseCnfVariables cnf) ''mysql-threads'' =
       map_of (fullSettings (bootstrapData (New exampleCluster examplePasswords) [])) ''mysql-threads''"
proof -
  obtain cnf where r: "BootstrapCnf (New exampleCluster examplePasswords) [] = Inr cnf"
    using example_rendered by blast
  have v: "valid_variables (cs_Variables (clu_Spec exampleCluster))"
    using example_variables by (simp add: wf_variables_def)
  have n: "clean (clu_Name exampleCluster)" by (simp add: exampleCluster_def)
  have k: "''admin-mysql_ifaces'' \<in> set structuralCnfKeys" "''mysql-threads'' \<notin> set structuralCnfKeys"
    by (simp_all add: structuralCnfKeys_def)
  show ?thesis
    using cnf_reads_back [OF example_passwords v n _ r, of "''admin-mysql_ifaces''"]
      cnf_reads_back [OF example_passwords v n _ r, of "''mysql-threads''"] r k
    by (intro exI [of _ cnf]) simp
qed

text \<open>A password may end in a backslash, which the rendering puts before the closing quote of its
  setting; the same text is rejected as the value of a variable.\<close>

lemma password_backslash_accepted:
  "(validCnfPassword (p @ [CHR 0x5C]) = None \<longleftrightarrow> validCnfPassword p = None)
   \<and> setting ''cluster_password'' (p @ [CHR 0x5C]) =
       (''  cluster_password='' @ [CHR 0x22] @ p) @ [CHR 0x5C, CHR 0x22]
   \<and> validateCnfVars [(''mysql-x'', ''p'' @ [CHR 0x5C])] ''mysql-'' = Some (DisallowedValue ''mysql-x'')"
  by (simp add: validCnfPassword_None password_char_def setting_def reservedCnfKeys_def cnfVarName_def
      trimPrefix_def re_key_def disallowedRune_def)

end
