(* ===== verification/DesiredState.thy ===== *)
theory DesiredState
  imports RuntimeDrift AwsPlugin BootstrapCnf "HOL-Library.Multiset"
begin

text \<open>
  What a cluster should run: the part of \<open>operator/internal/controller/proxysqlconfig_controller.go\<close>
  that turns the configurations of a cluster into one desired state, the peer list derived from the
  cluster, the state pushed on deletion, the fingerprint of a push and the messages of its errors.

  The reads of the API server are the fields of \<open>kube\<close>; a failed read is an error that says whether
  the object is absent. JSON encoding and SHA-256 are arguments.
\<close>

section \<open>The API server\<close>

datatype getError = NotFound string | GetFailed string

record kube =
  ku_configs :: "string \<Rightarrow> string + ProxySQLConfig list"
  ku_cluster :: "string \<Rightarrow> string \<Rightarrow> getError + ProxySQLCluster"
  ku_secret :: "string \<Rightarrow> string \<Rightarrow> getError + (string, string) gomap"

datatype secretError = GetSecret string getError | NoSecretKey string string

definition resolveSecretKey :: "kube \<Rightarrow> string \<Rightarrow> SecretKeySelector \<Rightarrow> secretError + string" where
  "resolveSecretKey ku ns sel =
     (case ku_secret ku ns (sk_Name sel) of
        Inl e \<Rightarrow> Inl (GetSecret (sk_Name sel) e)
      | Inr data \<Rightarrow> (case mget data (sk_Key sel) of
          None \<Rightarrow> Inl (NoSecretKey (sk_Name sel) (sk_Key sel))
        | Some v \<Rightarrow> Inr v))"

section \<open>One configuration\<close>

datatype desiredError =
    OperatorOwnedMonitorVariable string string
  | MySQLUserSecret string secretError
  | PgsqlUserSecret string secretError

definition monitorKeys :: "string list" where
  "monitorKeys = [''mysql-monitor_username'', ''mysql-monitor_password'',
     ''pgsql-monitor_username'', ''pgsql-monitor_password'']"

fun monitorVariable :: "(string \<times> (string, string) gomap) list \<Rightarrow> desiredError option" where
  "monitorVariable [] = None"
| "monitorVariable ((field, vars) # groups) =
     (case find (\<lambda>key. mget vars key \<noteq> None) monitorKeys of
        Some key \<Rightarrow> Some (OperatorOwnedMonitorVariable field key)
      | None \<Rightarrow> monitorVariable groups)"

text \<open>A loop that appends the result of a fallible call, ending at the first error.\<close>

fun collect :: "('a \<Rightarrow> 'e + 'b) \<Rightarrow> 'a list \<Rightarrow> 'e + 'b list" where
  "collect f [] = Inr []"
| "collect f (x # xs) = andRead (f x) (\<lambda>y. andRead (collect f xs) (\<lambda>ys. Inr (y # ys)))"

definition toMySQLServer :: "CfgMySQLServer \<Rightarrow> MySQLServer" where
  "toMySQLServer s = \<lparr>ms_Hostgroup = cms_Hostgroup s, ms_Hostname = cms_Hostname s, ms_Port = cms_Port s,
     ms_Weight = cms_Weight s, ms_MaxConnections = cms_MaxConnections s,
     ms_MaxReplicationLag = cms_MaxReplicationLag s, ms_UseSSL = cms_UseSSL s, ms_Status = cms_Status s,
     ms_Comment = cms_Comment s\<rparr>"

definition toReplicationHostgroup :: "CfgMySQLReplicationHostgroup \<Rightarrow> MySQLReplicationHostgroup" where
  "toReplicationHostgroup h = \<lparr>rh_WriterHostgroup = crh_WriterHostgroup h,
     rh_ReaderHostgroup = crh_ReaderHostgroup h, rh_CheckType = crh_CheckType h, rh_Comment = crh_Comment h\<rparr>"

definition toHostgroupAttributes :: "CfgMySQLHostgroupAttributes \<Rightarrow> MySQLHostgroupAttributes" where
  "toHostgroupAttributes a = \<lparr>ha_Hostgroup = cha_Hostgroup a, ha_MaxNumOnlineServers = cha_MaxNumOnlineServers a,
     ha_Autocommit = cha_Autocommit a, ha_FreeConnectionsPct = cha_FreeConnectionsPct a,
     ha_InitConnect = cha_InitConnect a, ha_Multiplex = cha_Multiplex a,
     ha_ConnectionWarming = cha_ConnectionWarming a,
     ha_ThrottleConnectionsPerSec = cha_ThrottleConnectionsPerSec a,
     ha_IgnoreSessionVariables = cha_IgnoreSessionVariables a, ha_Comment = cha_Comment a\<rparr>"

definition toMySQLQueryRule :: "CfgMySQLQueryRule \<Rightarrow> MySQLQueryRule" where
  "toMySQLQueryRule r = \<lparr>mr_RuleID = cmr_RuleID r, mr_Active = cmr_Active r, mr_Username = cmr_Username r,
     mr_SchemaName = cmr_SchemaName r, mr_FlagIn = cmr_FlagIn r, mr_MatchPattern = cmr_MatchPattern r,
     mr_MatchDigest = cmr_MatchDigest r, mr_FlagOut = cmr_FlagOut r, mr_ReplacePattern = cmr_ReplacePattern r,
     mr_DestinationHostgroup = cmr_DestinationHostgroup r, mr_CacheTTL = cmr_CacheTTL r,
     mr_CacheEmptyResult = cmr_CacheEmptyResult r, mr_Timeout = cmr_Timeout r, mr_Delay = cmr_Delay r,
     mr_MirrorHostgroup = cmr_MirrorHostgroup r, mr_ErrorMessage = cmr_ErrorMessage r, mr_Log = cmr_Log r,
     mr_Apply = cmr_Apply r, mr_Comment = cmr_Comment r\<rparr>"

definition toMySQLUser :: "kube \<Rightarrow> string \<Rightarrow> CfgMySQLUser \<Rightarrow> desiredError + MySQLUser" where
  "toMySQLUser ku ns u =
     (case resolveSecretKey ku ns (cmu_PasswordSecretRef u) of
        Inl e \<Rightarrow> Inl (MySQLUserSecret (cmu_Username u) e)
      | Inr pw \<Rightarrow> Inr \<lparr>mu_Username = cmu_Username u, mu_Password = pw,
          mu_DefaultHostgroup = cmu_DefaultHostgroup u, mu_Active = cmu_Active u,
          mu_MaxConnections = cmu_MaxConnections u, mu_UseSSL = cmu_UseSSL u,
          mu_DefaultSchema = cmu_DefaultSchema u, mu_TransactionPersistent = cmu_TransactionPersistent u,
          mu_Comment = cmu_Comment u\<rparr>)"

definition toPostgreSQLServer :: "CfgPostgreSQLServer \<Rightarrow> PostgreSQLServer" where
  "toPostgreSQLServer s = \<lparr>ps_Hostgroup = cps_Hostgroup s, ps_Hostname = cps_Hostname s, ps_Port = cps_Port s,
     ps_Weight = cps_Weight s, ps_MaxConnections = cps_MaxConnections s, ps_UseSSL = cps_UseSSL s,
     ps_Comment = cps_Comment s\<rparr>"

definition toPostgreSQLUser :: "kube \<Rightarrow> string \<Rightarrow> CfgPostgreSQLUser \<Rightarrow> desiredError + PostgreSQLUser" where
  "toPostgreSQLUser ku ns u =
     (case resolveSecretKey ku ns (cpu_PasswordSecretRef u) of
        Inl e \<Rightarrow> Inl (PgsqlUserSecret (cpu_Username u) e)
      | Inr pw \<Rightarrow> Inr \<lparr>pu_Username = cpu_Username u, pu_Password = pw,
          pu_DefaultHostgroup = cpu_DefaultHostgroup u, pu_Active = cpu_Active u, pu_Comment = cpu_Comment u\<rparr>)"

definition toPostgreSQLQueryRule :: "CfgPostgreSQLQueryRule \<Rightarrow> PostgreSQLQueryRule" where
  "toPostgreSQLQueryRule r = \<lparr>pr_RuleID = cpr_RuleID r, pr_Active = cpr_Active r, pr_FlagIn = cpr_FlagIn r,
     pr_MatchPattern = cpr_MatchPattern r, pr_FlagOut = cpr_FlagOut r, pr_ReplacePattern = cpr_ReplacePattern r,
     pr_DestinationHostgroup = cpr_DestinationHostgroup r, pr_CacheTTL = cpr_CacheTTL r,
     pr_CacheEmptyResult = cpr_CacheEmptyResult r, pr_Timeout = cpr_Timeout r, pr_Delay = cpr_Delay r,
     pr_MirrorHostgroup = cpr_MirrorHostgroup r, pr_ErrorMessage = cpr_ErrorMessage r, pr_Log = cpr_Log r,
     pr_Apply = cpr_Apply r, pr_Comment = cpr_Comment r\<rparr>"

definition toProxySQLServer :: "ProxySQLServerEntry \<Rightarrow> ProxySQLServer" where
  "toProxySQLServer s = \<lparr>px_Hostname = cpx_Hostname s, px_Port = cpx_Port s, px_Weight = cpx_Weight s,
     px_Comment = cpx_Comment s\<rparr>"

definition configToDesired :: "kube \<Rightarrow> ProxySQLConfig \<Rightarrow> desiredError + Desired" where
  "configToDesired ku cfg =
     (let s = cf_Spec cfg in
      case monitorVariable [(''adminVariables'', sp_AdminVariables s), (''mysqlVariables'', sp_MySQLVariables s),
                            (''pgsqlVariables'', sp_PostgreSQLVariables s)] of
        Some e \<Rightarrow> Inl e
      | None \<Rightarrow>
          andRead (collect (toMySQLUser ku (cf_Namespace cfg)) (sp_MySQLUsers s)) (\<lambda>musers.
          andRead (collect (toPostgreSQLUser ku (cf_Namespace cfg)) (sp_PostgreSQLUsers s)) (\<lambda>pusers.
            Inr \<lparr>d_MySQLServers = map toMySQLServer (sp_MySQLServers s),
                 d_MySQLUsers = musers,
                 d_MySQLQueryRules = map toMySQLQueryRule (sp_MySQLQueryRules s),
                 d_MySQLReplicationHostgroups = map toReplicationHostgroup (sp_MySQLReplicationHostgroups s),
                 d_MySQLHostgroupAttributes = map toHostgroupAttributes (sp_MySQLHostgroupAttributes s),
                 d_PostgreSQLServers = map toPostgreSQLServer (sp_PostgreSQLServers s),
                 d_PostgreSQLUsers = pusers,
                 d_PostgreSQLQueryRules = map toPostgreSQLQueryRule (sp_PostgreSQLQueryRules s),
                 d_ProxySQLServers = map toProxySQLServer (sp_ProxySQLServers s),
                 d_AdminVariables = sp_AdminVariables s, d_MySQLVariables = sp_MySQLVariables s,
                 d_PostgreSQLVariables = sp_PostgreSQLVariables s,
                 d_SQLStatements = sp_SQLStatements s\<rparr>)))"

section \<open>All configurations of a cluster\<close>

definition autoPopulatedPeerComment :: string where
  "autoPopulatedPeerComment = ''operator-populated from ProxySQLCluster pods''"

definition autoPopulatedProxySQLServers :: "Builder \<Rightarrow> ProxySQLServer list" where
  "autoPopulatedProxySQLServers b =
     map (\<lambda>host. \<lparr>px_Hostname = host, px_Port = pt_Port (pts_Admin (cs_Protocols (b_Spec b))), px_Weight = 0,
                 px_Comment = autoPopulatedPeerComment\<rparr>) (ProxySQLServerDNS b)"

datatype unionError = ListFailed string | ConfigFailed string desiredError

definition selectedConfigs :: "ProxySQLCluster \<Rightarrow> string \<Rightarrow> ProxySQLConfig list \<Rightarrow> ProxySQLConfig list" where
  "selectedConfigs cluster excludeName items =
     sort_key cf_Name (filter (\<lambda>c. \<not> (sp_ClusterRef (cf_Spec c) \<noteq> clu_Name cluster \<or> cf_Deleting c
       \<or> cf_Name c = excludeName)) items)"

definition buildUnionedDesired ::
  "kube \<Rightarrow> ProxySQLCluster \<Rightarrow> Builder \<Rightarrow> string \<Rightarrow> unionError + Desired \<times> bool" where
  "buildUnionedDesired ku cluster b excludeName =
     (case ku_configs ku (clu_Namespace cluster) of
        Inl e \<Rightarrow> Inl (ListFailed e)
      | Inr items \<Rightarrow>
          let cfgs = selectedConfigs cluster excludeName items in
          andRead (collect (\<lambda>c. case configToDesired ku c of
                      Inl e \<Rightarrow> Inl (ConfigFailed (cf_Name c) e) | Inr d \<Rightarrow> Inr (Some d)) cfgs) (\<lambda>desireds.
            let union = Union_desired desireds;
                union = (if length (d_ProxySQLServers union) = 0
                         then union\<lparr>d_ProxySQLServers := autoPopulatedProxySQLServers b\<rparr> else union)
            in Inr (union, length cfgs > 0)))"

definition cleanupDesired :: "Builder \<Rightarrow> bool \<Rightarrow> Desired" where
  "cleanupDesired b autoPopulated =
     (if \<not> autoPopulated then emptyDesired
      else emptyDesired\<lparr>d_ProxySQLServers := autoPopulatedProxySQLServers b\<rparr>)"

definition pgsqlConfigured :: "ProxySQLConfig \<Rightarrow> bool" where
  "pgsqlConfigured cfg \<longleftrightarrow> length (sp_PostgreSQLServers (cf_Spec cfg)) + length (sp_PostgreSQLUsers (cf_Spec cfg))
     + length (sp_PostgreSQLQueryRules (cf_Spec cfg)) > 0"

definition configReferencesSecret :: "ProxySQLConfig \<Rightarrow> string \<Rightarrow> bool" where
  "configReferencesSecret c name \<longleftrightarrow>
     list_ex (\<lambda>u. sk_Name (cmu_PasswordSecretRef u) = name) (sp_MySQLUsers (cf_Spec c))
     \<or> list_ex (\<lambda>u. sk_Name (cpu_PasswordSecretRef u) = name) (sp_PostgreSQLUsers (cf_Spec c))"

section \<open>Which configurations an event concerns\<close>

definition requestsWhere :: "(ProxySQLConfig \<Rightarrow> bool) \<Rightarrow> ProxySQLConfig list \<Rightarrow> (string \<times> string) list" where
  "requestsWhere P configs = map (\<lambda>c. (cf_Namespace c, cf_Name c)) (filter P configs)"

definition configsForCluster :: "kube \<Rightarrow> ProxySQLCluster \<Rightarrow> (string \<times> string) list" where
  "configsForCluster ku cluster =
     (case ku_configs ku (clu_Namespace cluster) of
        Inl _ \<Rightarrow> []
      | Inr configs \<Rightarrow> requestsWhere (\<lambda>c. sp_ClusterRef (cf_Spec c) = clu_Name cluster) configs)"

definition configsForPod :: "kube \<Rightarrow> string \<Rightarrow> (string, string) gomap \<Rightarrow> (string \<times> string) list" where
  "configsForPod ku namespace labels =
     (let clusterName = mgetStr labels ''proxysql.com/cluster'' in
      if clusterName = [] then []
      else case ku_configs ku namespace of
        Inl _ \<Rightarrow> []
      | Inr configs \<Rightarrow> requestsWhere (\<lambda>c. sp_ClusterRef (cf_Spec c) = clusterName) configs)"

definition configsForSecret ::
  "kube \<Rightarrow> (string \<Rightarrow> string + ProxySQLCluster list) \<Rightarrow> string \<Rightarrow> string \<Rightarrow> (string \<times> string) list" where
  "configsForSecret ku listClusters namespace name =
     (case ku_configs ku namespace of
        Inl _ \<Rightarrow> []
      | Inr configs \<Rightarrow>
          if length configs = 0 then []
          else
            let adminOf = (case listClusters namespace of
                  Inl _ \<Rightarrow> []
                | Inr clusters \<Rightarrow> fold (\<lambda>c adminOf.
                    if SecretName (New c zeroPasswords) = name then mput (clu_Name c) True adminOf else adminOf)
                    clusters [])
            in requestsWhere (\<lambda>c. mgetBool adminOf (sp_ClusterRef (cf_Spec c)) \<or> configReferencesSecret c name) configs)"

section \<open>Fingerprints, clocks and messages\<close>

text \<open>\<open>encode\<close> is the JSON encoding of the native state, the plugin state and the version,
  \<^term>\<open>None\<close> when encoding fails; \<open>sha\<close> the hexadecimal SHA-256.\<close>

definition combinedSyncFingerprint ::
  "(Desired \<times> RdsDesired option \<times> int \<Rightarrow> string option) \<Rightarrow> (string \<Rightarrow> string)
     \<Rightarrow> Desired \<Rightarrow> RdsDesired option \<Rightarrow> int \<Rightarrow> string list \<Rightarrow> string" where
  "combinedSyncFingerprint encode sha d rds version addrs =
     (case encode (d, rds, version) of
        None \<Rightarrow> ''marshal-error''
      | Some bytes \<Rightarrow> sha (bytes @ concat (map (\<lambda>a. CHR 0x00 # a) addrs)))"

definition resyncDue :: "int option \<Rightarrow> int \<Rightarrow> int \<Rightarrow> bool" where
  "resyncDue lastSync now interval \<longleftrightarrow> (case lastSync of None \<Rightarrow> True | Some t \<Rightarrow> now - t \<ge> interval)"

definition defaultDriftResyncInterval :: int where
  "defaultDriftResyncInterval = 2 * 60 * 10 ^ 9"

definition resyncInterval :: "int \<Rightarrow> int" where
  "resyncInterval configured = (if configured > 0 then configured else defaultDriftResyncInterval)"

text \<open>The loop of \<open>joinTrunc\<close>; \<open>acc\<close> is the text written so far.\<close>

fun joinTruncFrom :: "bool \<Rightarrow> string \<Rightarrow> string list \<Rightarrow> nat \<Rightarrow> string" where
  "joinTruncFrom first acc [] limit = acc"
| "joinTruncFrom first acc (p # ps) limit =
     (let acc = (if first then acc else acc @ ''; '') @ p in
      if length acc > limit then take limit acc @ ''...'' else joinTruncFrom False acc ps limit)"

definition joinTrunc :: "string list \<Rightarrow> nat \<Rightarrow> string" where
  "joinTrunc parts limit = joinTruncFrom True [] parts limit"

definition joinErrs :: "string list \<Rightarrow> string" where
  "joinErrs errs = (if length errs = 0 then [] else joinTrunc errs 512)"

section \<open>The union belongs to the cluster\<close>

lemma selectedConfigs_listing:
  assumes "mset items = mset items'" and "distinct (map cf_Name items)"
  shows "selectedConfigs cluster ex items = selectedConfigs cluster ex items'"
proof -
  have "inj_on cf_Name (set items)" using assms(2) by (simp add: distinct_map)
  then have "inj_on cf_Name (set (filter P items))" for P by (rule inj_on_subset) auto
  then show ?thesis
    unfolding selectedConfigs_def using assms(1) by (intro sort_key_inj_key_eq) simp_all
qed

lemma selectedConfigs_remove:
  assumes "list_all (\<lambda>c. cf_Name c \<noteq> []) items"
  shows "selectedConfigs cluster name items = selectedConfigs cluster [] (filter (\<lambda>c. cf_Name c \<noteq> name) items)"
  using assms by (auto simp: selectedConfigs_def list_all_iff intro!: arg_cong [of _ _ "sort_key cf_Name"] filter_cong)

lemma configToDesired_configs [simp]: "configToDesired (ku\<lparr>ku_configs := f\<rparr>) c = configToDesired ku c"
proof -
  have "toMySQLUser (ku\<lparr>ku_configs := f\<rparr>) = toMySQLUser ku" "toPostgreSQLUser (ku\<lparr>ku_configs := f\<rparr>) = toPostgreSQLUser ku"
    by (simp_all add: fun_eq_iff toMySQLUser_def toPostgreSQLUser_def resolveSecretKey_def)
  then show ?thesis by (simp only: configToDesired_def)
qed

lemma union_of_selection:
  assumes "ku_configs ku (clu_Namespace cluster) = Inr items" and "f (clu_Namespace cluster) = Inr items'"
    and "selectedConfigs cluster ex items = selectedConfigs cluster ex' items'"
  shows "buildUnionedDesired (ku\<lparr>ku_configs := f\<rparr>) cluster b ex' = buildUnionedDesired ku cluster b ex"
  using assms by (simp add: buildUnionedDesired_def)

text \<open>The desired state of a cluster is a function of the set of its configurations: the order in
  which the API server lists them does not matter, so every sibling configuration reconciles to
  the same state. Deleting a configuration pushes exactly what the remaining ones will push once
  it is gone.\<close>

theorem union_belongs_to_cluster:
  assumes "ku_configs ku (clu_Namespace cluster) = Inr items"
    and "distinct (map cf_Name items)" and "list_all (\<lambda>c. cf_Name c \<noteq> []) items" and "mset items' = mset items"
  shows "buildUnionedDesired (ku\<lparr>ku_configs := \<lambda>_. Inr items'\<rparr>) cluster b ex = buildUnionedDesired ku cluster b ex
    \<and> buildUnionedDesired (ku\<lparr>ku_configs := \<lambda>_. Inr (filter (\<lambda>c. cf_Name c \<noteq> name) items')\<rparr>) cluster b [] =
      buildUnionedDesired ku cluster b name"
proof
  have names: "list_all (\<lambda>c. cf_Name c \<noteq> []) items'"
    using assms(3,4) by (metis list_all_iff set_mset_mset)
  have same: "selectedConfigs cluster x items = selectedConfigs cluster x items'" for x
    using assms(2,4) by (intro selectedConfigs_listing) simp_all
  show "buildUnionedDesired (ku\<lparr>ku_configs := \<lambda>_. Inr items'\<rparr>) cluster b ex = buildUnionedDesired ku cluster b ex"
    by (rule union_of_selection [OF assms(1) _ same]) simp
  show "buildUnionedDesired (ku\<lparr>ku_configs := \<lambda>_. Inr (filter (\<lambda>c. cf_Name c \<noteq> name) items')\<rparr>) cluster b [] =
      buildUnionedDesired ku cluster b name"
    by (rule union_of_selection [OF assms(1) _ same [unfolded selectedConfigs_remove [OF names]]]) simp
qed

definition exampleConfig :: "string \<Rightarrow> ProxySQLConfig" where
  "exampleConfig name = zeroConfig\<lparr>cf_Name := name, cf_Namespace := ''golden-ns'',
     cf_Spec := zeroConfigSpec\<lparr>sp_ClusterRef := ''golden''\<rparr>\<rparr>"

definition exampleKube :: kube where
  "exampleKube = \<lparr>ku_configs = \<lambda>_. Inr [exampleConfig ''b'', exampleConfig ''a''],
     ku_cluster = \<lambda>_ _. Inr exampleCluster, ku_secret = \<lambda>_ _. Inr exampleSecret\<rparr>"

lemma example_configs: "ku_configs exampleKube ns = Inr [exampleConfig ''b'', exampleConfig ''a'']"
  by (simp add: exampleKube_def)

lemma example_names [simp]: "cf_Name (exampleConfig n) = n" "cf_Namespace (exampleConfig n) = ''golden-ns''"
  "sp_ClusterRef (cf_Spec (exampleConfig n)) = ''golden''"
  by (simp_all add: exampleConfig_def)

theorem union_belongs_to_cluster_witness:
  "buildUnionedDesired (exampleKube\<lparr>ku_configs := \<lambda>_. Inr [exampleConfig ''a'']\<rparr>) exampleCluster
      (New exampleCluster examplePasswords) [] =
     buildUnionedDesired exampleKube exampleCluster (New exampleCluster examplePasswords) ''b''"
  using union_belongs_to_cluster [OF example_configs, of "[exampleConfig ''a'', exampleConfig ''b'']"
      exampleCluster "New exampleCluster examplePasswords" "[]" "''b''"]
  by simp

section \<open>Peers\<close>

lemma peers_empty: "autoPopulatedProxySQLServers b = [] \<longleftrightarrow> (case cs_Replicas (b_Spec b) of None \<Rightarrow> True | Some n \<Rightarrow> n \<le> 1)"
  by (auto simp: autoPopulatedProxySQLServers_def ProxySQLServerDNS_def split: option.splits)

text \<open>No push ever clears the peer list of a cluster with several replicas: neither a regular
  one nor the one of the last configuration's deletion, unless that configuration had taken the
  list over. The operator's own peers are the replicas named in the bootstrap file.\<close>

theorem peers_survive:
  assumes "cs_Replicas (b_Spec b) = Some n" and "1 < n"
  shows "(case buildUnionedDesired ku cluster b ex of Inr (d, any) \<Rightarrow> d_ProxySQLServers d \<noteq> [] | Inl _ \<Rightarrow> True)
    \<and> d_ProxySQLServers (cleanupDesired b True) \<noteq> []
    \<and> map px_Hostname (autoPopulatedProxySQLServers b) = cn_ProxySQLServers (bootstrapData b (ProxySQLServerDNS b))"
proof (intro conjI)
  have peers: "autoPopulatedProxySQLServers b \<noteq> []" using assms by (simp add: peers_empty)
  then show "case buildUnionedDesired ku cluster b ex of Inr (d, any) \<Rightarrow> d_ProxySQLServers d \<noteq> [] | Inl _ \<Rightarrow> True"
    by (auto simp: buildUnionedDesired_def andRead_def Let_def split: sum.splits if_splits)
  show "d_ProxySQLServers (cleanupDesired b True) \<noteq> []" using peers by (simp add: cleanupDesired_def)
  show "map px_Hostname (autoPopulatedProxySQLServers b) = cn_ProxySQLServers (bootstrapData b (ProxySQLServerDNS b))"
    by (simp add: autoPopulatedProxySQLServers_def bootstrapData_def Let_def comp_def)
qed

lemma example_replicas: "cs_Replicas (b_Spec (New exampleCluster pw)) = Some 3"
  by (simp add: New_def DefaultedSpec_def Let_def defaultProtocols_alt example_defs orSet_def)

theorem peers_survive_witness:
  "d_ProxySQLServers (cleanupDesired (New exampleCluster examplePasswords) True) \<noteq> []"
  using peers_survive [OF example_replicas [of examplePasswords]] by simp

section \<open>Events reach the configurations they concern\<close>

lemma collect_cong: "(\<And>x. x \<in> set xs \<Longrightarrow> f x = g x) \<Longrightarrow> collect f xs = collect g xs"
  by (induction xs) auto

text \<open>C33. A change of a Secret reaches every configuration that depends on it: one that is not
  enqueued neither targets a cluster whose credentials the Secret holds, nor would be resolved
  differently with other contents of it.\<close>

theorem secret_events_complete:
  assumes "ku_configs ku ns = Inr configs" and "c \<in> set configs" and "cf_Namespace c = ns"
    and "listClusters ns = Inr clusters" and "cluster \<in> set clusters" and "clu_Name cluster = sp_ClusterRef (cf_Spec c)"
    and "(ns, cf_Name c) \<notin> set (configsForSecret ku listClusters ns name)"
  shows "SecretName (New cluster zeroPasswords) \<noteq> name
    \<and> configToDesired (ku\<lparr>ku_secret := \<lambda>ns' name'. if ns' = ns \<and> name' = name then anything else ku_secret ku ns' name'\<rparr>) c =
      configToDesired ku c"
proof -
  let ?step = "\<lambda>c adminOf. if SecretName (New c zeroPasswords) = name then mput (clu_Name c) True adminOf else adminOf"
  have keep: "mgetBool m n \<Longrightarrow> mgetBool (fold ?step cs m) n" for cs m n
    by (induction cs arbitrary: m) (simp_all add: mgetBool_def update_conv')
  have admin: "mgetBool (fold ?step cs m) (clu_Name x)" if "x \<in> set cs" "SecretName (New x zeroPasswords) = name" for cs m x
    using that
  proof (induction cs arbitrary: m)
    case (Cons y cs)
    have "mgetBool (mput (clu_Name x) True m) (clu_Name x)" by (simp add: mgetBool_def update_conv')
    then show ?case using Cons keep by (cases "x = y") (simp_all add: Cons.prems)
  qed simp
  have "\<not> (mgetBool (fold ?step clusters []) (sp_ClusterRef (cf_Spec c)) \<or> configReferencesSecret c name)"
  proof
    assume P: "mgetBool (fold ?step clusters []) (sp_ClusterRef (cf_Spec c)) \<or> configReferencesSecret c name"
    have "configs \<noteq> []" using assms(2) by auto
    then have "configsForSecret ku listClusters ns name = requestsWhere (\<lambda>c.
        mgetBool (fold ?step clusters []) (sp_ClusterRef (cf_Spec c)) \<or> configReferencesSecret c name) configs"
      using assms(1,4) by (simp add: configsForSecret_def Let_def)
    then show False using P assms(2,3,7) by (auto simp: requestsWhere_def)
  qed
  then have no: "SecretName (New cluster zeroPasswords) \<noteq> name" "\<not> configReferencesSecret c name"
    using admin [OF assms(5)] assms(6) by auto
  let ?ku = "ku\<lparr>ku_secret := \<lambda>ns' name'. if ns' = ns \<and> name' = name then anything else ku_secret ku ns' name'\<rparr>"
  have "collect (toMySQLUser ?ku ns) (sp_MySQLUsers (cf_Spec c)) = collect (toMySQLUser ku ns) (sp_MySQLUsers (cf_Spec c))"
    using no(2) by (intro collect_cong) (auto simp: toMySQLUser_def resolveSecretKey_def configReferencesSecret_def list_ex_iff)
  moreover have "collect (toPostgreSQLUser ?ku ns) (sp_PostgreSQLUsers (cf_Spec c)) =
      collect (toPostgreSQLUser ku ns) (sp_PostgreSQLUsers (cf_Spec c))"
    using no(2) by (intro collect_cong) (auto simp: toPostgreSQLUser_def resolveSecretKey_def configReferencesSecret_def list_ex_iff)
  ultimately show ?thesis using no(1) assms(3) by (simp only: configToDesired_def Let_def simp_thms)
qed

theorem secret_events_complete_witness:
  "configToDesired (exampleKube\<lparr>ku_secret := \<lambda>ns' name'. if ns' = ''golden-ns'' \<and> name' = ''other''
       then Inl (NotFound ''gone'') else ku_secret exampleKube ns' name'\<rparr>) (exampleConfig ''a'') =
     configToDesired exampleKube (exampleConfig ''a'')"
proof -
  have name: "SecretName (New exampleCluster zeroPasswords) = ''golden''"
    by (simp add: SecretName_def New_def DefaultedSpec_def Let_def defaultProtocols_alt example_defs)
  have "configsForSecret exampleKube (\<lambda>_. Inr [exampleCluster]) ''golden-ns'' ''other'' = []"
    by (simp add: configsForSecret_def exampleKube_def name requestsWhere_def mgetBool_def configReferencesSecret_def
        exampleConfig_def zeroConfigSpec_def)
  then show ?thesis
    using secret_events_complete [OF example_configs, of "exampleConfig ''a''" "''golden-ns''" "\<lambda>_. Inr [exampleCluster]"
        "[exampleCluster]" exampleCluster "''other''" "Inl (NotFound ''gone'')"]
    by (simp add: exampleCluster_def)
qed

section \<open>Fingerprints tell pushes apart\<close>

lemma nul_join_inj:
  assumes "list_all (\<lambda>a. CHR 0x00 \<notin> set a) as" and "list_all (\<lambda>a. CHR 0x00 \<notin> set a) bs"
    and "CHR 0x00 \<notin> set x" and "CHR 0x00 \<notin> set y"
  shows "x @ concat (map (\<lambda>a. CHR 0x00 # a) as) = y @ concat (map (\<lambda>a. CHR 0x00 # a) bs) \<longleftrightarrow> x = y \<and> as = bs"
proof -
  have join: "z @ concat (map (\<lambda>a. CHR 0x00 # a) cs) = joinStr [CHR 0x00] (z # cs)" for z cs
  proof (induction cs arbitrary: z)
    case (Cons a cs)
    show ?case using Cons [of a] by (simp only: list.map concat.simps append_Cons append_Nil joinStr.simps)
  qed simp
  have "splitOn (CHR 0x00) (joinStr [CHR 0x00] (x # as)) = x # as" "splitOn (CHR 0x00) (joinStr [CHR 0x00] (y # bs)) = y # bs"
    using assms by (intro splitOn_joinStr; simp)+
  then show ?thesis unfolding join by (metis list.inject)
qed

text \<open>Two pushes have the same fingerprint exactly when they push the same native state, plugin
  state and version to the same replicas, for a digest without collisions and an encoding that
  is injective and free of zero bytes, as JSON text is.\<close>

theorem fingerprint_identifies_push:
  assumes "inj sha" and "encode (d, r, v) = Some x" and "encode (d', r', v') = Some y"
    and "inj_on encode {(d, r, v), (d', r', v')}"
    and "list_all (\<lambda>t. CHR 0x00 \<notin> set t) (x # y # addrs @ addrs')"
  shows "combinedSyncFingerprint encode sha d r v addrs = combinedSyncFingerprint encode sha d' r' v' addrs'
    \<longleftrightarrow> d = d' \<and> r = r' \<and> v = v' \<and> addrs = addrs'"
proof -
  have "x = y \<longleftrightarrow> (d, r, v) = (d', r', v')" using assms(2-4) by (auto dest: inj_onD)
  then show ?thesis
    using assms(1-3,5) nul_join_inj [of addrs addrs' x y]
    by (auto simp: combinedSyncFingerprint_def dest: injD)
qed

theorem fingerprint_identifies_push_witness:
  "combinedSyncFingerprint (\<lambda>(d, r, v). Some (itoa v)) (\<lambda>s. s) emptyDesired None 1 [''10.0.0.1:6032''] \<noteq>
   combinedSyncFingerprint (\<lambda>(d, r, v). Some (itoa v)) (\<lambda>s. s) emptyDesired None 1 [''10.0.0.2:6032'']"
  using fingerprint_identifies_push [of "\<lambda>s. s" "\<lambda>(d, r, v). Some (itoa v)" emptyDesired None 1 "itoa 1" emptyDesired None 1
      "itoa 1" "[''10.0.0.1:6032'']" "[''10.0.0.2:6032'']"]
  by (simp add: itoa_not_in is_digit_def)

section \<open>Messages are bounded\<close>

text \<open>The message joined from the errors of all replicas is at most 515 bytes long, and it is the
  full join whenever that fits.\<close>

theorem joinErrs_bounded:
  "length (joinErrs errs) \<le> 515
   \<and> (length (joinStr ''; '' errs) \<le> 512 \<longrightarrow> joinErrs errs = joinStr ''; '' errs)"
proof -
  have bound: "length acc \<le> limit \<Longrightarrow> length (joinTruncFrom first acc parts limit) \<le> limit + 3" for first acc parts limit
    by (induction first acc parts limit rule: joinTruncFrom.induct) (auto simp: Let_def)
  have full: "length (acc @ (if first \<or> parts = [] then [] else ''; '') @ joinStr ''; '' parts) \<le> limit \<Longrightarrow>
      joinTruncFrom first acc parts limit = acc @ (if first \<or> parts = [] then [] else ''; '') @ joinStr ''; '' parts"
    for first acc parts limit
  proof (induction first acc parts limit rule: joinTruncFrom.induct)
    case (2 first acc p ps limit)
    have jc: "joinStr ''; '' (p # ps) = p @ (if ps = [] then [] else ''; '' @ joinStr ''; '' ps)" by (cases ps) auto
    let ?acc = "(if first then acc else acc @ ''; '') @ p"
    have fits: "length (?acc @ (if ps = [] then [] else ''; '') @ joinStr ''; '' ps) \<le> limit"
      using "2.prems" by (cases "ps = []") (auto simp: jc split: if_splits)
    then have "\<not> limit < length ?acc" by (simp add: not_less)
    then have "joinTruncFrom first acc (p # ps) limit = joinTruncFrom False ?acc ps limit" by (simp add: Let_def)
    also have "\<dots> = ?acc @ (if ps = [] then [] else ''; '') @ joinStr ''; '' ps"
      using "2.IH" [OF refl \<open>\<not> limit < length ?acc\<close>] fits by simp
    finally show ?case by (simp add: jc)
  qed simp
  show ?thesis
    using bound [of "[]" 512 True errs] full [of "[]" True errs 512]
    by (auto simp: joinErrs_def joinTrunc_def)
qed

theorem joinErrs_bounded_witness: "joinErrs [''a: NativeDrift'', ''b: RDSDrift''] = ''a: NativeDrift; b: RDSDrift''"
  using joinErrs_bounded [of "[''a: NativeDrift'', ''b: RDSDrift'']"] by simp

end
