(* ===== verification/KubeObjects.thy ===== *)
theory KubeObjects
  imports ClusterSpec
begin

text \<open>
  The Kubernetes objects the operator renders and reads back: pod templates, StatefulSets,
  Services, PodDisruptionBudgets, Secrets, and the unstructured ServiceMonitor and Certificate.
  Only the fields the operator sets or reads are present; values it only copies are opaque texts.
  \<open>Created\<close> stands for a creation timestamp that is set, \<open>Owner\<close> for the unique identifier of the
  controlling owner reference.
\<close>

type_synonym strmap = "(string, string) gomap"

text \<open>\<open>maps.Copy(dst, src)\<close>.\<close>

definition mcopy :: "('k, 'v) gomap \<Rightarrow> ('k, 'v) gomap \<Rightarrow> ('k, 'v) gomap" where
  "mcopy dst src = fold (\<lambda>e. mput (fst e) (snd e)) src dst"

lemma mget_mcopy:
  assumes "mwf src"
  shows "mget (mcopy dst src) k = (case mget src k of Some v \<Rightarrow> Some v | None \<Rightarrow> mget dst k)"
  using assms
proof (induction src arbitrary: dst)
  case (Cons e src)
  then have "mget src (fst e) = None" by (simp add: map_of_eq_None_iff)
  then show ?case using Cons by (simp add: mcopy_def go_map split: option.splits)
qed (simp add: mcopy_def)

lemma mwf_mcopy: "mwf dst \<Longrightarrow> mwf (mcopy dst src)"
  unfolding mcopy_def by (rule gm.wf_fold_put)

text \<open>Copying the same entries twice changes nothing more.\<close>

lemma mcopy_twice: "mwf src \<Longrightarrow> mget (mcopy (mcopy dst src) src) = mget (mcopy dst src)"
  by (rule ext) (simp add: mget_mcopy split: option.splits)

section \<open>Pods\<close>

record KeyToPath =
  kp_Key :: string
  kp_Path :: string

text \<open>A projected source without a Secret is \<open>None\<close>; volumes the operator never renders are
  \<open>OtherSource\<close>.\<close>

datatype VolumeSource =
    SecretSource string "KeyToPath list"
  | ConfigMapSource string "bool option" "KeyToPath list"
  | EmptyDirSource "k8s option"
  | ProjectedSource "(string \<times> KeyToPath list) option list"
  | OtherSource k8s

record Volume =
  vo_Name :: string
  vo_Source :: VolumeSource

record VolumeMount =
  vm_Name :: string
  vm_MountPath :: string
  vm_SubPath :: string
  vm_ReadOnly :: bool

record ContainerPort =
  cpo_Name :: string
  cpo_Port :: int
  cpo_Protocol :: string

text \<open>An environment variable whose value comes from a Secret key.\<close>

record SecretEnvVar =
  ev_Name :: string
  ev_Secret :: string
  ev_Key :: string

datatype Probe =
    UserProbe k8s
  | TCPProbe string int int int

record Container =
  co_Name :: string
  co_Image :: string
  co_PullPolicy :: string
  co_SecurityContext :: "SecurityContext option"
  co_Command :: "string list"
  co_Args :: "string list"
  co_Ports :: "ContainerPort list"
  co_StartupProbe :: "Probe option"
  co_LivenessProbe :: "Probe option"
  co_ReadinessProbe :: "Probe option"
  co_Resources :: "k8s + ResourceRequirements"
  co_VolumeMounts :: "VolumeMount list"
  co_Env :: "SecretEnvVar list"
  co_PreStop :: "string list option"

record PodSpec =
  po_ImagePullSecrets :: "string list"
  po_SecurityContext :: "PodSecurityContext option"
  po_NodeSelector :: strmap
  po_Tolerations :: k8s
  po_Affinity :: "k8s option"
  po_TopologySpread :: "TopologySpreadConstraint list"
  po_GracePeriod :: int
  po_ServiceAccountName :: string
  po_InitContainers :: "Container list"
  po_Containers :: "Container list"
  po_Volumes :: "Volume list"

record PodTemplate =
  tp_Labels :: strmap
  tp_Annotations :: strmap
  tp_Spec :: PodSpec

record VolumeClaim =
  vc_Name :: string
  vc_AccessModes :: "string list"
  vc_Size :: k8s
  vc_StorageClass :: "string option"

section \<open>StatefulSets\<close>

record StatefulSetSpec =
  sps_ServiceName :: string
  sps_Replicas :: "int option"
  sps_PodManagementPolicy :: string
  sps_Selector :: "strmap option"
  sps_Template :: PodTemplate
  sps_VolumeClaimTemplates :: "VolumeClaim list"

record StatefulSetStatus =
  sss_ReadyReplicas :: int
  sss_UpdatedReplicas :: int
  sss_UpdateRevision :: string
  sss_CurrentRevision :: string

record StatefulSet =
  ss_Name :: string
  ss_Namespace :: string
  ss_Labels :: strmap
  ss_Annotations :: strmap
  ss_Owner :: "string option"
  ss_Created :: bool
  ss_Spec :: StatefulSetSpec
  ss_Status :: StatefulSetStatus

section \<open>The other owned objects\<close>

record ServicePort =
  svp_Name :: string
  svp_Port :: int
  svp_TargetPort :: string
  svp_Protocol :: string
  svp_NodePort :: int

record SvcSpec =
  svs_Type :: string
  svs_Selector :: strmap
  svs_Ports :: "ServicePort list"
  svs_ClusterIP :: string
  svs_ClusterIPs :: "string list"
  svs_PublishNotReady :: bool
  svs_SessionAffinity :: string
  svs_AffinityTimeout :: "int option"
  svs_ExternalTrafficPolicy :: string
  svs_InternalTrafficPolicy :: "string option"
  svs_IPFamilyPolicy :: "string option"
  svs_IPFamilies :: "string list"
  svs_LoadBalancerClass :: "string option"
  svs_SourceRanges :: "string list"
  svs_HealthCheckNodePort :: int
  svs_AllocateNodePorts :: "bool option"

text \<open>The ingress points of a load balancer are pairs of an address and a host name.\<close>

record Service =
  svc_Name :: string
  svc_Namespace :: string
  svc_Labels :: strmap
  svc_Annotations :: strmap
  svc_Owner :: "string option"
  svc_Spec :: SvcSpec
  svc_Ingress :: "(string \<times> string) list"

record PodDisruptionBudget =
  db_Name :: string
  db_Namespace :: string
  db_Labels :: strmap
  db_Owner :: "string option"
  db_Created :: bool
  db_Selector :: "strmap option"
  db_MinAvailable :: "k8s option"
  db_MaxUnavailable :: "k8s option"

record Secret =
  sec_Name :: string
  sec_Namespace :: string
  sec_Labels :: strmap
  sec_Owner :: "string option"
  sec_Created :: bool
  sec_Type :: string
  sec_Data :: strmap

text \<open>An unstructured object: its labels, its owner, and its \<open>spec\<close>.\<close>

record 's Unstructured =
  un_Name :: string
  un_Namespace :: string
  un_Labels :: strmap
  un_Owner :: "string option"
  un_Spec :: 's

record ServiceMonitorBody =
  smb_Selector :: strmap
  smb_Port :: string
  smb_Path :: string
  smb_Interval :: string
  smb_ScrapeTimeout :: string

record CertificateBody =
  cb_SecretName :: string
  cb_DNSNames :: "string list"
  cb_IPAddresses :: "string list"
  cb_IssuerName :: string
  cb_IssuerKind :: string
  cb_IssuerGroup :: string
  cb_Duration :: "int option"
  cb_RenewBefore :: "int option"

section \<open>Empty objects\<close>

text \<open>What \<open>CreateOrUpdate\<close> hands to the mutation when the object does not exist yet: the zero value
  with its name and namespace.\<close>

definition zeroTemplate :: PodTemplate where
  "zeroTemplate = \<lparr>tp_Labels = [], tp_Annotations = [],
     tp_Spec = \<lparr>po_ImagePullSecrets = [], po_SecurityContext = None, po_NodeSelector = [], po_Tolerations = [],
       po_Affinity = None, po_TopologySpread = [], po_GracePeriod = 0, po_ServiceAccountName = [],
       po_InitContainers = [], po_Containers = [], po_Volumes = []\<rparr>\<rparr>"

definition freshStatefulSet :: "string \<Rightarrow> string \<Rightarrow> StatefulSet" where
  "freshStatefulSet n ns = \<lparr>ss_Name = n, ss_Namespace = ns, ss_Labels = [], ss_Annotations = [], ss_Owner = None,
     ss_Created = False,
     ss_Spec = \<lparr>sps_ServiceName = [], sps_Replicas = None, sps_PodManagementPolicy = [], sps_Selector = None,
       sps_Template = zeroTemplate, sps_VolumeClaimTemplates = []\<rparr>,
     ss_Status = \<lparr>sss_ReadyReplicas = 0, sss_UpdatedReplicas = 0, sss_UpdateRevision = [], sss_CurrentRevision = []\<rparr>\<rparr>"

definition zeroSvcSpec :: SvcSpec where
  "zeroSvcSpec = \<lparr>svs_Type = [], svs_Selector = [], svs_Ports = [], svs_ClusterIP = [], svs_ClusterIPs = [],
     svs_PublishNotReady = False, svs_SessionAffinity = [], svs_AffinityTimeout = None,
     svs_ExternalTrafficPolicy = [], svs_InternalTrafficPolicy = None, svs_IPFamilyPolicy = None,
     svs_IPFamilies = [], svs_LoadBalancerClass = None, svs_SourceRanges = [], svs_HealthCheckNodePort = 0,
     svs_AllocateNodePorts = None\<rparr>"

definition freshService :: "string \<Rightarrow> string \<Rightarrow> Service" where
  "freshService n ns = \<lparr>svc_Name = n, svc_Namespace = ns, svc_Labels = [], svc_Annotations = [], svc_Owner = None,
     svc_Spec = zeroSvcSpec, svc_Ingress = []\<rparr>"

definition freshPDB :: "string \<Rightarrow> string \<Rightarrow> PodDisruptionBudget" where
  "freshPDB n ns = \<lparr>db_Name = n, db_Namespace = ns, db_Labels = [], db_Owner = None, db_Created = False,
     db_Selector = None, db_MinAvailable = None, db_MaxUnavailable = None\<rparr>"

definition freshSecret :: "string \<Rightarrow> string \<Rightarrow> Secret" where
  "freshSecret n ns = \<lparr>sec_Name = n, sec_Namespace = ns, sec_Labels = [], sec_Owner = None, sec_Created = False,
     sec_Type = [], sec_Data = []\<rparr>"

end
