(* ===== verification/LoggingSidecar.thy ===== *)
theory LoggingSidecar
  imports KubeObjects BootstrapCnf
begin

text \<open>
  The Fluent Bit sidecar, \<open>operator/internal/controller/builders/loggingsidecar.go\<close>, and the Secret
  that carries its configuration next to \<open>proxysql.cnf\<close>, \<open>builders/cnf_secret.go\<close>.

  The buffer size is a \<open>resource.Quantity\<close>; its number of bytes is the parameter \<open>bytesOf\<close>. The
  template is the list of its lines, as for the bootstrap file.
\<close>

section \<open>The configuration file\<close>

definition logsMountPath :: string where "logsMountPath = ''/var/log/proxysql''"
definition fluentBitCnfKey :: string where "fluentBitCnfKey = ''fluent-bit.conf''"

record fluentBitConfData =
  fb_ClusterName :: string
  fb_LogsPath :: string
  fb_SinkType :: string
  fb_TotalLimitSize :: string
  fb_S3Bucket :: string
  fb_S3Region :: string
  fb_S3Endpoint :: string
  fb_S3Prefix :: string
  fb_HTTPHost :: string
  fb_HTTPPort :: int
  fb_HTTPURI :: string
  fb_HTTPTLS :: bool
  fb_HTTPAuthToken :: bool

text \<open>A line of the file: four blanks, the key padded to 26 characters, the value.\<close>

definition flbLine :: "string \<Rightarrow> string \<Rightarrow> string" where
  "flbLine k v = ''    '' @ k @ replicate (26 - length k) CHR '' '' @ v"

definition flbOutput :: "fluentBitConfData \<Rightarrow> string list" where
  "flbOutput d =
     (if fb_SinkType d = ''s3'' then
        [''[OUTPUT]'', flbLine ''name'' ''s3'', flbLine ''match'' ''*'', flbLine ''bucket'' (fb_S3Bucket d),
         flbLine ''region'' (fb_S3Region d)]
        @ (if fb_S3Endpoint d \<noteq> [] then [flbLine ''endpoint'' (fb_S3Endpoint d)] else [])
        @ [flbLine ''s3_key_format'' (fb_S3Prefix d @ ''/%Y/%m/%d/%H%M%S-$UUID.jsonl''),
           flbLine ''store_dir'' (fb_LogsPath d @ ''/flb-s3''),
           flbLine ''storage.total_limit_size'' (fb_TotalLimitSize d)]
      else if fb_SinkType d = ''http'' then
        [''[OUTPUT]'', flbLine ''name'' ''http'', flbLine ''match'' ''*'', flbLine ''host'' (fb_HTTPHost d),
         flbLine ''port'' (itoa (fb_HTTPPort d)), flbLine ''uri'' (fb_HTTPURI d), flbLine ''format'' ''json_lines'',
         flbLine ''tls'' (if fb_HTTPTLS d then ''on'' else ''off'')]
        @ (if fb_HTTPAuthToken d then [flbLine ''header'' ''Authorization Bearer ${FLB_HTTP_TOKEN}''] else [])
        @ [flbLine ''storage.total_limit_size'' (fb_TotalLimitSize d)]
      else
        [''[OUTPUT]'', flbLine ''name'' ''stdout'', flbLine ''match'' ''*'', flbLine ''format'' ''json_lines'',
         flbLine ''storage.total_limit_size'' (fb_TotalLimitSize d)])"

definition fluentBitConfTemplate :: "fluentBitConfData \<Rightarrow> string list" where
  "fluentBitConfTemplate d =
     [''# Operator-managed Fluent Bit config for ProxySQLCluster '' @ fb_ClusterName d @ ''.'',
      ''[SERVICE]'', flbLine ''flush'' ''1'', flbLine ''parsers_file'' ''/fluent-bit/etc/parsers.conf'',
      flbLine ''storage.path'' (fb_LogsPath d @ ''/flb-storage''),
      [],
      ''[INPUT]'', flbLine ''name'' ''tail'', flbLine ''path'' (fb_LogsPath d @ ''/queries*''),
      flbLine ''parser'' ''json'', flbLine ''db'' (fb_LogsPath d @ ''/flb-tail.db''),
      flbLine ''storage.type'' ''filesystem'',
      []]
     @ flbOutput d @ [[]]"

text \<open>\<open>int64\<close> division rounds towards zero; the numerator is not negative for a quantity of at least
  zero bytes.\<close>

definition fluentBitSize :: "int \<Rightarrow> string" where
  "fluentBitSize n = itoa (max ((n + 1048576 - 1) div 1048576) 1) @ ''M''"

definition trimSuffixSlash :: "string \<Rightarrow> string" where
  "trimSuffixSlash s = (if s \<noteq> [] \<and> last s = CHR ''/'' then butlast s else s)"

definition fluentBitData :: "(k8s \<Rightarrow> int) \<Rightarrow> string \<Rightarrow> LoggingSpec \<Rightarrow> fluentBitConfData" where
  "fluentBitData bytesOf name l =
     (let s3 = (case lg_S3 l of Some s \<Rightarrow> (s3_Bucket s, s3_Region s, s3_Endpoint s, trimSuffixSlash (s3_Prefix s))
                | None \<Rightarrow> ([], [], [], []));
          http = (case lg_HTTP l of Some h \<Rightarrow> (hs_Host h, hs_Port h, hs_URI h, hs_TLS h, hs_AuthTokenSecretRef h \<noteq> None)
                  | None \<Rightarrow> ([], 0, [], False, False)) in
      \<lparr>fb_ClusterName = name, fb_LogsPath = logsMountPath, fb_SinkType = lg_SinkType l,
       fb_TotalLimitSize = fluentBitSize (bytesOf (lg_BufferSize l)),
       fb_S3Bucket = fst s3, fb_S3Region = fst (snd s3), fb_S3Endpoint = fst (snd (snd s3)),
       fb_S3Prefix = snd (snd (snd s3)),
       fb_HTTPHost = fst http, fb_HTTPPort = fst (snd http), fb_HTTPURI = fst (snd (snd http)),
       fb_HTTPTLS = fst (snd (snd (snd http))), fb_HTTPAuthToken = snd (snd (snd (snd http)))\<rparr>)"

text \<open>The template is a constant that parses, and its data is a structure that has every field it
  names: neither step fails.\<close>

definition FluentBitConf :: "(k8s \<Rightarrow> int) \<Rightarrow> Builder \<Rightarrow> string + string" where
  "FluentBitConf bytesOf b =
     (case cs_Logging (b_Spec b) of
        None \<Rightarrow> Inl ''logging spec is nil''
      | Some l \<Rightarrow> Inr (trimRightNewlines
          (joinStr [CHR 0x0A] (fluentBitConfTemplate (fluentBitData bytesOf (b_Name b) l))) @ [CHR 0x0A]))"

section \<open>The container\<close>

definition fluentBitEnv :: "LoggingSpec \<Rightarrow> SecretEnvVar list" where
  "fluentBitEnv l =
     (case lg_S3 l of
        Some s \<Rightarrow> if lg_SinkType l = ''s3''
          then [\<lparr>ev_Name = ''AWS_ACCESS_KEY_ID'', ev_Secret = s3_CredentialsSecretRef s, ev_Key = ''access-key-id''\<rparr>,
                \<lparr>ev_Name = ''AWS_SECRET_ACCESS_KEY'', ev_Secret = s3_CredentialsSecretRef s, ev_Key = ''secret-access-key''\<rparr>]
          else []
      | None \<Rightarrow> [])
     @ (case lg_HTTP l of
          Some h \<Rightarrow> (case hs_AuthTokenSecretRef h of
            Some r \<Rightarrow> if lg_SinkType l = ''http''
              then [\<lparr>ev_Name = ''FLB_HTTP_TOKEN'', ev_Secret = r, ev_Key = ''token''\<rparr>] else []
          | None \<Rightarrow> [])
        | None \<Rightarrow> [])"

definition fluentBitSecurity :: SecurityContext where
  "fluentBitSecurity = \<lparr>csc_AllowPrivilegeEscalation = Some False, csc_ReadOnlyRootFilesystem = Some True,
     csc_DropCapabilities = [''ALL''], csc_RunAsNonRoot = Some True, csc_RunAsUser = Some 999,
     csc_RunAsGroup = Some 999, csc_SeccompProfile = Some ''RuntimeDefault'', csc_Other = []\<rparr>"

definition fluentBitContainer :: "LoggingSpec \<Rightarrow> Container" where
  "fluentBitContainer l =
     \<lparr>co_Name = ''fluent-bit'', co_Image = lg_Image l, co_PullPolicy = ''IfNotPresent'',
      co_SecurityContext = Some fluentBitSecurity, co_Command = [], co_Args = [], co_Ports = [],
      co_StartupProbe = None, co_LivenessProbe = None, co_ReadinessProbe = None,
      co_Resources = Inr (lg_Resources l),
      co_VolumeMounts =
        [\<lparr>vm_Name = ''logs'', vm_MountPath = logsMountPath, vm_SubPath = [], vm_ReadOnly = False\<rparr>,
         \<lparr>vm_Name = ''flb-config'', vm_MountPath = ''/fluent-bit/etc/fluent-bit.conf'', vm_SubPath = fluentBitCnfKey,
          vm_ReadOnly = True\<rparr>],
      co_Env = fluentBitEnv l, co_PreStop = None\<rparr>"

definition loggingVolumes :: "Builder \<Rightarrow> LoggingSpec \<Rightarrow> Volume list" where
  "loggingVolumes b l =
     [\<lparr>vo_Name = ''logs'', vo_Source = EmptyDirSource (Some (lg_BufferSize l))\<rparr>,
      \<lparr>vo_Name = ''flb-config'', vo_Source = SecretSource (CnfSecretName b)
        [\<lparr>kp_Key = fluentBitCnfKey, kp_Path = fluentBitCnfKey\<rparr>]\<rparr>]"

section \<open>The Secret\<close>

datatype cnfSecretError = RenderCnf cnfError | RenderFluentBit string

definition CnfSecret :: "(k8s \<Rightarrow> int) \<Rightarrow> Builder \<Rightarrow> cnfSecretError + Secret" where
  "CnfSecret bytesOf b =
     (case BootstrapCnf b (ProxySQLServerDNS b) of
        Inl e \<Rightarrow> Inl (RenderCnf e)
      | Inr cnf \<Rightarrow>
          let data = [(proxySQLCnfKey, cnf)];
              secret = (\<lambda>data. \<lparr>sec_Name = CnfSecretName b, sec_Namespace = b_Namespace b, sec_Labels = Labels b,
                          sec_Owner = None, sec_Created = False, sec_Type = ''Opaque'', sec_Data = data\<rparr>) in
          if LoggingEnabled b then
            (case FluentBitConf bytesOf b of
               Inl e \<Rightarrow> Inl (RenderFluentBit e)
             | Inr flbConf \<Rightarrow> Inr (secret (mput fluentBitCnfKey flbConf data)))
          else Inr (secret data))"

section \<open>What the sidecar's file holds\<close>

text \<open>The bound on the buffer is a whole number of mebibytes that covers the requested size.\<close>

lemma fluentBitSize_covers:
  assumes "0 \<le> n"
  shows "\<exists>m. fluentBitSize n = itoa m @ ''M'' \<and> n \<le> m * 1048576 \<and> 1 \<le> m \<and> (m - 1) * 1048576 < max n 1"
proof -
  define q where "q = (n + 1048575) div 1048576"
  have "q * 1048576 + (n + 1048575) mod 1048576 = n + 1048575" by (simp add: q_def)
  moreover have "0 \<le> (n + 1048575) mod 1048576" "(n + 1048575) mod 1048576 < 1048576" by simp_all
  ultimately have q: "q * 1048576 \<le> n + 1048575" "n \<le> q * 1048576" by linarith+
  let ?m = "max q 1"
  have "n \<le> ?m * 1048576 \<and> 1 \<le> ?m \<and> (?m - 1) * 1048576 < max n 1" using assms q by (simp add: max_def)
  then show ?thesis by (intro exI [of _ ?m]) (simp add: fluentBitSize_def q_def)
qed

text \<open>The file depends on the references to credentials only through their presence: no name of a
  Secret, and so no credential, reaches it.\<close>

lemma FluentBitConf_no_credentials:
  assumes "l' = l\<lparr>lg_S3 := map_option (\<lambda>s. s\<lparr>s3_CredentialsSecretRef := r\<rparr>) (lg_S3 l),
      lg_HTTP := map_option (\<lambda>h. h\<lparr>hs_AuthTokenSecretRef := map_option (\<lambda>_. q) (hs_AuthTokenSecretRef h)\<rparr>) (lg_HTTP l)\<rparr>"
  shows "fluentBitData bytesOf n l' = fluentBitData bytesOf n l"
  using assms by (simp add: fluentBitData_def Let_def split: option.splits)

end
