(* ===== verification/PodTemplate.thy ===== *)
theory PodTemplate
  imports LoggingSidecar
begin

text \<open>
  The StatefulSet builder, \<open>operator/internal/controller/builders/statefulset.go\<close>: pod specification,
  containers, probes, volumes, and the StatefulSet itself.

  A builder comes from \<open>New\<close>, which sets the pod security context; where the source would
  dereference a missing one the model leaves it missing.
\<close>

section \<open>Names\<close>

definition tlsVolumeName :: string where "tlsVolumeName = ''tls''"
definition tlsMountPath :: string where "tlsMountPath = ''/etc/proxysql/tls''"
definition backendTLSVolumeName :: string where "backendTLSVolumeName = ''backend-tls''"
definition TLSInitContainerName :: string where "TLSInitContainerName = ''tls-init''"
definition TLSCleanupInitContainerName :: string where "TLSCleanupInitContainerName = ''tls-cleanup''"
definition TLSRestartAnnotation :: string where "TLSRestartAnnotation = ''proxysql.com/tls-restart''"
definition annotationCnfChecksum :: string where "annotationCnfChecksum = ''proxysql.com/cnf-checksum''"
definition AWSBootstrapChecksumAnnotation :: string where
  "AWSBootstrapChecksumAnnotation = ''proxysql.com/aws-bootstrap-checksum''"
definition dataVolumeName :: string where "dataVolumeName = ''data''"
definition logsVolumeName :: string where "logsVolumeName = ''logs''"
definition proxySQLDataPath :: string where "proxySQLDataPath = ''/var/lib/proxysql''"
definition tlsCertKey :: string where "tlsCertKey = ''tls.crt''"
definition tlsPrivateKey :: string where "tlsPrivateKey = ''tls.key''"
definition tlsCAKey :: string where "tlsCAKey = ''ca.crt''"
definition AWSBootstrapVolumeName :: string where "AWSBootstrapVolumeName = ''aws-bootstrap''"
definition AWSBootstrapFileName :: string where "AWSBootstrapFileName = ''aws-deployment.json''"
definition AWSBootstrapMountPath :: string where "AWSBootstrapMountPath = ''/var/lib/proxysql/aws-deployment.json''"
definition AWSCredentialsVolumeName :: string where "AWSCredentialsVolumeName = ''aws-credentials''"
definition AWSCredentialsMountPath :: string where "AWSCredentialsMountPath = ''/etc/proxysql/rds''"
definition AWSCredentialsFileName :: string where "AWSCredentialsFileName = ''aws-credentials.json''"

lemmas volume_names = tlsVolumeName_def backendTLSVolumeName_def dataVolumeName_def logsVolumeName_def
  AWSBootstrapVolumeName_def AWSCredentialsVolumeName_def

abbreviation keyItem :: "string \<Rightarrow> KeyToPath" where "keyItem k \<equiv> \<lparr>kp_Key = k, kp_Path = k\<rparr>"

abbreviation mount :: "string \<Rightarrow> string \<Rightarrow> bool \<Rightarrow> VolumeMount" where
  "mount n p ro \<equiv> \<lparr>vm_Name = n, vm_MountPath = p, vm_SubPath = [], vm_ReadOnly = ro\<rparr>"

section \<open>Small parts\<close>

definition effectiveReplicas :: "Builder \<Rightarrow> int option" where
  "effectiveReplicas b = (if cs_Pause (b_Spec b) then Some 0 else cs_Replicas (b_Spec b))"

definition terminationGracePeriodSeconds :: "Builder \<Rightarrow> int" where
  "terminationGracePeriodSeconds b =
     (if GracefulShutdownEnabled (b_Spec b) then DrainTimeoutSecondsOrDefault (b_Spec b) + 10 else 30)"

definition keepaliveSysctls :: "Builder \<Rightarrow> (string \<times> string) list" where
  "keepaliveSysctls b =
     (let ka = nw_TCPKeepalive (cs_Networking (b_Spec b)) in
      (case ka_Time ka of Some v \<Rightarrow> [(''net.ipv4.tcp_keepalive_time'', itoa v)] | None \<Rightarrow> [])
      @ (case ka_Interval ka of Some v \<Rightarrow> [(''net.ipv4.tcp_keepalive_intvl'', itoa v)] | None \<Rightarrow> [])
      @ (case ka_Probes ka of Some v \<Rightarrow> [(''net.ipv4.tcp_keepalive_probes'', itoa v)] | None \<Rightarrow> []))"

definition topologySpreadConstraints :: "Builder \<Rightarrow> TopologySpreadConstraint list" where
  "topologySpreadConstraints b =
     map (\<lambda>c. if tc_LabelSelector c = None then c\<lparr>tc_LabelSelector := Some (SelectorLabels b)\<rparr> else c)
       (cs_TopologySpreadConstraints (b_Spec b))"

definition dataPVC :: "Builder \<Rightarrow> VolumeClaim" where
  "dataPVC b = (let p = cs_Persistence (b_Spec b) in
     \<lparr>vc_Name = dataVolumeName, vc_AccessModes = pe_AccessModes p, vc_Size = pe_Size p, vc_StorageClass = pe_StorageClass p\<rparr>)"

definition startupProbe :: "Builder \<Rightarrow> Probe option" where
  "startupProbe b = map_option UserProbe (pb_Startup (cs_Probes (b_Spec b)))"

definition livenessProbe :: "Builder \<Rightarrow> Probe option" where
  "livenessProbe b = Some (case pb_Liveness (cs_Probes (b_Spec b)) of Some p \<Rightarrow> UserProbe p | None \<Rightarrow> TCPProbe ''admin'' 15 10 3)"

definition readinessProbe :: "Builder \<Rightarrow> Probe option" where
  "readinessProbe b = Some (case pb_Readiness (cs_Probes (b_Spec b)) of Some p \<Rightarrow> UserProbe p | None \<Rightarrow> TCPProbe ''admin'' 5 5 3)"

text \<open>The hook pauses the listeners and polls until no client is connected, once a second and at most
  as often as the drain timeout has seconds.\<close>

definition drainPreStopCommand :: "Builder \<Rightarrow> string list" where
  "drainPreStopCommand b =
     (let timeout = itoa (DrainTimeoutSecondsOrDefault (b_Spec b)); port = itoa (pt_Port (pts_Admin (cs_Protocols (b_Spec b)))) in
      [''/bin/sh'', ''-c'',
       ''mysql --no-defaults --connect-timeout=2 -h127.0.0.1 -P'' @ port @ '' -uadmin -e 'PROXYSQL PAUSE' 2>/dev/null || true; ''
       @ ''for i in $(seq 1 '' @ timeout @ ''); do ''
       @ ''c=$(mysql --no-defaults --connect-timeout=2 -N -h127.0.0.1 -P'' @ port @ '' -uadmin -e '' @ [CHR 0x22]
       @ ''SELECT Variable_Value FROM stats_mysql_global WHERE Variable_Name='Client_Connections_connected'' @ [CHR 0x27, CHR 0x22]
       @ '' 2>/dev/null); ''
       @ ''[ '' @ [CHR 0x22] @ ''${c:-0}'' @ [CHR 0x22] @ '' -le 0 ] && break; sleep 1; done''])"

definition proxysqlVolumeMounts :: "Builder \<Rightarrow> VolumeMount list" where
  "proxysqlVolumeMounts b =
     [mount ''config'' ''/etc/proxysql'' True, mount dataVolumeName proxySQLDataPath False]
     @ (if AWSPluginEnabled (b_Spec b)
        then [\<lparr>vm_Name = AWSBootstrapVolumeName, vm_MountPath = AWSBootstrapMountPath, vm_SubPath = AWSBootstrapFileName,
               vm_ReadOnly = True\<rparr>,
              mount AWSCredentialsVolumeName AWSCredentialsMountPath True] else [])
     @ (if LoggingEnabled b then [mount logsVolumeName logsMountPath False] else [])
     @ (if TLSEnabled (b_Spec b)
        then [mount tlsVolumeName tlsMountPath True]
             @ (if backendTLSEnabled b then [mount backendTLSVolumeName backendTLSMountPath True] else [])
        else [])"

section \<open>Containers\<close>

definition shellContainer :: "Builder \<Rightarrow> string \<Rightarrow> string \<Rightarrow> VolumeMount list \<Rightarrow> Container" where
  "shellContainer b name script mounts =
     \<lparr>co_Name = name, co_Image = Image b, co_PullPolicy = im_PullPolicy (cs_Image (b_Spec b)),
      co_SecurityContext = cs_ContainerSecurityContext (b_Spec b), co_Command = [''sh'', ''-c''], co_Args = [script],
      co_Ports = [], co_StartupProbe = None, co_LivenessProbe = None, co_ReadinessProbe = None, co_Resources = Inl [],
      co_VolumeMounts = mounts, co_Env = [], co_PreStop = None\<rparr>"

definition tlsInitContainer :: "Builder \<Rightarrow> Container" where
  "tlsInitContainer b = shellContainer b TLSInitContainerName
     (''ln -sfn '' @ tlsMountPath @ ''/tls.crt /var/lib/proxysql/proxysql-cert.pem && ''
      @ ''ln -sfn '' @ tlsMountPath @ ''/tls.key /var/lib/proxysql/proxysql-key.pem && ''
      @ ''ln -sfn '' @ tlsMountPath @ ''/ca.crt /var/lib/proxysql/proxysql-ca.pem'')
     [mount tlsVolumeName tlsMountPath True, mount dataVolumeName proxySQLDataPath False]"

definition tlsCleanupInitContainer :: "Builder \<Rightarrow> Container" where
  "tlsCleanupInitContainer b = shellContainer b TLSCleanupInitContainerName
     (''for f in proxysql-ca.pem proxysql-cert.pem proxysql-key.pem; do [ -L '' @ [CHR 0x22] @ ''/var/lib/proxysql/$f'' @ [CHR 0x22]
      @ '' ] && rm -f '' @ [CHR 0x22] @ ''/var/lib/proxysql/$f'' @ [CHR 0x22] @ ''; done; true'')
     [mount dataVolumeName proxySQLDataPath False]"

definition tcpPort :: "string \<Rightarrow> int \<Rightarrow> ContainerPort" where
  "tcpPort n p = \<lparr>cpo_Name = n, cpo_Port = p, cpo_Protocol = ''TCP''\<rparr>"

definition containerPorts :: "Builder \<Rightarrow> ContainerPort list" where
  "containerPorts b =
     (let p = cs_Protocols (b_Spec b); m = cs_Metrics (b_Spec b) in
      [tcpPort ''admin'' (pt_Port (pts_Admin p))]
      @ (if IsEnabled (pts_MySQL p) then [tcpPort ''mysql'' (pt_Port (pts_MySQL p))] else [])
      @ (if IsEnabled (pts_PostgreSQL p) then [tcpPort ''pgsql'' (pt_Port (pts_PostgreSQL p))] else [])
      @ (if isTrue (me_Enabled m) then [tcpPort ''metrics'' (me_Port m)] else [])
      @ (if IsEnabled (pts_Web p) then [tcpPort ''web'' (pt_Port (pts_Web p))] else []))"

definition container :: "Builder \<Rightarrow> Container" where
  "container b =
     \<lparr>co_Name = ''proxysql'', co_Image = Image b, co_PullPolicy = im_PullPolicy (cs_Image (b_Spec b)),
      co_SecurityContext = cs_ContainerSecurityContext (b_Spec b), co_Command = [''proxysql''],
      co_Args = [''-f'', ''-c'', ''/etc/proxysql/proxysql.cnf'', ''-D'', proxySQLDataPath, ''--reload''],
      co_Ports = containerPorts b, co_StartupProbe = startupProbe b, co_LivenessProbe = livenessProbe b,
      co_ReadinessProbe = readinessProbe b, co_Resources = Inl (cs_Resources (b_Spec b)),
      co_VolumeMounts = proxysqlVolumeMounts b,
      co_Env = (if GracefulShutdownEnabled (b_Spec b)
        then [\<lparr>ev_Name = ''MYSQL_PWD'', ev_Secret = SecretName b, ev_Key = ky_AdminPassword (SecretKeys b)\<rparr>] else []),
      co_PreStop = (if GracefulShutdownEnabled (b_Spec b) then Some (drainPreStopCommand b) else None)\<rparr>"

section \<open>The pod\<close>

definition backendTLSVolume :: "TLSBackendSpec \<Rightarrow> Volume" where
  "backendTLSVolume be =
     \<lparr>vo_Name = backendTLSVolumeName, vo_Source = ProjectedSource
       ([Some (tb_CASecretName be, [keyItem tlsCAKey])]
        @ (if tb_ClientCertSecretName be \<noteq> []
           then [Some (tb_ClientCertSecretName be, [keyItem tlsCertKey, keyItem tlsPrivateKey])] else []))\<rparr>"

definition awsVolumes :: "Builder \<Rightarrow> Volume list" where
  "awsVolumes b =
     (case cs_Plugin (b_Spec b) of
        Some p \<Rightarrow> (case cp_AWS p of
          Some a \<Rightarrow> let ref = ab_ConfigMapRef (ap_Bootstrap a) in
            [\<lparr>vo_Name = AWSBootstrapVolumeName, vo_Source = ConfigMapSource (cm_Name ref) (cm_Optional ref)
               [\<lparr>kp_Key = cm_Key ref, kp_Path = AWSBootstrapFileName\<rparr>]\<rparr>,
             \<lparr>vo_Name = AWSCredentialsVolumeName, vo_Source = SecretSource (AWSCredentialsSecretName b)
               [keyItem AWSCredentialsFileName]\<rparr>]
        | None \<Rightarrow> [])
      | None \<Rightarrow> [])"

definition tlsVolumes :: "Builder \<Rightarrow> Volume list" where
  "tlsVolumes b =
     [\<lparr>vo_Name = tlsVolumeName, vo_Source = SecretSource (tlsMountSecretName b)
        [keyItem tlsCertKey, keyItem tlsPrivateKey, keyItem tlsCAKey]\<rparr>]
     @ (case cs_TLS (b_Spec b) of
          Some t \<Rightarrow> (case tl_Backend t of
            Some be \<Rightarrow> if backendTLSEnabled b then [backendTLSVolume be] else []
          | None \<Rightarrow> [])
        | None \<Rightarrow> [])"

definition podVolumes :: "Builder \<Rightarrow> Volume list" where
  "podVolumes b =
     [\<lparr>vo_Name = ''config'', vo_Source = SecretSource (CnfSecretName b) [keyItem proxySQLCnfKey]\<rparr>]
     @ (if AWSPluginEnabled (b_Spec b) then awsVolumes b else [])
     @ (if \<not> isTrue (pe_Enabled (cs_Persistence (b_Spec b)))
        then [\<lparr>vo_Name = dataVolumeName, vo_Source = EmptyDirSource None\<rparr>] else [])
     @ (case cs_Logging (b_Spec b) of Some l \<Rightarrow> if LoggingEnabled b then loggingVolumes b l else [] | None \<Rightarrow> [])
     @ (if TLSEnabled (b_Spec b) then tlsVolumes b else [])"

definition podInitContainers :: "Builder \<Rightarrow> Container list" where
  "podInitContainers b =
     (if TLSEnabled (b_Spec b) then [tlsInitContainer b]
      else if b_TLSCleanup b \<and> isTrue (pe_Enabled (cs_Persistence (b_Spec b))) then [tlsCleanupInitContainer b]
      else [])"

definition podSpec :: "Builder \<Rightarrow> PodSpec" where
  "podSpec b =
     (let s = b_Spec b; sysctls = keepaliveSysctls b in
      \<lparr>po_ImagePullSecrets = cs_ImagePullSecrets s,
       po_SecurityContext = (if length sysctls > 0
         then map_option (\<lambda>c. c\<lparr>psc_Sysctls := psc_Sysctls c @ sysctls\<rparr>) (cs_PodSecurityContext s)
         else cs_PodSecurityContext s),
       po_NodeSelector = cs_NodeSelector s, po_Tolerations = cs_Tolerations s, po_Affinity = cs_Affinity s,
       po_TopologySpread = topologySpreadConstraints b, po_GracePeriod = terminationGracePeriodSeconds b,
       po_ServiceAccountName = cs_ServiceAccountName s,
       po_InitContainers = podInitContainers b,
       po_Containers = [container b] @ (case cs_Logging s of
         Some l \<Rightarrow> if LoggingEnabled b then [fluentBitContainer l] else [] | None \<Rightarrow> []),
       po_Volumes = podVolumes b\<rparr>)"

definition podLabels :: "Builder \<Rightarrow> strmap" where
  "podLabels b = mcopy (mcopy [] (SelectorLabels b)) (cs_PodLabels (b_Spec b))"

definition podAnnotations :: "Builder \<Rightarrow> string \<Rightarrow> strmap" where
  "podAnnotations b cnfChecksum =
     (let m = mput annotationCnfChecksum cnfChecksum (mcopy [] (cs_PodAnnotations (b_Spec b)));
          m = (if AWSPluginEnabled (b_Spec b) \<and> b_AWSBootstrapChecksum b \<noteq> []
               then mput AWSBootstrapChecksumAnnotation (b_AWSBootstrapChecksum b) m else m)
      in if TLSEnabled (b_Spec b) \<and> b_TLSRestartValue b \<noteq> [] then mput TLSRestartAnnotation (b_TLSRestartValue b) m else m)"

definition StatefulSetOf :: "Builder \<Rightarrow> string \<Rightarrow> StatefulSet" where
  "StatefulSetOf b cnfChecksum =
     (freshStatefulSet (b_Name b) (b_Namespace b))\<lparr>ss_Labels := Labels b,
       ss_Spec := \<lparr>sps_ServiceName = HeadlessName b, sps_Replicas = effectiveReplicas b,
         sps_PodManagementPolicy = ''Parallel'', sps_Selector = Some (SelectorLabels b),
         sps_Template = \<lparr>tp_Labels = podLabels b, tp_Annotations = podAnnotations b cnfChecksum, tp_Spec = podSpec b\<rparr>,
         sps_VolumeClaimTemplates = (if isTrue (pe_Enabled (cs_Persistence (b_Spec b))) then [dataPVC b] else [])\<rparr>\<rparr>"

section \<open>Well-formed pods\<close>

text \<open>What the API server asks of a pod: volumes with distinct names, mounts of every container that
  name a volume or a volume claim and have distinct paths, containers and ports with distinct
  names, and probes that name a port of their container.\<close>

fun probe_ok :: "ContainerPort list \<Rightarrow> Probe option \<Rightarrow> bool" where
  "probe_ok ports (Some (TCPProbe p _ _ _)) \<longleftrightarrow> p \<in> set (map cpo_Name ports)"
| "probe_ok ports _ \<longleftrightarrow> True"

definition wf_container :: "string set \<Rightarrow> Container \<Rightarrow> bool" where
  "wf_container vols c \<longleftrightarrow>
     set (map vm_Name (co_VolumeMounts c)) \<subseteq> vols
     \<and> distinct (map vm_MountPath (co_VolumeMounts c))
     \<and> distinct (map cpo_Name (co_Ports c))
     \<and> probe_ok (co_Ports c) (co_LivenessProbe c) \<and> probe_ok (co_Ports c) (co_ReadinessProbe c)
     \<and> probe_ok (co_Ports c) (co_StartupProbe c)"

definition wf_pod :: "VolumeClaim list \<Rightarrow> PodSpec \<Rightarrow> bool" where
  "wf_pod claims p \<longleftrightarrow>
     distinct (map vo_Name (po_Volumes p) @ map vc_Name claims)
     \<and> distinct (map co_Name (po_InitContainers p @ po_Containers p))
     \<and> list_all (wf_container (set (map vo_Name (po_Volumes p)) \<union> set (map vc_Name claims)))
         (po_InitContainers p @ po_Containers p)"

lemma backend_spec:
  "backendTLSEnabled b \<Longrightarrow> \<exists>t be. cs_TLS (b_Spec b) = Some t \<and> tl_Backend t = Some be"
  by (auto simp: backendTLSEnabled_def split: option.splits)

lemma tls_volume_names:
  "map vo_Name (tlsVolumes b) = [''tls''] @ (if backendTLSEnabled b then [''backend-tls''] else [])"
  by (auto simp: tlsVolumes_def backendTLSVolume_def volume_names dest: backend_spec split: option.splits)

lemma aws_volume_names:
  "AWSPluginEnabled (b_Spec b) \<Longrightarrow> map vo_Name (awsVolumes b) = [''aws-bootstrap'', ''aws-credentials'']"
  by (auto simp: awsVolumes_def AWSPluginEnabled_def volume_names Let_def split: option.splits)

lemma logging_spec: "LoggingEnabled b \<Longrightarrow> \<exists>l. cs_Logging (b_Spec b) = Some l"
  by (auto simp: LoggingEnabled_def split: option.splits)

lemma pod_volume_names:
  "map vo_Name (podVolumes b) =
     [''config'']
     @ (if AWSPluginEnabled (b_Spec b) then [''aws-bootstrap'', ''aws-credentials''] else [])
     @ (if \<not> isTrue (pe_Enabled (cs_Persistence (b_Spec b))) then [''data''] else [])
     @ (if LoggingEnabled b then [''logs'', ''flb-config''] else [])
     @ (if TLSEnabled (b_Spec b) then [''tls''] @ (if backendTLSEnabled b then [''backend-tls''] else []) else [])"
proof -
  have "map vo_Name (case cs_Logging (b_Spec b) of Some l \<Rightarrow> if LoggingEnabled b then loggingVolumes b l else [] | None \<Rightarrow> []) =
      (if LoggingEnabled b then [''logs'', ''flb-config''] else [])"
    using logging_spec [of b] by (auto simp: loggingVolumes_def split: option.split)
  then show ?thesis by (simp add: podVolumes_def aws_volume_names tls_volume_names volume_names)
qed

abbreviation claims_of :: "Builder \<Rightarrow> VolumeClaim list" where
  "claims_of b \<equiv> (if isTrue (pe_Enabled (cs_Persistence (b_Spec b))) then [dataPVC b] else [])"

abbreviation volumes_of :: "Builder \<Rightarrow> string set" where
  "volumes_of b \<equiv> set (map vo_Name (podVolumes b)) \<union> set (map vc_Name (claims_of b))"

lemma volumes_of_names:
  "volumes_of b = {''config'', ''data''}
     \<union> (if AWSPluginEnabled (b_Spec b) then {''aws-bootstrap'', ''aws-credentials''} else {})
     \<union> (if LoggingEnabled b then {''logs'', ''flb-config''} else {})
     \<union> (if TLSEnabled (b_Spec b) then {''tls''} \<union> (if backendTLSEnabled b then {''backend-tls''} else {}) else {})"
  by (cases "AWSPluginEnabled (b_Spec b)"; cases "LoggingEnabled b"; cases "TLSEnabled (b_Spec b)"; cases "backendTLSEnabled b";
      cases "isTrue (pe_Enabled (cs_Persistence (b_Spec b)))")
    (simp_all add: pod_volume_names dataPVC_def Let_def volume_names insert_commute)

lemma volumes_distinct: "distinct (map vo_Name (podVolumes b) @ map vc_Name (claims_of b))"
  by (cases "AWSPluginEnabled (b_Spec b)"; cases "LoggingEnabled b"; cases "TLSEnabled (b_Spec b)"; cases "backendTLSEnabled b";
      cases "isTrue (pe_Enabled (cs_Persistence (b_Spec b)))")
    (simp_all add: pod_volume_names dataPVC_def Let_def volume_names)

lemma mount_names:
  "set (map vm_Name (proxysqlVolumeMounts b)) \<subseteq> volumes_of b"
  unfolding volumes_of_names
  by (cases "AWSPluginEnabled (b_Spec b)"; cases "LoggingEnabled b"; cases "TLSEnabled (b_Spec b)"; cases "backendTLSEnabled b")
    (simp_all add: proxysqlVolumeMounts_def volume_names)

lemma mount_paths: "distinct (map vm_MountPath (proxysqlVolumeMounts b))"
  by (cases "AWSPluginEnabled (b_Spec b)"; cases "LoggingEnabled b"; cases "TLSEnabled (b_Spec b)"; cases "backendTLSEnabled b")
    (simp_all add: proxysqlVolumeMounts_def proxySQLDataPath_def AWSBootstrapMountPath_def AWSCredentialsMountPath_def
      logsMountPath_def tlsMountPath_def backendTLSMountPath_def)

lemma container_wf: "wf_container (volumes_of b) (container b)"
proof -
  have "distinct (map cpo_Name (containerPorts b))" "''admin'' \<in> set (map cpo_Name (containerPorts b))"
    by (simp_all add: containerPorts_def Let_def tcpPort_def)
  moreover have "probe_ok ports (map_option UserProbe p)" for ports p by (cases p) simp_all
  ultimately show ?thesis
    using mount_names [of b] mount_paths [of b]
    by (simp add: wf_container_def container_def livenessProbe_def readinessProbe_def startupProbe_def split: option.split)
qed

lemma fluentBit_wf: "LoggingEnabled b \<Longrightarrow> wf_container (volumes_of b) (fluentBitContainer l)"
  unfolding volumes_of_names
  by (simp add: wf_container_def fluentBitContainer_def logsMountPath_def)

lemma init_wf: "list_all (wf_container (volumes_of b)) (podInitContainers b)"
  unfolding volumes_of_names
  by (simp add: podInitContainers_def wf_container_def tlsInitContainer_def tlsCleanupInitContainer_def
      shellContainer_def volume_names tlsMountPath_def proxySQLDataPath_def)

lemma container_names:
  "distinct (map co_Name (podInitContainers b @ [container b] @ (case cs_Logging (b_Spec b) of
     Some l \<Rightarrow> if LoggingEnabled b then [fluentBitContainer l] else [] | None \<Rightarrow> [])))"
proof -
  have "co_Name (container b) = ''proxysql''" "\<And>l. co_Name (fluentBitContainer l) = ''fluent-bit''"
    by (simp_all add: container_def fluentBitContainer_def)
  moreover have "map co_Name (podInitContainers b) \<in> {[], [''tls-init''], [''tls-cleanup'']}"
    by (simp add: podInitContainers_def tlsInitContainer_def tlsCleanupInitContainer_def shellContainer_def
        TLSInitContainerName_def TLSCleanupInitContainerName_def)
  ultimately show ?thesis by (cases "cs_Logging (b_Spec b)"; cases "LoggingEnabled b") auto
qed


section \<open>Labels and annotations\<close>

text \<open>The reserved annotations survive whatever the user asks for; every other annotation is the
  user's.\<close>

lemma podAnnotations_reserved:
  assumes "mwf (cs_PodAnnotations (b_Spec b))"
  shows "mget (podAnnotations b checksum) k =
    (if k = TLSRestartAnnotation \<and> TLSEnabled (b_Spec b) \<and> b_TLSRestartValue b \<noteq> [] then Some (b_TLSRestartValue b)
     else if k = AWSBootstrapChecksumAnnotation \<and> AWSPluginEnabled (b_Spec b) \<and> b_AWSBootstrapChecksum b \<noteq> []
     then Some (b_AWSBootstrapChecksum b)
     else if k = annotationCnfChecksum then Some checksum
     else mget (cs_PodAnnotations (b_Spec b)) k)"
  using assms
  by (simp add: podAnnotations_def Let_def go_map mget_mcopy TLSRestartAnnotation_def AWSBootstrapChecksumAnnotation_def
      annotationCnfChecksum_def split: option.split)

definition selects :: "strmap \<Rightarrow> strmap \<Rightarrow> bool" where
  "selects sel labels \<longleftrightarrow> list_all (\<lambda>k. mget labels k = mget sel k) (mkeys sel)"



end
