(* ===== verification/TlsDial.thy ===== *)
theory TlsDial
  imports DesiredState PodDiscovery PodTemplate
begin

text \<open>
  The trust with which replicas are dialed, \<open>operator/internal/controller/tls_dial.go\<close>, and the
  standard library's splitting and joining of network addresses.

  Whether a PEM text holds a usable certificate (\<open>AppendCertsFromPEM\<close>) is the parameter \<open>usable\<close>;
  a certificate pool is the text it was read from.
\<close>

section \<open>Network addresses\<close>

text \<open>\<open>net.SplitHostPort\<close> and \<open>net.JoinHostPort\<close>.\<close>

definition addrErr :: "string \<Rightarrow> string \<Rightarrow> string + 'a" where
  "addrErr hostport why = Inl (''address '' @ hostport @ '': '' @ why)"

definition splitLast :: "char \<Rightarrow> string \<Rightarrow> (string \<times> string) option" where
  "splitLast c s = map_option (\<lambda>(a, b). (rev b, rev a)) (cutAt c (rev s))"

definition SplitHostPort :: "string \<Rightarrow> string + string \<times> string" where
  "SplitHostPort hostport =
     (case splitLast CHR '':'' hostport of
        None \<Rightarrow> addrErr hostport ''missing port in address''
      | Some (before, port) \<Rightarrow>
          if hd hostport = CHR ''['' then
            (case cutAt CHR '']'' hostport of
               None \<Rightarrow> addrErr hostport ''missing ']' in address''
             | Some (opened, rest) \<Rightarrow>
                 if rest = [] then addrErr hostport ''missing port in address''
                 else if length opened + 1 \<noteq> length before then
                   (if hd rest = CHR '':'' then addrErr hostport ''too many colons in address''
                    else addrErr hostport ''missing port in address'')
                 else if CHR ''['' \<in> set (tl hostport) then addrErr hostport ''unexpected '[' in address''
                 else if CHR '']'' \<in> set rest then addrErr hostport ''unexpected ']' in address''
                 else Inr (tl opened, port))
          else if CHR '':'' \<in> set before then addrErr hostport ''too many colons in address''
          else if CHR ''['' \<in> set hostport then addrErr hostport ''unexpected '[' in address''
          else if CHR '']'' \<in> set hostport then addrErr hostport ''unexpected ']' in address''
          else Inr (before, port))"

definition JoinHostPort :: "string \<Rightarrow> string \<Rightarrow> string" where
  "JoinHostPort host port =
     (if CHR '':'' \<in> set host then ''['' @ host @ '']:'' @ port else host @ '':'' @ port)"

section \<open>Trust\<close>

definition radminUser :: string where "radminUser = ''radmin''"

record tlsConfig =
  tcf_RootCAs :: string
  tcf_ServerName :: string

record adminTLS =
  at_base :: string
  at_serverNames :: strmap

text \<open>A dial without trust is in plain text.\<close>

definition configFor :: "adminTLS option \<Rightarrow> string \<Rightarrow> tlsConfig option" where
  "configFor t addr = map_option (\<lambda>a. \<lparr>tcf_RootCAs = at_base a, tcf_ServerName = mgetStr (at_serverNames a) addr\<rparr>) t"

definition httpClient :: "adminTLS option \<Rightarrow> string \<Rightarrow> string + tlsConfig" where
  "httpClient t serverName =
     (case t of
        None \<Rightarrow> Inl ''RDS API TLS trust is not available''
      | Some a \<Rightarrow> Inr \<lparr>tcf_RootCAs = at_base a, tcf_ServerName = serverName\<rparr>)"

datatype dialError =
    DialStatefulSet string
  | DialSecret string getError
  | DialUnusableCA string

text \<open>The Secret of the last volume called \<open>tls\<close> that is a Secret volume, or the empty text.\<close>

definition mountedTLSSecret :: "StatefulSet \<Rightarrow> string" where
  "mountedTLSSecret ss =
     fold (\<lambda>v acc. case vo_Source v of SecretSource n _ \<Rightarrow> if vo_Name v = tlsVolumeName then n else acc | _ \<Rightarrow> acc)
       (po_Volumes (tp_Spec (sps_Template (ss_Spec ss)))) []"

definition adminDialTLS ::
  "(string \<Rightarrow> string \<Rightarrow> getError + StatefulSet) \<Rightarrow> (string \<Rightarrow> string \<Rightarrow> getError + strmap) \<Rightarrow> (string \<Rightarrow> bool)
     \<Rightarrow> ProxySQLCluster \<Rightarrow> podEndpoint list \<Rightarrow> dialError + adminTLS option" where
  "adminDialTLS getSts getSecret usable cluster endpoints =
     (if \<not> TLSEnabled (clu_Spec cluster) \<and> \<not> AWSPluginEnabled (clu_Spec cluster) then Inr None
      else (case getSts (clu_Namespace cluster) (clu_Name cluster) of
        Inl (NotFound _) \<Rightarrow> Inr None
      | Inl (GetFailed e) \<Rightarrow> Inl (DialStatefulSet e)
      | Inr ss \<Rightarrow>
          let secretName = mountedTLSSecret ss in
          if secretName = [] then Inr None
          else (case getSecret (clu_Namespace cluster) secretName of
                  Inl e \<Rightarrow> Inl (DialSecret secretName e)
                | Inr data \<Rightarrow>
                    if \<not> usable (mgetStr data tlsCAKey) then Inl (DialUnusableCA secretName)
                    else Inr (Some \<lparr>at_base = mgetStr data tlsCAKey,
                           at_serverNames = fold (\<lambda>ep. mput (ep_Addr ep) (ep_ServerName ep)) endpoints []\<rparr>))))"

section \<open>Properties\<close>

lemma splitLast_append: "c \<notin> set b \<Longrightarrow> splitLast c (a @ c # b) = Some (a, b)"
  using cutAt_append [of c "rev b" "rev a"] by (simp add: splitLast_def)

lemma SplitHostPort_plain:
  assumes "CHR '':'' \<notin> set host" "CHR ''['' \<notin> set host" "CHR '']'' \<notin> set host"
    and "CHR '':'' \<notin> set port" "CHR ''['' \<notin> set port" "CHR '']'' \<notin> set port"
  shows "SplitHostPort (host @ '':'' @ port) = Inr (host, port)"
proof -
  have "hd (host @ CHR '':'' # port) \<noteq> CHR ''[''" using assms(2) by (cases host) auto
  then show ?thesis using assms by (simp add: SplitHostPort_def splitLast_append)
qed

lemma SplitHostPort_unbracketed:
  assumes "CHR '':'' \<in> set host" "hd host \<noteq> CHR ''[''" "CHR '':'' \<notin> set port"
  shows "SplitHostPort (host @ '':'' @ port) = addrErr (host @ '':'' @ port) ''too many colons in address''"
proof -
  have "hd (host @ CHR '':'' # port) \<noteq> CHR ''[''" using assms(1,2) by (cases host) auto
  then show ?thesis using assms by (simp add: SplitHostPort_def splitLast_append)
qed

text \<open>The rendered template names the Secret to trust: what the dial reads back is what was mounted.\<close>

lemma mounted_skip:
  assumes "tlsVolumeName \<notin> vo_Name ` set vs"
  shows "fold (\<lambda>v acc. case vo_Source v of SecretSource n _ \<Rightarrow> if vo_Name v = tlsVolumeName then n else acc | _ \<Rightarrow> acc) vs acc = acc"
  using assms by (induction vs arbitrary: acc) (auto split: VolumeSource.split)

lemma disjoint_mono: "A \<subseteq> B \<Longrightarrow> B \<inter> C = {} \<Longrightarrow> A \<inter> C = {}"
  by blast

lemma tls_volumes_last:
  "\<exists>pre. podVolumes b = pre @ (if TLSEnabled (b_Spec b) then tlsVolumes b else [])
    \<and> vo_Name ` set pre \<inter> {tlsVolumeName, backendTLSVolumeName} = {}"
proof -
  let ?tls = "{tlsVolumeName, backendTLSVolumeName}"
  define aws where "aws = (if AWSPluginEnabled (b_Spec b) then awsVolumes b else [])"
  define dat where "dat = (if \<not> isTrue (pe_Enabled (cs_Persistence (b_Spec b))) then [\<lparr>vo_Name = dataVolumeName, vo_Source = EmptyDirSource None\<rparr>] else [])"
  define logs where "logs = (case cs_Logging (b_Spec b) of Some l \<Rightarrow> if LoggingEnabled b then loggingVolumes b l else [] | None \<Rightarrow> [])"
  define cnf where "cnf = [\<lparr>vo_Name = ''config'', vo_Source = SecretSource (CnfSecretName b) [keyItem proxySQLCnfKey]\<rparr>]"
  have names: "set (map vo_Name aws) \<subseteq> {''aws-bootstrap'', ''aws-credentials''}"
    "set (map vo_Name logs) \<subseteq> {''logs'', ''flb-config''}" "set (map vo_Name dat) \<subseteq> {''data''}" "set (map vo_Name cnf) \<subseteq> {''config''}"
    by (cases "AWSPluginEnabled (b_Spec b)"; simp add: aws_def aws_volume_names del: set_map)
      (cases "cs_Logging (b_Spec b)"; cases "LoggingEnabled b"; cases "isTrue (pe_Enabled (cs_Persistence (b_Spec b)))";
       simp add: logs_def loggingVolumes_def dat_def cnf_def volume_names)+
  have "{''aws-bootstrap'', ''aws-credentials''} \<inter> ?tls = {}" "{''logs'', ''flb-config''} \<inter> ?tls = {}"
    "{''data''} \<inter> ?tls = {}" "{''config''} \<inter> ?tls = {}"
    by (simp_all add: volume_names)
  note apart = disjoint_mono [OF names(1) this(1)] disjoint_mono [OF names(2) this(2)] disjoint_mono [OF names(3) this(3)]
    disjoint_mono [OF names(4) this(4)]
  have d: "set (map vo_Name (cnf @ aws @ dat @ logs)) \<inter> ?tls = {}"
    unfolding map_append set_append Int_Un_distrib2 apart by simp
  have v: "podVolumes b = (cnf @ aws @ dat @ logs) @ (if TLSEnabled (b_Spec b) then tlsVolumes b else [])"
    by (simp only: podVolumes_def aws_def dat_def logs_def cnf_def append_assoc)
  show ?thesis by (rule exI [of _ "cnf @ aws @ dat @ logs"], rule conjI [OF v d [unfolded set_map]])
qed

lemma mounted_rendered:
  "mountedTLSSecret (StatefulSetOf b h) = (if TLSEnabled (b_Spec b) then tlsMountSecretName b else [])"
proof -
  obtain pre where p: "podVolumes b = pre @ (if TLSEnabled (b_Spec b) then tlsVolumes b else [])"
    "tlsVolumeName \<notin> vo_Name ` set pre" using tls_volumes_last by blast
  have "po_Volumes (tp_Spec (sps_Template (ss_Spec (StatefulSetOf b h)))) = podVolumes b"
    by (simp add: StatefulSetOf_def podSpec_def Let_def)
  then show ?thesis
    using p(2) by (simp add: mountedTLSSecret_def p(1) mounted_skip)
      (simp add: tlsVolumes_def backendTLSVolume_def volume_names split: option.split)
qed

text \<open>Every replica is dialed under its own name.\<close>

lemma configFor_names:
  assumes "adminDialTLS gs gx usable cluster endpoints = Inr (Some t)" and "ep \<in> set endpoints"
    and "distinct (map ep_Addr endpoints)"
  shows "configFor (Some t) (ep_Addr ep) = Some \<lparr>tcf_RootCAs = at_base t, tcf_ServerName = ep_ServerName ep\<rparr>"
proof -
  let ?names = "map (\<lambda>ep. (ep_Addr ep, ep_ServerName ep)) endpoints"
  have "at_serverNames t = mcopy [] ?names"
    using assms(1) by (auto simp: adminDialTLS_def mcopy_def fold_map comp_def Let_def split: if_splits sum.splits getError.splits)
  moreover have "mwf ?names" using assms(3) by (simp add: comp_def)
  moreover from this have "mget ?names (ep_Addr ep) = Some (ep_ServerName ep)"
    using assms(2) by (auto intro: map_of_is_SomeI)
  ultimately show ?thesis by (simp add: configFor_def mgetStr_def mget_mcopy)
qed

end
