(* ===== verification/ReplicaApply.thy ===== *)
theory ReplicaApply
  imports TlsDial DriftConvergence
begin

text \<open>
  Observing and pushing one replica: \<open>operator/internal/controller/rds_reconcile.go\<close>.

  The outside world is a state \<open>'w\<close> with the operations of \<open>env\<close>: the clock, dialling an admin
  port, executing a statement or a query on it, and the client of a replica's plugin API. A read
  leaves the world as it is; what other parties do in between is part of the next state.
\<close>

record Credentials =
  cr_AccessKeyID :: string
  cr_SecretAccessKey :: string

record rdsReconcileState =
  rrs_region :: string
  rrs_credentials :: Credentials
  rrs_desired :: RdsDesired

record 'w env =
  en_now :: "'w \<Rightarrow> int"
  en_trust :: "adminTLS option"
  en_connect :: "'w \<Rightarrow> string \<Rightarrow> string \<Rightarrow> string \<Rightarrow> tlsConfig option \<Rightarrow> gerror"
  en_exec :: "string \<Rightarrow> 'w executor"
  en_query :: "'w \<Rightarrow> string \<Rightarrow> querier"
  en_parseURI :: "string \<Rightarrow> gerror"
  en_rdsApi :: "string \<Rightarrow> string \<Rightarrow> Credentials \<Rightarrow> tlsConfig \<Rightarrow> 'w rdsApi"

text \<open>\<open>adminTLS.dial\<close>: as \<open>radmin\<close>, with the trust of the cluster.\<close>

definition dial :: "'w env \<Rightarrow> 'w \<Rightarrow> string \<Rightarrow> string \<Rightarrow> gerror" where
  "dial en w addr pass = en_connect en w addr radminUser pass (configFor (en_trust en) addr)"

definition desiredState :: "rdsReconcileState \<Rightarrow> RdsState" where
  "desiredState st = (let d = rrs_desired st in
     \<lparr>rst_Proxy = rde_Proxy d, rst_TargetGroup = rde_TargetGroup d, rst_Targets = rde_Targets d,
      rst_Tags = rde_Tags d\<rparr>)"

text \<open>\<open>rdsclient.New\<close>; the client of the plugin's HTTP interface itself is the field \<open>en_rdsApi\<close>.\<close>

definition rdsNew :: "'w env \<Rightarrow> string \<Rightarrow> string \<Rightarrow> Credentials \<Rightarrow> tlsConfig \<Rightarrow> string + 'w rdsApi" where
  "rdsNew en endpoint region credentials cfg =
     (if endpoint = [] \<or> region = [] \<or> cr_AccessKeyID credentials = [] \<or> cr_SecretAccessKey credentials = []
      then Inl ''RDS endpoint, region, and signing credentials are required''
      else (case en_parseURI en endpoint of
              Some e \<Rightarrow> Inl (''invalid RDS endpoint: '' @ e)
            | None \<Rightarrow> Inr (en_rdsApi en endpoint region credentials cfg)))"

definition rdsClientFor :: "'w env \<Rightarrow> 'w \<Rightarrow> rdsReconcileState \<Rightarrow> podEndpoint \<Rightarrow> string + 'w rdsApi" where
  "rdsClientFor en w st endpoint =
     (case SplitHostPort (ep_Addr endpoint) of
        Inl e \<Rightarrow> Inl (''parse replica address: '' @ e)
      | Inr (host, _) \<Rightarrow>
          (case httpClient (en_trust en) (ep_ServerName endpoint) of
             Inl e \<Rightarrow> Inl e
           | Inr cfg \<Rightarrow> rdsNew en (''https://'' @ JoinHostPort host (itoa DefaultWebPort) @ ''/aws/rds'')
                          (rrs_region st) (rrs_credentials st) cfg))"

section \<open>Observing\<close>

record replicaObservation =
  ob_status :: ProxySQLConfigReplicaStatus
  ob_shunned :: int
  ob_drifted :: bool

definition zeroReplicaStatus :: ProxySQLConfigReplicaStatus where
  "zeroReplicaStatus = \<lparr>rp_Pod = [], rp_ObservedVersion = 0, rp_Converged = False, rp_Drifted = False,
     rp_Reason = [], rp_LastCheckTime = None\<rparr>"

definition zeroObservation :: replicaObservation where
  "zeroObservation = \<lparr>ob_status = zeroReplicaStatus, ob_shunned = 0, ob_drifted = False\<rparr>"

text \<open>The early returns: the reason, and both drift flags.\<close>

definition driftedAs :: "string \<Rightarrow> replicaObservation \<Rightarrow> replicaObservation" where
  "driftedAs reason r = r\<lparr>ob_status := (ob_status r)\<lparr>rp_Reason := reason, rp_Drifted := True\<rparr>, ob_drifted := True\<rparr>"

definition convergedAt :: "int \<Rightarrow> replicaObservation \<Rightarrow> replicaObservation" where
  "convergedAt version r =
     r\<lparr>ob_status := (ob_status r)\<lparr>rp_Converged := True, rp_ObservedVersion := version, rp_Reason := ''Converged''\<rparr>\<rparr>"

definition observeReplica ::
  "'w env \<Rightarrow> 'w \<Rightarrow> podEndpoint \<Rightarrow> string \<Rightarrow> Desired \<Rightarrow> rdsReconcileState option \<Rightarrow> int \<Rightarrow> replicaObservation" where
  "observeReplica en w endpoint password native rds version =
     (let result = zeroObservation\<lparr>ob_status := zeroReplicaStatus\<lparr>rp_Pod := ep_Pod endpoint,
                     rp_LastCheckTime := Some (en_now en w)\<rparr>\<rparr> in
      case dial en w (ep_Addr endpoint) password of
        Some _ \<Rightarrow> driftedAs ''AdminUnavailable'' result
      | None \<Rightarrow>
          (case ReadRuntime (en_query en w (ep_Addr endpoint)) of
             Inl _ \<Rightarrow> driftedAs ''NativeReadFailed'' result
           | Inr rt \<Rightarrow>
               let result = result\<lparr>ob_shunned := ShunnedCount rt\<rparr>;
                   rt = (if rds \<noteq> None then the (NativeRuntimeWithAWSDBProxy (Some rt)) else rt)
               in if Drift native rt \<noteq> Some [] then driftedAs ''NativeDrift'' result
                  else (case rds of
                    None \<Rightarrow> convergedAt version result
                  | Some st \<Rightarrow>
                      (case rdsClientFor en w st endpoint of
                         Inl _ \<Rightarrow> driftedAs ''RDSClientUnavailable'' result
                       | Inr api \<Rightarrow>
                           (case Describe api w (py_Name (rde_Proxy (rrs_desired st))) of
                              Inl _ \<Rightarrow> driftedAs ''RDSReadFailed'' result
                            | Inr observed \<Rightarrow>
                                if rdsDrift (rrs_desired st) observed \<noteq> []
                                then driftedAs ''RDSDrift'' result
                                else convergedAt version result)))))"

section \<open>Applying\<close>

type_synonym 'w applyCycleStep = "string \<times> ('w \<Rightarrow> 'w \<times> gerror)"

text \<open>The steps run in order; the first that fails names the reason.\<close>

fun runApplyCycle :: "'w applyCycleStep list \<Rightarrow> 'w \<Rightarrow> 'w \<times> string" where
  "runApplyCycle [] w = (w, [])"
| "runApplyCycle ((reason, run) # steps) w =
     (case run w of (w, Some _) \<Rightarrow> (w, reason) | (w, None) \<Rightarrow> runApplyCycle steps w)"

definition failedReplica :: "int \<Rightarrow> string \<Rightarrow> string \<Rightarrow> replicaObservation" where
  "failedReplica now pod reason =
     \<lparr>ob_status = zeroReplicaStatus\<lparr>rp_Pod := pod, rp_Drifted := True, rp_Reason := reason,
        rp_LastCheckTime := Some now\<rparr>, ob_shunned = 0, ob_drifted = True\<rparr>"

text \<open>The two steps on the plugin describe its state first and hand it to the change.\<close>

definition withPluginState ::
  "'w env \<Rightarrow> rdsReconcileState \<Rightarrow> podEndpoint \<Rightarrow> ('w rdsApi \<Rightarrow> RdsState \<Rightarrow> 'w \<Rightarrow> 'w \<times> gerror) \<Rightarrow> 'w \<Rightarrow> 'w \<times> gerror" where
  "withPluginState en st endpoint k w =
     (case rdsClientFor en w st endpoint of
        Inl e \<Rightarrow> (w, Some e)
      | Inr api \<Rightarrow>
          (case Describe api w (py_Name (rde_Proxy (rrs_desired st))) of
             Inl e \<Rightarrow> (w, Some e)
           | Inr current \<Rightarrow> k api current w))"

definition nativeApply ::
  "'w env \<Rightarrow> podEndpoint \<Rightarrow> string \<Rightarrow> Desired \<Rightarrow> bool \<Rightarrow> 'w \<Rightarrow> 'w \<times> gerror" where
  "nativeApply en endpoint password native aws w =
     (case dial en w (ep_Addr endpoint) password of
        Some e \<Rightarrow> (w, Some e)
      | None \<Rightarrow> SyncWithAWSDBProxy (en_exec en (ep_Addr endpoint)) native aws w)"

definition applySteps ::
  "'w env \<Rightarrow> podEndpoint \<Rightarrow> string \<Rightarrow> Desired \<Rightarrow> rdsReconcileState option \<Rightarrow> 'w applyCycleStep list" where
  "applySteps en endpoint password native rds =
     (case rds of
        None \<Rightarrow> []
      | Some st \<Rightarrow> [(''RDSClearFailed'', withPluginState en st endpoint (\<lambda>api current. ClearMutable api current))])
     @ [(''NativeApplyFailed'', nativeApply en endpoint password native (rds \<noteq> None))]
     @ (case rds of
          None \<Rightarrow> []
        | Some st \<Rightarrow> [(''RDSApplyFailed'',
            withPluginState en st endpoint (\<lambda>api current. Apply api current (desiredState st)))])"

definition applyReplica ::
  "'w env \<Rightarrow> podEndpoint \<Rightarrow> string \<Rightarrow> Desired \<Rightarrow> rdsReconcileState option \<Rightarrow> int \<Rightarrow> 'w \<Rightarrow> 'w \<times> replicaObservation" where
  "applyReplica en endpoint password native rds version w =
     (case runApplyCycle (applySteps en endpoint password native rds) w of
        (w, reason) \<Rightarrow>
          if reason \<noteq> [] then (w, failedReplica (en_now en w) (ep_Pod endpoint) reason)
          else (w, observeReplica en w endpoint password native rds version))"

section \<open>Summing up\<close>

definition summarizeReplicas ::
  "replicaObservation list \<Rightarrow> ProxySQLConfigReplicaStatus list \<times> int \<times> int \<times> int" where
  "summarizeReplicas observations =
     fold (\<lambda>ob (statuses, synced, drifted, shunned).
       (statuses @ [ob_status ob],
        if rp_Converged (ob_status ob) then wrap32 (synced + 1) else synced,
        if rp_Converged (ob_status ob) then drifted else wrap32 (drifted + 1),
        wrap32 (shunned + ob_shunned ob))) observations ([], 0, 0, 0)"

section \<open>What an observation says\<close>

text \<open>A replica runs the desired state in a world: it answers, its tables show no drift from the
  native state, and, with the plugin, neither does the plugin.\<close>

definition native_ok :: "'w env \<Rightarrow> 'w \<Rightarrow> podEndpoint \<Rightarrow> string \<Rightarrow> Desired \<Rightarrow> bool \<Rightarrow> bool" where
  "native_ok en w endpoint password native aws \<longleftrightarrow>
     dial en w (ep_Addr endpoint) password = None
     \<and> (case ReadRuntime (en_query en w (ep_Addr endpoint)) of
          Inl _ \<Rightarrow> False
        | Inr rt \<Rightarrow> Drift native (if aws then the (NativeRuntimeWithAWSDBProxy (Some rt)) else rt) = Some [])"

definition plugin_ok :: "'w env \<Rightarrow> 'w \<Rightarrow> podEndpoint \<Rightarrow> rdsReconcileState \<Rightarrow> bool" where
  "plugin_ok en w endpoint st \<longleftrightarrow>
     (case rdsClientFor en w st endpoint of
        Inl _ \<Rightarrow> False
      | Inr api \<Rightarrow> (case Describe api w (py_Name (rde_Proxy (rrs_desired st))) of
          Inl _ \<Rightarrow> False
        | Inr observed \<Rightarrow> rdsDrift (rrs_desired st) observed = []))"

definition replica_ok ::
  "'w env \<Rightarrow> 'w \<Rightarrow> podEndpoint \<Rightarrow> string \<Rightarrow> Desired \<Rightarrow> rdsReconcileState option \<Rightarrow> bool" where
  "replica_ok en w endpoint password native rds \<longleftrightarrow>
     native_ok en w endpoint password native (rds \<noteq> None)
     \<and> (case rds of None \<Rightarrow> True | Some st \<Rightarrow> plugin_ok en w endpoint st)"

definition consistent :: "replicaObservation \<Rightarrow> bool" where
  "consistent ob \<longleftrightarrow> ob_drifted ob = (\<not> rp_Converged (ob_status ob)) \<and> rp_Drifted (ob_status ob) = ob_drifted ob"

lemmas observation_simps = zeroObservation_def zeroReplicaStatus_def driftedAs_def convergedAt_def failedReplica_def

lemma observe_converged:
  "rp_Converged (ob_status (observeReplica en w endpoint password native rds version)) \<longleftrightarrow>
     replica_ok en w endpoint password native rds"
  by (auto simp: observeReplica_def Let_def replica_ok_def native_ok_def plugin_ok_def observation_simps
      split: option.splits sum.splits)

lemma observe_consistent: "consistent (observeReplica en w endpoint password native rds version)"
  by (auto simp: consistent_def observeReplica_def Let_def observation_simps split: option.splits sum.splits)

lemma observe_pod: "rp_Pod (ob_status (observeReplica en w endpoint password native rds version)) = ep_Pod endpoint"
  by (auto simp: observeReplica_def Let_def observation_simps split: option.splits sum.splits)

lemma observe_version:
  "rp_ObservedVersion (ob_status (observeReplica en w endpoint password native rds version)) =
     (if replica_ok en w endpoint password native rds then version else 0)"
  by (auto simp: observeReplica_def Let_def replica_ok_def native_ok_def plugin_ok_def observation_simps
      split: option.splits sum.splits)

text \<open>For a replica that answers from its runtime tables, running the native state means that the
  tables hold what the desired state asks for.\<close>

lemma native_ok_tables:
  assumes "answers (en_query en w (ep_Addr endpoint)) T" and "wf_tables T"
  shows "native_ok en w endpoint password native False \<longleftrightarrow>
    dial en w (ep_Addr endpoint) password = None \<and> converged native T"
  using ReadRuntime_snapshot [OF assms] Drift_snapshot [of T native] assms(2)
  by (simp add: native_ok_def wf_tables_def)

lemma apply_consistent: "consistent (snd (applyReplica en endpoint password native rds version w))"
  by (auto simp: applyReplica_def observe_consistent split: prod.splits)
    (simp add: consistent_def observation_simps)

lemma apply_pod: "rp_Pod (ob_status (snd (applyReplica en endpoint password native rds version w))) = ep_Pod endpoint"
  by (auto simp: applyReplica_def observe_pod observation_simps split: prod.splits)

lemma apply_converged:
  "rp_Converged (ob_status (snd (applyReplica en endpoint password native rds version w))) \<longleftrightarrow>
     snd (runApplyCycle (applySteps en endpoint password native rds) w) = []
     \<and> replica_ok en (fst (applyReplica en endpoint password native rds version w)) endpoint password native rds"
  by (auto simp: applyReplica_def observe_converged observation_simps split: prod.splits)


section \<open>Counting\<close>

lemma summarize_fold:
  assumes "0 \<le> s" and "0 \<le> d" and "s + int (length obs) < 2 ^ 31" and "d + int (length obs) < 2 ^ 31"
  shows "\<exists>h'. fold (\<lambda>ob (statuses, synced, drifted, shunned).
     (statuses @ [ob_status ob],
      if rp_Converged (ob_status ob) then wrap32 (synced + 1) else synced,
      if rp_Converged (ob_status ob) then drifted else wrap32 (drifted + 1),
      wrap32 (shunned + ob_shunned ob))) obs (sts, s, d, h) =
   (sts @ map ob_status obs, s + int (length (filter (rp_Converged \<circ> ob_status) obs)),
    d + int (length (filter (Not \<circ> rp_Converged \<circ> ob_status) obs)), h')"
  using assms
proof (induction obs arbitrary: sts s d h)
  case Nil
  then show ?case by simp
next
  case (Cons ob obs)
  then have "wrap32 (s + 1) = s + 1" "wrap32 (d + 1) = d + 1" by (simp_all add: wrap32_id is_int32_def)
  then show ?case
    using Cons.prems Cons.IH [of "s + 1" d "sts @ [ob_status ob]" "wrap32 (h + ob_shunned ob)"]
      Cons.IH [of s "d + 1" "sts @ [ob_status ob]" "wrap32 (h + ob_shunned ob)"]
    by (cases "rp_Converged (ob_status ob)") (simp_all add: algebra_simps)
qed

text \<open>The summary of the replicas: one status per replica in order, and counts that are exact as
  long as there are fewer than \<open>2 ^ 31\<close> replicas.\<close>

theorem summarizeReplicas_counts:
  assumes "length obs < 2 ^ 31"
  shows "\<exists>shunned. summarizeReplicas obs =
    (map ob_status obs, int (length (filter (rp_Converged \<circ> ob_status) obs)),
     int (length obs) - int (length (filter (rp_Converged \<circ> ob_status) obs)), shunned)"
proof -
  have part: "int (length (filter (Not \<circ> rp_Converged \<circ> ob_status) obs)) =
      int (length obs) - int (length (filter (rp_Converged \<circ> ob_status) obs))"
    using sum_length_filter_compl [of "rp_Converged \<circ> ob_status" obs] by (simp add: comp_def)
  show ?thesis
    using summarize_fold [of 0 0 obs "[]" 0] assms by (simp add: summarizeReplicas_def part)
qed

theorem summarizeReplicas_counts_witness:
  "\<exists>shunned. summarizeReplicas [zeroObservation, convergedAt 1 zeroObservation] =
    ([zeroReplicaStatus, ob_status (convergedAt 1 zeroObservation)], 1, 1, shunned)"
  using summarizeReplicas_counts [of "[zeroObservation, convergedAt 1 zeroObservation]"]
  by (simp add: observation_simps)

section \<open>The address of the plugin\<close>

lemma discovered_address:
  assumes "discoverPodEndpoints (Inr pods) name ns port = Inr endpoints" and "ep \<in> set endpoints"
  obtains p where "p \<in> set pods" "ep_Addr ep = pod_IP p @ '':'' @ itoa port" "ep_ServerName ep = podDNSName (pod_Name p) name ns"
  using assms by (auto simp: discoverPodEndpoints_def List.map_filter_def split: if_splits)

lemma web_port_rendered:
  assumes "AWSPluginEnabled (clu_Spec c)" and "pt_Port (pts_Web (cs_Protocols (clu_Spec c))) \<noteq> 0"
  shows "tcpPort ''web'' (pt_Port (pts_Web (cs_Protocols (clu_Spec c)))) \<in> set (containerPorts (New c pw))"
proof -
  have "pts_Web (cs_Protocols (b_Spec (New c pw))) = \<lparr>pt_Enabled = Some True, pt_Port = pt_Port (pts_Web (cs_Protocols (clu_Spec c)))\<rparr>"
    using assms by (simp add: New_def DefaultedSpec_def Let_def defaultProtocols_alt listenerDefaults_def orPort_def
        defaultListener_def orSet_def IsEnabled_def)
  then show ?thesis by (simp add: containerPorts_def Let_def IsEnabled_def)
qed

text \<open>C36. The plugin of a replica is dialed at port 6080 whatever web port the cluster's specification
  asks for and the pod listens on, and a replica whose address holds a colon, as an IPv6 pod
  address does, is never dialed at all: the address was joined without brackets.\<close>

theorem plugin_address:
  assumes "discoverPodEndpoints (Inr pods) (clu_Name c) (clu_Namespace c) port = Inr endpoints" and "ep \<in> set endpoints"
    and "en_trust en = Some t"
  shows "\<exists>p \<in> set pods. ep_Addr ep = pod_IP p @ '':'' @ itoa port
    \<and> (set (pod_IP p) \<inter> {CHR '':'', CHR ''['', CHR '']''} = {} \<longrightarrow> rdsClientFor en w st ep =
         rdsNew en (''https://'' @ pod_IP p @ '':6080/aws/rds'') (rrs_region st) (rrs_credentials st)
           \<lparr>tcf_RootCAs = at_base t, tcf_ServerName = podDNSName (pod_Name p) (clu_Name c) (clu_Namespace c)\<rparr>)
    \<and> (CHR '':'' \<in> set (pod_IP p) \<and> hd (pod_IP p) \<noteq> CHR ''['' \<longrightarrow> (\<exists>e. rdsClientFor en w st ep = Inl e))
    \<and> (AWSPluginEnabled (clu_Spec c) \<and> pt_Port (pts_Web (cs_Protocols (clu_Spec c))) \<noteq> 0 \<longrightarrow>
         tcpPort ''web'' (pt_Port (pts_Web (cs_Protocols (clu_Spec c)))) \<in> set (containerPorts (New c pw)))"
proof -
  obtain p where p: "p \<in> set pods" "ep_Addr ep = pod_IP p @ '':'' @ itoa port"
    "ep_ServerName ep = podDNSName (pod_Name p) (clu_Name c) (clu_Namespace c)"
    using discovered_address [OF assms(1,2)] by blast
  have digits: "CHR '':'' \<notin> set (itoa port)" "CHR ''['' \<notin> set (itoa port)" "CHR '']'' \<notin> set (itoa port)"
    by (simp_all add: itoa_not_in is_digit_def)
  have web: "itoa DefaultWebPort = ''6080''"
    by (simp add: DefaultWebPort_def itoa_def nat_digits.simps digit_char_def)
  have plain: "rdsClientFor en w st ep = rdsNew en (''https://'' @ pod_IP p @ '':6080/aws/rds'') (rrs_region st) (rrs_credentials st)
      \<lparr>tcf_RootCAs = at_base t, tcf_ServerName = podDNSName (pod_Name p) (clu_Name c) (clu_Namespace c)\<rparr>"
    if "set (pod_IP p) \<inter> {CHR '':'', CHR ''['', CHR '']''} = {}"
    using that SplitHostPort_plain [of "pod_IP p" "itoa port"] digits p(2,3) assms(3)
    by (simp add: rdsClientFor_def httpClient_def JoinHostPort_def web)
  have colons: "\<exists>e. rdsClientFor en w st ep = Inl e" if "CHR '':'' \<in> set (pod_IP p)" "hd (pod_IP p) \<noteq> CHR ''[''"
    using SplitHostPort_unbracketed [OF that digits(1)] p(2) by (simp add: rdsClientFor_def addrErr_def)
  show ?thesis
    by (rule bexI [OF _ p(1)]) (use p(2) plain colons web_port_rendered in blast)
qed

definition exampleTrustEnv :: "unit env" where
  "exampleTrustEnv = \<lparr>en_now = (\<lambda>_. 0), en_trust = Some \<lparr>at_base = ''ca'', at_serverNames = []\<rparr>,
     en_connect = (\<lambda>_ _ _ _ _. None), en_exec = (\<lambda>_ w _. (w, None)), en_query = (\<lambda>_ _ _. Inr []),
     en_parseURI = (\<lambda>_. None), en_rdsApi = (\<lambda>_ _ _ _. \<lparr>api_call = (\<lambda>w _ _. (w, None)),
       api_proxies = (\<lambda>_ _. Inr []), api_groups = (\<lambda>_ _. Inr []), api_targets = (\<lambda>_ _. Inr []), api_tags = (\<lambda>_ _. Inr [])\<rparr>)\<rparr>"

definition examplePod6 :: pod where
  "examplePod6 = \<lparr>pod_Name = ''golden-0'', pod_IP = ''fd00::1'', pod_Deleting = False,
     pod_Conditions = [\<lparr>pc_Type = ''Ready'', pc_Status = ''True''\<rparr>]\<rparr>"

theorem plugin_address_witness:
  "\<exists>ep e. ep_Pod ep = ''golden-0'' \<and> (\<forall>st. rdsClientFor exampleTrustEnv () st ep = Inl (e st))"
proof -
  let ?ep = "\<lparr>ep_Pod = ''golden-0'', ep_Addr = ''fd00::1'' @ '':'' @ itoa 6032,
    ep_ServerName = podDNSName ''golden-0'' (clu_Name exampleCluster) (clu_Namespace exampleCluster)\<rparr>"
  have d: "discoverPodEndpoints (Inr [examplePod6]) (clu_Name exampleCluster) (clu_Namespace exampleCluster) 6032 = Inr [?ep]"
    by (simp add: discoverPodEndpoints_def examplePod6_def isPodReady_def map_filter_simps)
  have "\<exists>e. rdsClientFor exampleTrustEnv () st ?ep = Inl e" for st
    using plugin_address [OF d, of ?ep exampleTrustEnv _ "()" st] by (simp add: exampleTrustEnv_def examplePod6_def)
  then have "\<exists>e. \<forall>st. rdsClientFor exampleTrustEnv () st ?ep = Inl (e st)" by (intro choice allI)
  then obtain e where "\<forall>st. rdsClientFor exampleTrustEnv () st ?ep = Inl (e st)" by blast
  then show ?thesis by (intro exI [of _ ?ep] exI [of _ e]) simp
qed

end
