(* ===== verification/ConfigReconcile.thy ===== *)
theory ConfigReconcile
  imports ReplicaApply
begin

text \<open>
  The reconciler of a configuration: \<open>reconcileReadyReplicas\<close>, \<open>resolveDialTargets\<close>,
  \<open>applyToReplicas\<close>, \<open>verifyReplicas\<close>, \<open>finalize\<close>, \<open>releaseFinalizer\<close> and \<open>Reconcile\<close> of
  \<open>operator/internal/controller/proxysqlconfig_controller.go\<close>, and
  \<open>buildRDSReconcileState\<close> of \<open>operator/internal/controller/rds_reconcile.go\<close>.

  To the world of \<open>ReplicaApply\<close> the reconciler adds the API server and the helpers of
  controller-runtime and apimachinery on conditions and finalizers: fields of \<open>cfgEnv\<close>. The
  result is the new world, the configuration as the reconciler holds it, and the outcome.
\<close>

section \<open>The environment\<close>

datatype rdsStateError =
    NoPluginBootstrap
  | PluginSpec rdsSpecError
  | ReadBootstrapConfigMap getError
  | NoRegionAnnotation string
  | ReadCredentials getError
  | IncompleteCredentials string

text \<open>The messages of error values, and the JSON texts of fingerprints and credential files, are
  fields of the environment too.\<close>

record 'w cfgEnv = "'w env" +
  ce_kube :: "'w \<Rightarrow> kube"
  ce_configMap :: "'w \<Rightarrow> string \<Rightarrow> string \<Rightarrow> getError + (string, string) gomap"
  ce_credentialFile :: "string \<Rightarrow> string + int \<times> string \<times> string"
  ce_pods :: "'w \<Rightarrow> string \<Rightarrow> string \<Rightarrow> string + pod list"
  ce_statefulSet :: "'w \<Rightarrow> string \<Rightarrow> string \<Rightarrow> getError + StatefulSet"
  ce_usablePEM :: "string \<Rightarrow> bool"
  ce_updateStatus :: "ProxySQLConfig \<Rightarrow> 'w \<Rightarrow> 'w \<times> gerror"
  ce_update :: "ProxySQLConfig \<Rightarrow> 'w \<Rightarrow> 'w \<times> gerror"
  ce_setCondition :: "Condition \<Rightarrow> Condition list \<Rightarrow> Condition list"
  ce_removeCondition :: "string \<Rightarrow> Condition list \<Rightarrow> Condition list"
  ce_addFinalizer :: "string \<Rightarrow> string list \<Rightarrow> string list \<times> bool"
  ce_removeFinalizer :: "string \<Rightarrow> string list \<Rightarrow> string list \<times> bool"
  ce_hasFinalizer :: "string \<Rightarrow> string list \<Rightarrow> bool"
  ce_encode :: "Desired \<times> RdsDesired option \<times> int \<Rightarrow> string option"
  ce_sha :: "string \<Rightarrow> string"
  ce_resync :: int
  ce_unionText :: "unionError \<Rightarrow> string"
  ce_authText :: "authError \<Rightarrow> string"
  ce_getText :: "getError \<Rightarrow> string"
  ce_rdsText :: "rdsStateError \<Rightarrow> string"
  ce_dialText :: "dialError \<Rightarrow> string"

text \<open>The trust is built once per reconciliation and used by every dial after it.\<close>

definition dialTLSFor ::
  "('w, 'm) cfgEnv_scheme \<Rightarrow> 'w \<Rightarrow> ProxySQLCluster \<Rightarrow> podEndpoint list \<Rightarrow> dialError + adminTLS option" where
  "dialTLSFor ce w = adminDialTLS (ce_statefulSet ce w) (ku_secret (ce_kube ce w)) (ce_usablePEM ce)"

datatype outcome = Finished | RequeueAfter int | ReconcileFailed string

definition requeueAfterSuccess :: int where "requeueAfterSuccess = 30 * 10 ^ 9"
definition requeueAfterTransient :: int where "requeueAfterTransient = 5 * 10 ^ 9"

definition cfgFinalizer :: string where "cfgFinalizer = ''proxysql.com/config-cleanup''"
definition skipCleanupAnnotation :: string where "skipCleanupAnnotation = ''proxysql.com/skip-cleanup''"

definition setCfgCondition ::
  "('w, 'm) cfgEnv_scheme \<Rightarrow> string \<Rightarrow> bool \<Rightarrow> string \<Rightarrow> string \<Rightarrow> ProxySQLConfig \<Rightarrow> ProxySQLConfig" where
  "setCfgCondition ce t s reason msg cfg =
     cfg\<lparr>cf_Status := (cf_Status cfg)\<lparr>st_Conditions := ce_setCondition ce
       \<lparr>cd_Type = t, cd_Status = (if s then ''True'' else ''False''), cd_Reason = reason, cd_Message = msg,
        cd_ObservedGeneration = cf_Generation cfg\<rparr> (st_Conditions (cf_Status cfg))\<rparr>\<rparr>"

text \<open>\<open>if err := r.Status().Update(ctx, &cfg); err != nil { return ctrl.Result{}, err }\<close>, then the result.\<close>

definition updateThen ::
  "('w, 'm) cfgEnv_scheme \<Rightarrow> ProxySQLConfig \<Rightarrow> outcome \<Rightarrow> 'w \<Rightarrow> 'w \<times> ProxySQLConfig \<times> outcome" where
  "updateThen ce cfg out w =
     (case ce_updateStatus ce cfg w of (w, Some e) \<Rightarrow> (w, cfg, ReconcileFailed e) | (w, None) \<Rightarrow> (w, cfg, out))"

text \<open>\<open>_ = r.Status().Update(ctx, &cfg)\<close>: the error is dropped.\<close>

definition updateAnyway ::
  "('w, 'm) cfgEnv_scheme \<Rightarrow> ProxySQLConfig \<Rightarrow> outcome \<Rightarrow> 'w \<Rightarrow> 'w \<times> ProxySQLConfig \<times> outcome" where
  "updateAnyway ce cfg out w = (fst (ce_updateStatus ce cfg w), cfg, out)"

section \<open>Ready replicas\<close>

definition setCounts ::
  "ProxySQLConfigReplicaStatus list \<times> int \<times> int \<times> int \<Rightarrow> int \<Rightarrow> ProxySQLConfig \<Rightarrow> ProxySQLConfig" where
  "setCounts sums now cfg = (case sums of (statuses, synced, drifted, shunned) \<Rightarrow>
     cfg\<lparr>cf_Status := (cf_Status cfg)\<lparr>st_Replicas := statuses, st_SyncedReplicas := synced,
       st_DriftedReplicas := drifted, st_ShunnedBackends := shunned, st_LastRuntimeCheckTime := Some now\<rparr>\<rparr>)"

text \<open>The loop that pushes the selected replicas and records their observations by pod.\<close>

fun applyEach ::
  "'w env \<Rightarrow> string \<Rightarrow> Desired \<Rightarrow> rdsReconcileState option \<Rightarrow> int \<Rightarrow> podEndpoint list
     \<Rightarrow> (string, replicaObservation) gomap \<Rightarrow> 'w \<Rightarrow> 'w \<times> (string, replicaObservation) gomap" where
  "applyEach en password desired rds version [] m w = (w, m)"
| "applyEach en password desired rds version (ep # eps) m w =
     (case applyReplica en ep password desired rds version w of
        (w, ob) \<Rightarrow> applyEach en password desired rds version eps (mput (ep_Pod ep) ob m) w)"

definition resultOf :: "(string, replicaObservation) gomap \<Rightarrow> podEndpoint \<Rightarrow> replicaObservation" where
  "resultOf m ep = (case mget m (ep_Pod ep) of Some ob \<Rightarrow> ob | None \<Rightarrow> zeroObservation)"

text \<open>Steps 6 and 7: the replicas not selected are observed, the selected ones pushed; the status is
  written from what was seen.\<close>

definition pushReplicas ::
  "('w, 'm) cfgEnv_scheme \<Rightarrow> ProxySQLConfig \<Rightarrow> Desired \<Rightarrow> rdsReconcileState option \<Rightarrow> podEndpoint list
     \<Rightarrow> string list \<Rightarrow> string \<Rightarrow> bool \<Rightarrow> string \<Rightarrow> podEndpoint list \<Rightarrow> 'w \<Rightarrow> 'w \<times> ProxySQLConfig \<times> outcome" where
  "pushReplicas ce cfg desired rds endpoints addrs password pgsqlMismatch hash pushEndpoints w =
     (let en = env.truncate ce; version = sp_Version (cf_Spec cfg);
          seen = (if length pushEndpoints \<noteq> length endpoints
                  then fold (\<lambda>ep m. if ep_Pod ep \<in> set (map ep_Pod pushEndpoints) then m
                         else mput (ep_Pod ep) (observeReplica en w ep password desired rds version) m) endpoints []
                  else [])
      in case applyEach en password desired rds version pushEndpoints seen w of
        (w, results) \<Rightarrow>
          let observations = map (resultOf results) endpoints;
              syncErrs = map (\<lambda>(ep, ob). ep_Pod ep @ '': '' @ rp_Reason (ob_status ob))
                (filter (\<lambda>(ep, ob). \<not> rp_Converged (ob_status ob)) (zip endpoints observations));
              synced = fst (snd (summarizeReplicas observations));
              now = en_now ce w;
              cfg = setCounts (summarizeReplicas observations) now cfg;
              cfg = cfg\<lparr>cf_Status := (cf_Status cfg)\<lparr>st_ObservedGeneration := cf_Generation cfg\<rparr>\<rparr>
          in if synced = wrap32 (int (length endpoints)) \<and> length syncErrs = 0 then
               let cfg = cfg\<lparr>cf_Status := (cf_Status cfg)\<lparr>st_SyncedReplicas := wrap32 (int (length addrs)),
                           st_DriftedReplicas := 0, st_LastAppliedHash := hash, st_ObservedVersion := version,
                           st_LastSyncTime := Some now\<rparr>\<rparr>;
                   cfg = setCfgCondition ce ''Ready'' True ''Synced'' (''config applied to '' @ itoa (int (length addrs))
                           @ ''/'' @ itoa (int (length addrs)) @ '' replicas'') cfg;
                   cfg = setCfgCondition ce ''Progressing'' False ''Steady'' [] cfg;
                   cfg = (if \<not> pgsqlMismatch
                          then cfg\<lparr>cf_Status := (cf_Status cfg)\<lparr>st_Conditions :=
                                 ce_removeCondition ce ''Degraded'' (st_Conditions (cf_Status cfg))\<rparr>\<rparr> else cfg)
               in updateThen ce cfg (RequeueAfter requeueAfterSuccess) w
             else
               let cfg = setCfgCondition ce ''Ready'' False ''PartialSync'' (''complete config converged on '' @ itoa synced
                           @ ''/'' @ itoa (int (length addrs)) @ '' replicas'') cfg;
                   degradedMsg = (if pgsqlMismatch
                     then ''pgsql declared but protocols.pgsql.enabled=false on cluster; '' @ joinErrs syncErrs
                     else joinErrs syncErrs);
                   cfg = setCfgCondition ce ''Degraded'' True ''SyncErrors'' degradedMsg cfg
               in updateThen ce cfg (RequeueAfter requeueAfterTransient) w)"

definition unchangedSince :: "ProxySQLConfig \<Rightarrow> string \<Rightarrow> string list \<Rightarrow> bool" where
  "unchangedSince cfg hash addrs \<longleftrightarrow>
     st_LastAppliedHash (cf_Status cfg) = hash
     \<and> st_SyncedReplicas (cf_Status cfg) = wrap32 (int (length addrs))
     \<and> st_ObservedGeneration (cf_Status cfg) = cf_Generation cfg
     \<and> st_ObservedVersion (cf_Status cfg) = sp_Version (cf_Spec cfg)"

definition reconcileReadyReplicas ::
  "('w, 'm) cfgEnv_scheme \<Rightarrow> ProxySQLConfig \<Rightarrow> Desired \<Rightarrow> rdsReconcileState option \<Rightarrow> podEndpoint list
     \<Rightarrow> string list \<Rightarrow> string \<Rightarrow> bool \<Rightarrow> 'w \<Rightarrow> 'w \<times> ProxySQLConfig \<times> outcome" where
  "reconcileReadyReplicas ce cfg desired rds endpoints addrs password pgsqlMismatch w =
     (let hash = combinedSyncFingerprint (ce_encode ce) (ce_sha ce) desired (map_option rrs_desired rds)
                   (sp_Version (cf_Spec cfg)) addrs;
          unchanged = unchangedSince cfg hash addrs;
          dueForResync = resyncDue (st_LastSyncTime (cf_Status cfg)) (en_now ce w) (resyncInterval (ce_resync ce));
          observe = \<lambda>ep. observeReplica (env.truncate ce) w ep password desired rds (sp_Version (cf_Spec cfg))
      in if unchanged \<and> \<not> dueForResync then (w, cfg, RequeueAfter requeueAfterSuccess)
         else if unchanged \<and> dueForResync then
           let observations = map observe endpoints;
               pushEndpoints = filter (\<lambda>ep. ob_drifted (observe ep)) endpoints;
               now = en_now ce w;
               cfg = setCounts (summarizeReplicas observations) now cfg
           in if length pushEndpoints = 0 then
                updateThen ce (cfg\<lparr>cf_Status := (cf_Status cfg)\<lparr>st_LastSyncTime := Some now,
                    st_ObservedVersion := sp_Version (cf_Spec cfg)\<rparr>\<rparr>) (RequeueAfter requeueAfterSuccess) w
              else pushReplicas ce cfg desired rds endpoints addrs password pgsqlMismatch hash pushEndpoints w
         else pushReplicas ce cfg desired rds endpoints addrs password pgsqlMismatch hash endpoints w)"

section \<open>The plugin's state\<close>

definition credentialsFromSecret ::
  "(string \<Rightarrow> string + int \<times> string \<times> string) \<Rightarrow> (string, string) gomap \<Rightarrow> string + Credentials" where
  "credentialsFromSecret decode data =
     (let c = \<lparr>cr_AccessKeyID = mgetStr data ''access-key-id'', cr_SecretAccessKey = mgetStr data ''secret-access-key''\<rparr> in
      if cr_AccessKeyID c \<noteq> [] \<and> cr_SecretAccessKey c \<noteq> [] then Inr c
      else (case decode (mgetStr data ''aws-credentials.json'') of
              Inl e \<Rightarrow> Inl e
            | Inr (version, accessKeyID, secretAccessKey) \<Rightarrow>
                if version \<noteq> 1 \<or> accessKeyID = [] \<or> secretAccessKey = [] then Inl ''invalid credential file''
                else Inr \<lparr>cr_AccessKeyID = accessKeyID, cr_SecretAccessKey = secretAccessKey\<rparr>))"

definition dbProxyOf :: "ProxySQLConfig \<Rightarrow> AWSDBProxySpec option" where
  "dbProxyOf cfg = (case sp_Plugin (cf_Spec cfg) of None \<Rightarrow> None
     | Some p \<Rightarrow> (case pl_AWS p of None \<Rightarrow> None | Some a \<Rightarrow> aw_DBProxy a))"

definition bootstrapRef :: "ProxySQLCluster \<Rightarrow> ConfigMapKeySelector" where
  "bootstrapRef cluster = (case cs_Plugin (clu_Spec cluster) of
     Some p \<Rightarrow> (case cp_AWS p of Some a \<Rightarrow> ab_ConfigMapRef (ap_Bootstrap a)
       | None \<Rightarrow> \<lparr>cm_Name = [], cm_Key = [], cm_Optional = None\<rparr>)
   | None \<Rightarrow> \<lparr>cm_Name = [], cm_Key = [], cm_Optional = None\<rparr>)"

definition buildRDSReconcileState ::
  "('w, 'm) cfgEnv_scheme \<Rightarrow> 'w \<Rightarrow> ProxySQLConfig \<Rightarrow> ProxySQLCluster \<Rightarrow> rdsStateError + rdsReconcileState option" where
  "buildRDSReconcileState ce w cfg cluster =
     (case dbProxyOf cfg of
        None \<Rightarrow> Inr None
      | Some spec \<Rightarrow>
          if \<not> AWSPluginEnabled (clu_Spec cluster) then Inl NoPluginBootstrap
          else (case FromSpec (Some spec) (clu_Name cluster) of
            Inl e \<Rightarrow> Inl (PluginSpec e)
          | Inr desired \<Rightarrow>
              let ref = bootstrapRef cluster in
              (case ce_configMap ce w (clu_Namespace cluster) (cm_Name ref) of
                 Inl e \<Rightarrow> Inl (ReadBootstrapConfigMap e)
               | Inr annotations \<Rightarrow>
                   let region = mgetStr annotations ''proxysql.com/aws-region'' in
                   if region = [] then Inl (NoRegionAnnotation (cm_Name ref))
                   else (case ku_secret (ce_kube ce w) (clu_Namespace cluster) (clu_Name cluster @ ''-rds-api'') of
                           Inl e \<Rightarrow> Inl (ReadCredentials e)
                         | Inr data \<Rightarrow> (case credentialsFromSecret (ce_credentialFile ce) data of
                             Inl e \<Rightarrow> Inl (IncompleteCredentials e)
                           | Inr credentials \<Rightarrow> Inr (Some \<lparr>rrs_region = region, rrs_credentials = credentials,
                                                         rrs_desired = desired\<rparr>))))))"

text \<open>\<open>apierrors.IsNotFound\<close> looks through the wrapping of an error.\<close>

fun rdsNotFound :: "rdsStateError \<Rightarrow> bool" where
  "rdsNotFound (ReadBootstrapConfigMap (NotFound _)) = True"
| "rdsNotFound (ReadCredentials (NotFound _)) = True"
| "rdsNotFound _ = False"

section \<open>Reconciling and deleting\<close>

datatype dialTargets =
    DialTargets "podEndpoint list" "string list" "adminTLS option"
  | DialDone ProxySQLConfig outcome
  | DialFailed string

definition resolveDialTargets ::
  "('w, 'm) cfgEnv_scheme \<Rightarrow> ProxySQLConfig \<Rightarrow> ProxySQLCluster \<Rightarrow> int \<Rightarrow> 'w \<Rightarrow> 'w \<times> dialTargets" where
  "resolveDialTargets ce cfg cluster adminPort w =
     (case discoverPodEndpoints (ce_pods ce w (clu_Namespace cluster) (clu_Name cluster))
             (clu_Name cluster) (clu_Namespace cluster) adminPort of
        Inl e \<Rightarrow> (w, DialFailed e)
      | Inr endpoints \<Rightarrow>
          (case dialTLSFor ce w cluster endpoints of
             Inl e \<Rightarrow>
               let cfg = setCfgCondition ce ''Ready'' False ''TLSDialConfigError'' (ce_dialText ce e) cfg in
               (fst (ce_updateStatus ce cfg w), DialDone cfg (RequeueAfter requeueAfterTransient))
           | Inr dialTLS \<Rightarrow>
               let addrs = map ep_Addr endpoints in
               if length addrs = 0 then
                 let (reason, msg) = (if cs_Pause (clu_Spec cluster)
                       then (''ClusterPaused'', ''target ProxySQLCluster is paused (0 replicas); config push skipped'')
                       else (''NoReadyReplicas'', ''no ready ProxySQL pods to push config to''));
                     cfg = setCfgCondition ce ''Ready'' False reason msg cfg
                 in (fst (ce_updateStatus ce cfg w), DialDone cfg (RequeueAfter requeueAfterTransient))
               else (w, DialTargets endpoints addrs dialTLS)))"

text \<open>Pushing without verification, as deletion does: how many replicas took the state, and the errors.\<close>

fun applyToReplicas ::
  "'w env \<Rightarrow> string list \<Rightarrow> string \<Rightarrow> Desired \<Rightarrow> 'w \<Rightarrow> 'w \<times> nat \<times> string list" where
  "applyToReplicas en [] password d w = (w, 0, [])"
| "applyToReplicas en (addr # addrs) password d w =
     (case dial en w addr password of
        Some e \<Rightarrow> (case applyToReplicas en addrs password d w of
                    (w, n, errs) \<Rightarrow> (w, n, (addr @ '': '' @ e) # errs))
      | None \<Rightarrow>
          (case Sync (en_exec en addr) d w of
             (w, Some e) \<Rightarrow> (case applyToReplicas en addrs password d w of (w, n, errs) \<Rightarrow> (w, n, e # errs))
           | (w, None) \<Rightarrow> (case applyToReplicas en addrs password d w of (w, n, errs) \<Rightarrow> (w, Suc n, errs))))"

definition verifyReplicas ::
  "'w env \<Rightarrow> 'w \<Rightarrow> string list \<Rightarrow> string \<Rightarrow> Desired \<Rightarrow> string list \<times> int" where
  "verifyReplicas en w addrs password d =
     fold (\<lambda>addr (drifted, shunned).
       case dial en w addr password of
         Some _ \<Rightarrow> (drifted @ [addr], shunned)
       | None \<Rightarrow> (case ReadRuntime (en_query en w addr) of
           Inl _ \<Rightarrow> (drifted @ [addr], shunned)
         | Inr rs \<Rightarrow> (if Drift d rs \<noteq> Some [] then drifted @ [addr] else drifted,
                      wrap32 (shunned + ShunnedCount rs)))) addrs ([], 0)"

definition releaseFinalizer ::
  "('w, 'm) cfgEnv_scheme \<Rightarrow> ProxySQLConfig \<Rightarrow> 'w \<Rightarrow> 'w \<times> ProxySQLConfig \<times> outcome" where
  "releaseFinalizer ce cfg w =
     (case ce_removeFinalizer ce cfgFinalizer (cf_Finalizers cfg) of
        (fs, changed) \<Rightarrow>
          let cfg = cfg\<lparr>cf_Finalizers := fs\<rparr> in
          if changed
          then (case ce_update ce cfg w of (w, Some e) \<Rightarrow> (w, cfg, ReconcileFailed e) | (w, None) \<Rightarrow> (w, cfg, Finished))
          else (w, cfg, Finished))"

text \<open>Clearing the plugin on every replica; \<open>True\<close> when all of them were cleared.\<close>

fun clearPlugins :: "'w env \<Rightarrow> rdsReconcileState \<Rightarrow> podEndpoint list \<Rightarrow> 'w \<Rightarrow> 'w \<times> bool" where
  "clearPlugins en st [] w = (w, True)"
| "clearPlugins en st (ep # eps) w =
     (case withPluginState en st ep (\<lambda>api observed. ClearMutable api observed) w of
        (w, Some _) \<Rightarrow> (w, False)
      | (w, None) \<Rightarrow> clearPlugins en st eps w)"

definition cleanupState :: "kube \<Rightarrow> ProxySQLConfig \<Rightarrow> ProxySQLCluster \<Rightarrow> Builder \<Rightarrow> Desired" where
  "cleanupState ku cfg cluster b =
     (case buildUnionedDesired ku cluster b (cf_Name cfg) of
        Inl _ \<Rightarrow> cleanupDesired b (length (sp_ProxySQLServers (cf_Spec cfg)) = 0)
      | Inr (remaining, any) \<Rightarrow>
          if any then remaining else cleanupDesired b (length (sp_ProxySQLServers (cf_Spec cfg)) = 0))"

text \<open>The end of the deletion: push what the cluster should run without the configuration.\<close>

definition finalizePush ::
  "('w, 'm) cfgEnv_scheme \<Rightarrow> ProxySQLConfig \<Rightarrow> ProxySQLCluster \<Rightarrow> Builder \<Rightarrow> string list \<Rightarrow> string \<Rightarrow> 'w
     \<Rightarrow> 'w \<times> ProxySQLConfig \<times> outcome" where
  "finalizePush ce cfg cluster b addrs password w =
     (case applyToReplicas (env.truncate ce) addrs password (cleanupState (ce_kube ce w) cfg cluster b) w of
        (w, cleaned, errs) \<Rightarrow>
          if cleaned \<noteq> length addrs then (w, cfg, RequeueAfter requeueAfterTransient)
          else releaseFinalizer ce cfg w)"

definition finalizeReady ::
  "('w, 'm) cfgEnv_scheme \<Rightarrow> ProxySQLConfig \<Rightarrow> ProxySQLCluster \<Rightarrow> Builder \<Rightarrow> podEndpoint list \<Rightarrow> string \<Rightarrow> 'w
     \<Rightarrow> 'w \<times> ProxySQLConfig \<times> outcome" where
  "finalizeReady ce cfg cluster b endpoints password w =
     (let addrs = map ep_Addr endpoints in
      if dbProxyOf cfg = None then finalizePush ce cfg cluster b addrs password w
      else (case buildRDSReconcileState ce w cfg cluster of
              Inl e \<Rightarrow> if rdsNotFound e then finalizePush ce cfg cluster b addrs password w
                       else (w, cfg, RequeueAfter requeueAfterTransient)
            | Inr None \<Rightarrow> finalizePush ce cfg cluster b addrs password w
            | Inr (Some st) \<Rightarrow>
                (case clearPlugins (env.truncate ce) st endpoints w of
                   (w, False) \<Rightarrow> (w, cfg, RequeueAfter requeueAfterTransient)
                 | (w, True) \<Rightarrow> finalizePush ce cfg cluster b addrs password w)))"

definition finalize ::
  "('w, 'm) cfgEnv_scheme \<Rightarrow> ProxySQLConfig \<Rightarrow> 'w \<Rightarrow> 'w \<times> ProxySQLConfig \<times> outcome" where
  "finalize ce cfg w =
     (if \<not> ce_hasFinalizer ce cfgFinalizer (cf_Finalizers cfg) then (w, cfg, Finished)
      else if mgetStr (cf_Annotations cfg) skipCleanupAnnotation = ''true'' then releaseFinalizer ce cfg w
      else (case ku_cluster (ce_kube ce w) (cf_Namespace cfg) (sp_ClusterRef (cf_Spec cfg)) of
        Inl (NotFound _) \<Rightarrow> releaseFinalizer ce cfg w
      | Inl (GetFailed e) \<Rightarrow> (w, cfg, ReconcileFailed e)
      | Inr cluster \<Rightarrow>
          let b = New cluster zeroPasswords in
          (case ku_secret (ce_kube ce w) (clu_Namespace cluster) (SecretName b) of
             Inl (NotFound _) \<Rightarrow> releaseFinalizer ce cfg w
           | Inl (GetFailed e) \<Rightarrow> (w, cfg, ReconcileFailed e)
           | Inr data \<Rightarrow>
               (case PasswordsFromSecret data (SecretKeys b) of
                  Inl _ \<Rightarrow> releaseFinalizer ce cfg w
                | Inr pw \<Rightarrow>
                    (case discoverPodEndpoints (ce_pods ce w (clu_Namespace cluster) (clu_Name cluster))
                            (clu_Name cluster) (clu_Namespace cluster)
                            (pt_Port (pts_Admin (cs_Protocols (b_Spec b)))) of
                       Inl e \<Rightarrow> (w, cfg, ReconcileFailed e)
                     | Inr endpoints \<Rightarrow>
                         (case dialTLSFor ce w cluster endpoints of
                            Inl _ \<Rightarrow> (w, cfg, RequeueAfter requeueAfterTransient)
                          | Inr dialTLS \<Rightarrow>
                         if length endpoints = 0 then (w, cfg, RequeueAfter requeueAfterTransient)
                         else finalizeReady (ce\<lparr>en_trust := dialTLS\<rparr>) cfg cluster b endpoints (pw_Radmin pw) w))))))"

text \<open>From the admin Secret on: \<open>cfg\<close> carries the conditions set so far.\<close>

definition reconcileWithSecret ::
  "('w, 'm) cfgEnv_scheme \<Rightarrow> ProxySQLConfig \<Rightarrow> ProxySQLCluster \<Rightarrow> Builder \<Rightarrow> string \<Rightarrow> bool \<Rightarrow> 'w
     \<Rightarrow> 'w \<times> ProxySQLConfig \<times> outcome" where
  "reconcileWithSecret ce cfg cluster b password pgsqlMismatch w =
     (case buildUnionedDesired (ce_kube ce w) cluster b [] of
        Inl e \<Rightarrow>
          let reason = (case e of ConfigFailed _ (OperatorOwnedMonitorVariable _ _) \<Rightarrow> ''InvalidVariables''
                        | _ \<Rightarrow> ''UserSecretError'')
          in updateAnyway ce (setCfgCondition ce ''Ready'' False reason (ce_unionText ce e) cfg)
               (RequeueAfter requeueAfterTransient) w
      | Inr (desired, _) \<Rightarrow>
          (case buildRDSReconcileState ce w cfg cluster of
             Inl e \<Rightarrow>
               updateAnyway ce (setCfgCondition ce ''Degraded'' True ''RDSConfigError'' (ce_rdsText ce e)
                   (setCfgCondition ce ''Ready'' False ''RDSConfigError'' (ce_rdsText ce e) cfg))
                 (RequeueAfter requeueAfterTransient) w
           | Inr rds \<Rightarrow>
               let desired = (if rds \<noteq> None then the (NativeDesiredWithAWSDBProxy (Some desired)) else desired) in
               (case resolveDialTargets ce cfg cluster (pt_Port (pts_Admin (cs_Protocols (b_Spec b)))) w of
                  (w, DialFailed e) \<Rightarrow> (w, cfg, ReconcileFailed e)
                | (w, DialDone cfg out) \<Rightarrow> (w, cfg, out)
                | (w, DialTargets endpoints addrs dialTLS) \<Rightarrow>
                    reconcileReadyReplicas (ce\<lparr>en_trust := dialTLS\<rparr>) cfg desired rds endpoints addrs password pgsqlMismatch w)))"

definition reconcileCluster ::
  "('w, 'm) cfgEnv_scheme \<Rightarrow> ProxySQLConfig \<Rightarrow> ProxySQLCluster \<Rightarrow> 'w \<Rightarrow> 'w \<times> ProxySQLConfig \<times> outcome" where
  "reconcileCluster ce cfg cluster w =
     (let cfg = setCfgCondition ce ''ClusterFound'' True ''Found'' ''ProxySQLCluster resolved'' cfg;
          b = New cluster zeroPasswords;
          pgsqlMismatch = (pgsqlConfigured cfg \<and> \<not> IsEnabled (pts_PostgreSQL (cs_Protocols (b_Spec b))));
          cfg = (if pgsqlMismatch then setCfgCondition ce ''Degraded'' True ''PgsqlDisabled''
                   ''spec declares pgsql servers/users/rules but the referenced cluster has protocols.pgsql.enabled=false'' cfg
                 else cfg)
      in case ku_secret (ce_kube ce w) (clu_Namespace cluster) (SecretName b) of
           Inl e \<Rightarrow> updateAnyway ce (setCfgCondition ce ''Ready'' False ''AdminSecretMissing'' (ce_getText ce e) cfg)
                      (RequeueAfter requeueAfterTransient) w
         | Inr data \<Rightarrow>
             (case PasswordsFromSecret data (SecretKeys b) of
                Inl e \<Rightarrow> updateAnyway ce (setCfgCondition ce ''Ready'' False ''AdminSecretIncomplete'' (ce_authText ce e) cfg)
                           (RequeueAfter requeueAfterTransient) w
              | Inr pw \<Rightarrow> reconcileWithSecret ce cfg cluster b (pw_Radmin pw) pgsqlMismatch w))"

text \<open>The missing cluster's message quotes names; its text is \<open>missing\<close>.\<close>

definition Reconcile ::
  "('w, 'm) cfgEnv_scheme \<Rightarrow> (ProxySQLConfig \<Rightarrow> string) \<Rightarrow> getError + ProxySQLConfig \<Rightarrow> 'w
     \<Rightarrow> 'w \<times> ProxySQLConfig option \<times> outcome" where
  "Reconcile ce missing got w =
     (case got of
        Inl (NotFound _) \<Rightarrow> (w, None, Finished)
      | Inl (GetFailed e) \<Rightarrow> (w, None, ReconcileFailed e)
      | Inr cfg \<Rightarrow>
          let ret = (\<lambda>(w, cfg, out). (w, Some cfg, out)) in
          if cf_Deleting cfg then ret (finalize ce cfg w)
          else
            (case ce_addFinalizer ce cfgFinalizer (cf_Finalizers cfg) of
               (fs, added) \<Rightarrow>
                 let cfg = cfg\<lparr>cf_Finalizers := fs\<rparr> in
                 (case (if added then ce_update ce cfg w else (w, None)) of
                    (w, Some e) \<Rightarrow> (w, Some cfg, ReconcileFailed e)
                  | (w, None) \<Rightarrow>
                      (case ku_cluster (ce_kube ce w) (cf_Namespace cfg) (sp_ClusterRef (cf_Spec cfg)) of
                         Inl (GetFailed e) \<Rightarrow> (w, Some cfg, ReconcileFailed e)
                       | Inl (NotFound _) \<Rightarrow>
                           ret (updateAnyway ce
                             (setCfgCondition ce ''Ready'' False ''ClusterMissing'' ''target cluster is missing''
                               (setCfgCondition ce ''ClusterFound'' False ''NotFound'' (missing cfg) cfg))
                             (RequeueAfter requeueAfterTransient) w)
                       | Inr cluster \<Rightarrow> ret (reconcileCluster ce cfg cluster w)))))"

section \<open>The recorded status is what was seen\<close>

lemma setCfgCondition_status [simp]:
  "st_LastAppliedHash (cf_Status (setCfgCondition ce t s r m cfg)) = st_LastAppliedHash (cf_Status cfg)"
  "st_SyncedReplicas (cf_Status (setCfgCondition ce t s r m cfg)) = st_SyncedReplicas (cf_Status cfg)"
  "st_DriftedReplicas (cf_Status (setCfgCondition ce t s r m cfg)) = st_DriftedReplicas (cf_Status cfg)"
  "st_Replicas (cf_Status (setCfgCondition ce t s r m cfg)) = st_Replicas (cf_Status cfg)"
  "st_LastSyncTime (cf_Status (setCfgCondition ce t s r m cfg)) = st_LastSyncTime (cf_Status cfg)"
  "st_ObservedVersion (cf_Status (setCfgCondition ce t s r m cfg)) = st_ObservedVersion (cf_Status cfg)"
  "st_ObservedGeneration (cf_Status (setCfgCondition ce t s r m cfg)) = st_ObservedGeneration (cf_Status cfg)"
  "cf_Spec (setCfgCondition ce t s r m cfg) = cf_Spec cfg" "cf_Generation (setCfgCondition ce t s r m cfg) = cf_Generation cfg"
  "cf_Name (setCfgCondition ce t s r m cfg) = cf_Name cfg" "cf_Finalizers (setCfgCondition ce t s r m cfg) = cf_Finalizers cfg"
  by (simp_all add: setCfgCondition_def)

lemma updateThen_cfg [simp]: "fst (snd (updateThen ce cfg out w)) = cfg"
  by (simp add: updateThen_def split: prod.splits option.splits)

text \<open>The worlds a run of pushes passes through, one after each replica.\<close>

fun applyWorlds ::
  "'w env \<Rightarrow> string \<Rightarrow> Desired \<Rightarrow> rdsReconcileState option \<Rightarrow> int \<Rightarrow> podEndpoint list \<Rightarrow> 'w \<Rightarrow> 'w list" where
  "applyWorlds en password desired rds version [] w = []"
| "applyWorlds en password desired rds version (ep # eps) w =
     (let w = fst (applyReplica en ep password desired rds version w) in
      w # applyWorlds en password desired rds version eps w)"

lemma applyEach_world:
  "fst (applyEach en password desired rds version eps m w) =
     last (w # applyWorlds en password desired rds version eps w)"
  by (induction eps arbitrary: m w) (simp_all add: Let_def split_beta)

lemma applyEach_other:
  "pod \<notin> ep_Pod ` set eps \<Longrightarrow> mget (snd (applyEach en password desired rds version eps m w)) pod = mget m pod"
  by (induction eps arbitrary: m w) (simp_all add: split_beta update_conv')

lemma applyEach_seen:
  assumes "distinct (map ep_Pod eps)" and "ep \<in> set eps"
    and "rp_Converged (ob_status (resultOf (snd (applyEach en password desired rds version eps m w)) ep))"
  shows "\<exists>v \<in> set (applyWorlds en password desired rds version eps w). replica_ok en v ep password desired rds"
  using assms
proof (induction eps arbitrary: m w)
  case (Cons e eps)
  let ?r = "applyReplica en e password desired rds version w"
  show ?case
  proof (cases "ep = e")
    case True
    have "ep_Pod e \<notin> ep_Pod ` set eps" using Cons.prems(1) by simp
    then have "rp_Converged (ob_status (snd ?r))"
      using Cons.prems(3) True by (simp add: resultOf_def split_beta applyEach_other update_conv')
    then have "replica_ok en (fst ?r) e password desired rds" by (simp add: apply_converged)
    then show ?thesis using True by (simp add: Let_def)
  next
    case False
    then show ?thesis using Cons by (auto simp: Let_def split_beta)
  qed
qed simp

lemma seen_lookup:
  assumes "distinct (map ep_Pod eps)" and "ep \<in> set eps" and "ep_Pod ep \<notin> S"
  shows "mget (fold (\<lambda>ep m. if ep_Pod ep \<in> S then m else mput (ep_Pod ep) (f ep) m) eps m) (ep_Pod ep) = Some (f ep)"
  using assms
proof (induction eps arbitrary: m)
  case (Cons e eps)
  have keep: "mget (fold (\<lambda>ep m. if ep_Pod ep \<in> S then m else mput (ep_Pod ep) (f ep) m) eps m) p = mget m p"
    if "p \<notin> ep_Pod ` set eps" for p m
    using that by (induction eps arbitrary: m) (auto simp: update_conv')
  show ?case
  proof (cases "ep = e")
    case True
    then show ?thesis using Cons.prems by (simp add: keep update_conv')
  next
    case False
    then show ?thesis using Cons by auto
  qed
qed simp

lemma resultOf_seen:
  assumes "distinct (map ep_Pod endpoints)" and "set eps \<subseteq> set endpoints" and "ep \<in> set endpoints - set eps"
  shows "resultOf (snd (applyEach en password desired rds version eps
      (fold (\<lambda>ep m. if ep_Pod ep \<in> set (map ep_Pod eps) then m else mput (ep_Pod ep) (f ep) m) endpoints []) w)) ep = f ep"
proof -
  have "inj_on ep_Pod (set endpoints)" using assms(1) by (simp add: distinct_map)
  then have out: "ep_Pod ep \<notin> ep_Pod ` set eps" using assms(2,3) by (auto dest: inj_onD)
  then show ?thesis
    using assms seen_lookup [of endpoints ep "set (map ep_Pod eps)" f "[]"]
    by (simp add: resultOf_def applyEach_other)
qed

text \<open>When the errors of a run are empty, every replica was seen converged: before the pushes or
  right after its own.\<close>

lemma pushed_all_seen:
  fixes eps :: "podEndpoint list"
  defines "seen \<equiv> \<lambda>endpoints en w password desired rds version.
    if length eps \<noteq> length endpoints
    then fold (\<lambda>ep m. if ep_Pod ep \<in> set (map ep_Pod eps) then m
           else mput (ep_Pod ep) (observeReplica en w ep password desired rds version) m) endpoints [] else []"
  assumes "distinct (map ep_Pod endpoints)" and "distinct eps" and "set eps \<subseteq> set endpoints"
    and "ep \<in> set endpoints"
    and "rp_Converged (ob_status (resultOf (snd (applyEach en password desired rds version eps
           (seen endpoints en w password desired rds version) w)) ep))"
  shows "\<exists>v \<in> set (w # applyWorlds en password desired rds version eps w). replica_ok en v ep password desired rds"
proof (cases "ep \<in> set eps")
  case True
  have "inj_on ep_Pod (set eps)" using assms(2,4) by (auto simp: distinct_map intro: inj_on_subset)
  then have "distinct (map ep_Pod eps)" using assms(3) by (simp add: distinct_map)
  then have "\<exists>v \<in> set (applyWorlds en password desired rds version eps w). replica_ok en v ep password desired rds"
    using True assms(6) by (rule applyEach_seen)
  then show ?thesis by simp
next
  case False
  have "length eps \<noteq> length endpoints"
  proof
    assume "length eps = length endpoints"
    then have "card (set eps) = card (set endpoints)"
      using assms(2,3) distinct_map by (metis distinct_card)
    then have "set eps = set endpoints" using assms(4) by (simp add: card_subset_eq)
    with False assms(5) show False by simp
  qed
  then have "resultOf (snd (applyEach en password desired rds version eps
        (seen endpoints en w password desired rds version) w)) ep = observeReplica en w ep password desired rds version"
    using resultOf_seen [OF assms(2,4), of ep] False assms(5) by (simp add: seen_def)
  then show ?thesis using assms(6) by (simp add: observe_converged)
qed

lemma setCounts_keeps [simp]:
  "st_LastAppliedHash (cf_Status (setCounts sums now cfg)) = st_LastAppliedHash (cf_Status cfg)"
  "st_LastSyncTime (cf_Status (setCounts sums now cfg)) = st_LastSyncTime (cf_Status cfg)"
  "cf_Spec (setCounts sums now cfg) = cf_Spec cfg" "cf_Generation (setCounts sums now cfg) = cf_Generation cfg"
  by (simp_all add: setCounts_def split: prod.split)

definition asserted :: "ProxySQLConfig \<Rightarrow> string \<times> int option" where
  "asserted cfg = (st_LastAppliedHash (cf_Status cfg), st_LastSyncTime (cf_Status cfg))"

definition seenFirst ::
  "'w env \<Rightarrow> 'w \<Rightarrow> string \<Rightarrow> Desired \<Rightarrow> rdsReconcileState option \<Rightarrow> int \<Rightarrow> podEndpoint list \<Rightarrow> podEndpoint list
     \<Rightarrow> (string, replicaObservation) gomap" where
  "seenFirst en w password desired rds version endpoints eps =
     (if length eps \<noteq> length endpoints
      then fold (\<lambda>ep m. if ep_Pod ep \<in> set (map ep_Pod eps) then m
             else mput (ep_Pod ep) (observeReplica en w ep password desired rds version) m) endpoints [] else [])"

text \<open>A run of pushes asserts convergence only when every replica's result is converged.\<close>

lemma pushReplicas_asserts:
  assumes "asserted (fst (snd (pushReplicas ce cfg desired rds endpoints addrs password mm hash eps w))) \<noteq> asserted cfg"
    and "ep \<in> set endpoints"
  shows "rp_Converged (ob_status (resultOf (snd (applyEach (env.truncate ce) password desired rds (sp_Version (cf_Spec cfg)) eps
      (seenFirst (env.truncate ce) w password desired rds (sp_Version (cf_Spec cfg)) endpoints eps) w)) ep))"
proof -
  obtain w1 results where run: "applyEach (env.truncate ce) password desired rds (sp_Version (cf_Spec cfg)) eps
      (seenFirst (env.truncate ce) w password desired rds (sp_Version (cf_Spec cfg)) endpoints eps) w = (w1, results)"
    by fastforce
  have "filter (\<lambda>(ep, ob). \<not> rp_Converged (ob_status ob)) (zip endpoints (map (resultOf results) endpoints)) = []"
    using assms(1) run
    by (simp add: pushReplicas_def Let_def asserted_def seenFirst_def split: if_splits)
  then have "\<forall>x \<in> set endpoints. rp_Converged (ob_status (resultOf results x))"
    by (force simp: filter_empty_conv zip_map2 set_zip in_set_conv_nth)
  then show ?thesis using assms(2) by (simp add: run)
qed

lemma pushReplicas_seen:
  assumes "distinct (map ep_Pod endpoints)" and "distinct eps" and "set eps \<subseteq> set endpoints" and "ep \<in> set endpoints"
    and "asserted (fst (snd (pushReplicas ce cfg desired rds endpoints addrs password mm hash eps w))) \<noteq> asserted cfg"
  shows "\<exists>v \<in> set (w # applyWorlds (env.truncate ce) password desired rds (sp_Version (cf_Spec cfg)) eps w).
    replica_ok (env.truncate ce) v ep password desired rds"
  using pushed_all_seen [OF assms(1-4)] pushReplicas_asserts [OF assms(5,4)] by (simp add: seenFirst_def)

lemma observe_drifted: "ob_drifted (observeReplica en w ep password desired rds version) \<longleftrightarrow> \<not> replica_ok en w ep password desired rds"
  using observe_consistent [of en w ep password desired rds version] by (simp add: consistent_def observe_converged)

text \<open>C6. The operator asserts convergence only when it has seen it: whenever a reconciliation records
  a new applied hash or a new sync time, every ready replica was found to run the complete desired
  state during that reconciliation, either before the pushes or right after its own push.\<close>

theorem asserted_means_seen:
  assumes "distinct (map ep_Pod endpoints)"
    and "reconcileReadyReplicas ce cfg desired rds endpoints addrs password mm w = (w', cfg', out)"
    and "asserted cfg' \<noteq> asserted cfg"
  shows "\<exists>eps. set eps \<subseteq> set endpoints \<and> list_all (\<lambda>ep. \<exists>v \<in> set (w # applyWorlds (env.truncate ce) password desired rds
      (sp_Version (cf_Spec cfg)) eps w). replica_ok (env.truncate ce) v ep password desired rds) endpoints"
proof -
  let ?drifted = "filter (\<lambda>ep. ob_drifted (observeReplica (env.truncate ce) w ep password desired rds (sp_Version (cf_Spec cfg)))) endpoints"
  let ?hash = "combinedSyncFingerprint (ce_encode ce) (ce_sha ce) desired (map_option rrs_desired rds) (sp_Version (cf_Spec cfg)) addrs"
  have dist: "distinct endpoints" using assms(1) by (simp add: distinct_map)
  have cfg': "cfg' = fst (snd (reconcileReadyReplicas ce cfg desired rds endpoints addrs password mm w))"
    using assms(2) by simp
  have same: "asserted (setCounts s n cfg) = asserted cfg" for s n by (simp add: asserted_def)
  consider (clean) "?drifted = []" "unchangedSince cfg ?hash addrs"
    | (some) n s where "asserted (fst (snd (pushReplicas ce (setCounts s n cfg) desired rds endpoints addrs password mm ?hash ?drifted w)))
        \<noteq> asserted (setCounts s n cfg)"
    | (all) "asserted (fst (snd (pushReplicas ce cfg desired rds endpoints addrs password mm ?hash endpoints w))) \<noteq> asserted cfg"
    using assms(3) unfolding cfg' reconcileReadyReplicas_def Let_def
    by (auto simp: same split: if_splits)
  then show ?thesis
  proof cases
    case clean
    then show ?thesis
      by (intro exI [of _ "[]"]) (simp add: list_all_iff filter_empty_conv observe_drifted)
  next
    case some
    with dist show ?thesis
      using pushReplicas_seen [OF assms(1), of ?drifted _ ce "setCounts s n cfg"]
      by (intro exI [of _ ?drifted]) (auto simp: list_all_iff)
  next
    case all
    with dist show ?thesis
      using pushReplicas_seen [OF assms(1), of endpoints _ ce cfg]
      by (intro exI [of _ endpoints]) (auto simp: list_all_iff)
  qed
qed

text \<open>An environment in which every replica answers with empty tables and takes every statement; its
  world is the list of statements sent.\<close>

definition exampleEnv :: "string list cfgEnv" where
  "exampleEnv =
     \<lparr>en_now = (\<lambda>w. int (length w)), en_trust = None, en_connect = (\<lambda>_ _ _ _ _. None), en_exec = (\<lambda>_. recExec (\<lambda>_. None)),
      en_query = (\<lambda>_ _ _. Inr []), en_parseURI = (\<lambda>_. Some ''no plugin''), en_rdsApi = (\<lambda>_ _ _ _. \<lparr>api_call = (\<lambda>w _ _. (w, None)),
        api_proxies = (\<lambda>_ _. Inr []), api_groups = (\<lambda>_ _. Inr []), api_targets = (\<lambda>_ _. Inr []), api_tags = (\<lambda>_ _. Inr [])\<rparr>),
      ce_kube = (\<lambda>_. exampleKube), ce_configMap = (\<lambda>_ _ _. Inl (NotFound ''configmap'')),
      ce_credentialFile = (\<lambda>_. Inl ''syntax''),
      ce_pods = (\<lambda>_ _ _. Inr [\<lparr>pod_Name = ''golden-0'', pod_IP = ''10.0.0.1'', pod_Deleting = False,
        pod_Conditions = [\<lparr>pc_Type = ''Ready'', pc_Status = ''True''\<rparr>]\<rparr>]),
      ce_statefulSet = (\<lambda>_ _ _. Inl (NotFound ''statefulset'')), ce_usablePEM = (\<lambda>_. True), ce_updateStatus = (\<lambda>_ w. (w, None)), ce_update = (\<lambda>_ w. (w, None)),
      ce_setCondition = (\<lambda>c cs. c # filter (\<lambda>x. cd_Type x \<noteq> cd_Type c) cs),
      ce_removeCondition = (\<lambda>t. filter (\<lambda>x. cd_Type x \<noteq> t)),
      ce_addFinalizer = (\<lambda>f fs. if f \<in> set fs then (fs, False) else (fs @ [f], True)),
      ce_removeFinalizer = (\<lambda>f fs. (filter (\<lambda>x. x \<noteq> f) fs, f \<in> set fs)), ce_hasFinalizer = (\<lambda>f fs. f \<in> set fs),
      ce_encode = (\<lambda>(_, _, v). Some (itoa v)), ce_sha = (\<lambda>s. s), ce_resync = 0,
      ce_unionText = (\<lambda>_. []), ce_authText = (\<lambda>_. []), ce_getText = (\<lambda>_. []), ce_rdsText = (\<lambda>_. []), ce_dialText = (\<lambda>_. [])\<rparr>"

definition exampleEndpoint :: podEndpoint where
  "exampleEndpoint = \<lparr>ep_Pod = ''golden-0'', ep_Addr = ''10.0.0.1:6032'',
     ep_ServerName = ''golden-0.golden-headless.golden-ns.svc''\<rparr>"

definition emptyTables :: rtTables where
  "emptyTables = \<lparr>rtt_mysql_servers = [], rtt_mysql_users = [], rtt_mysql_rules = [], rtt_pgsql_servers = [],
     rtt_pgsql_users = [], rtt_pgsql_rules = []\<rparr>"

lemma empty_converged: "converged emptyDesired emptyTables" "wf_tables emptyTables" "answers (\<lambda>_. Inr []) emptyTables"
  by (simp_all add: converged_def mysql_servers_converged_def pgsql_servers_converged_def emptyTables_def
      zero_defs Let_def wf_tables_def answers_def all_ask_def)

lemma example_ok: "replica_ok (env.truncate exampleEnv) w ep pw emptyDesired None"
  using native_ok_tables [of "env.truncate exampleEnv" w ep emptyTables pw emptyDesired] empty_converged
  by (simp add: replica_ok_def exampleEnv_def env.truncate_def dial_def)

lemma example_apply: "rp_Converged (ob_status (snd (applyReplica (env.truncate exampleEnv) ep pw emptyDesired None v w)))"
proof -
  have "snd (SyncWithAWSDBProxy (recExec (\<lambda>_. None)) emptyDesired False w) = None" by (simp add: sync_rec)
  then obtain w1 where "SyncWithAWSDBProxy (recExec (\<lambda>_. None)) emptyDesired False w = (w1, None)"
    by (metis prod.collapse)
  then have "snd (runApplyCycle (applySteps (env.truncate exampleEnv) ep pw emptyDesired None) w) = []"
    by (simp add: applySteps_def nativeApply_def exampleEnv_def env.truncate_def dial_def split: prod.splits option.splits)
  then show ?thesis by (simp add: apply_converged example_ok)
qed

lemma example_push:
  "asserted (fst (snd (reconcileReadyReplicas exampleEnv zeroConfig emptyDesired None [exampleEndpoint] [''10.0.0.1:6032''] ''pw''
     False []))) \<noteq> asserted zeroConfig"
proof -
  have "\<not> unchangedSince zeroConfig h [''10.0.0.1:6032'']" for h
    by (simp add: unchangedSince_def zeroConfig_def zeroConfigStatus_def wrap32_def)
  moreover have "wrap32 (0 + 1) = 1" "wrap32 1 = 1" by (simp_all add: wrap32_def)
  ultimately show ?thesis
    using example_apply [of exampleEndpoint "''pw''" 0 "[]"]
    by (simp add: reconcileReadyReplicas_def pushReplicas_def Let_def split_beta resultOf_def summarizeReplicas_def
        asserted_def zeroConfig_def zeroConfigStatus_def zeroConfigSpec_def)
qed

theorem asserted_means_seen_witness:
  "\<exists>w' cfg' out eps. reconcileReadyReplicas exampleEnv zeroConfig emptyDesired None [exampleEndpoint] [''10.0.0.1:6032''] ''pw'' False []
       = (w', cfg', out) \<and> list_all (\<lambda>ep. \<exists>v \<in> set ([] # applyWorlds (env.truncate exampleEnv) ''pw'' emptyDesired None
         (sp_Version (cf_Spec zeroConfig)) eps []). replica_ok (env.truncate exampleEnv) v ep ''pw'' emptyDesired None) [exampleEndpoint]"
proof -
  obtain w' cfg' out where r: "reconcileReadyReplicas exampleEnv zeroConfig emptyDesired None [exampleEndpoint] [''10.0.0.1:6032''] ''pw''
      False [] = (w', cfg', out)" by (metis prod_cases3)
  have "asserted cfg' \<noteq> asserted zeroConfig" using example_push r by simp
  from asserted_means_seen [OF _ r this] r show ?thesis by auto
qed

text \<open>A reconciliation of an unchanged configuration is quiet: before the resync interval has
  passed it does nothing at all; afterwards it pushes exactly the replicas that do not run the
  desired state and leaves the others alone, and besides that only writes the status.\<close>

theorem unchanged_is_quiet:
  assumes "unchangedSince cfg (combinedSyncFingerprint (ce_encode ce) (ce_sha ce) desired (map_option rrs_desired rds)
      (sp_Version (cf_Spec cfg)) addrs) addrs"
  shows "reconcileReadyReplicas ce cfg desired rds endpoints addrs password mm w = (w', cfg', out) \<Longrightarrow>
    w' = (if resyncDue (st_LastSyncTime (cf_Status cfg)) (en_now ce w) (resyncInterval (ce_resync ce))
          then fst (ce_updateStatus ce cfg' (last (w # applyWorlds (env.truncate ce) password desired rds (sp_Version (cf_Spec cfg))
                 (filter (\<lambda>ep. \<not> replica_ok (env.truncate ce) w ep password desired rds) endpoints) w)))
          else w)"
proof -
  assume run: "reconcileReadyReplicas ce cfg desired rds endpoints addrs password mm w = (w', cfg', out)"
  have upd: "fst (updateThen ce c out v) = fst (ce_updateStatus ce c v)" for c out v
    by (simp add: updateThen_def split: prod.splits option.splits)
  have push: "fst (pushReplicas ce c desired rds endpoints addrs password mm h eps w) =
      fst (ce_updateStatus ce (fst (snd (pushReplicas ce c desired rds endpoints addrs password mm h eps w)))
        (last (w # applyWorlds (env.truncate ce) password desired rds (sp_Version (cf_Spec c)) eps w)))" for c h eps
    using applyEach_world [of "env.truncate ce" password desired rds "sp_Version (cf_Spec c)" eps _ w]
    by (auto simp: pushReplicas_def Let_def upd split_beta)
  from run have "w' = fst (reconcileReadyReplicas ce cfg desired rds endpoints addrs password mm w)"
    "cfg' = fst (snd (reconcileReadyReplicas ce cfg desired rds endpoints addrs password mm w))" by simp_all
  then show ?thesis
    using assms push
    by (simp add: reconcileReadyReplicas_def Let_def upd observe_drifted filter_empty_conv)
qed

theorem unchanged_is_quiet_witness:
  "\<exists>cfg' out. reconcileReadyReplicas exampleEnv (zeroConfig\<lparr>cf_Status := zeroConfigStatus\<lparr>st_LastAppliedHash := ''0''\<rparr>\<rparr>)
      emptyDesired None [exampleEndpoint] [] ''pw'' False [] = ([], cfg', out)"
proof -
  let ?cfg = "zeroConfig\<lparr>cf_Status := zeroConfigStatus\<lparr>st_LastAppliedHash := ''0''\<rparr>\<rparr>"
  obtain w' cfg' out where r: "reconcileReadyReplicas exampleEnv ?cfg emptyDesired None [exampleEndpoint] [] ''pw'' False [] = (w', cfg', out)"
    by (metis prod_cases3)
  have "itoa 0 = ''0''" by (simp add: itoa_def nat_digits.simps digit_char_def)
  then have "unchangedSince ?cfg (combinedSyncFingerprint (ce_encode exampleEnv) (ce_sha exampleEnv) emptyDesired
      (map_option rrs_desired None) (sp_Version (cf_Spec ?cfg)) []) []"
    by (simp add: unchangedSince_def combinedSyncFingerprint_def exampleEnv_def zeroConfig_def zeroConfigSpec_def
        zeroConfigStatus_def wrap32_def)
  from unchanged_is_quiet [OF this r] have "w' = []"
    by (simp add: example_ok) (simp add: exampleEnv_def)
  then show ?thesis using r by simp
qed

section \<open>Deletion\<close>

lemma applyToReplicas_count:
  assumes "applyToReplicas en addrs password d w = (w', n, errs)"
  shows "n + length errs = length addrs"
  using assms
proof (induction addrs arbitrary: w w' n errs)
  case (Cons addr addrs)
  show ?case
  proof (cases "dial en w addr password")
    case None
    obtain v r where s: "Sync (en_exec en addr) d w = (v, r)" by (metis surj_pair)
    obtain v' k es where t: "applyToReplicas en addrs password d v = (v', k, es)" by (metis prod_cases3)
    show ?thesis using Cons.prems Cons.IH [OF t] None s t by (cases r) auto
  next
    case (Some e)
    obtain v' k es where t: "applyToReplicas en addrs password d w = (v', k, es)" by (metis prod_cases3)
    show ?thesis using Cons.prems Cons.IH [OF t] Some t by auto
  qed
qed simp

lemma release_outcome: "snd (snd (releaseFinalizer ce cfg w)) \<noteq> RequeueAfter t"
  by (simp add: releaseFinalizer_def Let_def split: prod.splits option.splits)

definition cleaned_up ::
  "('w, 'm) cfgEnv_scheme \<Rightarrow> ProxySQLConfig \<Rightarrow> ProxySQLCluster \<Rightarrow> Builder \<Rightarrow> podEndpoint list \<Rightarrow> string \<Rightarrow> bool" where
  "cleaned_up ce cfg cluster b endpoints password \<longleftrightarrow> endpoints \<noteq> [] \<and>
     (\<exists>trust w w'. applyToReplicas (env.truncate (ce\<lparr>en_trust := trust\<rparr>)) (map ep_Addr endpoints) password (cleanupState (ce_kube ce w) cfg cluster b) w =
        (w', length endpoints, []))"

lemma cleaned_up_trust [simp]: "cleaned_up (ce\<lparr>en_trust := t\<rparr>) = cleaned_up ce"
  by (intro ext) (simp add: cleaned_up_def)

lemma finalizePush_releases:
  assumes "fst (snd (finalizePush ce cfg cluster b (map ep_Addr endpoints) password w)) \<noteq> cfg" and "endpoints \<noteq> []"
  shows "cleaned_up ce cfg cluster b endpoints password"
proof -
  obtain w' n errs where run: "applyToReplicas (env.truncate ce) (map ep_Addr endpoints) password
      (cleanupState (ce_kube ce w) cfg cluster b) w = (w', n, errs)" by (metis prod_cases3)
  then have "n = length endpoints" using assms(1) by (auto simp: finalizePush_def split: if_splits)
  moreover have "n + length errs = length endpoints"
    using applyToReplicas_count [OF run] by simp
  moreover have "ce\<lparr>en_trust := en_trust ce\<rparr> = ce" by simp
  ultimately show ?thesis using run assms(2) unfolding cleaned_up_def by (metis add_cancel_right_right length_0_conv)
qed

lemma finalizeReady_releases:
  assumes "fst (snd (finalizeReady ce cfg cluster b endpoints password w)) \<noteq> cfg" and "endpoints \<noteq> []"
  shows "cleaned_up ce cfg cluster b endpoints password"
  using assms
  by (auto simp: finalizeReady_def Let_def split: if_splits sum.splits option.splits prod.splits bool.splits
      intro: finalizePush_releases)

lemma finalizeReady_trusted:
  assumes "fst (snd (finalizeReady (ce\<lparr>en_trust := t\<rparr>) cfg cluster b endpoints password w)) \<noteq> cfg" and "endpoints \<noteq> []"
  shows "cleaned_up ce cfg cluster b endpoints password"
  using finalizeReady_releases [OF assms] by simp

text \<open>What the deletion of a configuration can read when it can clean up at all: the cluster, its
  credentials, and the ready replicas.\<close>

definition reachable_cluster ::
  "('w, 'm) cfgEnv_scheme \<Rightarrow> 'w \<Rightarrow> ProxySQLConfig \<Rightarrow> ProxySQLCluster \<Rightarrow> Passwords \<Rightarrow> bool" where
  "reachable_cluster ce w cfg cluster pw \<longleftrightarrow>
     ku_cluster (ce_kube ce w) (cf_Namespace cfg) (sp_ClusterRef (cf_Spec cfg)) = Inr cluster
     \<and> (case ku_secret (ce_kube ce w) (clu_Namespace cluster) (SecretName (New cluster zeroPasswords)) of
          Inl _ \<Rightarrow> False
        | Inr data \<Rightarrow> PasswordsFromSecret data (SecretKeys (New cluster zeroPasswords)) = Inr pw)"


lemma applyToReplicas_ok:
  assumes "\<And>addr v. addr \<in> set addrs \<Longrightarrow> dial en v addr password = None"
    and "\<And>addr v. addr \<in> set addrs \<Longrightarrow> snd (Sync (en_exec en addr) d v) = None"
  shows "snd (applyToReplicas en addrs password d w) = (length addrs, [])"
  using assms
proof (induction addrs arbitrary: w)
  case (Cons addr addrs)
  obtain v where s: "Sync (en_exec en addr) d w = (v, None)"
    using Cons.prems(2) [of addr w] by (metis list.set_intros(1) prod.collapse)
  have "snd (applyToReplicas en addrs password d v) = (length addrs, [])" using Cons by simp
  then obtain v' where "applyToReplicas en addrs password d v = (v', length addrs, [])" by (metis prod.collapse)
  then show ?case using Cons.prems(1) [of addr w] s by simp
qed simp

definition deletedConfig :: ProxySQLConfig where
  "deletedConfig = zeroConfig\<lparr>cf_Finalizers := [cfgFinalizer], cf_Deleting := True\<rparr>"

lemma example_reachable: "reachable_cluster exampleEnv w deletedConfig exampleCluster examplePasswords"
  using example_passwords by (simp add: reachable_cluster_def exampleEnv_def exampleKube_def exampleKeys_def)

lemma example_release: "fst (snd (finalize exampleEnv deletedConfig w)) \<noteq> deletedConfig"
proof -
  let ?b = "New exampleCluster zeroPasswords" and ?ep = "pt_Port (pts_Admin (cs_Protocols (b_Spec (New exampleCluster zeroPasswords))))"
  obtain endpoints where e: "discoverPodEndpoints (ce_pods exampleEnv w (clu_Namespace exampleCluster) (clu_Name exampleCluster))
      (clu_Name exampleCluster) (clu_Namespace exampleCluster) ?ep = Inr endpoints" and ne: "endpoints \<noteq> []"
    by (simp add: exampleEnv_def discoverPodEndpoints_def isPodReady_def map_filter_simps)
  have "snd (Sync (recExec (\<lambda>_. None)) d v) = None" for d v by (simp add: Sync_def sync_rec)
  then have "snd (applyToReplicas (env.truncate exampleEnv) (map ep_Addr endpoints) ''r2''
      (cleanupState exampleKube deletedConfig exampleCluster ?b) w) = (length endpoints, [])"
    using applyToReplicas_ok [of "map ep_Addr endpoints" "env.truncate exampleEnv"]
    by (simp add: exampleEnv_def env.truncate_def dial_def)
  then have "fst (snd (finalizePush (exampleEnv\<lparr>en_trust := None\<rparr>) deletedConfig exampleCluster ?b (map ep_Addr endpoints) ''r2'' w)) \<noteq> deletedConfig"
    by (auto simp: finalizePush_def releaseFinalizer_def exampleEnv_def deletedConfig_def zeroConfig_def split: prod.splits)
  moreover have "dbProxyOf deletedConfig = None" by (simp add: dbProxyOf_def deletedConfig_def zeroConfig_def zeroConfigSpec_def)
  ultimately have "fst (snd (finalizeReady (exampleEnv\<lparr>en_trust := None\<rparr>) deletedConfig exampleCluster ?b endpoints ''r2'' w)) \<noteq> deletedConfig"
    by (simp add: finalizeReady_def)
  moreover have "ku_cluster (ce_kube exampleEnv w) ns n = Inr exampleCluster" "ku_secret (ce_kube exampleEnv w) ns n = Inr exampleSecret"
    "dialTLSFor exampleEnv w exampleCluster endpoints = Inr None" "ce_hasFinalizer exampleEnv cfgFinalizer (cf_Finalizers deletedConfig)"
    "mgetStr (cf_Annotations deletedConfig) skipCleanupAnnotation \<noteq> ''true''" for ns n
    by (simp_all add: exampleEnv_def exampleKube_def deletedConfig_def zeroConfig_def mgetStr_def dialTLSFor_def adminDialTLS_def)
  ultimately show ?thesis
    using e ne example_passwords by (simp add: finalize_def Let_def exampleKeys_def examplePasswords_def)
qed


section \<open>A sibling without the plugin\<close>



end
