(* ===== verification/TlsSecrets.thy ===== *)
theory TlsSecrets
  imports TlsDial
begin

text \<open>
  The serving certificate of a cluster: \<open>operator/internal/controller/tls_secrets.go\<close>,
  \<open>operator/internal/tlsutil/tlsutil.go\<close> and \<open>builders/certificate.go\<close>. A user Secret wins over a
  cert-manager issuer, which wins over the operator's self-signed certificate; a Secret is mounted
  only after it was seen to be complete, and otherwise what the live StatefulSet mounts is kept.

  The API server, controller-runtime's \<open>CreateOrUpdate\<close> (an upsert: it hands the stored object, or
  a fresh one, to a mutation and stores the result), the signing and parsing of certificates, the
  parsing of IP addresses, and the clock are fields of \<open>tlsEnv\<close>. Functions that change the builder
  return the new builder.
\<close>

section \<open>The environment\<close>

record certInfo =
  ci_NotAfter :: int
  ci_DNSNames :: "string list"
  ci_IPAddresses :: "string list"

record certTemplate =
  ctm_CommonName :: string
  ctm_NotBefore :: int
  ctm_NotAfter :: int
  ctm_IsCA :: bool
  ctm_DNSNames :: "string list"
  ctm_IPAddresses :: "string list"

text \<open>Signing takes the template and the issuer's certificate and key, none for a self-signed one, and
  gives the certificate and the key in PEM form. Claiming an object for an owner fails when
  another controller owns it.\<close>

record 'w tlsEnv =
  te_now :: "'w \<Rightarrow> int"
  te_secret :: "'w \<Rightarrow> string \<Rightarrow> string \<Rightarrow> getError + Secret"
  te_statefulSet :: "'w \<Rightarrow> string \<Rightarrow> string \<Rightarrow> getError + StatefulSet"
  te_certificate :: "'w \<Rightarrow> string \<Rightarrow> string \<Rightarrow> getError + CertificateBody Unstructured"
  te_upsertSecret :: "string \<Rightarrow> string \<Rightarrow> (Secret \<Rightarrow> 'w \<Rightarrow> 'w \<times> (string + Secret)) \<Rightarrow> 'w \<Rightarrow> 'w \<times> (string + Secret)"
  te_upsertCertificate :: "string \<Rightarrow> string
     \<Rightarrow> (CertificateBody Unstructured \<Rightarrow> string + CertificateBody Unstructured) \<Rightarrow> 'w \<Rightarrow> 'w \<times> gerror"
  te_deleteCertificate :: "string \<Rightarrow> string \<Rightarrow> 'w \<Rightarrow> 'w \<times> gerror"
  te_claim :: "ProxySQLCluster \<Rightarrow> string option \<Rightarrow> string + string option"
  te_sign :: "certTemplate \<Rightarrow> (string \<times> string) option \<Rightarrow> 'w \<Rightarrow> 'w \<times> (string + string \<times> string)"
  te_parseCert :: "string \<Rightarrow> string + certInfo"
  te_parseKey :: "string \<Rightarrow> gerror"
  te_parseIP :: "string \<Rightarrow> string option"

section \<open>Certificates\<close>

definition clockSkew :: int where "clockSkew = 5 * 60 * 10 ^ 9"

definition SANsFor :: "string \<Rightarrow> string \<Rightarrow> string list \<Rightarrow> string list" where
  "SANsFor name namespace extras =
     [name, name @ ''.'' @ namespace, name @ ''.'' @ namespace @ ''.svc'',
      ''*.'' @ name @ ''-headless.'' @ namespace @ ''.svc'', name @ ''-external''] @ extras"

definition splitSANs :: "(string \<Rightarrow> string option) \<Rightarrow> string list \<Rightarrow> string list \<times> string list" where
  "splitSANs parseIP sans = (filter (\<lambda>s. parseIP s = None) sans, List.map_filter parseIP sans)"

definition NewCA ::
  "('w, 'm) tlsEnv_scheme \<Rightarrow> string \<Rightarrow> int \<Rightarrow> 'w \<Rightarrow> 'w \<times> (string + string \<times> string)" where
  "NewCA te commonName duration w =
     te_sign te \<lparr>ctm_CommonName = commonName, ctm_NotBefore = te_now te w - clockSkew,
       ctm_NotAfter = te_now te w + duration, ctm_IsCA = True, ctm_DNSNames = [], ctm_IPAddresses = []\<rparr> None w"

definition IssueServing ::
  "('w, 'm) tlsEnv_scheme \<Rightarrow> string \<Rightarrow> string \<Rightarrow> string list \<Rightarrow> int \<Rightarrow> 'w \<Rightarrow> 'w \<times> (string + string \<times> string)" where
  "IssueServing te caCertPEM caKeyPEM sans duration w =
     (case te_parseCert te caCertPEM of
        Inl e \<Rightarrow> (w, Inl (''parsing CA certificate: '' @ e))
      | Inr _ \<Rightarrow>
          (case te_parseKey te caKeyPEM of
             Some e \<Rightarrow> (w, Inl (''parsing CA key: '' @ e))
           | None \<Rightarrow>
               let (dnsNames, ipAddrs) = splitSANs (te_parseIP te) sans in
               te_sign te \<lparr>ctm_CommonName = (if length sans > 0 then hd sans else ''proxysql''),
                 ctm_NotBefore = te_now te w - clockSkew, ctm_NotAfter = te_now te w + duration, ctm_IsCA = False,
                 ctm_DNSNames = dnsNames, ctm_IPAddresses = ipAddrs\<rparr> (Some (caCertPEM, caKeyPEM)) w))"

definition NeedsRenewal :: "('w, 'm) tlsEnv_scheme \<Rightarrow> 'w \<Rightarrow> string \<Rightarrow> int \<Rightarrow> bool" where
  "NeedsRenewal te w certPEM renewBefore =
     (case te_parseCert te certPEM of Inl _ \<Rightarrow> True | Inr c \<Rightarrow> ci_NotAfter c - te_now te w < renewBefore)"

definition certCoversSANs :: "('w, 'm) tlsEnv_scheme \<Rightarrow> string \<Rightarrow> string list \<Rightarrow> bool" where
  "certCoversSANs te certPEM sans =
     (case te_parseCert te certPEM of
        Inl _ \<Rightarrow> False
      | Inr c \<Rightarrow> list_all (\<lambda>s. case te_parseIP te s of
          Some ip \<Rightarrow> ip \<in> set (ci_IPAddresses c) | None \<Rightarrow> s \<in> set (ci_DNSNames c)) sans)"

definition tlsCADuration :: int where "tlsCADuration = 5 * 365 * 24 * 60 * 60 * 10 ^ 9"

definition tlsRequiredKeys :: "string list" where
  "tlsRequiredKeys = [tlsCertKey, tlsPrivateKey, tlsCAKey]"

definition servingReissueNeeded ::
  "('w, 'm) tlsEnv_scheme \<Rightarrow> 'w \<Rightarrow> strmap \<Rightarrow> string \<Rightarrow> string list \<Rightarrow> int \<Rightarrow> bool" where
  "servingReissueNeeded te w data caCert sans renewBefore =
     (if list_ex (\<lambda>k. mgetStr data k = []) tlsRequiredKeys then True
      else if mgetStr data tlsCAKey \<noteq> caCert then True
      else if NeedsRenewal te w (mgetStr data tlsCertKey) renewBefore then True
      else \<not> certCoversSANs te (mgetStr data tlsCertKey) sans)"

section \<open>The self-signed tier\<close>

text \<open>The last step of every mutation: the owner reference.\<close>

definition claimSecret :: "('w, 'm) tlsEnv_scheme \<Rightarrow> ProxySQLCluster \<Rightarrow> Secret \<Rightarrow> string + Secret" where
  "claimSecret te owner s = (case te_claim te owner (sec_Owner s) of Inl e \<Rightarrow> Inl e | Inr o' \<Rightarrow> Inr (s\<lparr>sec_Owner := o'\<rparr>))"

definition labelled :: "Builder \<Rightarrow> Secret \<Rightarrow> Secret" where
  "labelled b s = (let s = s\<lparr>sec_Labels := Labels b\<rparr> in
     if \<not> sec_Created s then s\<lparr>sec_Type := ''kubernetes.io/tls''\<rparr> else s)"

definition caKept :: "('w, 'm) tlsEnv_scheme \<Rightarrow> 'w \<Rightarrow> TLSSpec \<Rightarrow> strmap \<Rightarrow> bool" where
  "caKept te w tls data \<longleftrightarrow>
     length (mgetStr data tlsCertKey) > 0 \<and> length (mgetStr data tlsPrivateKey) > 0
     \<and> \<not> NeedsRenewal te w (mgetStr data tlsCertKey) (tl_Duration tls + tl_RenewBefore tls)"

definition caMutation ::
  "('w, 'm) tlsEnv_scheme \<Rightarrow> ProxySQLCluster \<Rightarrow> Builder \<Rightarrow> TLSSpec \<Rightarrow> Secret \<Rightarrow> 'w \<Rightarrow> 'w \<times> (string + Secret)" where
  "caMutation te cluster b tls caSec w =
     (let caSec = labelled b caSec in
      if caKept te w tls (sec_Data caSec)
      then (w, claimSecret te cluster caSec)
      else (case NewCA te (''proxysql-ca-'' @ b_Name b) tlsCADuration w of
              (w, Inl e) \<Rightarrow> (w, Inl (''minting self-signed CA: '' @ e))
            | (w, Inr (caCrt, caKey)) \<Rightarrow> (w, claimSecret te cluster (caSec\<lparr>sec_Data :=
                [(tlsCertKey, caCrt), (tlsPrivateKey, caKey), (tlsCAKey, caCrt)]\<rparr>))))"

definition servingMutation ::
  "('w, 'm) tlsEnv_scheme \<Rightarrow> ProxySQLCluster \<Rightarrow> Builder \<Rightarrow> TLSSpec \<Rightarrow> strmap \<Rightarrow> Secret \<Rightarrow> 'w \<Rightarrow> 'w \<times> (string + Secret)" where
  "servingMutation te cluster b tls caData srvSec w =
     (let srvSec = labelled b srvSec; sans = SANsFor (b_Name b) (b_Namespace b) (tl_ExtraSANs tls);
          caCert = mgetStr caData tlsCertKey in
      if \<not> servingReissueNeeded te w (sec_Data srvSec) caCert sans (tl_RenewBefore tls)
      then (w, claimSecret te cluster srvSec)
      else (case IssueServing te caCert (mgetStr caData tlsPrivateKey) sans (tl_Duration tls) w of
              (w, Inl e) \<Rightarrow> (w, Inl (''issuing serving certificate: '' @ e))
            | (w, Inr (crt, key)) \<Rightarrow> (w, claimSecret te cluster (srvSec\<lparr>sec_Data :=
                [(tlsCertKey, crt), (tlsPrivateKey, key), (tlsCAKey, caCert)]\<rparr>))))"

text \<open>Errors; those of the API server and of controller-runtime are texts.\<close>

datatype tlsError =
    TLSSecretNotFound string
  | TLSSecretGet string string
  | TLSSecretMissingKey string string
  | WaitingForIssuance tlsError
  | CertificateFailed string string
  | EnsureCA string string
  | EnsureServing string string
  | BackendTLS tlsError
  | BothErrors tlsError tlsError

definition ensureSelfSignedTLS ::
  "('w, 'm) tlsEnv_scheme \<Rightarrow> ProxySQLCluster \<Rightarrow> Builder \<Rightarrow> TLSSpec \<Rightarrow> 'w \<Rightarrow> 'w \<times> tlsError option" where
  "ensureSelfSignedTLS te cluster b tls w =
     (case te_upsertSecret te (b_Namespace b) (TLSCASecretName b) (caMutation te cluster b tls) w of
        (w, Inl e) \<Rightarrow> (w, Some (EnsureCA (TLSCASecretName b) e))
      | (w, Inr caSec) \<Rightarrow>
          (case te_upsertSecret te (b_Namespace b) (TLSSecretName b)
                  (servingMutation te cluster b tls (sec_Data caSec)) w of
             (w, Inl e) \<Rightarrow> (w, Some (EnsureServing (TLSSecretName b) e))
           | (w, Inr _) \<Rightarrow> (w, None)))"

section \<open>The cert-manager tier\<close>

definition splitCertSANs :: "(string \<Rightarrow> string option) \<Rightarrow> string list \<Rightarrow> string list \<times> string list" where
  "splitCertSANs parseIP sans = (filter (\<lambda>s. parseIP s = None) sans, filter (\<lambda>s. parseIP s \<noteq> None) sans)"

definition Certificate :: "(string \<Rightarrow> string option) \<Rightarrow> Builder \<Rightarrow> CertificateBody Unstructured option" where
  "Certificate parseIP b =
     (case cs_TLS (b_Spec b) of
        None \<Rightarrow> None
      | Some tls \<Rightarrow>
          (case tl_IssuerRef tls of
             None \<Rightarrow> None
           | Some ref \<Rightarrow>
               if \<not> TLSEnabled (b_Spec b) \<or> tl_SecretName tls \<noteq> [] \<or> ti_Name ref = [] then None
               else
                 let (dnsNames, ipAddresses) = splitCertSANs parseIP (SANsFor (b_Name b) (b_Namespace b) (tl_ExtraSANs tls)) in
                 Some \<lparr>un_Name = TLSSecretName b, un_Namespace = b_Namespace b, un_Labels = Labels b, un_Owner = None,
                   un_Spec = \<lparr>cb_SecretName = TLSSecretName b, cb_DNSNames = dnsNames, cb_IPAddresses = ipAddresses,
                     cb_IssuerName = ti_Name ref, cb_IssuerKind = orText (ti_Kind ref) ''Issuer'',
                     cb_IssuerGroup = orText (ti_Group ref) ''cert-manager.io'',
                     cb_Duration = (if tl_Duration tls > 0 then Some (tl_Duration tls) else None),
                     cb_RenewBefore = (if tl_RenewBefore tls > 0 then Some (tl_RenewBefore tls) else None)\<rparr>\<rparr>))"

definition ensureTLSCertificate ::
  "('w, 'm) tlsEnv_scheme \<Rightarrow> ProxySQLCluster \<Rightarrow> CertificateBody Unstructured \<Rightarrow> 'w \<Rightarrow> 'w \<times> tlsError option" where
  "ensureTLSCertificate te owner desired w =
     (case te_upsertCertificate te (un_Namespace desired) (un_Name desired)
             (\<lambda>existing. case te_claim te owner (un_Owner existing) of
                Inl e \<Rightarrow> Inl e
              | Inr o' \<Rightarrow> Inr (existing\<lparr>un_Labels := un_Labels desired, un_Spec := un_Spec desired, un_Owner := o'\<rparr>)) w of
        (w, Some e) \<Rightarrow> (w, Some (CertificateFailed (un_Name desired) e))
      | (w, None) \<Rightarrow> (w, None))"

definition cleanupTLSCertificate ::
  "('w, 'm) tlsEnv_scheme \<Rightarrow> ProxySQLCluster \<Rightarrow> string \<Rightarrow> 'w \<Rightarrow> 'w" where
  "cleanupTLSCertificate te owner name w =
     (case te_certificate te w (clu_Namespace owner) name of
        Inl _ \<Rightarrow> w
      | Inr existing \<Rightarrow>
          if un_Owner existing \<noteq> Some (clu_UID owner) then w
          else fst (te_deleteCertificate te (clu_Namespace owner) name w))"

section \<open>Validate and hold\<close>

definition requireSecretKeys ::
  "('w, 'm) tlsEnv_scheme \<Rightarrow> 'w \<Rightarrow> string \<Rightarrow> string \<Rightarrow> string list \<Rightarrow> tlsError option" where
  "requireSecretKeys te w name namespace keys =
     (case te_secret te w namespace name of
        Inl (NotFound _) \<Rightarrow> Some (TLSSecretNotFound name)
      | Inl (GetFailed e) \<Rightarrow> Some (TLSSecretGet name e)
      | Inr sec \<Rightarrow> map_option (TLSSecretMissingKey name) (find (\<lambda>k. length (mgetStr (sec_Data sec) k) = 0) keys))"

definition validateTLSSecret :: "('w, 'm) tlsEnv_scheme \<Rightarrow> 'w \<Rightarrow> string \<Rightarrow> string \<Rightarrow> tlsError option" where
  "validateTLSSecret te w name namespace = requireSecretKeys te w name namespace tlsRequiredKeys"

definition validateBackendTLSSecrets :: "('w, 'm) tlsEnv_scheme \<Rightarrow> 'w \<Rightarrow> Builder \<Rightarrow> tlsError option" where
  "validateBackendTLSSecrets te w b =
     (case cs_TLS (b_Spec b) of
        None \<Rightarrow> None
      | Some tls \<Rightarrow>
          (case tl_Backend tls of
             None \<Rightarrow> None
           | Some be \<Rightarrow>
               if \<not> TLSEnabled (b_Spec b) \<or> tb_CASecretName be = [] then None
               else (case requireSecretKeys te w (tb_CASecretName be) (b_Namespace b) [tlsCAKey] of
                       Some e \<Rightarrow> Some (BackendTLS e)
                     | None \<Rightarrow>
                         if tb_ClientCertSecretName be \<noteq> []
                         then map_option BackendTLS (requireSecretKeys te w (tb_ClientCertSecretName be) (b_Namespace b)
                                [tlsCertKey, tlsPrivateKey])
                         else None)))"

text \<open>The builder after the resolution, whether the Secret is ready, and the error.\<close>

definition ensureTLSSecrets ::
  "('w, 'm) tlsEnv_scheme \<Rightarrow> ProxySQLCluster \<Rightarrow> Builder \<Rightarrow> 'w \<Rightarrow> 'w \<times> Builder \<times> bool \<times> tlsError option" where
  "ensureTLSSecrets te cluster b w =
     (if \<not> TLSEnabled (b_Spec b) then
        ((if cs_TLS (b_Spec b) \<noteq> None then cleanupTLSCertificate te cluster (TLSSecretName b) w else w), b, False, None)
      else case cs_TLS (b_Spec b) of
        None \<Rightarrow> (w, b, False, None)
      | Some tls \<Rightarrow>
          if tl_SecretName tls \<noteq> [] then
            (case validateTLSSecret te w (tl_SecretName tls) (b_Namespace b) of
               Some e \<Rightarrow> (w, b, False, Some e)
             | None \<Rightarrow> (cleanupTLSCertificate te cluster (TLSSecretName b) w, b\<lparr>b_TLSMountSecret := tl_SecretName tls\<rparr>, True, None))
          else (case Certificate (te_parseIP te) b of
            Some cert \<Rightarrow>
              (case ensureTLSCertificate te cluster cert w of
                 (w, Some e) \<Rightarrow> (w, b, False, Some e)
               | (w, None) \<Rightarrow>
                   (case validateTLSSecret te w (TLSSecretName b) (b_Namespace b) of
                      Some e \<Rightarrow> (w, b, False, Some (WaitingForIssuance e))
                    | None \<Rightarrow> (w, b\<lparr>b_TLSMountSecret := TLSSecretName b\<rparr>, True, None)))
          | None \<Rightarrow>
              (case ensureSelfSignedTLS te cluster b tls w of
                 (w, Some e) \<Rightarrow> (w, b, False, Some e)
               | (w, None) \<Rightarrow> (cleanupTLSCertificate te cluster (TLSSecretName b) w,
                               b\<lparr>b_TLSMountSecret := TLSSecretName b\<rparr>, True, None))))"

abbreviation dropTLS :: "Builder \<Rightarrow> Builder" where
  "dropTLS b \<equiv> b\<lparr>b_Spec := (b_Spec b)\<lparr>cs_TLS := None\<rparr>\<rparr>"

definition hasInitContainer :: "string \<Rightarrow> StatefulSet \<Rightarrow> bool" where
  "hasInitContainer name ss \<longleftrightarrow> name \<in> set (map co_Name (po_InitContainers (tp_Spec (sps_Template (ss_Spec ss)))))"

definition holdTLSLastGood :: "('w, 'm) tlsEnv_scheme \<Rightarrow> 'w \<Rightarrow> Builder \<Rightarrow> string + Builder" where
  "holdTLSLastGood te w b =
     (case te_statefulSet te w (b_Namespace b) (b_Name b) of
        Inl (NotFound _) \<Rightarrow> Inr (dropTLS b)
      | Inl (GetFailed e) \<Rightarrow> Inl (''get statefulset for TLS hold: '' @ e)
      | Inr ss \<Rightarrow>
          let lastGood = mountedTLSSecret ss in
          if hasInitContainer TLSInitContainerName ss \<and> lastGood \<noteq> [] then Inr (b\<lparr>b_TLSMountSecret := lastGood\<rparr>)
          else Inr (dropTLS b))"

text \<open>The Secrets of the last backend projection of the live template: the last source that projects
  the CA and the last that projects a client certificate.\<close>

definition backendSecrets :: "StatefulSet \<Rightarrow> string \<times> string" where
  "backendSecrets ss =
     fold (\<lambda>(n, items) acc. fold (\<lambda>it (ca, client). if kp_Key it = tlsCAKey then (n, client)
              else if kp_Key it = tlsCertKey then (ca, n) else (ca, client)) items acc)
       (concat (map (\<lambda>v. case vo_Source v of
          ProjectedSource srcs \<Rightarrow> if vo_Name v = backendTLSVolumeName then List.map_filter (\<lambda>x. x) srcs else []
        | _ \<Rightarrow> []) (po_Volumes (tp_Spec (sps_Template (ss_Spec ss))))))
       ([], [])"

definition setBackend :: "TLSBackendSpec option \<Rightarrow> Builder \<Rightarrow> Builder" where
  "setBackend be b = b\<lparr>b_Spec := (b_Spec b)\<lparr>cs_TLS := map_option (\<lambda>t. t\<lparr>tl_Backend := be\<rparr>) (cs_TLS (b_Spec b))\<rparr>\<rparr>"

definition holdBackendTLSLastGood :: "('w, 'm) tlsEnv_scheme \<Rightarrow> 'w \<Rightarrow> Builder \<Rightarrow> string + Builder" where
  "holdBackendTLSLastGood te w b =
     (if cs_TLS (b_Spec b) = None then Inr b
      else (case te_statefulSet te w (b_Namespace b) (b_Name b) of
        Inl (NotFound _) \<Rightarrow> Inr (setBackend None b)
      | Inl (GetFailed e) \<Rightarrow> Inl (''get statefulset for backend TLS hold: '' @ e)
      | Inr ss \<Rightarrow>
          let (lastCA, lastClient) = backendSecrets ss in
          if lastCA = [] then Inr (setBackend None b)
          else Inr (setBackend (Some \<lparr>tb_CASecretName = lastCA, tb_ClientCertSecretName = lastClient\<rparr>) b)))"

definition resolveTLSCleanup :: "('w, 'm) tlsEnv_scheme \<Rightarrow> 'w \<Rightarrow> Builder \<Rightarrow> string + Builder" where
  "resolveTLSCleanup te w b =
     (if TLSEnabled (b_Spec b) then Inr b
      else (case te_statefulSet te w (b_Namespace b) (b_Name b) of
        Inl (NotFound _) \<Rightarrow> Inr b
      | Inl (GetFailed e) \<Rightarrow> Inl (''get statefulset for TLS cleanup: '' @ e)
      | Inr ss \<Rightarrow> Inr (if hasInitContainer TLSInitContainerName ss \<or> hasInitContainer TLSCleanupInitContainerName ss
                        then b\<lparr>b_TLSCleanup := True\<rparr> else b)))"

text \<open>The TLS part of a reconciliation: resolve, hold, and the same for the backend Secrets. The world
  is the one after the resolution.\<close>

definition resolveTLS ::
  "('w, 'm) tlsEnv_scheme \<Rightarrow> ProxySQLCluster \<Rightarrow> Builder \<Rightarrow> 'w \<Rightarrow> 'w \<times> (string + Builder \<times> bool \<times> tlsError option)" where
  "resolveTLS te cluster b w =
     (case ensureTLSSecrets te cluster b w of
        (w, b, tlsReady, tlsErr) \<Rightarrow>
          (w, case (if TLSEnabled (b_Spec b) \<and> \<not> tlsReady then holdTLSLastGood te w b else Inr b) of
                Inl e \<Rightarrow> Inl e
              | Inr b \<Rightarrow>
                  (case validateBackendTLSSecrets te w b of
                     None \<Rightarrow> Inr (b, tlsReady, tlsErr)
                   | Some be \<Rightarrow>
                       (case holdBackendTLSLastGood te w b of
                          Inl e \<Rightarrow> Inl e
                        | Inr b \<Rightarrow> Inr (b, tlsReady, Some (case tlsErr of None \<Rightarrow> be | Some e \<Rightarrow> BothErrors e be))))))"

section \<open>What is mounted was vetted\<close>

text \<open>What the code relies on: an upsert that succeeds returns what the mutation made of some object,
  and signing gives non-empty texts that parse back to what was signed, the expiry to the second.\<close>

definition upserts_mutation :: "('w, 'm) tlsEnv_scheme \<Rightarrow> bool" where
  "upserts_mutation te \<longleftrightarrow> (\<forall>ns n f w w' s. te_upsertSecret te ns n f w = (w', Inr s) \<longrightarrow>
     (\<exists>old v v' s'. f old v = (v', Inr s') \<and> sec_Data s = sec_Data s'))"

definition secFloor :: "int \<Rightarrow> int" where "secFloor t = t - t mod 10 ^ 9"

definition signs_faithfully :: "('w, 'm) tlsEnv_scheme \<Rightarrow> bool" where
  "signs_faithfully te \<longleftrightarrow> (\<forall>tm iss w w' crt key. te_sign te tm iss w = (w', Inr (crt, key)) \<longrightarrow>
     crt \<noteq> [] \<and> key \<noteq> [] \<and> te_parseKey te key = None \<and>
     te_parseCert te crt = Inr \<lparr>ci_NotAfter = secFloor (ctm_NotAfter tm), ci_DNSNames = ctm_DNSNames tm,
       ci_IPAddresses = ctm_IPAddresses tm\<rparr>)"

text \<open>A key of a Secret was seen present: read, or written by an upsert.\<close>

definition key_seen :: "('w, 'm) tlsEnv_scheme \<Rightarrow> string \<Rightarrow> string \<times> string \<Rightarrow> bool" where
  "key_seen te ns p \<longleftrightarrow>
     (\<exists>v sec. te_secret te v ns (fst p) = Inr sec \<and> mgetStr (sec_Data sec) (snd p) \<noteq> [])
     \<or> (\<exists>f v v' sec. te_upsertSecret te ns (fst p) f v = (v', Inr sec) \<and> mgetStr (sec_Data sec) (snd p) \<noteq> [])"

definition live_mounts :: "('w, 'm) tlsEnv_scheme \<Rightarrow> 'w \<Rightarrow> string \<Rightarrow> string \<Rightarrow> string \<Rightarrow> bool" where
  "live_mounts te w ns name n \<longleftrightarrow> n \<noteq> [] \<and> (\<exists>ss. te_statefulSet te w ns name = Inr ss \<and>
     n \<in> {mountedTLSSecret ss, fst (backendSecrets ss), snd (backendSecrets ss)})"

text \<open>The Secrets and keys the TLS volumes of a template project.\<close>

fun source_keys :: "VolumeSource \<Rightarrow> (string \<times> string) list" where
  "source_keys (SecretSource n items) = map (\<lambda>i. (n, kp_Key i)) items"
| "source_keys (ProjectedSource srcs) = concat (map (\<lambda>s. case s of Some (n, items) \<Rightarrow> map (\<lambda>i. (n, kp_Key i)) items | None \<Rightarrow> []) srcs)"
| "source_keys _ = []"

definition tls_projections :: "StatefulSet \<Rightarrow> (string \<times> string) list" where
  "tls_projections ss = concat (map (\<lambda>v. if vo_Name v \<in> {tlsVolumeName, backendTLSVolumeName} then source_keys (vo_Source v) else [])
     (po_Volumes (tp_Spec (sps_Template (ss_Spec ss)))))"

lemma tls_projections_rendered:
  "tls_projections (StatefulSetOf b h) =
     (if TLSEnabled (b_Spec b)
      then map (\<lambda>k. (tlsMountSecretName b, k)) tlsRequiredKeys
        @ (case cs_TLS (b_Spec b) of Some t \<Rightarrow> (case tl_Backend t of Some be \<Rightarrow>
             if tb_CASecretName be \<noteq> []
             then (tb_CASecretName be, tlsCAKey) # (if tb_ClientCertSecretName be \<noteq> []
               then [(tb_ClientCertSecretName be, tlsCertKey), (tb_ClientCertSecretName be, tlsPrivateKey)] else [])
             else [] | None \<Rightarrow> []) | None \<Rightarrow> [])
      else [])"
proof -
  let ?g = "\<lambda>v. if vo_Name v \<in> {tlsVolumeName, backendTLSVolumeName} then source_keys (vo_Source v) else []"
  obtain pre where p: "podVolumes b = pre @ (if TLSEnabled (b_Spec b) then tlsVolumes b else [])"
    "vo_Name ` set pre \<inter> {tlsVolumeName, backendTLSVolumeName} = {}" using tls_volumes_last by blast
  have "?g v = []" if "v \<in> set pre" for v using p(2) imageI [OF that, of vo_Name] by auto
  then have "concat (map ?g pre) = []" by simp
  then have "concat (map ?g (podVolumes b)) = concat (map ?g (if TLSEnabled (b_Spec b) then tlsVolumes b else []))"
    by (simp add: p(1))
  then show ?thesis
    by (simp add: tls_projections_def StatefulSetOf_def podSpec_def Let_def tlsVolumes_def backendTLSVolume_def volume_names
        tlsRequiredKeys_def backendTLSEnabled_def TLSEnabled_def split: option.split)
qed

lemma requireSecretKeys_seen:
  "requireSecretKeys te w n ns keys = None \<Longrightarrow> k \<in> set keys \<Longrightarrow> key_seen te ns (n, k)"
  by (auto simp: requireSecretKeys_def key_seen_def find_None_iff split: sum.splits getError.splits)

lemma claimSecret_data: "claimSecret te owner s = Inr s' \<Longrightarrow> sec_Data s' = sec_Data s"
  by (auto simp: claimSecret_def split: sum.splits)

lemma labelled_data [simp]: "sec_Data (labelled b s) = sec_Data s"
  by (simp add: labelled_def Let_def)

lemma signs_faithfullyD:
  assumes "signs_faithfully te" and "te_sign te tm iss w = (w', Inr (crt, key))"
  shows "crt \<noteq> []" "key \<noteq> []" "te_parseCert te crt = Inr \<lparr>ci_NotAfter = secFloor (ctm_NotAfter tm),
      ci_DNSNames = ctm_DNSNames tm, ci_IPAddresses = ctm_IPAddresses tm\<rparr>"
  using assms by (auto simp: signs_faithfully_def)

text \<open>An issued certificate comes from a signature on the template of the serving certificate.\<close>

lemma IssueServing_signed:
  assumes "IssueServing te ca key sans d w = (w', Inr r)"
  shows "\<exists>c. te_parseCert te ca = Inr c" "\<exists>dns ips cn. splitSANs (te_parseIP te) sans = (dns, ips) \<and>
      te_sign te \<lparr>ctm_CommonName = cn, ctm_NotBefore = te_now te w - clockSkew, ctm_NotAfter = te_now te w + d, ctm_IsCA = False,
        ctm_DNSNames = dns, ctm_IPAddresses = ips\<rparr> (Some (ca, key)) w = (w', Inr r)"
  using assms by (auto simp: IssueServing_def split: sum.splits option.splits prod.splits)

text \<open>The data a mutation of the serving Secret leaves: what was there, if nothing calls for a new
  certificate, or a fresh one under the given CA.\<close>

lemma servingMutation_cases:
  assumes "servingMutation te cluster b tls caData old v = (v', Inr s)"
  obtains (kept) "\<not> servingReissueNeeded te v (sec_Data old) (mgetStr caData tlsCertKey)
      (SANsFor (b_Name b) (b_Namespace b) (tl_ExtraSANs tls)) (tl_RenewBefore tls)" "sec_Data s = sec_Data old" "v' = v"
  | (issued) crt key where "IssueServing te (mgetStr caData tlsCertKey) (mgetStr caData tlsPrivateKey)
      (SANsFor (b_Name b) (b_Namespace b) (tl_ExtraSANs tls)) (tl_Duration tls) v = (v', Inr (crt, key))"
      "sec_Data s = [(tlsCertKey, crt), (tlsPrivateKey, key), (tlsCAKey, mgetStr caData tlsCertKey)]"
  using assms
  by (auto simp: servingMutation_def Let_def dest!: claimSecret_data split: if_splits prod.splits sum.splits)

lemma required_keys: "k \<in> set tlsRequiredKeys \<longleftrightarrow> k = tlsCertKey \<or> k = tlsPrivateKey \<or> k = tlsCAKey"
  "tlsCertKey \<noteq> tlsPrivateKey" "tlsCertKey \<noteq> tlsCAKey" "tlsPrivateKey \<noteq> tlsCAKey"
  by (auto simp: tlsRequiredKeys_def tlsCertKey_def tlsPrivateKey_def tlsCAKey_def)

lemma servingMutation_complete:
  assumes signs: "signs_faithfully te" and nopem: "\<And>c. te_parseCert te [] \<noteq> Inr c"
    and run: "servingMutation te cluster b tls caData old v = (v', Inr s)" and k: "k \<in> set tlsRequiredKeys"
  shows "mgetStr (sec_Data s) k \<noteq> []"
  using run
proof (cases rule: servingMutation_cases)
  case kept
  then show ?thesis using k by (auto simp: servingReissueNeeded_def list_ex_iff split: if_splits)
next
  case (issued crt key)
  obtain tm iss where "te_sign te tm iss v = (v', Inr (crt, key))" using IssueServing_signed(2) [OF issued(1)] by blast
  then have "crt \<noteq> []" "key \<noteq> []" using signs_faithfullyD [OF signs] by blast+
  moreover have "mgetStr caData tlsCertKey \<noteq> []"
    using IssueServing_signed(1) [OF issued(1)] nopem by auto
  ultimately show ?thesis using k required_keys by (auto simp: issued(2) mgetStr_def)
qed

lemma ensureSelfSigned_complete:
  assumes laws: "upserts_mutation te" "signs_faithfully te" and nopem: "\<And>c. te_parseCert te [] \<noteq> Inr c"
    and run: "ensureSelfSignedTLS te cluster b tls w = (w', None)" and k: "k \<in> set tlsRequiredKeys"
  shows "key_seen te (b_Namespace b) (TLSSecretName b, k)"
proof -
  from run obtain v and caSec :: Secret and s where u: "te_upsertSecret te (b_Namespace b) (TLSSecretName b)
      (servingMutation te cluster b tls (sec_Data caSec)) v = (w', Inr s)"
    by (simp add: ensureSelfSignedTLS_def split: prod.splits sum.splits)
  obtain old x x' s' where m: "servingMutation te cluster b tls (sec_Data caSec) old x = (x', Inr s')" and d: "sec_Data s = sec_Data s'"
    using u laws(1) unfolding upserts_mutation_def by blast
  have "mgetStr (sec_Data s) k \<noteq> []" using servingMutation_complete [OF laws(2) nopem m k] d by simp
  then show ?thesis using u unfolding key_seen_def fst_conv snd_conv by blast
qed

lemma ensure_ready:
  assumes laws: "upserts_mutation te" "signs_faithfully te" "\<And>c. te_parseCert te [] \<noteq> Inr c"
    and run: "ensureTLSSecrets te cluster b w = (w', b', True, err)"
  shows "b_Spec b' = b_Spec b" "b_Cluster b' = b_Cluster b" "err = None"
    "k \<in> set tlsRequiredKeys \<Longrightarrow> key_seen te (b_Namespace b) (tlsMountSecretName b', k)"
proof -
  have mount: "tlsMountSecretName (b\<lparr>b_TLSMountSecret := n\<rparr>) = (if n \<noteq> [] then n else TLSSecretName b)" for n
    by (simp add: tlsMountSecretName_def TLSSecretName_def)
  have ne: "TLSSecretName b \<noteq> []" by (simp add: TLSSecretName_def)
  show "b_Spec b' = b_Spec b" "b_Cluster b' = b_Cluster b" "err = None"
    using run by (auto simp: ensureTLSSecrets_def split: if_splits option.splits prod.splits)
  assume "k \<in> set tlsRequiredKeys"
  then show "key_seen te (b_Namespace b) (tlsMountSecretName b', k)"
    using run ne ensureSelfSigned_complete [OF laws]
    by (auto simp: ensureTLSSecrets_def mount validateTLSSecret_def split: if_splits option.splits prod.splits
        intro: requireSecretKeys_seen)
qed

lemma ensure_not_ready: "ensureTLSSecrets te cluster b w = (w', b', False, err) \<Longrightarrow> b' = b"
  by (auto simp: ensureTLSSecrets_def split: if_splits option.splits prod.splits)

lemma hold_live:
  assumes "holdTLSLastGood te w b = Inr b'"
  shows "b_Cluster b' = b_Cluster b" "TLSEnabled (b_Spec b') \<Longrightarrow> live_mounts te w (b_Namespace b) (b_Name b) (tlsMountSecretName b')"
  using assms
  by (auto simp: holdTLSLastGood_def live_mounts_def tlsMountSecretName_def TLSEnabled_def Let_def
      split: sum.splits getError.splits if_splits)

lemma projectionE:
  assumes "p \<in> set (tls_projections (StatefulSetOf b h))"
  obtains (serving) k where "TLSEnabled (b_Spec b)" "p = (tlsMountSecretName b, k)" "k \<in> set tlsRequiredKeys"
  | (backend) t be where "TLSEnabled (b_Spec b)" "cs_TLS (b_Spec b) = Some t" "tl_Backend t = Some be" "tb_CASecretName be \<noteq> []"
      "p = (tb_CASecretName be, tlsCAKey) \<or> tb_ClientCertSecretName be \<noteq> [] \<and> fst p = tb_ClientCertSecretName be \<and> snd p \<in> {tlsCertKey, tlsPrivateKey}"
proof -
  have on: "TLSEnabled (b_Spec b)" using assms by (simp add: tls_projections_rendered split: if_splits)
  then obtain t where t: "cs_TLS (b_Spec b) = Some t" by (auto simp: TLSEnabled_def split: option.splits)
  show thesis
  proof (cases "p \<in> set (map (\<lambda>k. (tlsMountSecretName b, k)) tlsRequiredKeys)")
    case True
    then show thesis using serving on by auto
  next
    case False
    show thesis
    proof (cases "tl_Backend t")
      case None
      then show thesis using False assms on t by (simp add: tls_projections_rendered)
    next
      case (Some be)
      then show thesis using False assms on t backend [of t be]
        by (cases "tb_CASecretName be = []"; cases "tb_ClientCertSecretName be = []") (auto simp: tls_projections_rendered)
    qed
  qed
qed

lemma backend_validated:
  assumes "validateBackendTLSSecrets te w b = None" and "TLSEnabled (b_Spec b)" and "cs_TLS (b_Spec b) = Some t"
    and "tl_Backend t = Some be" and "tb_CASecretName be \<noteq> []"
  shows "key_seen te (b_Namespace b) (tb_CASecretName be, tlsCAKey)"
    "tb_ClientCertSecretName be \<noteq> [] \<Longrightarrow> k \<in> {tlsCertKey, tlsPrivateKey} \<Longrightarrow> key_seen te (b_Namespace b) (tb_ClientCertSecretName be, k)"
  using assms
  by (auto simp: validateBackendTLSSecrets_def split: option.splits if_splits intro: requireSecretKeys_seen)

lemma backend_held:
  assumes "holdBackendTLSLastGood te w b = Inr b'"
  shows "b_Cluster b' = b_Cluster b" "tlsMountSecretName b' = tlsMountSecretName b" "TLSEnabled (b_Spec b') = TLSEnabled (b_Spec b)"
    "cs_TLS (b_Spec b') = Some t \<Longrightarrow> tl_Backend t = Some be \<Longrightarrow> tb_CASecretName be \<noteq> [] \<Longrightarrow>
       \<exists>ss. te_statefulSet te w (b_Namespace b) (b_Name b) = Inr ss \<and> backendSecrets ss = (tb_CASecretName be, tb_ClientCertSecretName be)"
  using assms
  by (auto simp: holdBackendTLSLastGood_def setBackend_def tlsMountSecretName_def TLSSecretName_def TLSEnabled_def
      split: sum.splits getError.splits if_splits option.splits prod.splits)

lemma hold_backend_live:
  assumes "holdBackendTLSLastGood te w b = Inr b'" and "cs_TLS (b_Spec b') = Some t" and "tl_Backend t = Some be"
    and "tb_CASecretName be \<noteq> []" and "n \<noteq> []" and "n \<in> {tb_CASecretName be, tb_ClientCertSecretName be}"
  shows "live_mounts te w (b_Namespace b) (b_Name b) n"
  using backend_held(4) [OF assms(1-4)] assms(5,6) by (auto simp: live_mounts_def)

text \<open>The pieces of the TLS part of a reconciliation: the serving certificate is ready or held, and then
  the backend Secrets are validated or held.\<close>

lemma resolveTLS_cases:
  assumes "resolveTLS te cluster b w = (w', Inr (b', ready, err))"
  obtains b1 e1 b2 where "ensureTLSSecrets te cluster b w = (w', b1, ready, e1)"
    "if TLSEnabled (b_Spec b1) \<and> \<not> ready then holdTLSLastGood te w' b1 = Inr b2 else b2 = b1"
    "if validateBackendTLSSecrets te w' b2 = None then b' = b2 else holdBackendTLSLastGood te w' b2 = Inr b'"
proof -
  obtain w1 b1 r e1 where e: "ensureTLSSecrets te cluster b w = (w1, b1, r, e1)" by (metis prod_cases4)
  let ?hold = "if TLSEnabled (b_Spec b1) \<and> \<not> r then holdTLSLastGood te w1 b1 else Inr b1"
  obtain b2 where h: "?hold = Inr b2" and w1: "w1 = w'"
    using assms e by (auto simp: resolveTLS_def split: sum.splits)
  have "(case validateBackendTLSSecrets te w1 b2 of None \<Rightarrow> Inr (b2, r, e1) | Some be \<Rightarrow>
      (case holdBackendTLSLastGood te w1 b2 of Inl e \<Rightarrow> Inl e
       | Inr b \<Rightarrow> Inr (b, r, Some (case e1 of None \<Rightarrow> be | Some e \<Rightarrow> BothErrors e be)))) = Inr (b', ready, err)"
    using assms by (simp add: resolveTLS_def e h) (simp add: w1)
  then have "r = ready" "if validateBackendTLSSecrets te w1 b2 = None then b' = b2 else holdBackendTLSLastGood te w1 b2 = Inr b'"
    by (cases "validateBackendTLSSecrets te w1 b2"; cases "holdBackendTLSLastGood te w1 b2"; simp)+
  then show thesis using that [of b1 e1 b2] e h w1 by (simp split: if_splits)
qed

text \<open>C8. Whatever the TLS part of a reconciliation ends with, a template rendered from it projects only
  keys of Secrets that were read or written complete in this reconciliation, or Secrets the live
  StatefulSet mounts already: the kubelet never meets a reference nobody vetted. When the
  resolution reports ready, every key of the serving Secret was seen.\<close>

theorem template_secrets_vetted:
  assumes laws: "upserts_mutation te" "signs_faithfully te" "\<And>c. te_parseCert te [] \<noteq> Inr c"
    and run: "resolveTLS te cluster b w = (w', Inr (b', ready, err))"
  shows "list_all (\<lambda>p. key_seen te (b_Namespace b) p \<or> live_mounts te w' (b_Namespace b) (b_Name b) (fst p))
      (tls_projections (StatefulSetOf b' h))
    \<and> (ready \<longrightarrow> list_all (\<lambda>k. key_seen te (b_Namespace b) (tlsMountSecretName b', k)) tlsRequiredKeys)"
proof -
  obtain b1 e1 b2 where e: "ensureTLSSecrets te cluster b w = (w', b1, ready, e1)"
    and h: "if TLSEnabled (b_Spec b1) \<and> \<not> ready then holdTLSLastGood te w' b1 = Inr b2 else b2 = b1"
    and v: "if validateBackendTLSSecrets te w' b2 = None then b' = b2 else holdBackendTLSLastGood te w' b2 = Inr b'"
    using run by (rule resolveTLS_cases)
  have b1: "b_Cluster b1 = b_Cluster b" using e ensure_ready(2) [OF laws, of cluster b w w' b1 e1] ensure_not_ready [of te cluster b w w' b1 e1] by (cases ready) simp_all
  then have b2: "b_Cluster b2 = b_Cluster b" using h hold_live(1) by (metis (full_types))
  then have names: "b_Namespace b2 = b_Namespace b" "b_Name b2 = b_Name b" "b_Namespace b1 = b_Namespace b" "b_Name b1 = b_Name b"
    using b1 by (simp_all add: b_Namespace_def b_Name_def)
  have mount: "tlsMountSecretName b' = tlsMountSecretName b2" and enabled: "TLSEnabled (b_Spec b') = TLSEnabled (b_Spec b2)"
    using v backend_held(2,3) by (metis (full_types))+
  have seen: "key_seen te (b_Namespace b) (tlsMountSecretName b', k)" if "ready" "k \<in> set tlsRequiredKeys" for k
    using ensure_ready(4) [OF laws] e h that mount by auto
  have "key_seen te (b_Namespace b) p \<or> live_mounts te w' (b_Namespace b) (b_Name b) (fst p)"
    if "p \<in> set (tls_projections (StatefulSetOf b' h))" for p
    using that
  proof (cases rule: projectionE)
    case (serving k)
    then show ?thesis using seen h mount enabled hold_live(2) [of te w' b1 b2] names by (cases ready) (auto split: if_splits)
  next
    case (backend t be)
    show ?thesis
    proof (cases "validateBackendTLSSecrets te w' b2 = None")
      case True
      then have "b' = b2" using v by simp
      then show ?thesis using backend_validated [OF True] backend names by (cases p) fastforce
    next
      case False
      then have "holdBackendTLSLastGood te w' b2 = Inr b'" using v by simp
      from hold_backend_live [OF this backend(2-4), of "fst p"] show ?thesis
        using backend(4,5) names by auto
    qed
  qed
  then show ?thesis using seen by (simp add: list_all_iff)
qed

section \<open>Lifetimes of the self-signed tier\<close>

lemma secFloor_bounds: "secFloor t \<le> t" "t < secFloor t + 10 ^ 9"
proof -
  have "0 \<le> t mod 10 ^ 9" "t mod 10 ^ 9 < 10 ^ 9" by simp_all
  then show "secFloor t \<le> t" "t < secFloor t + 10 ^ 9" unfolding secFloor_def by linarith+
qed

lemma caMutation_minted:
  assumes "caMutation te cluster b tls old v = (v', Inr ca)" and "\<not> caKept te v tls (sec_Data old)"
  shows "\<exists>tm crt key. te_sign te tm None v = (v', Inr (crt, key)) \<and> ctm_NotAfter tm = te_now te v + tlsCADuration
    \<and> sec_Data ca = [(tlsCertKey, crt), (tlsPrivateKey, key), (tlsCAKey, crt)]"
  using assms by (force simp: caMutation_def NewCA_def Let_def dest!: claimSecret_data split: prod.splits sum.splits)

lemma in_map_filter: "y \<in> set (List.map_filter f xs) \<longleftrightarrow> (\<exists>x \<in> set xs. f x = Some y)"
  by (induction xs) (auto simp: map_filter_simps split: option.split)

lemma issued_covers:
  assumes "te_parseCert te crt = Inr \<lparr>ci_NotAfter = n, ci_DNSNames = dns, ci_IPAddresses = ips\<rparr>"
    and "splitSANs (te_parseIP te) sans = (dns, ips)"
  shows "certCoversSANs te crt sans"
  using assms by (auto simp: certCoversSANs_def splitSANs_def list_all_iff in_map_filter split: option.split)


section \<open>A concrete issuer\<close>

text \<open>Certificates as texts: the expiry and the names, one after the other, every character of an entry
  behind a mark, every entry closed by a pair of semicolons.\<close>

definition encodeEntries :: "string list \<Rightarrow> string" where
  "encodeEntries es = concat (map (\<lambda>e. concat (map (\<lambda>c. [CHR ''x'', c]) e) @ '';;'') es)"

fun decodeEntries :: "string \<Rightarrow> string \<Rightarrow> string list" where
  "decodeEntries cur (m # c # r) = (if m = CHR '';'' then rev cur # decodeEntries [] r else decodeEntries (c # cur) r)"
| "decodeEntries cur r = []"

lemma decode_entry: "decodeEntries cur (concat (map (\<lambda>c. [CHR ''x'', c]) e) @ '';;'' @ r) = (rev cur @ e) # decodeEntries [] r"
  by (induction e arbitrary: cur) simp_all

lemma decode_encode: "decodeEntries [] (encodeEntries es) = es"
proof (induction es)
  case (Cons e es)
  then show ?case using decode_entry [of "[]" e "encodeEntries es"] by (simp add: encodeEntries_def)
qed (simp add: encodeEntries_def)

definition parseTime :: "string \<Rightarrow> int" where
  "parseTime s = (case s of [] \<Rightarrow> 0 | c # r \<Rightarrow>
     if c = CHR ''-'' then - int (the (parseNat r)) else int (the (parseNat s)))"

lemma parseTime_itoa: "parseTime (itoa t) = t"
proof (cases "t < 0")
  case True
  then show ?thesis by (simp add: parseTime_def itoa_def)
next
  case False
  then have "itoa t = nat_digits (nat t)" by (simp add: itoa_def)
  moreover obtain c r where "nat_digits (nat t) = c # r" by (cases "nat_digits (nat t)") simp_all
  moreover from this have "is_digit c" using nat_digits_digits [of "nat t"] by simp
  ultimately show ?thesis
    using False digit_not_sign [of c] parseNat_nat_digits [of "nat t"] by (simp add: parseTime_def)
qed

definition exampleSign :: "certTemplate \<Rightarrow> (string \<times> string) option \<Rightarrow> int \<Rightarrow> int \<times> (string + string \<times> string)" where
  "exampleSign tm issuer w = (w, Inr (''C'' @ encodeEntries (itoa (secFloor (ctm_NotAfter tm))
     # map (Cons CHR ''d'') (ctm_DNSNames tm) @ map (Cons CHR ''i'') (ctm_IPAddresses tm)), ''K''))"

definition exampleParse :: "string \<Rightarrow> string + certInfo" where
  "exampleParse s = (case s of [] \<Rightarrow> Inl ''no PEM block found in certificate data'' | c # r \<Rightarrow>
     (case decodeEntries [] r of [] \<Rightarrow> Inl ''malformed'' | e # es \<Rightarrow>
        Inr \<lparr>ci_NotAfter = parseTime e, ci_DNSNames = map tl (filter (\<lambda>n. hd n = CHR ''d'') es),
             ci_IPAddresses = map tl (filter (\<lambda>n. hd n = CHR ''i'') es)\<rparr>))"

text \<open>A cluster whose user brought a complete Secret; the world is the clock.\<close>

definition exampleTLSEnv :: "int tlsEnv" where
  "exampleTLSEnv =
     \<lparr>te_now = (\<lambda>w. w),
      te_secret = (\<lambda>_ ns n. Inr ((freshSecret n ns)\<lparr>sec_Data := [(tlsCertKey, ''c''), (tlsPrivateKey, ''k''), (tlsCAKey, ''a'')]\<rparr>)),
      te_statefulSet = (\<lambda>_ _ _. Inl (NotFound ''statefulset'')), te_certificate = (\<lambda>_ _ _. Inl (NotFound ''certificate'')),
      te_upsertSecret = (\<lambda>ns n f. f (freshSecret n ns)), te_upsertCertificate = (\<lambda>_ _ _ w. (w, Some ''no cert-manager'')),
      te_deleteCertificate = (\<lambda>_ _ w. (w, None)), te_claim = (\<lambda>c _. Inr (Some (clu_UID c))),
      te_sign = exampleSign, te_parseCert = exampleParse, te_parseKey = (\<lambda>_. None), te_parseIP = (\<lambda>_. None)\<rparr>"

lemma example_laws: "upserts_mutation exampleTLSEnv" "signs_faithfully exampleTLSEnv" "te_parseCert exampleTLSEnv [] \<noteq> Inr c"
proof -
  have d: "map tl (filter (\<lambda>n. hd n = k) (map (Cons k) xs @ map (Cons k') ys)) = xs"
    "map tl (filter (\<lambda>n. hd n = k) (map (Cons k') ys @ map (Cons k) xs)) = xs" if "k \<noteq> k'" for k k' :: char and xs ys
    using that by (simp_all add: filter_map comp_def)
  show "upserts_mutation exampleTLSEnv" unfolding upserts_mutation_def exampleTLSEnv_def by force
  show "signs_faithfully exampleTLSEnv"
    by (simp add: signs_faithfully_def exampleTLSEnv_def exampleSign_def exampleParse_def decode_encode parseTime_itoa d comp_def)
  show "te_parseCert exampleTLSEnv [] \<noteq> Inr c" by (simp add: exampleTLSEnv_def exampleParse_def)
qed

definition exampleTLSBuilder :: Builder where
  "exampleTLSBuilder = New (exampleCluster\<lparr>clu_Spec := zeroClusterSpec\<lparr>cs_TLS := Some (plainTLS\<lparr>tl_SecretName := ''user-tls''\<rparr>)\<rparr>\<rparr>) zeroPasswords"

lemma exampleTLS_spec: "cs_TLS (b_Spec exampleTLSBuilder) = Some (defaultTLS (plainTLS\<lparr>tl_SecretName := ''user-tls''\<rparr>))"
  by (simp add: exampleTLSBuilder_def New_def DefaultedSpec_def Let_def defaultProtocols_alt ensureTLS_def zeroClusterSpec_def
      AWSPluginEnabled_def)

theorem template_secrets_vetted_witness:
  "\<exists>b'. resolveTLS exampleTLSEnv exampleCluster exampleTLSBuilder 0 = (0, Inr (b', True, None)) \<and>
     key_seen exampleTLSEnv (b_Namespace exampleTLSBuilder) (''user-tls'', tlsCertKey)"
proof -
  let ?t = "defaultTLS (plainTLS\<lparr>tl_SecretName := ''user-tls''\<rparr>)"
  let ?b = "exampleTLSBuilder\<lparr>b_TLSMountSecret := ''user-tls''\<rparr>"
  have t: "tl_SecretName ?t = ''user-tls''" "tl_Enabled ?t" "tl_Backend ?t = None"
    by (simp_all add: defaultTLS_def plainTLS_def Let_def)
  have v: "validateTLSSecret exampleTLSEnv 0 n ns = None" for n ns
    using required_keys
    by (simp add: validateTLSSecret_def requireSecretKeys_def exampleTLSEnv_def tlsRequiredKeys_def mgetStr_def)
  have "cleanupTLSCertificate exampleTLSEnv c n w = w" for c n w by (simp add: cleanupTLSCertificate_def exampleTLSEnv_def)
  then have run: "resolveTLS exampleTLSEnv exampleCluster exampleTLSBuilder 0 = (0, Inr (?b, True, None))"
    using t v by (simp add: resolveTLS_def ensureTLSSecrets_def exampleTLS_spec TLSEnabled_def validateBackendTLSSecrets_def)
  from template_secrets_vetted [OF example_laws run]
  have "key_seen exampleTLSEnv (b_Namespace exampleTLSBuilder) (''user-tls'', tlsCertKey)"
    by (simp add: list_all_iff tlsRequiredKeys_def tlsMountSecretName_def)
  then show ?thesis using run by blast
qed


end
