(* ===== verification/Rfc3339.thy ===== *)
theory Rfc3339
  imports GoPrelude
begin

text \<open>
  Times as the operator writes them into annotations: \<open>t.UTC().Format(time.RFC3339)\<close> and
  \<open>time.Parse(time.RFC3339, s)\<close> of the standard library. A time is its number of nanoseconds since
  the epoch; fractions of a second are not written. The model covers the years from 0 on.

  The parser is modelled on the form the formatter writes, \<open>YYYY-MM-DDThh:mm:ssZ\<close>; what the
  library makes of any other text (offsets, fractions, lenient forms) is the parameter \<open>other\<close>, on
  which nothing is assumed.
\<close>

section \<open>The calendar\<close>

definition leap :: "nat \<Rightarrow> bool" where
  "leap y \<longleftrightarrow> y mod 4 = 0 \<and> (y mod 100 \<noteq> 0 \<or> y mod 400 = 0)"

definition monthDays :: "nat \<Rightarrow> nat list" where
  "monthDays y = [31, if leap y then 29 else 28, 31, 30, 31, 30, 31, 31, 30, 31, 30, 31]"

text \<open>The days before the first of January of a year, from the year 0 on.\<close>

definition yearStart :: "nat \<Rightarrow> nat" where
  "yearStart y = 365 * y + (y + 3) div 4 + (y + 399) div 400 - (y + 99) div 100"

lemma ceil_div: "0 < k \<Longrightarrow> (y + (k - 1)) div k = y div k + (if y mod k = 0 then 0 else 1)" for y k :: nat
proof -
  assume k: "0 < k"
  define q r where "q = y div k" and "r = y mod k"
  have y: "y = q * k + r" and r: "r < k" using k by (simp_all add: q_def r_def)
  have "(y + (k - 1)) div k = (r + (k - 1) + q * k) div k" by (simp only: y ac_simps)
  then have "(y + (k - 1)) div k = q + (r + (k - 1)) div k" using k by (simp only: div_mult_self1 neq0_conv)
  moreover have "(r + (k - 1)) div k = (if r = 0 then 0 else 1)"
    using k r by (cases r) (simp_all add: div_nat_eqI)
  ultimately show ?thesis by (simp add: q_def r_def)
qed

lemma ceil_div_Suc: "0 < k \<Longrightarrow> (Suc y + (k - 1)) div k = y div k + 1" for y k :: nat
proof -
  assume k: "0 < k"
  then have "Suc y + (k - 1) = y + k" by simp
  then show ?thesis using k div_add_self2 [of k y] by simp
qed

lemma yearStart_Suc: "yearStart (Suc y) = yearStart y + sum_list (monthDays y)"
proof -
  define a b c where "a = y div 4" and "b = y div 100" and "c = y div 400"
  have cl: "(y + 3) div 4 = a + (if y mod 4 = 0 then 0 else 1)"
    "(y + 99) div 100 = b + (if y mod 100 = 0 then 0 else 1)"
    "(y + 399) div 400 = c + (if y mod 400 = 0 then 0 else 1)"
    using ceil_div [of 4 y] ceil_div [of 100 y] ceil_div [of 400 y] by (simp_all add: a_def b_def c_def)
  have cs: "(Suc y + 3) div 4 = a + 1" "(Suc y + 99) div 100 = b + 1" "(Suc y + 399) div 400 = c + 1"
    using ceil_div_Suc [of 4 y] ceil_div_Suc [of 100 y] ceil_div_Suc [of 400 y] by (simp_all add: a_def b_def c_def)
  have dv: "y mod 400 = 0 \<Longrightarrow> y mod 100 = 0" "y mod 100 = 0 \<Longrightarrow> y mod 4 = 0"
    using dvd_trans [of 100 400 y] dvd_trans [of 4 100 y] by (simp_all add: dvd_eq_mod_eq_0)
  have "b \<le> y" by (simp add: b_def)
  then show ?thesis
    unfolding yearStart_def cl cs using dv
    by (cases "y mod 400 = 0"; cases "y mod 100 = 0"; cases "y mod 4 = 0") (simp_all add: monthDays_def leap_def)
qed

lemma yearStart_grows: "yearStart y + 365 \<le> yearStart (Suc y)" "yearStart (Suc y) \<le> yearStart y + 366"
  by (simp_all add: yearStart_Suc monthDays_def)

lemma yearStart_ge: "365 * y \<le> yearStart y"
proof (induction y)
  case (Suc y)
  then show ?case using yearStart_grows(1) [of y] by simp
qed (simp add: yearStart_def)

lemma yearStart_le: "yearStart y \<le> 366 * y"
proof (induction y)
  case (Suc y)
  then show ?case using yearStart_grows(2) [of y] by simp
qed (simp add: yearStart_def)

text \<open>The year of a day: searched upwards from a lower bound.\<close>

function yearFrom :: "nat \<Rightarrow> nat \<Rightarrow> nat" where
  "yearFrom n y = (if yearStart (Suc y) \<le> n then yearFrom n (Suc y) else y)"
  by pat_completeness auto

termination
proof (relation "measure (\<lambda>(n, y). n - y)", goal_cases)
  case (2 n y)
  then show ?case using yearStart_ge [of "Suc y"] by simp
qed simp

declare yearFrom.simps [simp del]

lemma yearFrom_correct: "yearStart y \<le> n \<Longrightarrow> yearStart (yearFrom n y) \<le> n \<and> n < yearStart (Suc (yearFrom n y))"
proof (induction n y rule: yearFrom.induct)
  case (1 n y)
  then show ?case by (subst (1 2) yearFrom.simps) (auto simp: not_le)
qed

definition yearOf :: "nat \<Rightarrow> nat" where
  "yearOf n = yearFrom n (n div 366)"

lemma yearOf_correct: "yearStart (yearOf n) \<le> n" "n < yearStart (Suc (yearOf n))"
proof -
  have "yearStart (n div 366) \<le> n" using yearStart_le [of "n div 366"] by (meson order_trans div_times_less_eq_dividend mult.commute
        times_div_less_eq_dividend)
  then show "yearStart (yearOf n) \<le> n" "n < yearStart (Suc (yearOf n))"
    using yearFrom_correct by (auto simp: yearOf_def)
qed

text \<open>The month and the day, both from one: the lengths of the months before are taken off.\<close>

fun monthFrom :: "nat list \<Rightarrow> nat \<Rightarrow> nat \<Rightarrow> nat \<times> nat" where
  "monthFrom [] m d = (m, Suc d)"
| "monthFrom (l # ls) m d = (if d < l then (m, Suc d) else monthFrom ls (Suc m) (d - l))"

lemma monthFrom_correct:
  assumes "d < sum_list ls" and "monthFrom ls m d = (m', d')"
  shows "m \<le> m' \<and> m' - m < length ls \<and> 1 \<le> d' \<and> d' \<le> ls ! (m' - m)
    \<and> sum_list (take (m' - m) ls) + (d' - 1) = d"
  using assms
proof (induction ls m d rule: monthFrom.induct)
  case (2 l ls m d)
  show ?case
  proof (cases "d < l")
    case False
    then have *: "d - l < sum_list ls" "monthFrom ls (Suc m) (d - l) = (m', d')" using 2 by auto
    from 2(1) [OF False this]
    have "Suc m \<le> m'" "m' - Suc m < length ls" "1 \<le> d'" "d' \<le> ls ! (m' - Suc m)"
      "sum_list (take (m' - Suc m) ls) + (d' - 1) = d - l" by auto
    moreover have "m' - m = Suc (m' - Suc m)" using \<open>Suc m \<le> m'\<close> by simp
    ultimately show ?thesis using False by simp
  qed (use 2 in auto)
qed simp

section \<open>Formatting and parsing\<close>

text \<open>\<open>pad w n\<close> is \<open>%0wd\<close>.\<close>

definition pad :: "nat \<Rightarrow> nat \<Rightarrow> string" where
  "pad w n = (let s = nat_digits n in replicate (w - length s) (CHR ''0'') @ s)"

definition dateText :: "nat \<Rightarrow> string" where
  "dateText n = (let y = yearOf n; md = monthFrom (monthDays y) 1 (n - yearStart y) in
     pad 4 y @ ''-'' @ pad 2 (fst md) @ ''-'' @ pad 2 (snd md))"

definition clockText :: "nat \<Rightarrow> string" where
  "clockText s = pad 2 (s div 3600) @ '':'' @ pad 2 (s div 60 mod 60) @ '':'' @ pad 2 (s mod 60)"

definition epochDay :: nat where "epochDay = yearStart 1970"

definition formatRFC3339 :: "int \<Rightarrow> string" where
  "formatRFC3339 t = (let s = t div 10 ^ 9 in
     dateText (nat (int epochDay + s div 86400)) @ ''T'' @ clockText (nat (s mod 86400)) @ ''Z'')"

text \<open>The fields of a text of the written form, and the checks of their ranges.\<close>

definition dateFields :: "string \<Rightarrow> string \<Rightarrow> string \<Rightarrow> nat option" where
  "dateFields ys ms ds =
     (case (parseNat ys, parseNat ms, parseNat ds) of
        (Some y, Some m, Some d) \<Rightarrow>
          if 1 \<le> m \<and> m \<le> 12 \<and> 1 \<le> d \<and> d \<le> monthDays y ! (m - 1)
          then Some (yearStart y + sum_list (take (m - 1) (monthDays y)) + (d - 1)) else None
      | _ \<Rightarrow> None)"

definition clockFields :: "string \<Rightarrow> string \<Rightarrow> string \<Rightarrow> nat option" where
  "clockFields hs ms ss =
     (case (parseNat hs, parseNat ms, parseNat ss) of
        (Some h, Some m, Some s) \<Rightarrow> if h < 24 \<and> m < 60 \<and> s < 60 then Some (h * 3600 + m * 60 + s) else None
      | _ \<Rightarrow> None)"
definition writtenForm :: "string \<Rightarrow> bool" where
  "writtenForm s \<longleftrightarrow> length s = 20 \<and> s ! 4 = CHR ''-'' \<and> s ! 7 = CHR ''-'' \<and> s ! 10 = CHR ''T''
     \<and> s ! 13 = CHR '':'' \<and> s ! 16 = CHR '':'' \<and> s ! 19 = CHR ''Z''
     \<and> list_all is_digit (take 4 s @ take 2 (drop 5 s) @ take 2 (drop 8 s) @ take 2 (drop 11 s) @ take 2 (drop 14 s) @ take 2 (drop 17 s))"

definition parseRFC3339 :: "(string \<Rightarrow> int option) \<Rightarrow> string \<Rightarrow> int option" where
  "parseRFC3339 other s =
     (if writtenForm s
      then (case (dateFields (take 4 s) (take 2 (drop 5 s)) (take 2 (drop 8 s)),
                  clockFields (take 2 (drop 11 s)) (take 2 (drop 14 s)) (take 2 (drop 17 s))) of
              (Some d, Some c) \<Rightarrow> Some (((int d - int epochDay) * 86400 + int c) * 10 ^ 9)
            | _ \<Rightarrow> None)
      else other s)"

section \<open>Round trip\<close>

lemma nat_digits_length: "n < 10 ^ w \<Longrightarrow> 0 < w \<Longrightarrow> length (nat_digits n) \<le> w"
proof (induction n arbitrary: w rule: nat_digits.induct)
  case (1 n)
  show ?case
  proof (cases "n < 10")
    case False
    then obtain v where w: "w = Suc v" "0 < v" using 1(2,3) by (cases w; cases "w - 1") auto
    then have "n div 10 < 10 ^ v" using 1(2) by (simp add: less_mult_imp_div_less mult.commute)
    then have "length (nat_digits (n div 10)) \<le> v" using 1(1) False w by simp
    then show ?thesis using False w by (subst nat_digits.simps) simp
  qed (use 1(3) in \<open>subst nat_digits.simps, simp\<close>)
qed

lemma pad_length: "n < 10 ^ w \<Longrightarrow> 0 < w \<Longrightarrow> length (pad w n) = w"
  using nat_digits_length by (simp add: pad_def Let_def)

lemma pad_digits: "list_all is_digit (pad w n)"
  using nat_digits_digits [of n] by (auto simp: pad_def Let_def is_digit_def list_all_iff)

lemma parseNat_pad: "parseNat (pad w n) = Some n"
proof -
  have "foldl (\<lambda>a c. 10 * a + (code c - 48)) 0 (replicate k (CHR ''0'')) = (0 :: nat)" for k by (induction k) simp_all
  moreover have "pad w n \<noteq> []" by (simp add: pad_def Let_def)
  ultimately show ?thesis using pad_digits [of w n] foldl_nat_digits [of n] by (simp add: parseNat_def) (simp add: pad_def Let_def)
qed

lemma clockFields_text:
  "s < 86400 \<Longrightarrow> clockFields (pad 2 (s div 3600)) (pad 2 (s div 60 mod 60)) (pad 2 (s mod 60)) = Some s"
proof -
  assume s: "s < 86400"
  then have "s div 3600 < 24" by (simp add: less_mult_imp_div_less)
  moreover have "s div 3600 = s div 60 div 60" by (simp add: div_mult2_eq flip: div_mult2_eq)
  moreover have "s div 60 div 60 * 3600 + s div 60 mod 60 * 60 + s mod 60 = s"
    using div_mult_mod_eq [of s 60] div_mult_mod_eq [of "s div 60" 60] by linarith
  ultimately show ?thesis by (simp add: clockFields_def parseNat_pad)
qed

lemma dateFields_text:
  assumes "monthFrom (monthDays (yearOf n)) 1 (n - yearStart (yearOf n)) = (m, d)"
  shows "m \<le> 12" "d \<le> 31" "dateFields (pad 4 (yearOf n)) (pad 2 m) (pad 2 d) = Some n"
proof -
  let ?y = "yearOf n"
  have "n - yearStart ?y < sum_list (monthDays ?y)" using yearOf_correct [of n] by (simp add: yearStart_Suc)
  then have *: "1 \<le> m" "m - 1 < length (monthDays ?y)" "1 \<le> d" "d \<le> monthDays ?y ! (m - 1)"
    "sum_list (take (m - 1) (monthDays ?y)) + (d - 1) = n - yearStart ?y"
    using monthFrom_correct [OF _ assms] by auto
  then show m: "m \<le> 12" by (simp add: monthDays_def)
  have "\<forall>l \<in> set (monthDays ?y). l \<le> 31" by (simp add: monthDays_def)
  then show "d \<le> 31" using *(2,4) by (meson nth_mem order_trans)
  show "dateFields (pad 4 ?y) (pad 2 m) (pad 2 d) = Some n"
    using * m yearOf_correct(1) [of n] by (simp add: dateFields_def parseNat_pad)
qed

lemma length_4: "length s = 4 \<Longrightarrow> \<exists>a b c d. s = [a, b, c, d]" and length_2: "length s = 2 \<Longrightarrow> \<exists>a b. s = [a, b]"
  by (auto simp: numeral_eq_Suc length_Suc_conv)

lemma yearOf_bound: "n < yearStart k \<Longrightarrow> yearOf n < k"
proof (rule ccontr)
  assume n: "n < yearStart k" and "\<not> yearOf n < k"
  then have "k \<le> yearOf n" by simp
  then have "yearStart k \<le> yearStart (yearOf n)"
    by (rule lift_Suc_mono_le [rotated]) (use yearStart_grows(1) add_leD1 in blast)
  then show False using n yearOf_correct(1) [of n] by simp
qed

text \<open>The first instant the year of which has five digits.\<close>

definition year10000 :: int where
  "year10000 = (int (yearStart 10000) - int epochDay) * 86400 * 10 ^ 9"

lemma format_fields:
  assumes "n < yearStart 10000" "s < 86400"
  shows "parseRFC3339 other (dateText n @ ''T'' @ clockText s @ ''Z'') = Some (((int n - int epochDay) * 86400 + int s) * 10 ^ 9)"
proof -
  obtain m d where md: "monthFrom (monthDays (yearOf n)) 1 (n - yearStart (yearOf n)) = (m, d)" by fastforce
  note df = dateFields_text [OF md]
  have lens: "length (pad 4 (yearOf n)) = 4" "length (pad 2 m) = 2" "length (pad 2 d) = 2"
    "length (pad 2 (s div 3600)) = 2" "length (pad 2 (s div 60 mod 60)) = 2" "length (pad 2 (s mod 60)) = 2"
    using yearOf_bound [OF assms(1)] df(1,2) assms(2) mod_less_divisor [of 60 "s div 60"] mod_less_divisor [of 60 s]
    by (intro pad_length; simp add: less_mult_imp_div_less)+
  note digs = pad_digits [of 4 "yearOf n"] pad_digits [of 2 m] pad_digits [of 2 d] pad_digits [of 2 "s div 3600"]
    pad_digits [of 2 "s div 60 mod 60"] pad_digits [of 2 "s mod 60"]
  define Y M D H I S where "Y = pad 4 (yearOf n)" and "M = pad 2 m" and "D = pad 2 d" and "H = pad 2 (s div 3600)"
    and "I = pad 2 (s div 60 mod 60)" and "S = pad 2 (s mod 60)"
  note names = Y_def M_def D_def H_def I_def S_def
  have fields: "dateFields Y M D = Some n" "clockFields H I S = Some s"
    using df(3) clockFields_text [OF assms(2)] by (simp_all add: names)
  obtain a b c e f g h i j k l v p q where "Y = [a, b, c, e]" "M = [f, g]" "D = [h, i]" "H = [j, k]" "I = [l, v]" "S = [p, q]"
    using length_4 [OF lens(1)] length_2 [OF lens(2)] length_2 [OF lens(3)] length_2 [OF lens(4)] length_2 [OF lens(5)]
      length_2 [OF lens(6)] by (auto simp: names)
  note lists = this
  have whole: "dateText n @ ''T'' @ clockText s @ ''Z'' = Y @ ''-'' @ M @ ''-'' @ D @ ''T'' @ H @ '':'' @ I @ '':'' @ S @ ''Z''"
    using md by (simp add: dateText_def clockText_def Let_def names)
  show ?thesis
    unfolding whole using fields digs [folded names] by (simp add: parseRFC3339_def writtenForm_def lists)
qed

lemma div_bounds: "s div 86400 < k \<longleftrightarrow> s < k * 86400" "k \<le> s div 86400 \<longleftrightarrow> k * 86400 \<le> s" for s k :: int
proof -
  define q r where "q = s div 86400" and "r = s mod 86400"
  have "s = q * 86400 + r" "0 \<le> r" "r < 86400" unfolding q_def r_def by simp_all
  then have "q < k \<longleftrightarrow> s < k * 86400" "k \<le> q \<longleftrightarrow> k * 86400 \<le> s" by linarith+
  then show "s div 86400 < k \<longleftrightarrow> s < k * 86400" "k \<le> s div 86400 \<longleftrightarrow> k * 86400 \<le> s" by (simp_all add: q_def)
qed

lemma parse_format:
  assumes "- int epochDay * 86400 * 10 ^ 9 \<le> t" "t < year10000"
  shows "parseRFC3339 other (formatRFC3339 t) = Some (t - t mod 10 ^ 9)"
proof -
  define s where "s = t div 10 ^ 9"
  define n where "n = int epochDay + s div 86400"
  have s: "- int epochDay * 86400 \<le> s" "s < (int (yearStart 10000) - int epochDay) * 86400"
    using assms div_mult_mod_eq [of t "10 ^ 9"] pos_mod_sign [of "10 ^ 9" t] pos_mod_bound [of "10 ^ 9" t]
    by (simp_all add: s_def year10000_def)
  have "- int epochDay \<le> s div 86400" "s div 86400 < int (yearStart 10000) - int epochDay"
    using s by (simp_all only: div_bounds)
  then have n: "0 \<le> n" "nat n < yearStart 10000" by (simp_all add: n_def nat_less_iff)
  moreover have "nat (s mod 86400) < 86400" by (simp add: nat_less_iff)
  moreover have "(n - int epochDay) * 86400 + s mod 86400 = s" by (simp add: n_def)
  moreover have "s * 10 ^ 9 = t - t mod 10 ^ 9" unfolding s_def by (simp only: minus_mod_eq_div_mult)
  moreover have "formatRFC3339 t = dateText (nat n) @ ''T'' @ clockText (nat (s mod 86400)) @ ''Z''"
    unfolding formatRFC3339_def Let_def s_def n_def ..
  ultimately show ?thesis using format_fields [of "nat n" "nat (s mod 86400)" other] by simp
qed

end
