(* ===== verification/TlsRotation.thy ===== *)
theory TlsRotation
  imports TlsSecrets RestartChecksum Rfc3339
begin

text \<open>
  The rotation of serving certificates under running pods:
  \<open>operator/internal/controller/tls_rotation.go\<close> (and \<open>tlsutil.LeafFingerprint\<close>).

  The environment extends that of \<open>TlsSecrets\<close>. What the driver does with a TLS configuration is a
  parameter: a ping gives back the certificate lists for which it called the verifier, in order
  (none when the peer never presented one), and its error.
\<close>

section \<open>Environment\<close>

text \<open>A dial configuration of the rotation: the name sent as SNI and the verifier of what the peer
  presents.\<close>

record pinnedConfig =
  pin_ServerName :: string
  pin_Verify :: "string list \<Rightarrow> gerror"

record 'w rotEnv = "'w tlsEnv" +
  re_sha :: digest
  re_pods :: "'w \<Rightarrow> string \<Rightarrow> string \<Rightarrow> string + pod list"
  re_pemDecode :: "string \<Rightarrow> string option"
  re_usable :: "string \<Rightarrow> bool"
  re_parseDER :: "string \<Rightarrow> gerror"
  re_verify :: "string \<Rightarrow> string list \<Rightarrow> string \<Rightarrow> string \<Rightarrow> gerror"
  re_quote :: "string \<Rightarrow> string"
  re_new :: "string \<Rightarrow> string \<Rightarrow> string \<Rightarrow> gerror"
  re_ping :: "string \<Rightarrow> string \<Rightarrow> string \<Rightarrow> pinnedConfig \<Rightarrow> 'w \<Rightarrow> 'w \<times> string list list \<times> gerror"
  re_exec :: "string \<Rightarrow> string \<Rightarrow> string \<Rightarrow> pinnedConfig \<Rightarrow> 'w executor"
  re_wait :: "'w \<Rightarrow> 'w \<times> gerror"
  re_parseTime :: "string \<Rightarrow> int option"
  re_TLSRotationWindow :: int

section \<open>Classification and the recorded window\<close>

definition annotationTLSAppliedHash :: string where "annotationTLSAppliedHash = ''proxysql.com/tls-applied-hash''"
definition annotationTLSRotationState :: string where "annotationTLSRotationState = ''proxysql.com/tls-rotation-state''"
definition defaultTLSRotationWindow :: int where "defaultTLSRotationWindow = 2 * 60 * 10 ^ 9"
definition tlsVerifyAttempts :: nat where "tlsVerifyAttempts = 3"

datatype tlsRotationVerdict = tlsVerdictAdopt | tlsVerdictNone | tlsVerdictRotate

definition classifyTLSRotation :: "string \<Rightarrow> string \<Rightarrow> tlsRotationVerdict" where
  "classifyTLSRotation applied secretHash =
     (if applied = [] then tlsVerdictAdopt else if applied = secretHash then tlsVerdictNone else tlsVerdictRotate)"

definition tlsContentHash :: "digest \<Rightarrow> strmap \<Rightarrow> string" where
  "tlsContentHash sha data = sha (concat (map (\<lambda>k. frame (k, mgetStr data k)) [tlsCAKey, tlsCertKey, tlsPrivateKey]))"

definition formatTLSRotationState :: "string \<Rightarrow> int \<Rightarrow> string" where
  "formatTLSRotationState hash start = hash @ ''@'' @ formatRFC3339 start"

definition parseTLSRotationState :: "(string \<Rightarrow> int option) \<Rightarrow> string \<Rightarrow> string \<Rightarrow> int \<Rightarrow> int" where
  "parseTLSRotationState other state wantHash now =
     (case cutAt CHR ''@'' state of
        None \<Rightarrow> now
      | Some (hash, ts) \<Rightarrow>
          if hash \<noteq> wantHash then now
          else (case parseRFC3339 other ts of None \<Rightarrow> now | Some t \<Rightarrow> if t > now then now else t))"

record tlsRotationOutcome =
  rot_applied :: string
  rot_state :: string
  rot_restart :: string
  rot_summary :: string

definition mergeSummaries :: "string \<Rightarrow> string \<Rightarrow> string" where
  "mergeSummaries varsSummary tlsSummary =
     (if hasPrefix ''RestartRequired'' varsSummary then varsSummary
      else if hasPrefix ''RestartRequired'' tlsSummary then tlsSummary
      else if varsSummary \<noteq> [] then varsSummary
      else tlsSummary)"

definition tlsRotationWindow :: "('w, 'm) rotEnv_scheme \<Rightarrow> int" where
  "tlsRotationWindow re = (if re_TLSRotationWindow re > 0 then re_TLSRotationWindow re else defaultTLSRotationWindow)"

text \<open>The marker annotations of the StatefulSet as a reconciliation finds them.\<close>

record stsAnnotations =
  sta_cnfChecksum :: string
  sta_varsApplied :: string
  sta_structuralApplied :: string
  sta_tlsApplied :: string
  sta_tlsRotationState :: string
  sta_tlsRestart :: string

section \<open>Probing and reloading one replica\<close>

definition LeafFingerprint :: "('w, 'm) rotEnv_scheme \<Rightarrow> string \<Rightarrow> string + string" where
  "LeafFingerprint re certPEM =
     (case re_pemDecode re certPEM of
        None \<Rightarrow> Inl ''no PEM block found in certificate data''
      | Some der \<Rightarrow> Inr (re_sha re der))"

text \<open>\<open>re_verify roots intermediates name leaf\<close> is \<open>leaf.Verify\<close>; the pool is the PEM text it holds.\<close>

definition pinnedVerify :: "('w, 'm) rotEnv_scheme \<Rightarrow> string \<Rightarrow> string \<Rightarrow> string \<Rightarrow> string list \<Rightarrow> gerror" where
  "pinnedVerify re pool expectedFP serverName rawCerts =
     (case rawCerts of
        [] \<Rightarrow> Some ''no peer certificate presented''
      | leaf # rest \<Rightarrow>
          if re_sha re leaf = expectedFP then None
          else (case re_parseDER re leaf of
                  Some e \<Rightarrow> Some (''parsing peer certificate: '' @ e)
                | None \<Rightarrow>
                    (case re_verify re pool (filter (\<lambda>raw. re_parseDER re raw = None) rest) serverName leaf of
                       Some e \<Rightarrow> Some (''peer certificate is neither the expected rotated leaf nor chained to the cluster CA for ''
                                        @ re_quote re serverName @ '': '' @ e)
                     | None \<Rightarrow> None)))"

definition pinnedTLSConfig :: "('w, 'm) rotEnv_scheme \<Rightarrow> string \<Rightarrow> string \<Rightarrow> string \<Rightarrow> pinnedConfig" where
  "pinnedTLSConfig re pool expectedFP serverName =
     \<lparr>pin_ServerName = serverName, pin_Verify = pinnedVerify re pool expectedFP serverName\<rparr>"

text \<open>The fingerprint is captured on every call of the verifier that names a certificate.\<close>

definition capture :: "digest \<Rightarrow> string list list \<Rightarrow> string" where
  "capture sha calls = fold (\<lambda>rawCerts fp. case rawCerts of [] \<Rightarrow> fp | leaf # _ \<Rightarrow> sha leaf) calls []"

definition probeTLSLeafFingerprint ::
  "('w, 'm) rotEnv_scheme \<Rightarrow> string \<Rightarrow> string \<Rightarrow> string \<Rightarrow> pinnedConfig \<Rightarrow> 'w \<Rightarrow> 'w \<times> (string + string)" where
  "probeTLSLeafFingerprint re addr user pass cfg w =
     (case re_new re addr user pass of
        Some e \<Rightarrow> (w, Inl e)
      | None \<Rightarrow>
          (case re_ping re addr user pass cfg w of
             (w, calls, err) \<Rightarrow>
               let fp = capture (re_sha re) calls in
               (w, case err of Some e \<Rightarrow> if fp = [] then Inl e else Inr fp | None \<Rightarrow> Inr fp)))"

definition reloadTLSOn ::
  "('w, 'm) rotEnv_scheme \<Rightarrow> string \<Rightarrow> string \<Rightarrow> string \<Rightarrow> pinnedConfig \<Rightarrow> 'w \<Rightarrow> 'w \<times> gerror" where
  "reloadTLSOn re addr user pass cfg w =
     (case re_new re addr user pass of
        Some e \<Rightarrow> (w, Some e)
      | None \<Rightarrow> ReloadTLS (re_exec re addr user pass cfg) w)"

text \<open>\<open>%.12s\<close> of a hexadecimal text, and the ellipsis in UTF-8.\<close>

definition clipped :: "string \<Rightarrow> string" where
  "clipped s = take 12 s @ [CHR 0xE2, CHR 0x80, CHR 0xA6]"

text \<open>The attempts to verify after a reload; the wait between two may be cut short.\<close>

fun verifyAttempts ::
  "('w, 'm) rotEnv_scheme \<Rightarrow> nat \<Rightarrow> nat \<Rightarrow> string \<Rightarrow> string \<Rightarrow> string \<Rightarrow> pinnedConfig \<Rightarrow> gerror \<Rightarrow> 'w \<Rightarrow> 'w \<times> gerror" where
  "verifyAttempts re attempt 0 addr pass expectedFP cfg lastErr w = (w, lastErr)"
| "verifyAttempts re attempt (Suc n) addr pass expectedFP cfg lastErr w =
     (case (if attempt > 0 then re_wait re w else (w, None)) of
        (w, Some e) \<Rightarrow> (w, Some e)
      | (w, None) \<Rightarrow>
          (case probeTLSLeafFingerprint re addr radminUser pass cfg w of
             (w, Inl e) \<Rightarrow> verifyAttempts re (Suc attempt) n addr pass expectedFP cfg (Some (''verify handshake: '' @ e)) w
           | (w, Inr fp) \<Rightarrow>
               if fp = expectedFP then (w, None)
               else verifyAttempts re (Suc attempt) n addr pass expectedFP cfg
                      (Some (''still serving certificate '' @ clipped fp @ '' (want '' @ clipped expectedFP @ '')'')) w))"

definition reloadAndVerifyTLS ::
  "('w, 'm) rotEnv_scheme \<Rightarrow> string \<Rightarrow> string \<Rightarrow> string \<Rightarrow> pinnedConfig \<Rightarrow> 'w \<Rightarrow> 'w \<times> gerror" where
  "reloadAndVerifyTLS re addr radminPassword expectedFP dialCfg w =
     (case probeTLSLeafFingerprint re addr radminUser radminPassword dialCfg w of
        (w, probed) \<Rightarrow>
          if probed = Inr expectedFP then (w, None)
          else (case reloadTLSOn re addr radminUser radminPassword dialCfg w of
                  (w, Some e) \<Rightarrow> (w, Some (''reload tls: '' @ e))
                | (w, None) \<Rightarrow> verifyAttempts re 0 tlsVerifyAttempts addr radminPassword expectedFP dialCfg None w))"

section \<open>One pass\<close>

datatype rotError =
    RotGetSecret string string
  | RotPods string
  | RotLeaf string string
  | RotUnusableCA string
  | RotPending nat nat string

fun rotateEndpoints ::
  "('w, 'm) rotEnv_scheme \<Rightarrow> string \<Rightarrow> string \<Rightarrow> string \<Rightarrow> podEndpoint list \<Rightarrow> 'w \<Rightarrow> 'w \<times> string list" where
  "rotateEndpoints re pool expectedFP pass [] w = (w, [])"
| "rotateEndpoints re pool expectedFP pass (ep # eps) w =
     (case reloadAndVerifyTLS re (ep_Addr ep) pass expectedFP (pinnedTLSConfig re pool expectedFP (ep_ServerName ep)) w of
        (w, verr) \<Rightarrow>
          (case rotateEndpoints re pool expectedFP pass eps w of
             (w, failures) \<Rightarrow>
               (w, (case verr of None \<Rightarrow> failures | Some e \<Rightarrow> (ep_Addr ep @ '': '' @ e) # failures))))"

definition rotationPods :: "('w, 'm) rotEnv_scheme \<Rightarrow> ProxySQLCluster \<Rightarrow> Builder \<Rightarrow> 'w \<Rightarrow> string + podEndpoint list" where
  "rotationPods re cluster b w =
     discoverPodEndpoints (re_pods re w (clu_Namespace cluster) (clu_Name cluster)) (clu_Name cluster) (clu_Namespace cluster)
       (pt_Port (pts_Admin (cs_Protocols (b_Spec b))))"

definition keepRotation :: "stsAnnotations \<Rightarrow> tlsRotationOutcome" where
  "keepRotation cur = \<lparr>rot_applied = sta_tlsApplied cur, rot_state = sta_tlsRotationState cur,
     rot_restart = sta_tlsRestart cur, rot_summary = []\<rparr>"

text \<open>The part of \<open>resolveTLSRotation\<close> after the content was found to have moved.\<close>

definition rotateContent ::
  "('w, 'm) rotEnv_scheme \<Rightarrow> string \<Rightarrow> strmap \<Rightarrow> podEndpoint list \<Rightarrow> stsAnnotations \<Rightarrow> string \<Rightarrow> 'w
     \<Rightarrow> 'w \<times> tlsRotationOutcome \<times> rotError option" where
  "rotateContent re secretName data endpoints cur radminPassword w =
     (case LeafFingerprint re (mgetStr data tlsCertKey) of
        Inl e \<Rightarrow> (w, keepRotation cur, Some (RotLeaf secretName e))
      | Inr expectedFP \<Rightarrow>
          if \<not> re_usable re (mgetStr data tlsCAKey) then (w, keepRotation cur, Some (RotUnusableCA secretName))
          else
            let secretHash = tlsContentHash (re_sha re) data;
                start = parseTLSRotationState (re_parseTime re) (sta_tlsRotationState cur) secretHash (te_now re w) in
            (case rotateEndpoints re (mgetStr data tlsCAKey) expectedFP radminPassword endpoints w of
               (w, failures) \<Rightarrow>
                 if length failures = 0 then
                   (w, \<lparr>rot_applied = secretHash, rot_state = [], rot_restart = sta_tlsRestart cur,
                        rot_summary = ''RuntimeApplied: TLS certificate reloaded on '' @ itoa (int (length endpoints)) @ '' replica(s)''\<rparr>,
                    None)
                 else if te_now re w - start \<ge> tlsRotationWindow re then
                   (w, \<lparr>rot_applied = secretHash, rot_state = [], rot_restart = secretHash,
                        rot_summary = ''RestartRequired: TLS rotation fallback ('' @ joinTrunc failures 256 @ '')''\<rparr>,
                    None)
                 else
                   (w, \<lparr>rot_applied = sta_tlsApplied cur, rot_state = formatTLSRotationState secretHash start,
                        rot_restart = sta_tlsRestart cur, rot_summary = []\<rparr>,
                    Some (RotPending (length failures) (length endpoints) (joinTrunc failures 512)))))"

definition resolveTLSRotation ::
  "('w, 'm) rotEnv_scheme \<Rightarrow> ProxySQLCluster \<Rightarrow> Builder \<Rightarrow> bool \<Rightarrow> stsAnnotations \<Rightarrow> string \<Rightarrow> 'w
     \<Rightarrow> 'w \<times> tlsRotationOutcome \<times> rotError option" where
  "resolveTLSRotation re cluster b tlsReady cur radminPassword w =
     (if \<not> TLSEnabled (b_Spec b) then (w, \<lparr>rot_applied = [], rot_state = [], rot_restart = [], rot_summary = []\<rparr>, None)
      else if \<not> tlsReady then (w, keepRotation cur, None)
      else
        let secretName = tlsMountSecretName b in
        (case te_secret re w (b_Namespace b) secretName of
           Inl (NotFound _) \<Rightarrow> (w, keepRotation cur, None)
         | Inl (GetFailed e) \<Rightarrow> (w, keepRotation cur, Some (RotGetSecret secretName e))
         | Inr sec \<Rightarrow>
             let secretHash = tlsContentHash (re_sha re) (sec_Data sec) in
             (case classifyTLSRotation (sta_tlsApplied cur) secretHash of
                tlsVerdictRotate \<Rightarrow>
                  (case rotationPods re cluster b w of
                     Inl e \<Rightarrow> (w, keepRotation cur, Some (RotPods e))
                   | Inr endpoints \<Rightarrow>
                       if length endpoints = 0 then (w, keepRotation cur, None)
                       else rotateContent re secretName (sec_Data sec) endpoints cur radminPassword w)
              | _ \<Rightarrow> (w, \<lparr>rot_applied = secretHash, rot_state = [], rot_restart = sta_tlsRestart cur, rot_summary = []\<rparr>, None))))"

section \<open>The recorded window\<close>

text \<open>What is relied on of a digest: its text is not empty and has no \<open>@\<close>; SHA-256 in hexadecimal has
  64 characters out of 16.\<close>

definition hex_digest :: "digest \<Rightarrow> bool" where
  "hex_digest sha \<longleftrightarrow> (\<forall>x. sha x \<noteq> [] \<and> CHR ''@'' \<notin> set (sha x))"

definition in_calendar :: "int \<Rightarrow> bool" where
  "in_calendar t \<longleftrightarrow> 0 \<le> t \<and> t < year10000"

lemma parse_state:
  assumes "CHR ''@'' \<notin> set hash" "in_calendar t" "secFloor t \<le> now"
  shows "parseTLSRotationState other (formatTLSRotationState hash t) hash now = secFloor t"
proof -
  have "parseRFC3339 other (formatRFC3339 t) = Some (secFloor t)"
    using assms(2) parse_format [of t other] by (simp add: in_calendar_def secFloor_def epochDay_def)
  then show ?thesis
    using assms cutAt_append [of "CHR ''@''" hash "formatRFC3339 t"]
    by (simp add: parseTLSRotationState_def formatTLSRotationState_def)
qed

lemma secFloor_div: "secFloor t div 10 ^ 9 = t div 10 ^ 9"
proof -
  have "secFloor t = t div 10 ^ 9 * 10 ^ 9" unfolding secFloor_def by (simp only: minus_mod_eq_div_mult)
  then show ?thesis by simp
qed

lemma format_secFloor: "formatTLSRotationState hash (secFloor t) = formatTLSRotationState hash t"
  unfolding formatTLSRotationState_def formatRFC3339_def secFloor_div ..

section \<open>What an advanced marker means\<close>

text \<open>The worlds a pass goes through from a given one: pings, statements and waits.\<close>

inductive dialing :: "('w, 'm) rotEnv_scheme \<Rightarrow> 'w \<Rightarrow> 'w \<Rightarrow> bool" for re w where
  dialing_here: "dialing re w w"
| dialing_ping: "dialing re w v \<Longrightarrow> re_ping re addr user pass cfg v = (v', calls, err) \<Longrightarrow> dialing re w v'"
| dialing_exec: "dialing re w v \<Longrightarrow> re_exec re addr user pass cfg v q = (v', err) \<Longrightarrow> dialing re w v'"
| dialing_wait: "dialing re w v \<Longrightarrow> re_wait re v = (v', err) \<Longrightarrow> dialing re w v'"

lemma dialing_trans: "dialing re v u \<Longrightarrow> dialing re w v \<Longrightarrow> dialing re w u"
  by (induction rule: dialing.induct) (auto intro: dialing.intros)

lemma probe_dialing: "probeTLSLeafFingerprint re addr user pass cfg w = (w', r) \<Longrightarrow> dialing re w w'"
  by (auto simp: probeTLSLeafFingerprint_def Let_def split: option.splits prod.splits intro: dialing.intros)

lemma reloadTLSOn_dialing: "reloadTLSOn re addr user pass cfg w = (w', r) \<Longrightarrow> dialing re w w'"
  by (auto simp: reloadTLSOn_def ReloadTLS_def split: option.splits intro: dialing.intros)

lemma attempts_dialing: "verifyAttempts re a n addr pass fp cfg lastErr w = (w', r) \<Longrightarrow> dialing re w w'"
proof (induction re a n addr pass fp cfg lastErr w rule: verifyAttempts.induct)
  case (2 re a n addr pass fp cfg lastErr w)
  obtain w1 waited where w: "(if a > 0 then re_wait re w else (w, None)) = (w1, waited)" by fastforce
  obtain w2 probed where p: "probeTLSLeafFingerprint re addr radminUser pass cfg w1 = (w2, probed)" by fastforce
  have d1: "dialing re w w1" using w by (auto intro: dialing.intros split: if_splits)
  have d: "dialing re w w2" by (rule dialing_trans [OF probe_dialing [OF p] d1])
  show ?case
  proof (cases waited)
    case None
    note ih = 2(1) [OF w [symmetric] None p [symmetric]] 2(2) [OF w [symmetric] None p [symmetric]]
    show ?thesis
      using 2(3) w None p d ih dialing_trans by (cases probed) (auto split: if_splits)
  qed (use 2(3) w d1 in simp)
qed (simp add: dialing_here)

lemma reload_dialing: "reloadAndVerifyTLS re addr pass fp cfg w = (w', r) \<Longrightarrow> dialing re w w'"
  by (auto simp: reloadAndVerifyTLS_def split: prod.splits option.splits if_splits
      intro: dialing_trans dest!: probe_dialing reloadTLSOn_dialing attempts_dialing)

lemma rotate_dialing: "rotateEndpoints re pool fp pass eps w = (w', fs) \<Longrightarrow> dialing re w w'"
  by (induction eps arbitrary: w fs)
    (auto split: prod.splits intro: dialing_here dialing_trans dest!: reload_dialing)

text \<open>In a pass from a given world a replica presented a leaf with the given digest.\<close>

definition presented :: "('w, 'm) rotEnv_scheme \<Rightarrow> 'w \<Rightarrow> string \<Rightarrow> string \<Rightarrow> pinnedConfig \<Rightarrow> string \<Rightarrow> bool" where
  "presented re w addr pass cfg fp \<longleftrightarrow>
     (\<exists>v v' calls err leaf rest. dialing re w v \<and> re_ping re addr radminUser pass cfg v = (v', calls, err)
        \<and> leaf # rest \<in> set calls \<and> re_sha re leaf = fp)"

lemma presented_trans: "presented re v addr pass cfg fp \<Longrightarrow> dialing re w v \<Longrightarrow> presented re w addr pass cfg fp"
proof -
  assume p: "presented re v addr pass cfg fp" and d: "dialing re w v"
  from p obtain u u' calls err leaf rest where u: "dialing re v u" "re_ping re addr radminUser pass cfg u = (u', calls, err)"
    "leaf # rest \<in> set calls" "re_sha re leaf = fp" by (auto simp: presented_def)
  show ?thesis unfolding presented_def by (intro exI conjI, rule dialing_trans [OF u(1) d], rule u(2), rule u(3), rule u(4))
qed

lemma capture_presented:
  "capture sha calls = fp \<Longrightarrow> fp \<noteq> [] \<Longrightarrow> \<exists>leaf rest. leaf # rest \<in> set calls \<and> sha leaf = fp"
proof (induction calls rule: rev_induct)
  case (snoc c cs)
  then show ?case by (cases c) (auto simp: capture_def)
qed (simp add: capture_def)

lemma probe_presented:
  "probeTLSLeafFingerprint re addr radminUser pass cfg w = (w', Inr fp) \<Longrightarrow> fp \<noteq> [] \<Longrightarrow> presented re w addr pass cfg fp"
  using capture_presented [of "re_sha re" _ fp] dialing_here [of re w]
  by (fastforce simp: probeTLSLeafFingerprint_def presented_def Let_def split: option.splits prod.splits if_splits)

lemma attempts_presented:
  assumes "verifyAttempts re a n addr pass fp cfg lastErr w = (w', None)" and "fp \<noteq> []" and "lastErr \<noteq> None \<or> 0 < n"
  shows "presented re w addr pass cfg fp"
  using assms(1,3,2)
proof (induction re a n addr pass fp cfg lastErr w rule: verifyAttempts.induct)
  case (2 re a n addr pass fp cfg lastErr w)
  obtain w1 waited where w: "(if a > 0 then re_wait re w else (w, None)) = (w1, waited)" by fastforce
  obtain w2 probed where p: "probeTLSLeafFingerprint re addr radminUser pass cfg w1 = (w2, probed)" by fastforce
  have none: "waited = None" using 2(3) w by (cases waited) simp_all
  have d1: "dialing re w w1" using w by (auto intro: dialing.intros split: if_splits)
  have d2: "dialing re w w2" by (rule dialing_trans [OF probe_dialing [OF p] d1])
  note ih = 2(1) [OF w [symmetric] none p [symmetric]] 2(2) [OF w [symmetric] none p [symmetric]]
  show ?case
  proof (cases probed)
    case (Inl e)
    then show ?thesis using ih(1) [OF Inl] 2(3-) w none p by (intro presented_trans [OF _ d2]) simp
  next
    case (Inr f)
    show ?thesis
    proof (cases "f = fp")
      case True
      then show ?thesis using presented_trans [OF probe_presented d1] p Inr 2(5) by simp
    next
      case False
      then show ?thesis using ih(2) [OF Inr] 2(3-) w none p Inr by (intro presented_trans [OF _ d2]) simp
    qed
  qed
qed simp

lemma reload_presented:
  assumes "reloadAndVerifyTLS re addr pass fp cfg w = (w', None)" and "fp \<noteq> []"
  shows "presented re w addr pass cfg fp"
proof -
  obtain w1 probed where p: "probeTLSLeafFingerprint re addr radminUser pass cfg w = (w1, probed)" by fastforce
  show ?thesis
  proof (cases "probed = Inr fp")
    case False
    then obtain w2 where r: "reloadTLSOn re addr radminUser pass cfg w1 = (w2, None)"
      "verifyAttempts re 0 tlsVerifyAttempts addr pass fp cfg None w2 = (w', None)"
      using assms(1) p by (auto simp: reloadAndVerifyTLS_def split: prod.splits option.splits)
    have "dialing re w w2" by (rule dialing_trans [OF reloadTLSOn_dialing [OF r(1)] probe_dialing [OF p]])
    then show ?thesis
      using presented_trans attempts_presented [OF r(2) assms(2)] by (simp add: tlsVerifyAttempts_def)
  qed (use p probe_presented assms(2) in simp)
qed

lemma rotate_presented:
  assumes "rotateEndpoints re pool fp pass eps w = (w', [])" and "fp \<noteq> []" and "ep \<in> set eps"
  shows "presented re w (ep_Addr ep) pass (pinnedTLSConfig re pool fp (ep_ServerName ep)) fp"
  using assms(1,3)
proof (induction eps arbitrary: w)
  case (Cons e eps)
  then obtain w1 where e: "reloadAndVerifyTLS re (ep_Addr e) pass fp (pinnedTLSConfig re pool fp (ep_ServerName e)) w = (w1, None)"
    "rotateEndpoints re pool fp pass eps w1 = (w', [])"
    by (auto split: prod.splits option.splits)
  show ?case
  proof (cases "ep = e")
    case False
    then show ?thesis using presented_trans [OF Cons.IH [OF e(2)] reload_dialing [OF e(1)]] Cons.prems(2) by simp
  qed (use reload_presented [OF e(1) assms(2)] in simp)
qed simp

lemma LeafFingerprint_Inr: "LeafFingerprint re pem = Inr fp \<longleftrightarrow> (\<exists>der. re_pemDecode re pem = Some der \<and> fp = re_sha re der)"
  by (auto simp: LeafFingerprint_def split: option.splits)

text \<open>A pass over moved content leaves the marker, and the window open or as it was, or it advances the
  marker: verified on every replica, or with the restart in the same outcome.\<close>

lemma rotateContent_outcome:
  assumes "rotateContent re name data endpoints cur pass w = (w', out, err)"
  obtains (kept) e where "err = Some e" "out = keepRotation cur" "\<And>x y z. err \<noteq> Some (RotPending x y z)"
    | (pending) e where "err = Some e" "re_pemDecode re (mgetStr data tlsCertKey) \<noteq> None" "rot_applied out = sta_tlsApplied cur"
        "rot_restart out = sta_tlsRestart cur"
        "rot_state out = formatTLSRotationState (tlsContentHash (re_sha re) data)
           (parseTLSRotationState (re_parseTime re) (sta_tlsRotationState cur) (tlsContentHash (re_sha re) data) (te_now re w))"
    | (restarted) "err = None" "re_pemDecode re (mgetStr data tlsCertKey) \<noteq> None"
        "rot_applied out = tlsContentHash (re_sha re) data" "rot_restart out = rot_applied out" "rot_state out = []"
    | (verified) der where "err = None" "re_pemDecode re (mgetStr data tlsCertKey) = Some der"
        "rot_applied out = tlsContentHash (re_sha re) data" "rot_restart out = sta_tlsRestart cur" "rot_state out = []"
        "rotateEndpoints re (mgetStr data tlsCAKey) (re_sha re der) pass endpoints w = (w', [])"
proof (cases "re_pemDecode re (mgetStr data tlsCertKey)")
  case None
  then show ?thesis using assms kept by (auto simp: rotateContent_def LeafFingerprint_def)
next
  case (Some der)
  then have leaf: "LeafFingerprint re (mgetStr data tlsCertKey) = Inr (re_sha re der)" by (simp add: LeafFingerprint_def)
  obtain w1 failures where r: "rotateEndpoints re (mgetStr data tlsCAKey) (re_sha re der) pass endpoints w = (w1, failures)"
    by fastforce
  show ?thesis
  proof (cases "re_usable re (mgetStr data tlsCAKey)")
    case False
    then show ?thesis using assms kept leaf by (auto simp: rotateContent_def)
  next
    case True
    show ?thesis
    proof (cases "failures = []")
      case empty: True
      then show ?thesis using assms leaf r True Some by (intro verified [of der]) (auto simp: rotateContent_def Let_def)
    next
      case False
      then show ?thesis
        using assms leaf r True Some pending restarted
        by (auto simp: rotateContent_def Let_def split: if_splits)
    qed
  qed
qed

lemma rotation_cases:
  assumes "resolveTLSRotation re cluster b tlsReady cur pass w = (w', out, err)" and "TLSEnabled (b_Spec b)"
  obtains (kept) "out = keepRotation cur" "\<And>x y z. err \<noteq> Some (RotPending x y z)"
    | (settled) sec where "te_secret re w (b_Namespace b) (tlsMountSecretName b) = Inr sec"
        "sta_tlsApplied cur \<in> {[], tlsContentHash (re_sha re) (sec_Data sec)}"
        "rot_applied out = tlsContentHash (re_sha re) (sec_Data sec)" "err = None" "rot_state out = []"
    | (rotated) sec endpoints where "te_secret re w (b_Namespace b) (tlsMountSecretName b) = Inr sec"
        "sta_tlsApplied cur \<notin> {[], tlsContentHash (re_sha re) (sec_Data sec)}"
        "rotationPods re cluster b w = Inr endpoints" "endpoints \<noteq> []"
        "rotateContent re (tlsMountSecretName b) (sec_Data sec) endpoints cur pass w = (w', out, err)"
  using assms
  by (cases "sta_tlsApplied cur = []")
    (auto simp: resolveTLSRotation_def classifyTLSRotation_def Let_def
      split: if_splits sum.splits getError.splits intro: that)

text \<open>
  C9. Once a marker was recorded, a pass moves it only to the digest of the Secret as it read it, and
  only in one of two ways: every ready replica presented a leaf with the digest of the Secret's
  \<open>tls.crt\<close> to a ping of that pass, or the restart annotation of the pod template takes the same
  digest in the same outcome.
\<close>

theorem tls_marker_sound:
  assumes "resolveTLSRotation re cluster b tlsReady cur pass w = (w', out, err)"
    and "hex_digest (re_sha re)" and "TLSEnabled (b_Spec b)"
    and "sta_tlsApplied cur \<noteq> []" and "rot_applied out \<noteq> sta_tlsApplied cur"
  shows "\<exists>sec endpoints der. te_secret re w (b_Namespace b) (tlsMountSecretName b) = Inr sec
    \<and> rot_applied out = tlsContentHash (re_sha re) (sec_Data sec)
    \<and> rotationPods re cluster b w = Inr endpoints
    \<and> re_pemDecode re (mgetStr (sec_Data sec) tlsCertKey) = Some der
    \<and> (rot_restart out = rot_applied out
       \<or> (\<forall>ep \<in> set endpoints. presented re w (ep_Addr ep) pass
            (pinnedTLSConfig re (mgetStr (sec_Data sec) tlsCAKey) (re_sha re der) (ep_ServerName ep)) (re_sha re der)))"
  using assms(1,3)
proof (cases rule: rotation_cases)
  case (rotated sec endpoints)
  from rotated(5) show ?thesis
  proof (cases rule: rotateContent_outcome)
    case (verified der)
    have "presented re w (ep_Addr ep) pass
        (pinnedTLSConfig re (mgetStr (sec_Data sec) tlsCAKey) (re_sha re der) (ep_ServerName ep)) (re_sha re der)"
      if "ep \<in> set endpoints" for ep
      using rotate_presented [OF verified(6) _ that] assms(2) by (simp add: hex_digest_def)
    then show ?thesis using rotated verified by blast
  qed (use rotated assms(5) in \<open>auto simp: keepRotation_def\<close>)
qed (use assms(4,5) in \<open>auto simp: keepRotation_def\<close>)

section \<open>A rotation ends\<close>

text \<open>The clock does not run backwards while a replica is dialed.\<close>

definition clock_forward :: "('w, 'm) rotEnv_scheme \<Rightarrow> bool" where
  "clock_forward re \<longleftrightarrow>
     (\<forall>addr user pass cfg w q. te_now re w \<le> te_now re (fst (re_ping re addr user pass cfg w))
        \<and> te_now re w \<le> te_now re (fst (re_exec re addr user pass cfg w q)) \<and> te_now re w \<le> te_now re (fst (re_wait re w)))"

lemma dialing_time: "dialing re w v \<Longrightarrow> clock_forward re \<Longrightarrow> te_now re w \<le> te_now re v"
  by (induction rule: dialing.induct) (auto simp: clock_forward_def, (metis fst_conv order_trans)+)

text \<open>What a pass commits, and the passes that follow while the Secret has the same content.\<close>

definition committed :: "stsAnnotations \<Rightarrow> tlsRotationOutcome \<Rightarrow> stsAnnotations" where
  "committed cur out = cur\<lparr>sta_tlsApplied := rot_applied out, sta_tlsRotationState := rot_state out,
     sta_tlsRestart := rot_restart out\<rparr>"

inductive rotation_pass ::
  "('w, 'm) rotEnv_scheme \<Rightarrow> ProxySQLCluster \<Rightarrow> string \<Rightarrow> int \<Rightarrow> stsAnnotations \<Rightarrow> stsAnnotations \<Rightarrow> bool"
  for re cluster hash t0 where
  "TLSEnabled (b_Spec b) \<Longrightarrow> secFloor t0 \<le> te_now re w
     \<Longrightarrow> (\<And>sec. te_secret re w (b_Namespace b) (tlsMountSecretName b) = Inr sec
           \<Longrightarrow> tlsContentHash (re_sha re) (sec_Data sec) = hash)
     \<Longrightarrow> resolveTLSRotation re cluster b tlsReady cur pass w = (w', out, err)
     \<Longrightarrow> rotation_pass re cluster hash t0 cur (committed cur out)"

inductive_cases rotation_passE: "rotation_pass re cluster hash t0 cur cur'"

definition window_open :: "string \<Rightarrow> int \<Rightarrow> stsAnnotations \<Rightarrow> bool" where
  "window_open hash t0 cur \<longleftrightarrow> sta_tlsApplied cur \<notin> {[], hash} \<and> sta_tlsRotationState cur = formatTLSRotationState hash t0"

lemma window_pass:
  assumes "rotation_pass re cluster hash t0 cur cur'" and "hex_digest (re_sha re)" and "in_calendar t0"
    and "window_open hash t0 cur \<or> sta_tlsApplied cur = hash" and "\<exists>x. hash = re_sha re x"
  shows "window_open hash t0 cur' \<or> sta_tlsApplied cur' = hash"
proof -
  obtain b w tlsReady pass w' out err where 1: "cur' = committed cur out" "TLSEnabled (b_Spec b)" "secFloor t0 \<le> te_now re w"
    "\<And>sec. te_secret re w (b_Namespace b) (tlsMountSecretName b) = Inr sec \<Longrightarrow> tlsContentHash (re_sha re) (sec_Data sec) = hash"
    "resolveTLSRotation re cluster b tlsReady cur pass w = (w', out, err)"
    using assms(1) by (rule rotation_passE) blast
  have hash: "hash \<noteq> []" "CHR ''@'' \<notin> set hash" using assms(2,5) by (auto simp: hex_digest_def)
  from 1(5,2) show ?thesis
  proof (cases rule: rotation_cases)
    case kept
    then show ?thesis using assms(4) 1(1) by (auto simp: committed_def keepRotation_def window_open_def)
  next
    case (settled sec)
    then show ?thesis using 1(1,4) by (simp add: committed_def)
  next
    case (rotated sec endpoints)
    have h: "tlsContentHash (re_sha re) (sec_Data sec) = hash" using 1(4) rotated(1) by simp
    then have op: "window_open hash t0 cur" using assms(4) rotated(2) by auto
    from rotated(5) show ?thesis
    proof (cases rule: rotateContent_outcome)
      case (pending e)
      then have "rot_state out = formatTLSRotationState hash (secFloor t0)"
        using op parse_state [OF hash(2) assms(3) 1(3)] h by (simp add: window_open_def)
      then show ?thesis using op 1(1) pending by (simp add: committed_def window_open_def format_secFloor)
    qed (use op 1(1) h in \<open>auto simp: committed_def keepRotation_def window_open_def\<close>)
  qed
qed

lemma window_passes:
  assumes "(rotation_pass re cluster hash t0)\<^sup>*\<^sup>* cur cur'" and "hex_digest (re_sha re)" and "in_calendar t0"
    and "window_open hash t0 cur" and "\<exists>x. hash = re_sha re x"
  shows "window_open hash t0 cur' \<or> sta_tlsApplied cur' = hash"
  using assms(1)
proof induction
  case (step y z)
  then show ?case using window_pass assms by blast
qed (use assms(4) in simp)

lemma expired_closes:
  assumes "rotateContent re name data endpoints cur pass w = (w', out, err)"
    and "re_pemDecode re (mgetStr data tlsCertKey) \<noteq> None" and "re_usable re (mgetStr data tlsCAKey)"
    and "clock_forward re"
    and "parseTLSRotationState (re_parseTime re) (sta_tlsRotationState cur) (tlsContentHash (re_sha re) data) (te_now re w)
      + tlsRotationWindow re \<le> te_now re w"
  shows "err = None \<and> rot_applied out = tlsContentHash (re_sha re) data"
proof -
  obtain der where d: "re_pemDecode re (mgetStr data tlsCertKey) = Some der" using assms(2) by blast
  obtain w1 failures where r: "rotateEndpoints re (mgetStr data tlsCAKey) (re_sha re der) pass endpoints w = (w1, failures)"
    by fastforce
  have "te_now re w \<le> te_now re w1"
    using dialing_time [OF rotate_dialing [OF r] assms(4)] .
  then show ?thesis
    using assms(1,3,5) d r by (auto simp: rotateContent_def LeafFingerprint_def Let_def split: if_splits)
qed

text \<open>
  C10. A rotation does not stay pending: a pass that finds moved content and no window, and cannot
  verify every replica, opens one; whatever passes follow over the same content (replicas not
  ready, the Secret unreadable, the operator restarted), the first pass after the window that has
  the material and a ready replica ends it, verified or with a restart.
\<close>

theorem tls_rotation_ends:
  assumes "resolveTLSRotation re cluster b0 True cur0 pass0 w0 = (w0', out0, Some (RotPending nf ne txt))"
    and "sta_tlsRotationState cur0 = []"
    and "te_secret re w0 (b_Namespace b0) (tlsMountSecretName b0) = Inr sec0"
    and "tlsContentHash (re_sha re) (sec_Data sec0) = hash"
    and "(rotation_pass re cluster hash (te_now re w0))\<^sup>*\<^sup>* (committed cur0 out0) cur"
    and "resolveTLSRotation re cluster b True cur pass w = (w', out, err)"
    and "TLSEnabled (b_Spec b0)" and "TLSEnabled (b_Spec b)"
    and "te_secret re w (b_Namespace b) (tlsMountSecretName b) = Inr sec"
    and "tlsContentHash (re_sha re) (sec_Data sec) = hash"
    and "rotationPods re cluster b w = Inr (ep # eps)"
    and "re_pemDecode re (mgetStr (sec_Data sec) tlsCertKey) \<noteq> None" and "re_usable re (mgetStr (sec_Data sec) tlsCAKey)"
    and "te_now re w0 + tlsRotationWindow re \<le> te_now re w"
    and "hex_digest (re_sha re)" and "clock_forward re" and "in_calendar (te_now re w0)"
  shows "err = None \<and> rot_applied out = hash"
proof -
  let ?t0 = "te_now re w0"
  have hash: "\<exists>x. hash = re_sha re x" using assms(4) by (auto simp: tlsContentHash_def)
  then have at: "CHR ''@'' \<notin> set hash" using assms(15) by (auto simp: hex_digest_def)
  have "window_open hash ?t0 (committed cur0 out0)"
    using assms(1,7)
  proof (cases rule: rotation_cases)
    case (rotated s endpoints)
    have "s = sec0" using rotated(1) assms(3) by simp
    from rotated(5) show ?thesis
    proof (cases rule: rotateContent_outcome)
      case (pending e)
      then show ?thesis using rotated(2) assms(2,4) \<open>s = sec0\<close>
        by (simp add: window_open_def committed_def parseTLSRotationState_def)
    qed blast+
  qed blast+
  then have "window_open hash ?t0 cur \<or> sta_tlsApplied cur = hash"
    using window_passes [OF assms(5,15,17) _ hash] by blast
  then show ?thesis
  proof
    assume "sta_tlsApplied cur = hash"
    then show ?thesis
      using assms(6,8,9,10) hash assms(15)
      by (auto simp: resolveTLSRotation_def classifyTLSRotation_def Let_def hex_digest_def)
  next
    assume op: "window_open hash ?t0 cur"
    have late: "secFloor ?t0 + tlsRotationWindow re \<le> te_now re w" "secFloor ?t0 \<le> te_now re w"
      using assms(14) secFloor_bounds(1) [of ?t0] by (auto simp: tlsRotationWindow_def defaultTLSRotationWindow_def split: if_splits)
    have "rotateContent re (tlsMountSecretName b) (sec_Data sec) (ep # eps) cur pass w = (w', out, err)"
      using assms(6,8-11) op
      by (simp add: resolveTLSRotation_def classifyTLSRotation_def Let_def window_open_def)
    then show ?thesis
      using expired_closes [OF _ assms(12,13,16)] parse_state [OF at assms(17) late(2)] op late(1) assms(10)
      by (simp add: window_open_def)
  qed
qed

section \<open>A small world\<close>

text \<open>A clock, the pods, the leaf every address serves, the Secret, and whether a reload takes effect.\<close>

record exampleWorld =
  xw_now :: int
  xw_pods :: "pod list"
  xw_leaf :: strmap
  xw_secret :: strmap
  xw_reloads :: bool

definition exSha :: digest where
  "exSha x = CHR ''d'' # filter (\<lambda>c. c \<noteq> CHR ''@'') x"

definition exampleRot :: "exampleWorld rotEnv" where
  "exampleRot =
     \<lparr>te_now = xw_now, te_secret = (\<lambda>w ns n. Inr ((freshSecret n ns)\<lparr>sec_Data := xw_secret w\<rparr>)),
      te_statefulSet = (\<lambda>_ _ _. Inl (NotFound ''statefulset'')), te_certificate = (\<lambda>_ _ _. Inl (NotFound ''certificate'')),
      te_upsertSecret = (\<lambda>ns n f. f (freshSecret n ns)), te_upsertCertificate = (\<lambda>_ _ _ w. (w, Some ''no cert-manager'')),
      te_deleteCertificate = (\<lambda>_ _ w. (w, None)), te_claim = (\<lambda>c _. Inr (Some (clu_UID c))),
      te_sign = (\<lambda>_ _ w. (w, Inl ''no key'')), te_parseCert = (\<lambda>_. Inl ''none''), te_parseKey = (\<lambda>_. None), te_parseIP = (\<lambda>_. None),
      re_sha = exSha, re_pods = (\<lambda>w _ _. Inr (xw_pods w)), re_pemDecode = Some, re_usable = (\<lambda>_. True),
      re_parseDER = (\<lambda>_. None), re_verify = (\<lambda>_ _ _ _. None), re_quote = (\<lambda>s. s), re_new = (\<lambda>_ _ _. None),
      re_ping = (\<lambda>addr _ _ cfg w. (w, [[mgetStr (xw_leaf w) addr]], pin_Verify cfg [mgetStr (xw_leaf w) addr])),
      re_exec = (\<lambda>addr _ _ _ w q.
        (if xw_reloads w then w\<lparr>xw_leaf := mput addr (mgetStr (xw_secret w) tlsCertKey) (xw_leaf w)\<rparr> else w, None)),
      re_wait = (\<lambda>w. (w, None)), re_parseTime = (\<lambda>_. None), re_TLSRotationWindow = 0\<rparr>"

definition examplePod :: "string \<Rightarrow> bool \<Rightarrow> pod" where
  "examplePod n ready = \<lparr>pod_Name = n, pod_IP = n, pod_Deleting = False,
     pod_Conditions = [\<lparr>pc_Type = ''Ready'', pc_Status = (if ready then ''True'' else ''False'')\<rparr>]\<rparr>"

definition exampleMaterial :: "string \<Rightarrow> strmap" where
  "exampleMaterial crt = [(tlsCertKey, crt), (tlsPrivateKey, ''k''), (tlsCAKey, ''a'')]"

definition exampleRotWorld :: "int \<Rightarrow> pod list \<Rightarrow> bool \<Rightarrow> exampleWorld" where
  "exampleRotWorld now pods reloads = \<lparr>xw_now = now, xw_pods = pods,
     xw_leaf = [(''a:6032'', ''old''), (''b:6032'', ''old'')], xw_secret = exampleMaterial ''new'', xw_reloads = reloads\<rparr>"

definition exampleMarkers :: stsAnnotations where
  "exampleMarkers = \<lparr>sta_cnfChecksum = ''c'', sta_varsApplied = [], sta_structuralApplied = [], sta_tlsApplied = ''old'',
     sta_tlsRotationState = [], sta_tlsRestart = []\<rparr>"

lemma exampleRot_laws: "hex_digest (re_sha exampleRot)" "clock_forward exampleRot"
  by (simp_all add: hex_digest_def exampleRot_def exSha_def clock_forward_def)

lemma exampleRot_sel [simp]:
  "re_sha exampleRot = exSha" "te_now exampleRot = xw_now" "re_parseTime exampleRot = (\<lambda>_. None)"
  "te_secret exampleRot w ns n = Inr ((freshSecret n ns)\<lparr>sec_Data := xw_secret w\<rparr>)"
  "tlsRotationWindow exampleRot = defaultTLSRotationWindow" "LeafFingerprint exampleRot pem = Inr (exSha pem)"
  "re_usable exampleRot x" "re_pemDecode exampleRot x = Some x" "re_new exampleRot a u p = None" "re_wait exampleRot w = (w, None)"
  "re_exec exampleRot addr u p cfg w q =
     (if xw_reloads w then w\<lparr>xw_leaf := mput addr (mgetStr (xw_secret w) tlsCertKey) (xw_leaf w)\<rparr> else w, None)"
  by (simp_all add: exampleRot_def tlsRotationWindow_def LeafFingerprint_def)

lemma exampleMaterial_get [simp]: "mgetStr (exampleMaterial crt) tlsCertKey = crt" "mgetStr (exampleMaterial crt) tlsCAKey = ''a''"
  by (simp_all add: exampleMaterial_def mgetStr_def tlsCertKey_def tlsCAKey_def tlsPrivateKey_def)

lemma exSha_simps [simp]: "exSha x \<noteq> []" "exSha ''old'' \<noteq> exSha ''new''" "''old'' \<noteq> exSha x" "exSha x \<noteq> ''old''"
  by (simp_all add: exSha_def)

lemma exampleTLS_enabled: "TLSEnabled (b_Spec exampleTLSBuilder)" "pt_Port (pts_Admin (cs_Protocols (b_Spec exampleTLSBuilder))) = 6032"
  by (simp_all add: TLSEnabled_def exampleTLS_spec defaultTLS_def plainTLS_def Let_def)
    (simp add: exampleTLSBuilder_def New_def DefaultedSpec_def Let_def defaultProtocols_alt
      listenerDefaults_def orPort_def DefaultAdminPort_def zeroClusterSpec_def)

lemma example_probe:
  "probeTLSLeafFingerprint exampleRot addr user pass cfg w = (w, Inr (exSha (mgetStr (xw_leaf w) addr)))"
  by (simp add: probeTLSLeafFingerprint_def) (simp add: exampleRot_def capture_def Let_def split: option.split)

lemma example_reload:
  "mgetStr (xw_secret w) tlsCertKey = ''new'' \<Longrightarrow> mgetStr (xw_leaf w) addr = ''old'' \<Longrightarrow>
   reloadAndVerifyTLS exampleRot addr pass (exSha ''new'') cfg w =
     (if xw_reloads w then (w\<lparr>xw_leaf := mput addr ''new'' (xw_leaf w)\<rparr>, None)
      else (w, Some (''still serving certificate '' @ clipped (exSha ''old'') @ '' (want '' @ clipped (exSha ''new'') @ '')'')))"
  by (cases "xw_reloads w")
    (simp_all add: reloadAndVerifyTLS_def example_probe tlsVerifyAttempts_def reloadTLSOn_def ReloadTLS_def numeral_eq_Suc
      mgetStr_def [of "mput _ _ _"] go_map)

definition exampleEp :: "string \<Rightarrow> podEndpoint" where
  "exampleEp n = \<lparr>ep_Pod = n, ep_Addr = n @ '':6032'', ep_ServerName = podDNSName n (clu_Name exampleCluster) (clu_Namespace exampleCluster)\<rparr>"

lemma example_pods:
  "rotationPods exampleRot exampleCluster exampleTLSBuilder (exampleRotWorld now [examplePod ''a'' False, examplePod ''b'' True] r)
     = Inr [exampleEp ''b'']"
proof -
  have "itoa 6032 = ''6032''" by (simp add: itoa_def nat_digits.simps digit_char_def)
  then show ?thesis
    by (simp add: rotationPods_def exampleTLS_enabled exampleRotWorld_def discoverPodEndpoints_def examplePod_def isPodReady_def
        map_filter_simps exampleEp_def exampleRot_def)
qed

text \<open>One pass over a replica that is ready and one that is not.\<close>

lemma example_pass:
  assumes "sta_tlsApplied cur = ''old''"
  shows "resolveTLSRotation exampleRot exampleCluster exampleTLSBuilder True cur pass
      (exampleRotWorld now [examplePod ''a'' False, examplePod ''b'' True] reloads) =
    rotateContent exampleRot (tlsMountSecretName exampleTLSBuilder) (exampleMaterial ''new'') [exampleEp ''b''] cur pass
      (exampleRotWorld now [examplePod ''a'' False, examplePod ''b'' True] reloads)"
  using assms
  by (simp add: resolveTLSRotation_def exampleTLS_enabled classifyTLSRotation_def example_pods Let_def tlsContentHash_def)
    (simp add: exampleRotWorld_def)

lemma example_rotate:
  "rotateEndpoints exampleRot pool (exSha ''new'') pass [exampleEp ''b''] (exampleRotWorld now pods reloads) =
    (if reloads then ((exampleRotWorld now pods reloads)\<lparr>xw_leaf := [(''a:6032'', ''old''), (''b:6032'', ''new'')]\<rparr>, [])
     else (exampleRotWorld now pods reloads,
       [''b:6032: still serving certificate '' @ clipped (exSha ''old'') @ '' (want '' @ clipped (exSha ''new'') @ '')'']))"
proof -
  have "mgetStr (xw_secret (exampleRotWorld now pods reloads)) tlsCertKey = ''new''"
    "mgetStr (xw_leaf (exampleRotWorld now pods reloads)) ''b:6032'' = ''old''"
    by (simp add: exampleRotWorld_def) (simp add: exampleRotWorld_def mgetStr_def)
  note r = example_reload [OF this]
  have "mput ''b:6032'' ''new'' (xw_leaf (exampleRotWorld now pods r)) = [(''a:6032'', ''old''), (''b:6032'', ''new'')]"
    "xw_reloads (exampleRotWorld now pods r) = r" for r
    by (simp_all add: exampleRotWorld_def)
  then show ?thesis by (simp add: exampleEp_def r)
qed

lemma example_verified:
  "\<exists>out. resolveTLSRotation exampleRot exampleCluster exampleTLSBuilder True exampleMarkers ''pw''
        (exampleRotWorld 0 [examplePod ''a'' False, examplePod ''b'' True] True) =
      ((exampleRotWorld 0 [examplePod ''a'' False, examplePod ''b'' True] True)
         \<lparr>xw_leaf := [(''a:6032'', ''old''), (''b:6032'', ''new'')]\<rparr>, out, None)
     \<and> rot_restart out = [] \<and> rot_applied out = tlsContentHash exSha (exampleMaterial ''new'')"
proof -
  have m: "sta_tlsApplied exampleMarkers = ''old''" "sta_tlsRestart exampleMarkers = []" by (simp_all add: exampleMarkers_def)
  show ?thesis by (simp add: example_pass [OF m(1)] rotateContent_def example_rotate Let_def m del: rotateEndpoints.simps)
qed

theorem tls_marker_sound_witness:
  "\<exists>out. resolveTLSRotation exampleRot exampleCluster exampleTLSBuilder True exampleMarkers ''pw''
        (exampleRotWorld 0 [examplePod ''a'' False, examplePod ''b'' True] True) =
      ((exampleRotWorld 0 [examplePod ''a'' False, examplePod ''b'' True] True)
         \<lparr>xw_leaf := [(''a:6032'', ''old''), (''b:6032'', ''new'')]\<rparr>, out, None)
     \<and> rot_restart out = [] \<and>
     presented exampleRot (exampleRotWorld 0 [examplePod ''a'' False, examplePod ''b'' True] True) ''b:6032'' ''pw''
       (pinnedTLSConfig exampleRot ''a'' (exSha ''new'') (ep_ServerName (exampleEp ''b''))) (exSha ''new'')"
proof -
  let ?w = "exampleRotWorld 0 [examplePod ''a'' False, examplePod ''b'' True] True"
  let ?w' = "?w\<lparr>xw_leaf := [(''a:6032'', ''old''), (''b:6032'', ''new'')]\<rparr>"
  have m: "sta_tlsApplied exampleMarkers = ''old''" by (simp add: exampleMarkers_def)
  obtain out where run: "resolveTLSRotation exampleRot exampleCluster exampleTLSBuilder True exampleMarkers ''pw'' ?w = (?w', out, None)"
    and out: "rot_restart out = []" "rot_applied out = tlsContentHash exSha (exampleMaterial ''new'')"
    using example_verified by auto
  have new: "rot_applied out \<noteq> sta_tlsApplied exampleMarkers" "rot_applied out \<noteq> []"
    unfolding out(2) m tlsContentHash_def by simp_all
  have "xw_secret ?w = exampleMaterial ''new''" by (simp add: exampleRotWorld_def)
  then have "presented exampleRot ?w (ep_Addr (exampleEp ''b'')) ''pw''
       (pinnedTLSConfig exampleRot ''a'' (exSha ''new'') (ep_ServerName (exampleEp ''b''))) (exSha ''new'')"
    using tls_marker_sound [OF run exampleRot_laws(1) exampleTLS_enabled(1) _ new(1)] m out new(2)
    by (auto simp: example_pods)
  then show ?thesis using run out(1) by (simp add: exampleEp_def)
qed

theorem tls_rotation_ends_witness:
  "\<exists>w0 out0 cur w' out.
     resolveTLSRotation exampleRot exampleCluster exampleTLSBuilder True exampleMarkers ''pw''
       (exampleRotWorld 0 [examplePod ''a'' False, examplePod ''b'' True] False) = (w0, out0, cur)
     \<and> cur \<noteq> None
     \<and> resolveTLSRotation exampleRot exampleCluster exampleTLSBuilder True (committed exampleMarkers out0) ''pw''
       (exampleRotWorld defaultTLSRotationWindow [examplePod ''a'' False, examplePod ''b'' True] False) = (w', out, None)
     \<and> rot_applied out = tlsContentHash exSha (exampleMaterial ''new'')"
proof -
  let ?w = "\<lambda>t. exampleRotWorld t [examplePod ''a'' False, examplePod ''b'' True] False"
  have m: "sta_tlsApplied exampleMarkers = ''old''" "sta_tlsRotationState exampleMarkers = []" by (simp_all add: exampleMarkers_def)
  have now: "xw_now (?w t) = t" "xw_secret (?w t) = exampleMaterial ''new''" for t by (simp_all add: exampleRotWorld_def)
  obtain out0 msg where run0: "resolveTLSRotation exampleRot exampleCluster exampleTLSBuilder True exampleMarkers ''pw'' (?w 0)
      = (?w 0, out0, Some (RotPending 1 1 msg))"
    using example_pass [OF m(1), of "''pw''" 0 False]
    by (simp add: rotateContent_def example_rotate Let_def now m(2) parseTLSRotationState_def defaultTLSRotationWindow_def
        del: rotateEndpoints.simps)
  obtain w' out err where run: "resolveTLSRotation exampleRot exampleCluster exampleTLSBuilder True (committed exampleMarkers out0) ''pw''
      (?w defaultTLSRotationWindow) = (w', out, err)" by (metis prod_cases3)
  have "in_calendar 0" by (simp add: in_calendar_def year10000_def epochDay_def yearStart_def)
  moreover have sec: "te_secret exampleRot (?w t) ns n = Inr ((freshSecret n ns)\<lparr>sec_Data := exampleMaterial ''new''\<rparr>)" for t ns n
    by (simp add: now)
  ultimately have "err = None \<and> rot_applied out = tlsContentHash exSha (exampleMaterial ''new'')"
    by (intro tls_rotation_ends [OF run0 m(2) sec _ rtranclp.rtrancl_refl run exampleTLS_enabled(1) exampleTLS_enabled(1) sec _
          example_pods _ _ _ exampleRot_laws]) (simp_all add: now)
  then show ?thesis using run0 run by blast
qed


end
