(* ===== verification/ServiceBuilders.thy ===== *)
theory ServiceBuilders
  imports PodTemplate
begin

text \<open>
  The builders of the other owned objects: \<open>builders/service.go\<close>, \<open>external_service.go\<close>, \<open>pdb.go\<close>,
  \<open>endpoints.go\<close>, \<open>servicemonitor.go\<close> and \<open>secret.go\<close>.
\<close>

section \<open>Services\<close>

definition servicePort :: "string \<Rightarrow> int \<Rightarrow> ServicePort" where
  "servicePort name port = \<lparr>svp_Name = name, svp_Port = port, svp_TargetPort = name, svp_Protocol = ''TCP'', svp_NodePort = 0\<rparr>"

definition mysqlServicePort :: "Builder \<Rightarrow> ServicePort" where
  "mysqlServicePort b = servicePort ''mysql'' (pt_Port (pts_MySQL (cs_Protocols (b_Spec b))))"

definition pgsqlServicePort :: "Builder \<Rightarrow> ServicePort" where
  "pgsqlServicePort b = servicePort ''pgsql'' (pt_Port (pts_PostgreSQL (cs_Protocols (b_Spec b))))"

definition adminServicePort :: "Builder \<Rightarrow> ServicePort" where
  "adminServicePort b = servicePort ''admin'' (pt_Port (pts_Admin (cs_Protocols (b_Spec b))))"

definition metricsServicePort :: "Builder \<Rightarrow> ServicePort" where
  "metricsServicePort b = servicePort ''metrics'' (me_Port (cs_Metrics (b_Spec b)))"

definition webServicePort :: "Builder \<Rightarrow> ServicePort" where
  "webServicePort b = servicePort ''web'' (pt_Port (pts_Web (cs_Protocols (b_Spec b))))"

definition servicePorts :: "Builder \<Rightarrow> bool \<Rightarrow> ServicePort list" where
  "servicePorts b headless =
     (let p = cs_Protocols (b_Spec b) in
      (if IsEnabled (pts_MySQL p) then [mysqlServicePort b] else [])
      @ (if IsEnabled (pts_PostgreSQL p) then [pgsqlServicePort b] else [])
      @ [adminServicePort b]
      @ (if \<not> headless \<and> isTrue (me_Enabled (cs_Metrics (b_Spec b))) then [metricsServicePort b] else [])
      @ (if \<not> headless \<and> IsEnabled (pts_Web p) then [webServicePort b] else []))"

definition mainServiceType :: "ProxySQLClusterSpec \<Rightarrow> string" where
  "mainServiceType spec = orText (sv_Type (cs_Service spec)) ''ClusterIP''"

definition ServiceOf :: "Builder \<Rightarrow> Service" where
  "ServiceOf b =
     (let spec = zeroSvcSpec\<lparr>svs_Type := mainServiceType (b_Spec b), svs_Selector := SelectorLabels b,
                   svs_Ports := servicePorts b False\<rparr>;
          spec = (case sv_SessionAffinityTimeoutSeconds (cs_Service (b_Spec b)) of
                    Some t \<Rightarrow> spec\<lparr>svs_SessionAffinity := ''ClientIP'', svs_AffinityTimeout := Some t\<rparr> | None \<Rightarrow> spec)
      in (freshService (b_Name b) (b_Namespace b))\<lparr>svc_Labels := Labels b,
           svc_Annotations := sv_Annotations (cs_Service (b_Spec b)), svc_Spec := spec\<rparr>)"

definition HeadlessService :: "Builder \<Rightarrow> Service" where
  "HeadlessService b =
     (freshService (HeadlessName b) (b_Namespace b))\<lparr>svc_Labels := Labels b,
       svc_Spec := zeroSvcSpec\<lparr>svs_Type := ''ClusterIP'', svs_ClusterIP := ''None'', svs_PublishNotReady := True,
         svs_Selector := SelectorLabels b, svs_Ports := servicePorts b True\<rparr>\<rparr>"

definition ExternalName :: "Builder \<Rightarrow> string" where
  "ExternalName b = b_Name b @ ''-external''"

definition externalServiceType :: "ExternalServiceSpec \<Rightarrow> string" where
  "externalServiceType ext = orText (xs_Type ext) ''LoadBalancer''"

definition externalNodePort :: "ExternalServiceSpec \<Rightarrow> string \<Rightarrow> int" where
  "externalNodePort ext key = (case mget (xs_Ports ext) key of Some p \<Rightarrow> xp_NodePort p | None \<Rightarrow> 0)"

definition externalSelected :: "ExternalServiceSpec \<Rightarrow> string \<Rightarrow> bool \<Rightarrow> bool \<Rightarrow> bool" where
  "externalSelected ext key enabled inDefaultSet \<longleftrightarrow>
     enabled \<and> (if length (xs_Ports ext) = 0 then inDefaultSet else mget (xs_Ports ext) key \<noteq> None)"

definition externalServicePorts :: "Builder \<Rightarrow> ExternalServiceSpec \<Rightarrow> ServicePort list" where
  "externalServicePorts b ext =
     (let p = cs_Protocols (b_Spec b);
          add = (\<lambda>key enabled inDefault port. if externalSelected ext key enabled inDefault
                   then [port\<lparr>svp_NodePort := externalNodePort ext key\<rparr>] else []) in
      add ''mysql'' (IsEnabled (pts_MySQL p)) True (mysqlServicePort b)
      @ add ''pgsql'' (IsEnabled (pts_PostgreSQL p)) True (pgsqlServicePort b)
      @ add ''web'' (IsEnabled (pts_Web p)) False (webServicePort b)
      @ add ''metrics'' (isTrue (me_Enabled (cs_Metrics (b_Spec b)))) False (metricsServicePort b)
      @ (if xs_ExposeAdmin ext then [adminServicePort b] else []))"

definition ExternalService :: "Builder \<Rightarrow> Service option" where
  "ExternalService b =
     (case sv_External (cs_Service (b_Spec b)) of
        None \<Rightarrow> None
      | Some ext \<Rightarrow>
          if \<not> xs_Enabled ext then None
          else
            let spec = zeroSvcSpec\<lparr>svs_Type := externalServiceType ext, svs_Selector := SelectorLabels b,
                  svs_Ports := externalServicePorts b ext, svs_ExternalTrafficPolicy := xs_ExternalTrafficPolicy ext,
                  svs_InternalTrafficPolicy := xs_InternalTrafficPolicy ext, svs_IPFamilyPolicy := xs_IPFamilyPolicy ext,
                  svs_IPFamilies := xs_IPFamilies ext\<rparr>;
                spec = (if svs_Type spec = ''LoadBalancer''
                  then spec\<lparr>svs_LoadBalancerClass := xs_LoadBalancerClass ext, svs_SourceRanges := xs_LoadBalancerSourceRanges ext,
                         svs_HealthCheckNodePort := xs_HealthCheckNodePort ext,
                         svs_AllocateNodePorts := orSet (xs_AllocateLoadBalancerNodePorts ext) True\<rparr>
                  else spec)
            in Some ((freshService (ExternalName b) (b_Namespace b))\<lparr>svc_Labels := Labels b,
                 svc_Annotations := xs_Annotations ext, svc_Spec := spec\<rparr>))"

section \<open>The disruption budget, endpoints, monitoring, and the auth Secret\<close>

text \<open>The default budget is the decimal text of the number of replicas minus one.\<close>

definition PodDisruptionBudgetOf :: "Builder \<Rightarrow> PodDisruptionBudget option" where
  "PodDisruptionBudgetOf b =
     (let pd = cs_PodDisruptionBudget (b_Spec b) in
      if \<not> isTrue (pd_Enabled pd) then None
      else (case cs_Replicas (b_Spec b) of
        None \<Rightarrow> None
      | Some n \<Rightarrow>
          if n \<le> 1 then None
          else
            let pdb = (freshPDB (b_Name b) (b_Namespace b))\<lparr>db_Labels := Labels b, db_Selector := Some (SelectorLabels b)\<rparr> in
            Some (if pd_MinAvailable pd \<noteq> None then pdb\<lparr>db_MinAvailable := pd_MinAvailable pd\<rparr>
                  else if pd_MaxUnavailable pd \<noteq> None then pdb\<lparr>db_MaxUnavailable := pd_MaxUnavailable pd\<rparr>
                  else pdb\<lparr>db_MinAvailable := Some (itoa (n - 1))\<rparr>)))"

definition Endpoints :: "Builder \<Rightarrow> ClusterEndpoints" where
  "Endpoints b =
     (let host = b_Name b @ ''.'' @ b_Namespace b @ ''.svc''; p = cs_Protocols (b_Spec b); m = cs_Metrics (b_Spec b);
          at = (\<lambda>port. host @ '':'' @ itoa port) in
      \<lparr>ept_MySQL = (if IsEnabled (pts_MySQL p) then at (pt_Port (pts_MySQL p)) else []),
       ept_PostgreSQL = (if IsEnabled (pts_PostgreSQL p) then at (pt_Port (pts_PostgreSQL p)) else []),
       ept_Admin = at (pt_Port (pts_Admin p)),
       ept_Web = (if IsEnabled (pts_Web p) then at (pt_Port (pts_Web p)) else []),
       ept_Metrics = (if isTrue (me_Enabled m) then at (me_Port m) else []),
       ept_External = []\<rparr>)"

definition ServiceMonitor :: "Builder \<Rightarrow> ServiceMonitorBody Unstructured option" where
  "ServiceMonitor b =
     (let m = cs_Metrics (b_Spec b); sm = me_ServiceMonitor m in
      if \<not> isTrue (me_Enabled m) \<or> \<not> sm_Enabled sm then None
      else Some \<lparr>un_Name = b_Name b, un_Namespace = b_Namespace b, un_Labels = mcopy (Labels b) (sm_Labels sm),
        un_Owner = None,
        un_Spec = \<lparr>smb_Selector = SelectorLabels b, smb_Port = ''metrics'', smb_Path = ''/metrics'',
          smb_Interval = orText (sm_Interval sm) ''30s'', smb_ScrapeTimeout = orText (sm_ScrapeTimeout sm) ''10s''\<rparr>\<rparr>)"

text \<open>\<open>hex.EncodeToString\<close> of sixteen random bytes.\<close>

definition hexDigit :: "nat \<Rightarrow> char" where
  "hexDigit n = ''0123456789abcdef'' ! n"

definition hexEncode :: "string \<Rightarrow> string" where
  "hexEncode bs = concat (map (\<lambda>c. [hexDigit (code c div 16), hexDigit (code c mod 16)]) bs)"

definition RandomPassword :: "string + string \<Rightarrow> string + string" where
  "RandomPassword read = (case read of Inl e \<Rightarrow> Inl (''read random: '' @ e) | Inr bytes \<Rightarrow> Inr (hexEncode bytes))"

definition AuthSecret :: "Builder \<Rightarrow> Secret" where
  "AuthSecret b =
     (let keys = SecretKeys b in
      (freshSecret (SecretName b) (b_Namespace b))\<lparr>sec_Labels := Labels b, sec_Type := ''Opaque'',
        sec_Data := mcopy [] [(ky_AdminPassword keys, pw_Admin (b_Pw b)), (ky_RadminPassword keys, pw_Radmin (b_Pw b)),
          (ky_MonitorPassword keys, pw_Monitor (b_Pw b))]\<rparr>)"

section \<open>Exposure\<close>

definition port_names :: "ServicePort list \<Rightarrow> string set" where
  "port_names ps = set (map svp_TargetPort ps)"

lemma port_names_simps [simp]:
  "port_names [] = {}" "port_names (p # ps) = insert (svp_TargetPort p) (port_names ps)"
  "port_names (ps @ qs) = port_names ps \<union> port_names qs"
  by (auto simp: port_names_def)

lemma targets [simp]:
  "svp_TargetPort (mysqlServicePort b) = ''mysql''" "svp_TargetPort (pgsqlServicePort b) = ''pgsql''"
  "svp_TargetPort (adminServicePort b) = ''admin''" "svp_TargetPort (metricsServicePort b) = ''metrics''"
  "svp_TargetPort (webServicePort b) = ''web''"
  by (simp_all add: mysqlServicePort_def pgsqlServicePort_def adminServicePort_def metricsServicePort_def
      webServicePort_def servicePort_def)

lemma port_names_if: "port_names (if c then ps else qs) = (if c then port_names ps else port_names qs)"
  by simp

lemma containerPort_names:
  "set (map cpo_Name (containerPorts b)) = {''admin''}
     \<union> (if IsEnabled (pts_MySQL (cs_Protocols (b_Spec b))) then {''mysql''} else {})
     \<union> (if IsEnabled (pts_PostgreSQL (cs_Protocols (b_Spec b))) then {''pgsql''} else {})
     \<union> (if isTrue (me_Enabled (cs_Metrics (b_Spec b))) then {''metrics''} else {})
     \<union> (if IsEnabled (pts_Web (cs_Protocols (b_Spec b))) then {''web''} else {})"
  by (simp add: containerPorts_def Let_def tcpPort_def)

text \<open>Every Service routes to named ports of the proxysql container.\<close>

lemma service_targets_exist:
  "port_names (servicePorts b h) \<subseteq> set (map cpo_Name (containerPorts b))"
  "port_names (externalServicePorts b ext) \<subseteq> set (map cpo_Name (containerPorts b))"
  unfolding containerPort_names servicePorts_def externalServicePorts_def externalSelected_def Let_def port_names_simps port_names_if
  by (intro Un_least; simp)+

text \<open>The admin port leaves the cluster only when it is asked for.\<close>

lemma admin_not_exposed:
  "''admin'' \<in> port_names (externalServicePorts b ext) \<longleftrightarrow> xs_ExposeAdmin ext"
  unfolding externalServicePorts_def Let_def port_names_simps port_names_if by simp

text \<open>A minted password is of 32 characters that the bootstrap file accepts.\<close>

lemma hexDigit_ok: "n < 16 \<Longrightarrow> password_char (hexDigit n)"
proof -
  assume "n < 16"
  then have "hexDigit n \<in> set ''0123456789abcdef''" unfolding hexDigit_def by (intro nth_mem) simp
  then show ?thesis by (auto simp: password_char_def)
qed

lemma hexEncode_ok: "length (hexEncode bs) = 2 * length bs" "list_all password_char (hexEncode bs)"
proof -
  have "code c div 16 < 16" for c
  proof -
    have "code c < 16 * 16" using nat_of_char_less_256 [of c] by simp
    then show ?thesis by (rule less_mult_imp_div_less)
  qed
  then show "list_all password_char (hexEncode bs)"
    by (auto simp: hexEncode_def list_all_iff intro: hexDigit_ok)
qed (simp add: hexEncode_def length_concat comp_def sum_list_triv)

end
