(* ===== verification/AwsBootstrap.thy ===== *)
theory AwsBootstrap
  imports TlsRotation ConfigReconcile ServiceBuilders
begin

text \<open>
  The bootstrap of the AWS plugin for a cluster, \<open>operator/internal/controller/rds_bootstrap.go\<close>,
  and the environment of the cluster reconciler: what it reads and writes through the API server,
  the random source, and the helpers of controller-runtime and apimachinery.

  A create or update through \<open>controllerutil.CreateOrUpdate\<close> is a field that takes the mutation
  the reconciler passes; the mutations are definitions of the library.
\<close>

section \<open>The environment of the cluster reconciler\<close>

datatype awsError =
    BootstrapRefIncomplete
  | BootstrapConfigMapRead getError
  | BootstrapKeyMissing string string
  | BootstrapRegionMissing string
  | CredentialsIncomplete string string
  | AwsText string

text \<open>The errors of the cluster reconciler; a joined error is a list of them. Texts that quote nothing
  are written out, and the text of the others is a field of the environment.\<close>

datatype clusterError =
    ClusterText string
  | AuthSecretMissing string
  | AuthInvalid authError
  | AwsFailed awsError
  | CnfFailed cnfSecretError
  | ExternalServiceFailed string
  | TlsFailed tlsError
  | RotationFailed rotError
  | RuntimeApplyFailed string
  | EnsureAfterRuntimeApply string string

datatype createError = AlreadyExists | CreateFailed string

record ConfigMap =
  cfm_Data :: strmap
  cfm_Annotations :: strmap
  cfm_Owner :: "string option"

record 'w cluEnv = "'w rotEnv" +
  ke_cluster :: "'w \<Rightarrow> string \<Rightarrow> string \<Rightarrow> getError + ProxySQLCluster"
  ke_configMap :: "'w \<Rightarrow> string \<Rightarrow> string \<Rightarrow> getError + ConfigMap"
  ke_service :: "'w \<Rightarrow> string \<Rightarrow> string \<Rightarrow> getError + Service"
  ke_pdb :: "'w \<Rightarrow> string \<Rightarrow> string \<Rightarrow> getError + PodDisruptionBudget"
  ke_serviceMonitor :: "'w \<Rightarrow> string \<Rightarrow> string \<Rightarrow> getError + ServiceMonitorBody Unstructured"
  ke_createSecret :: "Secret \<Rightarrow> 'w \<Rightarrow> 'w \<times> createError option"
  ke_updateSecret :: "Secret \<Rightarrow> 'w \<Rightarrow> 'w \<times> gerror"
  ke_upsertService :: "string \<Rightarrow> string \<Rightarrow> (Service \<Rightarrow> string + Service) \<Rightarrow> 'w \<Rightarrow> 'w \<times> gerror"
  ke_upsertStatefulSet :: "string \<Rightarrow> string \<Rightarrow> (StatefulSet \<Rightarrow> string + StatefulSet) \<Rightarrow> 'w \<Rightarrow> 'w \<times> gerror"
  ke_upsertPDB :: "string \<Rightarrow> string \<Rightarrow> (PodDisruptionBudget \<Rightarrow> string + PodDisruptionBudget) \<Rightarrow> 'w \<Rightarrow> 'w \<times> gerror"
  ke_upsertServiceMonitor :: "string \<Rightarrow> string
     \<Rightarrow> (ServiceMonitorBody Unstructured \<Rightarrow> string + ServiceMonitorBody Unstructured) \<Rightarrow> 'w \<Rightarrow> 'w \<times> gerror"
  ke_deleteConfigMap :: "string \<Rightarrow> string \<Rightarrow> 'w \<Rightarrow> 'w \<times> getError option"
  ke_deleteService :: "string \<Rightarrow> string \<Rightarrow> 'w \<Rightarrow> 'w \<times> getError option"
  ke_deletePDB :: "string \<Rightarrow> string \<Rightarrow> 'w \<Rightarrow> 'w \<times> getError option"
  ke_deleteServiceMonitor :: "string \<Rightarrow> string \<Rightarrow> 'w \<Rightarrow> 'w \<times> getError option"
  ke_updateStatus :: "ProxySQLCluster \<Rightarrow> 'w \<Rightarrow> 'w \<times> gerror"
  ke_setCondition :: "Condition \<Rightarrow> Condition list \<Rightarrow> Condition list"
  ke_removeCondition :: "string \<Rightarrow> Condition list \<Rightarrow> Condition list"
  ke_random :: "'w \<Rightarrow> 'w \<times> (string + string)"
  ke_credentialFile :: "string \<Rightarrow> string + int \<times> string \<times> string"
  ke_encodeFile :: "int \<times> string \<times> string \<Rightarrow> string + string"
  ke_connect :: "'w \<Rightarrow> string \<Rightarrow> string \<Rightarrow> string \<Rightarrow> tlsConfig option \<Rightarrow> gerror"
  ke_exec :: "string \<Rightarrow> 'w executor"
  ke_query :: "string \<Rightarrow> 'w \<Rightarrow> querier"
  ke_getText :: "getError \<Rightarrow> string"
  ke_dialText :: "dialError \<Rightarrow> string"
  ke_errText :: "clusterError \<Rightarrow> string"
  ke_bytesOf :: "k8s \<Rightarrow> int"

definition randomPassword :: "('w, 'm) cluEnv_scheme \<Rightarrow> 'w \<Rightarrow> 'w \<times> (string + string)" where
  "randomPassword ke w = (case ke_random ke w of (w, read) \<Rightarrow> (w, RandomPassword read))"

section \<open>Credentials\<close>

definition rdsAccessKeyIDKey :: string where "rdsAccessKeyIDKey = ''access-key-id''"
definition rdsSecretAccessKeyKey :: string where "rdsSecretAccessKeyKey = ''secret-access-key''"
definition awsRegionAnnotation :: string where "awsRegionAnnotation = ''proxysql.com/aws-region''"

definition encodeCredentialFile :: "('w, 'm) cluEnv_scheme \<Rightarrow> Credentials \<Rightarrow> awsError + string" where
  "encodeCredentialFile ke c =
     (case ke_encodeFile ke (1, cr_AccessKeyID c, cr_SecretAccessKey c) of
        Inl e \<Rightarrow> Inl (AwsText (''encode RDS API credential file: '' @ e))
      | Inr s \<Rightarrow> Inr s)"

definition withCredentials :: "Credentials \<Rightarrow> string \<Rightarrow> strmap \<Rightarrow> strmap" where
  "withCredentials c encoded data =
     mput AWSCredentialsFileName encoded (mput rdsSecretAccessKeyKey (cr_SecretAccessKey c)
       (mput rdsAccessKeyIDKey (cr_AccessKeyID c) data))"

text \<open>The Secret exists: it is completed when the file differs from the keys.\<close>

definition refreshCredentials ::
  "('w, 'm) cluEnv_scheme \<Rightarrow> string \<Rightarrow> Secret \<Rightarrow> 'w \<Rightarrow> 'w \<times> (awsError + Credentials)" where
  "refreshCredentials ke name existing w =
     (case credentialsFromSecret (ke_credentialFile ke) (sec_Data existing) of
        Inl e \<Rightarrow> (w, Inl (CredentialsIncomplete name e))
      | Inr credentials \<Rightarrow>
          (case encodeCredentialFile ke credentials of
             Inl e \<Rightarrow> (w, Inl e)
           | Inr encoded \<Rightarrow>
               if mgetStr (sec_Data existing) AWSCredentialsFileName \<noteq> encoded
               then (case ke_updateSecret ke (existing\<lparr>sec_Data := withCredentials credentials encoded (sec_Data existing)\<rparr>) w of
                       (w, Some e) \<Rightarrow> (w, Inl (AwsText (''update RDS API credential secret: '' @ e)))
                     | (w, None) \<Rightarrow> (w, Inr credentials))
               else (w, Inr credentials)))"

definition mintCredentials :: "('w, 'm) cluEnv_scheme \<Rightarrow> 'w \<Rightarrow> 'w \<times> (awsError + Credentials)" where
  "mintCredentials ke w =
     (case randomPassword ke w of
        (w, Inl e) \<Rightarrow> (w, Inl (AwsText (''generate RDS API access key: '' @ e)))
      | (w, Inr accessRandom) \<Rightarrow>
          (case randomPassword ke w of
             (w, Inl e) \<Rightarrow> (w, Inl (AwsText (''generate RDS API secret key: '' @ e)))
           | (w, Inr secret) \<Rightarrow>
               (case randomPassword ke w of
                  (w, Inl e) \<Rightarrow> (w, Inl (AwsText (''generate RDS API secret key: '' @ e)))
                | (w, Inr secretSuffix) \<Rightarrow>
                    (w, Inr \<lparr>cr_AccessKeyID = ''PX'' @ accessRandom, cr_SecretAccessKey = secret @ secretSuffix\<rparr>))))"

text \<open>The Secret does not exist: mint and create. \<open>None\<close> stands for a conflict, on which the code
  starts over.\<close>

definition createCredentials ::
  "('w, 'm) cluEnv_scheme \<Rightarrow> ProxySQLCluster \<Rightarrow> Builder \<Rightarrow> 'w \<Rightarrow> 'w \<times> (awsError + Credentials) option" where
  "createCredentials ke cluster b w =
     (case mintCredentials ke w of
        (w, Inl e) \<Rightarrow> (w, Some (Inl e))
      | (w, Inr credentials) \<Rightarrow>
          (case encodeCredentialFile ke credentials of
             Inl e \<Rightarrow> (w, Some (Inl e))
           | Inr encoded \<Rightarrow>
               (case claimSecret ke cluster
                       ((freshSecret (AWSCredentialsSecretName b) (clu_Namespace cluster))\<lparr>sec_Labels := Labels b,
                          sec_Type := ''Opaque'', sec_Data := withCredentials credentials encoded []\<rparr>) of
                  Inl e \<Rightarrow> (w, Some (Inl (AwsText e)))
                | Inr desired \<Rightarrow>
                    (case ke_createSecret ke desired w of
                       (w, None) \<Rightarrow> (w, Some (Inr credentials))
                     | (w, Some AlreadyExists) \<Rightarrow> (w, None)
                     | (w, Some (CreateFailed e)) \<Rightarrow> (w, Some (Inl (AwsText (''create RDS API credential secret: '' @ e))))))))"

partial_function (option) ensureRDSCredentials ::
  "('w, 'm) cluEnv_scheme \<Rightarrow> ProxySQLCluster \<Rightarrow> Builder \<Rightarrow> 'w \<Rightarrow> ('w \<times> (awsError + Credentials)) option" where
  "ensureRDSCredentials ke cluster b w =
     (case te_secret ke w (clu_Namespace cluster) (AWSCredentialsSecretName b) of
        Inr existing \<Rightarrow> Some (refreshCredentials ke (AWSCredentialsSecretName b) existing w)
      | Inl (GetFailed e) \<Rightarrow> Some (w, Inl (AwsText (''read RDS API credential secret: '' @ e)))
      | Inl (NotFound _) \<Rightarrow>
          (case createCredentials ke cluster b w of
             (w, Some r) \<Rightarrow> Some (w, r)
           | (w, None) \<Rightarrow> ensureRDSCredentials ke cluster b w))"

text \<open>Verify the selected key of the agent's ConfigMap and record its digest on the builder. The
  result is \<open>None\<close> when the creation of the credentials does not return.\<close>

definition resolveAWSBootstrap ::
  "('w, 'm) cluEnv_scheme \<Rightarrow> ProxySQLCluster \<Rightarrow> Builder \<Rightarrow> 'w \<Rightarrow> ('w \<times> (awsError + Builder)) option" where
  "resolveAWSBootstrap ke cluster b w =
     (if \<not> AWSPluginEnabled (clu_Spec cluster) then Some (w, Inr b)
      else
        let ref = bootstrapRef cluster in
        if cm_Name ref = [] \<or> cm_Key ref = [] then Some (w, Inl BootstrapRefIncomplete)
        else (case ke_configMap ke w (clu_Namespace cluster) (cm_Name ref) of
                Inl e \<Rightarrow> Some (w, Inl (BootstrapConfigMapRead e))
              | Inr configMap \<Rightarrow>
                  (case mget (cfm_Data configMap) (cm_Key ref) of
                     None \<Rightarrow> Some (w, Inl (BootstrapKeyMissing (cm_Name ref) (cm_Key ref)))
                   | Some value \<Rightarrow>
                       if mgetStr (cfm_Annotations configMap) awsRegionAnnotation = []
                       then Some (w, Inl (BootstrapRegionMissing (cm_Name ref)))
                       else
                         let b = b\<lparr>b_AWSBootstrapChecksum := CnfChecksum (re_sha ke) [(cm_Key ref, value)]\<rparr> in
                         map_option (\<lambda>(w, r). (w, case r of Inl e \<Rightarrow> Inl e | Inr _ \<Rightarrow> Inr b))
                           (ensureRDSCredentials ke cluster b w))))"

section \<open>The credentials are found or made\<close>

text \<open>What is relied on: a Secret whose creation was refused as existing is found by the next read
  (the API server's answer, not that of a cache that lags behind), and the random source gives
  bytes.\<close>

definition conflicts_visible :: "('w, 'm) cluEnv_scheme \<Rightarrow> bool" where
  "conflicts_visible ke \<longleftrightarrow> (\<forall>s w w' e. ke_createSecret ke s w = (w', Some AlreadyExists)
     \<longrightarrow> te_secret ke w' (sec_Namespace s) (sec_Name s) \<noteq> Inl (NotFound e))"

definition random_bytes :: "('w, 'm) cluEnv_scheme \<Rightarrow> bool" where
  "random_bytes ke \<longleftrightarrow> (\<forall>w w' bs. ke_random ke w = (w', Inr bs) \<longrightarrow> bs \<noteq> [])"

text \<open>The Secret the returned credentials are in: one that was read, or the one that was created.\<close>

definition held_in :: "('w, 'm) cluEnv_scheme \<Rightarrow> ProxySQLCluster \<Rightarrow> Builder \<Rightarrow> Credentials \<Rightarrow> bool" where
  "held_in ke cluster b c \<longleftrightarrow>
     (\<exists>s v v'. credentialsFromSecret (ke_credentialFile ke) (sec_Data s) = Inr c
        \<and> (te_secret ke v (clu_Namespace cluster) (AWSCredentialsSecretName b) = Inr s \<or> ke_createSecret ke s v = (v', None)))"

lemma withCredentials_read:
  assumes "cr_AccessKeyID c \<noteq> []" "cr_SecretAccessKey c \<noteq> []"
  shows "credentialsFromSecret decode (withCredentials c encoded data) = Inr c"
  using assms
  by (simp add: credentialsFromSecret_def withCredentials_def mgetStr_def go_map rdsAccessKeyIDKey_def rdsSecretAccessKeyKey_def
      AWSCredentialsFileName_def)

lemma hexEncode_nonempty: "bs \<noteq> [] \<Longrightarrow> hexEncode bs \<noteq> []"
  by (cases bs) (simp_all add: hexEncode_def)

lemma randomPassword_nonempty: "random_bytes ke \<Longrightarrow> randomPassword ke w = (w', Inr p) \<Longrightarrow> p \<noteq> []"
  by (auto simp: randomPassword_def RandomPassword_def random_bytes_def hexEncode_nonempty split: prod.splits sum.splits)

lemma mintCredentials_nonempty:
  assumes "random_bytes ke" "mintCredentials ke w = (w', Inr c)"
  shows "cr_AccessKeyID c \<noteq> []" "cr_SecretAccessKey c \<noteq> []"
proof -
  obtain v v' k s t u where "randomPassword ke v = (v', Inr s)" "c = \<lparr>cr_AccessKeyID = ''PX'' @ k, cr_SecretAccessKey = s @ t\<rparr>"
    using assms(2) by (auto simp: mintCredentials_def split: prod.splits sum.splits)
  then show "cr_AccessKeyID c \<noteq> []" "cr_SecretAccessKey c \<noteq> []" using randomPassword_nonempty [OF assms(1)] by auto
qed

lemma claimSecret_same: "claimSecret te owner s = Inr s' \<Longrightarrow> sec_Data s' = sec_Data s \<and> sec_Name s' = sec_Name s \<and> sec_Namespace s' = sec_Namespace s"
  by (auto simp: claimSecret_def split: sum.splits)

lemma created_held:
  assumes "createCredentials ke cluster b w = (w', Some (Inr c))" "random_bytes ke"
  shows "held_in ke cluster b c"
proof -
  obtain v encoded desired where m: "mintCredentials ke w = (v, Inr c)"
    "claimSecret ke cluster ((freshSecret (AWSCredentialsSecretName b) (clu_Namespace cluster))\<lparr>sec_Labels := Labels b,
       sec_Type := ''Opaque'', sec_Data := withCredentials c encoded []\<rparr>) = Inr desired"
    "ke_createSecret ke desired v = (w', None)"
    using assms(1) by (auto simp: createCredentials_def split: prod.splits sum.splits option.splits createError.splits)
  have "sec_Data desired = withCredentials c encoded []" using claimSecret_same [OF m(2)] by simp
  then have "credentialsFromSecret (ke_credentialFile ke) (sec_Data desired) = Inr c"
    using withCredentials_read mintCredentials_nonempty [OF assms(2) m(1)] by simp
  then show ?thesis unfolding held_in_def using m(3) by metis
qed

lemma refreshed_held:
  assumes "te_secret ke v (clu_Namespace cluster) (AWSCredentialsSecretName b) = Inr s"
    and "refreshCredentials ke name s w = (w', Inr c)"
  shows "held_in ke cluster b c"
proof -
  have "credentialsFromSecret (ke_credentialFile ke) (sec_Data s) = Inr c"
    using assms(2) by (auto simp: refreshCredentials_def split: sum.splits if_splits prod.splits option.splits)
  then show ?thesis unfolding held_in_def using assms(1) by metis
qed

lemma conflict_found:
  assumes "createCredentials ke cluster b w = (w', None)" "conflicts_visible ke"
  shows "te_secret ke w' (clu_Namespace cluster) (AWSCredentialsSecretName b) \<noteq> Inl (NotFound e)"
proof -
  obtain v d s where "claimSecret ke cluster d = Inr s" "sec_Name d = AWSCredentialsSecretName b" "sec_Namespace d = clu_Namespace cluster"
    "ke_createSecret ke s v = (w', Some AlreadyExists)"
    using assms(1) by (auto simp: createCredentials_def freshSecret_def split: prod.splits sum.splits option.splits createError.splits)
  then show ?thesis using assms(2) claimSecret_same [of ke cluster d s] by (metis conflicts_visible_def)
qed


section \<open>An environment in which everything fails\<close>

text \<open>Examples replace the fields they need.\<close>

definition nullEnv :: "'w cluEnv" where
  "nullEnv =
     \<lparr>te_now = (\<lambda>_. 0), te_secret = (\<lambda>_ _ _. Inl (NotFound [])), te_statefulSet = (\<lambda>_ _ _. Inl (NotFound [])),
      te_certificate = (\<lambda>_ _ _. Inl (NotFound [])), te_upsertSecret = (\<lambda>_ _ _ w. (w, Inl [])),
      te_upsertCertificate = (\<lambda>_ _ _ w. (w, Some [])), te_deleteCertificate = (\<lambda>_ _ w. (w, None)),
      te_claim = (\<lambda>c _. Inr (Some (clu_UID c))), te_sign = (\<lambda>_ _ w. (w, Inl [])), te_parseCert = (\<lambda>_. Inl []),
      te_parseKey = (\<lambda>_. None), te_parseIP = (\<lambda>_. None),
      re_sha = exSha, re_pods = (\<lambda>_ _ _. Inr []), re_pemDecode = Some, re_usable = (\<lambda>_. True), re_parseDER = (\<lambda>_. None),
      re_verify = (\<lambda>_ _ _ _. None), re_quote = (\<lambda>s. s), re_new = (\<lambda>_ _ _. None), re_ping = (\<lambda>_ _ _ _ w. (w, [], None)),
      re_exec = (\<lambda>_ _ _ _ w _. (w, None)), re_wait = (\<lambda>w. (w, None)), re_parseTime = (\<lambda>_. None), re_TLSRotationWindow = 0,
      ke_cluster = (\<lambda>_ _ _. Inl (NotFound [])), ke_configMap = (\<lambda>_ _ _. Inl (NotFound [])),
      ke_service = (\<lambda>_ _ _. Inl (NotFound [])), ke_pdb = (\<lambda>_ _ _. Inl (NotFound [])),
      ke_serviceMonitor = (\<lambda>_ _ _. Inl (NotFound [])), ke_createSecret = (\<lambda>_ w. (w, Some (CreateFailed []))),
      ke_updateSecret = (\<lambda>_ w. (w, Some [])), ke_upsertService = (\<lambda>_ _ _ w. (w, Some [])),
      ke_upsertStatefulSet = (\<lambda>_ _ _ w. (w, Some [])), ke_upsertPDB = (\<lambda>_ _ _ w. (w, Some [])),
      ke_upsertServiceMonitor = (\<lambda>_ _ _ w. (w, Some [])), ke_deleteConfigMap = (\<lambda>_ _ w. (w, None)),
      ke_deleteService = (\<lambda>_ _ w. (w, None)), ke_deletePDB = (\<lambda>_ _ w. (w, None)),
      ke_deleteServiceMonitor = (\<lambda>_ _ w. (w, None)), ke_updateStatus = (\<lambda>_ w. (w, None)),
      ke_setCondition = Cons, ke_removeCondition = (\<lambda>_ cs. cs), ke_random = (\<lambda>w. (w, Inr ''r'')),
      ke_credentialFile = (\<lambda>_. Inl []), ke_encodeFile = (\<lambda>(_, k, _). Inr k), ke_connect = (\<lambda>_ _ _ _ _. None),
      ke_exec = (\<lambda>_ w _. (w, None)), ke_query = (\<lambda>_ _ _. Inr []), ke_getText = (\<lambda>_. []), ke_dialText = (\<lambda>_. []),
      ke_errText = (\<lambda>_. []), ke_bytesOf = (\<lambda>_. 0)\<rparr>"

text \<open>The world is whether the Secret exists; another party creates it first.\<close>

definition racedEnv :: "bool cluEnv" where
  "racedEnv = nullEnv\<lparr>te_secret := (\<lambda>w ns n. if w then Inr ((freshSecret n ns)\<lparr>sec_Data :=
        [(rdsAccessKeyIDKey, ''id''), (rdsSecretAccessKeyKey, ''key''), (AWSCredentialsFileName, ''id'')]\<rparr>) else Inl (NotFound [])),
     ke_createSecret := (\<lambda>_ _. (True, Some AlreadyExists))\<rparr>"


end
