(* ===== verification/ClusterObjects.thy ===== *)
theory ClusterObjects
  imports AwsBootstrap
begin

text \<open>
  The objects a cluster owns, as the reconciler reads and writes them: the first half of
  \<open>operator/internal/controller/proxysqlcluster_controller.go\<close>. Every mutation passed to
  \<open>CreateOrUpdate\<close> is a definition of its own.
\<close>

section \<open>What is read before anything is written\<close>

definition currentCnfData :: "('w, 'm) cluEnv_scheme \<Rightarrow> Builder \<Rightarrow> 'w \<Rightarrow> string + strmap" where
  "currentCnfData ke b w =
     (case te_secret ke w (b_Namespace b) (CnfSecretName b) of
        Inl (NotFound _) \<Rightarrow> Inr []
      | Inl (GetFailed e) \<Rightarrow> Inl (''get cnf secret: '' @ e)
      | Inr sec \<Rightarrow> Inr (sec_Data sec))"

record stsMarkers =
  stm_varsApplied :: string
  stm_structuralApplied :: string
  stm_tlsApplied :: string
  stm_tlsRotationState :: string

definition annotationVarsAppliedHash :: string where "annotationVarsAppliedHash = ''proxysql.com/vars-applied-hash''"
definition annotationStructuralAppliedHash :: string where
  "annotationStructuralAppliedHash = ''proxysql.com/structural-applied-hash''"

definition zeroAnnotations :: stsAnnotations where
  "zeroAnnotations = \<lparr>sta_cnfChecksum = [], sta_varsApplied = [], sta_structuralApplied = [], sta_tlsApplied = [],
     sta_tlsRotationState = [], sta_tlsRestart = []\<rparr>"

definition annotationsOf :: "StatefulSet \<Rightarrow> stsAnnotations" where
  "annotationsOf ss =
     (let template = tp_Annotations (sps_Template (ss_Spec ss)); object = ss_Annotations ss in
      \<lparr>sta_cnfChecksum = mgetStr template annotationCnfChecksum,
       sta_varsApplied = mgetStr object annotationVarsAppliedHash,
       sta_structuralApplied = mgetStr object annotationStructuralAppliedHash,
       sta_tlsApplied = mgetStr object annotationTLSAppliedHash,
       sta_tlsRotationState = mgetStr object annotationTLSRotationState,
       sta_tlsRestart = mgetStr template TLSRestartAnnotation\<rparr>)"

definition currentStatefulSetAnnotations :: "('w, 'm) cluEnv_scheme \<Rightarrow> Builder \<Rightarrow> 'w \<Rightarrow> string + stsAnnotations" where
  "currentStatefulSetAnnotations ke b w =
     (case te_statefulSet ke w (b_Namespace b) (b_Name b) of
        Inl (NotFound _) \<Rightarrow> Inr zeroAnnotations
      | Inl (GetFailed e) \<Rightarrow> Inl (''get statefulset: '' @ e)
      | Inr ss \<Rightarrow> Inr (annotationsOf ss))"

section \<open>Passwords\<close>

definition mintPasswords :: "('w, 'm) cluEnv_scheme \<Rightarrow> 'w \<Rightarrow> 'w \<times> (string + Passwords)" where
  "mintPasswords ke w =
     (case randomPassword ke w of
        (w, Inl e) \<Rightarrow> (w, Inl e)
      | (w, Inr admin) \<Rightarrow>
          (case randomPassword ke w of
             (w, Inl e) \<Rightarrow> (w, Inl e)
           | (w, Inr radmin) \<Rightarrow>
               (case randomPassword ke w of
                  (w, Inl e) \<Rightarrow> (w, Inl e)
                | (w, Inr monitor) \<Rightarrow>
                    (w, Inr (zeroPasswords\<lparr>pw_Admin := admin, pw_Radmin := radmin, pw_Monitor := monitor,
                             pw_MonitorUsername := ''monitor''\<rparr>)))))"

text \<open>A missing field is filled; the flag says whether it was missing.\<close>

definition backfill :: "('w, 'm) cluEnv_scheme \<Rightarrow> string \<Rightarrow> 'w \<Rightarrow> 'w \<times> (string + string \<times> bool)" where
  "backfill ke v w =
     (if v = [] then (case randomPassword ke w of (w, Inl e) \<Rightarrow> (w, Inl e) | (w, Inr p) \<Rightarrow> (w, Inr (p, True)))
      else (w, Inr (v, False)))"

definition backfillPasswords ::
  "('w, 'm) cluEnv_scheme \<Rightarrow> AuthKeys \<Rightarrow> Secret \<Rightarrow> Passwords \<Rightarrow> 'w \<Rightarrow> 'w \<times> (clusterError + Passwords)" where
  "backfillPasswords ke keys sec pw w =
     (case backfill ke (pw_Admin pw) w of
        (w, Inl e) \<Rightarrow> (w, Inl (ClusterText e))
      | (w, Inr (admin, c1)) \<Rightarrow>
          (case backfill ke (pw_Radmin pw) w of
             (w, Inl e) \<Rightarrow> (w, Inl (ClusterText e))
           | (w, Inr (radmin, c2)) \<Rightarrow>
               (case backfill ke (pw_Monitor pw) w of
                  (w, Inl e) \<Rightarrow> (w, Inl (ClusterText e))
                | (w, Inr (monitor, c3)) \<Rightarrow>
                    let pw = pw\<lparr>pw_Admin := admin, pw_Radmin := radmin, pw_Monitor := monitor\<rparr> in
                    if c1 \<or> c2 \<or> c3 then
                      (case ke_updateSecret ke (sec\<lparr>sec_Data := mput (ky_MonitorPassword keys) monitor
                               (mput (ky_RadminPassword keys) radmin (mput (ky_AdminPassword keys) admin (sec_Data sec)))\<rparr>) w of
                         (w, Some e) \<Rightarrow> (w, Inl (ClusterText (''backfill auth secret: '' @ e)))
                       | (w, None) \<Rightarrow> (w, Inr pw))
                    else (w, Inr pw))))"

definition resolvePasswords ::
  "('w, 'm) cluEnv_scheme \<Rightarrow> ProxySQLCluster \<Rightarrow> 'w \<Rightarrow> 'w \<times> (clusterError + Passwords)" where
  "resolvePasswords ke cluster w =
     (let b = New cluster zeroPasswords; keys = SecretKeys b in
      case te_secret ke w (clu_Namespace cluster) (SecretName b) of
        Inl (NotFound _) \<Rightarrow>
          if \<not> ManagesAuthSecret b then (w, Inl (AuthSecretMissing (SecretName b)))
          else (case mintPasswords ke w of
                  (w, Inl e) \<Rightarrow> (w, Inl (ClusterText e))
                | (w, Inr pw) \<Rightarrow>
                    (case claimSecret ke cluster (AuthSecret (b\<lparr>b_Pw := pw\<rparr>)) of
                       Inl e \<Rightarrow> (w, Inl (ClusterText e))
                     | Inr desired \<Rightarrow>
                         (case ke_createSecret ke desired w of
                            (w, Some (CreateFailed e)) \<Rightarrow> (w, Inl (ClusterText (''create auth secret: '' @ e)))
                          | (w, _) \<Rightarrow> (w, Inr pw))))
      | Inl (GetFailed e) \<Rightarrow> (w, Inl (ClusterText (''get auth secret: '' @ e)))
      | Inr sec \<Rightarrow>
          if \<not> ManagesAuthSecret b then
            (w, case PasswordsFromSecret (sec_Data sec) keys of Inl e \<Rightarrow> Inl (AuthInvalid e) | Inr pw \<Rightarrow> Inr pw)
          else (case MonitorUsernameFromSecret (sec_Data sec) of
                  Inl e \<Rightarrow> (w, Inl (AuthInvalid e))
                | Inr user \<Rightarrow>
                    backfillPasswords ke keys sec
                      (zeroPasswords\<lparr>pw_Admin := mgetStr (sec_Data sec) (ky_AdminPassword keys),
                         pw_Radmin := mgetStr (sec_Data sec) (ky_RadminPassword keys),
                         pw_Monitor := mgetStr (sec_Data sec) (ky_MonitorPassword keys), pw_MonitorUsername := user\<rparr>) w))"

section \<open>Secrets and ConfigMaps\<close>

definition cnfSecretMutation :: "('w, 'm) cluEnv_scheme \<Rightarrow> ProxySQLCluster \<Rightarrow> Secret \<Rightarrow> Secret \<Rightarrow> string + Secret" where
  "cnfSecretMutation ke owner desired existing =
     claimSecret ke owner (existing\<lparr>sec_Labels := sec_Labels desired, sec_Type := sec_Type desired, sec_Data := sec_Data desired\<rparr>)"

definition ensureCnfSecret :: "('w, 'm) cluEnv_scheme \<Rightarrow> ProxySQLCluster \<Rightarrow> Secret \<Rightarrow> 'w \<Rightarrow> 'w \<times> gerror" where
  "ensureCnfSecret ke owner desired w =
     (case te_upsertSecret ke (sec_Namespace desired) (sec_Name desired)
             (\<lambda>existing w. (w, cnfSecretMutation ke owner desired existing)) w of
        (w, Inl e) \<Rightarrow> (w, Some e) | (w, Inr _) \<Rightarrow> (w, None))"

fun ignoreNotFound :: "('w, 'm) cluEnv_scheme \<Rightarrow> getError option \<Rightarrow> gerror" where
  "ignoreNotFound ke None = None"
| "ignoreNotFound ke (Some (NotFound _)) = None"
| "ignoreNotFound ke (Some (GetFailed e)) = Some e"

text \<open>Delete an object the cluster controls, and only such a one.\<close>

definition deleteOwned ::
  "('w, 'm) cluEnv_scheme \<Rightarrow> ProxySQLCluster \<Rightarrow> getError + string option \<Rightarrow> ('w \<Rightarrow> 'w \<times> getError option) \<Rightarrow> 'w \<Rightarrow> 'w \<times> gerror" where
  "deleteOwned ke owner found delete w =
     (case found of
        Inl (NotFound _) \<Rightarrow> (w, None)
      | Inl (GetFailed e) \<Rightarrow> (w, Some e)
      | Inr ref \<Rightarrow>
          if ref \<noteq> Some (clu_UID owner) then (w, None)
          else (case delete w of (w, e) \<Rightarrow> (w, ignoreNotFound ke e)))"

definition cleanupLegacyCnfConfigMap :: "('w, 'm) cluEnv_scheme \<Rightarrow> ProxySQLCluster \<Rightarrow> 'w \<Rightarrow> 'w \<times> gerror" where
  "cleanupLegacyCnfConfigMap ke owner w =
     deleteOwned ke owner (map_sum id cfm_Owner (ke_configMap ke w (clu_Namespace owner) (clu_Name owner)))
       (ke_deleteConfigMap ke (clu_Namespace owner) (clu_Name owner)) w"

section \<open>Services\<close>

definition claimService :: "('w, 'm) cluEnv_scheme \<Rightarrow> ProxySQLCluster \<Rightarrow> Service \<Rightarrow> string + Service" where
  "claimService ke owner s = (case te_claim ke owner (svc_Owner s) of Inl e \<Rightarrow> Inl e | Inr o' \<Rightarrow> Inr (s\<lparr>svc_Owner := o'\<rparr>))"

text \<open>The addresses of an existing Service are kept where the desired one leaves them open.\<close>

definition keepClusterIPs :: "SvcSpec \<Rightarrow> SvcSpec \<Rightarrow> SvcSpec" where
  "keepClusterIPs old spec =
     spec\<lparr>svs_ClusterIP := (if svs_ClusterIP old \<noteq> [] \<and> svs_ClusterIP spec = [] then svs_ClusterIP old else svs_ClusterIP spec),
          svs_ClusterIPs := (if svs_ClusterIPs old \<noteq> [] \<and> svs_ClusterIPs spec = [] then svs_ClusterIPs old else svs_ClusterIPs spec)\<rparr>"

definition serviceMutation :: "('w, 'm) cluEnv_scheme \<Rightarrow> ProxySQLCluster \<Rightarrow> Service \<Rightarrow> Service \<Rightarrow> string + Service" where
  "serviceMutation ke owner desired existing =
     claimService ke owner (existing\<lparr>svc_Labels := svc_Labels desired,
       svc_Annotations := mcopy (svc_Annotations existing) (svc_Annotations desired),
       svc_Spec := keepClusterIPs (svc_Spec existing) (svc_Spec desired)\<rparr>)"

definition ensureService :: "('w, 'm) cluEnv_scheme \<Rightarrow> ProxySQLCluster \<Rightarrow> Service \<Rightarrow> 'w \<Rightarrow> 'w \<times> gerror" where
  "ensureService ke owner desired w =
     ke_upsertService ke (svc_Namespace desired) (svc_Name desired) (serviceMutation ke owner desired) w"

definition allocatedNodePorts :: "ServicePort list \<Rightarrow> (string, int) gomap" where
  "allocatedNodePorts ports = fold (\<lambda>p. mput (svp_Name p) (svp_NodePort p)) ports []"

definition keepNodePort :: "(string, int) gomap \<Rightarrow> ServicePort \<Rightarrow> ServicePort" where
  "keepNodePort allocated p =
     (if svp_NodePort p = 0
      then p\<lparr>svp_NodePort := (case mget allocated (svp_Name p) of None \<Rightarrow> 0 | Some n \<Rightarrow> n)\<rparr> else p)"

definition externalSpec :: "SvcSpec \<Rightarrow> SvcSpec \<Rightarrow> SvcSpec" where
  "externalSpec old desired =
     (let spec = keepClusterIPs old desired;
          spec = spec\<lparr>svs_Ports := map (keepNodePort (allocatedNodePorts (svs_Ports old))) (svs_Ports spec)\<rparr> in
      if svs_Type spec = ''LoadBalancer'' \<and> svs_ExternalTrafficPolicy spec = ''Local'' \<and> svs_HealthCheckNodePort spec = 0
      then spec\<lparr>svs_HealthCheckNodePort := svs_HealthCheckNodePort old\<rparr> else spec)"

definition externalServiceMutation ::
  "('w, 'm) cluEnv_scheme \<Rightarrow> ProxySQLCluster \<Rightarrow> Service \<Rightarrow> Service \<Rightarrow> string + Service" where
  "externalServiceMutation ke owner desired existing =
     claimService ke owner (existing\<lparr>svc_Labels := svc_Labels desired,
       svc_Annotations := mcopy (svc_Annotations existing) (svc_Annotations desired),
       svc_Spec := externalSpec (svc_Spec existing) (svc_Spec desired)\<rparr>)"

definition ensureExternalService ::
  "('w, 'm) cluEnv_scheme \<Rightarrow> ProxySQLCluster \<Rightarrow> Service option \<Rightarrow> 'w \<Rightarrow> 'w \<times> gerror" where
  "ensureExternalService ke owner desired w =
     (case desired of
        None \<Rightarrow>
          let name = ExternalName (New owner zeroPasswords) in
          deleteOwned ke owner (map_sum id svc_Owner (ke_service ke w (clu_Namespace owner) name))
            (ke_deleteService ke (clu_Namespace owner) name) w
      | Some desired \<Rightarrow>
          ke_upsertService ke (svc_Namespace desired) (svc_Name desired) (externalServiceMutation ke owner desired) w)"

section \<open>The StatefulSet\<close>

definition setMarker :: "string \<Rightarrow> string \<Rightarrow> strmap \<Rightarrow> strmap" where
  "setMarker k v ann = (if v = [] then mdel k ann else mput k v ann)"

definition markerAnnotations :: "stsMarkers \<Rightarrow> strmap \<Rightarrow> strmap" where
  "markerAnnotations m ann =
     setMarker annotationTLSRotationState (stm_tlsRotationState m)
       (setMarker annotationTLSAppliedHash (stm_tlsApplied m)
         (mput annotationStructuralAppliedHash (stm_structuralApplied m)
           (mput annotationVarsAppliedHash (stm_varsApplied m) ann)))"

definition statefulSetMutation ::
  "('w, 'm) cluEnv_scheme \<Rightarrow> ProxySQLCluster \<Rightarrow> StatefulSet \<Rightarrow> stsMarkers \<Rightarrow> StatefulSet \<Rightarrow> string + StatefulSet" where
  "statefulSetMutation ke owner desired m existing =
     (let spec = (if \<not> ss_Created existing
                  then (ss_Spec existing)\<lparr>sps_Selector := sps_Selector (ss_Spec desired),
                         sps_ServiceName := sps_ServiceName (ss_Spec desired),
                         sps_PodManagementPolicy := sps_PodManagementPolicy (ss_Spec desired),
                         sps_VolumeClaimTemplates := sps_VolumeClaimTemplates (ss_Spec desired)\<rparr>
                  else ss_Spec existing);
          spec = spec\<lparr>sps_Replicas := sps_Replicas (ss_Spec desired), sps_Template := sps_Template (ss_Spec desired)\<rparr>;
          ss = existing\<lparr>ss_Labels := ss_Labels desired, ss_Annotations := markerAnnotations m (ss_Annotations existing),
                        ss_Spec := spec\<rparr> in
      case te_claim ke owner (ss_Owner ss) of Inl e \<Rightarrow> Inl e | Inr o' \<Rightarrow> Inr (ss\<lparr>ss_Owner := o'\<rparr>))"

definition ensureStatefulSet ::
  "('w, 'm) cluEnv_scheme \<Rightarrow> ProxySQLCluster \<Rightarrow> StatefulSet \<Rightarrow> stsMarkers \<Rightarrow> 'w \<Rightarrow> 'w \<times> gerror" where
  "ensureStatefulSet ke owner desired m w =
     ke_upsertStatefulSet ke (ss_Namespace desired) (ss_Name desired) (statefulSetMutation ke owner desired m) w"

section \<open>Disruption budget and ServiceMonitor\<close>

definition pdbMutation ::
  "('w, 'm) cluEnv_scheme \<Rightarrow> ProxySQLCluster \<Rightarrow> PodDisruptionBudget \<Rightarrow> PodDisruptionBudget \<Rightarrow> string + PodDisruptionBudget" where
  "pdbMutation ke owner desired existing =
     (let db = existing\<lparr>db_Labels := db_Labels desired,
                 db_Selector := (if \<not> db_Created existing then db_Selector desired else db_Selector existing),
                 db_MinAvailable := db_MinAvailable desired, db_MaxUnavailable := db_MaxUnavailable desired\<rparr> in
      case te_claim ke owner (db_Owner db) of Inl e \<Rightarrow> Inl e | Inr o' \<Rightarrow> Inr (db\<lparr>db_Owner := o'\<rparr>))"

definition ensurePDB :: "('w, 'm) cluEnv_scheme \<Rightarrow> ProxySQLCluster \<Rightarrow> PodDisruptionBudget option \<Rightarrow> 'w \<Rightarrow> 'w \<times> gerror" where
  "ensurePDB ke owner desired w =
     (case desired of
        None \<Rightarrow> deleteOwned ke owner (map_sum id db_Owner (ke_pdb ke w (clu_Namespace owner) (clu_Name owner)))
                  (ke_deletePDB ke (clu_Namespace owner) (clu_Name owner)) w
      | Some desired \<Rightarrow> ke_upsertPDB ke (db_Namespace desired) (db_Name desired) (pdbMutation ke owner desired) w)"

definition setCondition ::
  "('w, 'm) cluEnv_scheme \<Rightarrow> string \<Rightarrow> bool \<Rightarrow> string \<Rightarrow> string \<Rightarrow> ProxySQLCluster \<Rightarrow> ProxySQLCluster" where
  "setCondition ke t s reason msg cluster =
     cluster\<lparr>clu_Status := (clu_Status cluster)\<lparr>cst_Conditions := ke_setCondition ke
       \<lparr>cd_Type = t, cd_Status = (if s then ''True'' else ''False''), cd_Reason = reason, cd_Message = msg,
        cd_ObservedGeneration = clu_Generation cluster\<rparr> (cst_Conditions (clu_Status cluster))\<rparr>\<rparr>"

definition removeCondition :: "('w, 'm) cluEnv_scheme \<Rightarrow> string \<Rightarrow> ProxySQLCluster \<Rightarrow> ProxySQLCluster" where
  "removeCondition ke t cluster =
     cluster\<lparr>clu_Status := (clu_Status cluster)\<lparr>cst_Conditions :=
       ke_removeCondition ke t (cst_Conditions (clu_Status cluster))\<rparr>\<rparr>"

definition serviceMonitorMutation ::
  "('w, 'm) cluEnv_scheme \<Rightarrow> ProxySQLCluster \<Rightarrow> ServiceMonitorBody Unstructured \<Rightarrow> ServiceMonitorBody Unstructured
     \<Rightarrow> string + ServiceMonitorBody Unstructured" where
  "serviceMonitorMutation ke owner desired existing =
     (case te_claim ke owner (un_Owner existing) of
        Inl e \<Rightarrow> Inl e
      | Inr o' \<Rightarrow> Inr (existing\<lparr>un_Labels := un_Labels desired, un_Spec := un_Spec desired, un_Owner := o'\<rparr>))"

text \<open>Never an error: the outcome is a condition of the cluster.\<close>

definition ensureServiceMonitor ::
  "('w, 'm) cluEnv_scheme \<Rightarrow> ProxySQLCluster \<Rightarrow> ServiceMonitorBody Unstructured option \<Rightarrow> 'w \<Rightarrow> 'w \<times> ProxySQLCluster" where
  "ensureServiceMonitor ke owner desired w =
     (case desired of
        None \<Rightarrow>
          ((case ke_serviceMonitor ke w (clu_Namespace owner) (clu_Name owner) of
              Inl _ \<Rightarrow> w
            | Inr existing \<Rightarrow>
                if un_Owner existing = Some (clu_UID owner)
                then fst (ke_deleteServiceMonitor ke (clu_Namespace owner) (clu_Name owner) w) else w),
           removeCondition ke ''ServiceMonitorReady'' owner)
      | Some desired \<Rightarrow>
          (case te_claim ke owner (un_Owner desired) of
             Inl e \<Rightarrow> (w, setCondition ke ''ServiceMonitorReady'' False ''OwnerRefError'' e owner)
           | Inr _ \<Rightarrow>
               (case ke_upsertServiceMonitor ke (un_Namespace desired) (un_Name desired)
                       (serviceMonitorMutation ke owner desired) w of
                  (w, Some e) \<Rightarrow> (w, setCondition ke ''ServiceMonitorReady'' False ''CRDNotInstalledOrFailed'' e owner)
                | (w, None) \<Rightarrow> (w, setCondition ke ''ServiceMonitorReady'' True ''Synced'' ''ServiceMonitor applied'' owner))))"

section \<open>Owned objects settle\<close>

text \<open>Applying a mutation again and again, as successive reconciliations with the same spec do. What
  the API server is sent no longer differs from what it has once a mutation gives back its
  argument.\<close>

fun passes :: "nat \<Rightarrow> ('o \<Rightarrow> string + 'o) \<Rightarrow> 'o \<Rightarrow> string + 'o" where
  "passes 0 mutate x = Inr x"
| "passes (Suc n) mutate x = (case mutate x of Inl e \<Rightarrow> Inl e | Inr y \<Rightarrow> passes n mutate y)"

text \<open>The contract of a mutation, under what it relies on.\<close>

locale settling =
  fixes relied :: bool and mutate :: "'o \<Rightarrow> string + 'o"
  assumes settles: "relied \<Longrightarrow> mutate x = Inr y \<Longrightarrow> mutate y = Inr y"
begin

lemma passes_fixed: "relied \<Longrightarrow> mutate y = Inr y \<Longrightarrow> passes n mutate y = Inr y"
  by (induction n) simp_all

lemma passes_settle: "relied \<Longrightarrow> mutate x = Inr y \<Longrightarrow> passes (Suc n) mutate x = Inr y"
  using passes_fixed settles by simp

end

text \<open>What is relied on of \<open>SetControllerReference\<close>: claiming again what one owns changes nothing.\<close>

definition claim_idempotent :: "('w, 'm) cluEnv_scheme \<Rightarrow> ProxySQLCluster \<Rightarrow> bool" where
  "claim_idempotent ke owner \<longleftrightarrow> (\<forall>x y. te_claim ke owner x = Inr y \<longrightarrow> te_claim ke owner y = Inr y)"

lemma mput_same: "mget m k = Some v \<Longrightarrow> mput k v m = m"
  by (rule AList.update_triv)

lemma setMarker_get: "mget (setMarker k v m) k' = (if k' = k then (if v = [] then None else Some v) else mget m k')"
  by (simp add: setMarker_def go_map AList.delete_conv')

lemma setMarker_same: "mget m k = (if v = [] then None else Some v) \<Longrightarrow> setMarker k v m = m"
  by (auto simp: setMarker_def mput_same map_of_eq_None_iff intro: AList.delete_id)

lemmas marker_names = annotationTLSRotationState_def annotationTLSAppliedHash_def annotationStructuralAppliedHash_def
  annotationVarsAppliedHash_def

lemma markerAnnotations_get:
  "mget (markerAnnotations m ann) k =
     (if k = annotationTLSRotationState then (if stm_tlsRotationState m = [] then None else Some (stm_tlsRotationState m))
      else if k = annotationTLSAppliedHash then (if stm_tlsApplied m = [] then None else Some (stm_tlsApplied m))
      else if k = annotationStructuralAppliedHash then Some (stm_structuralApplied m)
      else if k = annotationVarsAppliedHash then Some (stm_varsApplied m)
      else mget ann k)"
  by (simp add: markerAnnotations_def setMarker_get go_map)

lemma markerAnnotations_same: "markerAnnotations m (markerAnnotations m ann) = markerAnnotations m ann"
proof -
  define a where "a = markerAnnotations m ann"
  have a: "mget a annotationVarsAppliedHash = Some (stm_varsApplied m)"
    "mget a annotationStructuralAppliedHash = Some (stm_structuralApplied m)"
    "mget a annotationTLSAppliedHash = (if stm_tlsApplied m = [] then None else Some (stm_tlsApplied m))"
    "mget a annotationTLSRotationState = (if stm_tlsRotationState m = [] then None else Some (stm_tlsRotationState m))"
    by (simp_all add: a_def markerAnnotations_get) (simp_all add: marker_names)
  have "markerAnnotations m a = a"
    unfolding markerAnnotations_def mput_same [OF a(1)] mput_same [OF a(2)] setMarker_same [OF a(3)] setMarker_same [OF a(4)] ..
  then show ?thesis by (simp add: a_def)
qed

lemma mcopy_same: "mwf src \<Longrightarrow> mcopy (mcopy dst src) src = mcopy dst src"
proof -
  assume w: "mwf src"
  have "fold (\<lambda>e. mput (fst e) (snd e)) xs m = m" if "\<And>e. e \<in> set xs \<Longrightarrow> mget m (fst e) = Some (snd e)" for xs m
    using that by (induction xs) (simp_all add: mput_same)
  moreover have "mget (mcopy dst src) (fst e) = Some (snd e)" if "e \<in> set src" for e
    using w that mget_mcopy [OF w, of dst "fst e"] by (cases e) (auto simp: map_of_is_SomeI)
  ultimately show ?thesis unfolding mcopy_def [of "mcopy dst src"] by blast
qed

lemma keepClusterIPs_same: "keepClusterIPs (keepClusterIPs old spec) spec = keepClusterIPs old spec"
  by (simp add: keepClusterIPs_def)

interpretation cnf: settling "claim_idempotent ke owner" "cnfSecretMutation ke owner desired" for ke owner desired
  by unfold_locales (auto simp: cnfSecretMutation_def claimSecret_def claim_idempotent_def split: sum.splits)

interpretation sts: settling "claim_idempotent ke owner" "statefulSetMutation ke owner desired m" for ke owner desired m
  by unfold_locales
    (auto simp: statefulSetMutation_def Let_def claim_idempotent_def markerAnnotations_same split: sum.splits if_splits)

interpretation budget: settling "claim_idempotent ke owner" "pdbMutation ke owner desired" for ke owner desired
  by unfold_locales (auto simp: pdbMutation_def Let_def claim_idempotent_def split: sum.splits if_splits)

interpretation monitor: settling "claim_idempotent ke owner" "serviceMonitorMutation ke owner desired" for ke owner desired
  by unfold_locales (auto simp: serviceMonitorMutation_def claim_idempotent_def split: sum.splits)

interpretation svc: settling "claim_idempotent ke owner \<and> mwf (svc_Annotations desired)" "serviceMutation ke owner desired"
  for ke owner desired
  by unfold_locales
    (auto simp: serviceMutation_def claimService_def claim_idempotent_def mcopy_same keepClusterIPs_same split: sum.splits)

text \<open>Node ports by name.\<close>

lemma allocated_get:
  "distinct (map svp_Name ports) \<Longrightarrow> p \<in> set ports \<Longrightarrow> mget (allocatedNodePorts ports) (svp_Name p) = Some (svp_NodePort p)"
proof -
  assume d: "distinct (map svp_Name ports)" and p: "p \<in> set ports"
  let ?src = "map (\<lambda>p. (svp_Name p, svp_NodePort p)) ports"
  have w: "mwf ?src" using d by (simp add: comp_def)
  have "allocatedNodePorts ports = mcopy [] ?src" by (simp add: allocatedNodePorts_def mcopy_def fold_map comp_def)
  moreover have "mget ?src (svp_Name p) = Some (svp_NodePort p)" using w p by (auto intro: map_of_is_SomeI)
  ultimately show ?thesis by (simp add: mget_mcopy [OF w])
qed

lemma keepNodePort_name [simp]: "svp_Name (keepNodePort a p) = svp_Name p"
  by (simp add: keepNodePort_def)

lemma keepNodePort_same:
  assumes "distinct (map svp_Name ports)"
  shows "map (keepNodePort (allocatedNodePorts (map (keepNodePort a) ports))) ports = map (keepNodePort a) ports"
proof -
  let ?kept = "map (keepNodePort a) ports"
  have d: "distinct (map svp_Name ?kept)" using assms by (simp add: comp_def)
  have "keepNodePort (allocatedNodePorts ?kept) p = keepNodePort a p" if "p \<in> set ports" for p
  proof -
    have "keepNodePort a p \<in> set ?kept" using that by simp
    from allocated_get [OF d this]
    have "mget (allocatedNodePorts ?kept) (svp_Name p) = Some (svp_NodePort (keepNodePort a p))" by simp
    then show ?thesis by (cases "svp_NodePort p = 0") (simp_all add: keepNodePort_def [of _ p])
  qed
  then show ?thesis by simp
qed

lemma externalSpec_fields:
  "svs_ClusterIP (externalSpec old d) = svs_ClusterIP (keepClusterIPs old d)"
  "svs_ClusterIPs (externalSpec old d) = svs_ClusterIPs (keepClusterIPs old d)"
  "svs_Ports (externalSpec old d) = map (keepNodePort (allocatedNodePorts (svs_Ports old))) (svs_Ports d)"
  by (simp_all add: externalSpec_def Let_def keepClusterIPs_def)

lemma externalSpec_same:
  assumes "distinct (map svp_Name (svs_Ports d))"
  shows "externalSpec (externalSpec old d) d = externalSpec old d"
  using keepNodePort_same [OF assms]
  by (simp add: externalSpec_def Let_def keepClusterIPs_def)

interpretation ext: settling "claim_idempotent ke owner \<and> mwf (svc_Annotations desired) \<and> distinct (map svp_Name (svs_Ports (svc_Spec desired)))"
    "externalServiceMutation ke owner desired" for ke owner desired
  by unfold_locales
    (auto simp: externalServiceMutation_def claimService_def claim_idempotent_def mcopy_same externalSpec_same split: sum.splits)

lemma markers_written:
  assumes "statefulSetMutation ke owner (StatefulSetOf b checksum) m existing = Inr ss"
    and "mwf (cs_PodAnnotations (b_Spec b))" and "mget (cs_PodAnnotations (b_Spec b)) TLSRestartAnnotation = None"
  shows "annotationsOf ss =
    \<lparr>sta_cnfChecksum = checksum, sta_varsApplied = stm_varsApplied m, sta_structuralApplied = stm_structuralApplied m,
     sta_tlsApplied = stm_tlsApplied m, sta_tlsRotationState = stm_tlsRotationState m,
     sta_tlsRestart = (if TLSEnabled (b_Spec b) then b_TLSRestartValue b else [])\<rparr>"
proof -
  have ss: "ss_Annotations ss = markerAnnotations m (ss_Annotations existing)"
    "sps_Template (ss_Spec ss) = sps_Template (ss_Spec (StatefulSetOf b checksum))"
    using assms(1) by (auto simp: statefulSetMutation_def Let_def split: sum.splits)
  have template: "tp_Annotations (sps_Template (ss_Spec (StatefulSetOf b checksum))) = podAnnotations b checksum"
    by (simp add: StatefulSetOf_def)
  have "mgetStr (podAnnotations b checksum) annotationCnfChecksum = checksum"
    by (simp add: mgetStr_def podAnnotations_reserved [OF assms(2)])
      (simp add: TLSRestartAnnotation_def AWSBootstrapChecksumAnnotation_def annotationCnfChecksum_def)
  moreover have "mgetStr (podAnnotations b checksum) TLSRestartAnnotation = (if TLSEnabled (b_Spec b) then b_TLSRestartValue b else [])"
    by (simp add: mgetStr_def podAnnotations_reserved [OF assms(2)] assms(3))
      (simp add: TLSRestartAnnotation_def AWSBootstrapChecksumAnnotation_def annotationCnfChecksum_def)
  moreover have "mgetStr (markerAnnotations m ann) annotationVarsAppliedHash = stm_varsApplied m"
    "mgetStr (markerAnnotations m ann) annotationStructuralAppliedHash = stm_structuralApplied m"
    "mgetStr (markerAnnotations m ann) annotationTLSAppliedHash = stm_tlsApplied m"
    "mgetStr (markerAnnotations m ann) annotationTLSRotationState = stm_tlsRotationState m" for ann
    by (simp_all add: mgetStr_def markerAnnotations_get) (simp_all add: marker_names)
  ultimately show ?thesis by (simp add: annotationsOf_def Let_def ss template)
qed

text \<open>
  C22. Writing the StatefulSet and reading its markers back gives what the pass decided: the digest
  and the restart value on the pod template, the four markers on the object. The restart value is
  rendered only with TLS on, and a marker that is empty is absent.
\<close>

theorem markers_roundtrip:
  assumes "statefulSetMutation ke owner (StatefulSetOf b checksum) m existing = Inr ss"
    and "mwf (cs_PodAnnotations (b_Spec b))" and "mget (cs_PodAnnotations (b_Spec b)) TLSRestartAnnotation = None"
  shows "annotationsOf ss =
    \<lparr>sta_cnfChecksum = checksum, sta_varsApplied = stm_varsApplied m, sta_structuralApplied = stm_structuralApplied m,
     sta_tlsApplied = stm_tlsApplied m, sta_tlsRotationState = stm_tlsRotationState m,
     sta_tlsRestart = (if TLSEnabled (b_Spec b) then b_TLSRestartValue b else [])\<rparr>"
  using assms by (rule markers_written)

definition markerKeys :: "string set" where
  "markerKeys = {annotationVarsAppliedHash, annotationStructuralAppliedHash, annotationTLSAppliedHash, annotationTLSRotationState}"

text \<open>
  C23. Writing a StatefulSet that exists leaves what the API server refuses to change (selector,
  service name, pod management, claim templates) and every annotation that is not a marker; and
  however many further passes decide the same, none of them writes anything else.
\<close>

theorem statefulset_write_settles:
  assumes "statefulSetMutation ke owner desired m existing = Inr ss" and "ss_Created existing" and "claim_idempotent ke owner"
  shows "sps_Selector (ss_Spec ss) = sps_Selector (ss_Spec existing)
    \<and> sps_ServiceName (ss_Spec ss) = sps_ServiceName (ss_Spec existing)
    \<and> sps_PodManagementPolicy (ss_Spec ss) = sps_PodManagementPolicy (ss_Spec existing)
    \<and> sps_VolumeClaimTemplates (ss_Spec ss) = sps_VolumeClaimTemplates (ss_Spec existing)
    \<and> (\<forall>k. k \<notin> markerKeys \<longrightarrow> mget (ss_Annotations ss) k = mget (ss_Annotations existing) k)
    \<and> passes (Suc n) (statefulSetMutation ke owner desired m) existing = Inr ss"
  using assms(1,2) sts.passes_settle [OF assms(3,1)]
  by (auto simp: statefulSetMutation_def Let_def markerAnnotations_get markerKeys_def simp del: passes.simps split: sum.splits)

lemma external_names_distinct:
  assumes "ExternalService b = Some d"
  shows "distinct (map svp_Name (svs_Ports (svc_Spec d)))"
proof -
  obtain ext where "svs_Ports (svc_Spec d) = externalServicePorts b ext"
    using assms by (auto simp: ExternalService_def Let_def split: option.splits if_splits)
  then show ?thesis
    by (simp add: externalServicePorts_def Let_def mysqlServicePort_def pgsqlServicePort_def webServicePort_def
        metricsServicePort_def adminServicePort_def servicePort_def)
qed

text \<open>
  What the cluster allocated for the external Service is kept: its addresses, and for every
  port without a pinned node port the one allocated under its name; and further passes over the
  same spec write nothing else.
\<close>

theorem external_allocations_kept:
  assumes "ExternalService b = Some desired" and "externalServiceMutation ke owner desired existing = Inr s"
    and "claim_idempotent ke owner" and "mwf (svc_Annotations desired)"
    and "distinct (map svp_Name (svs_Ports (svc_Spec existing)))"
  shows "(svs_ClusterIP (svc_Spec existing) \<noteq> [] \<longrightarrow> svs_ClusterIP (svc_Spec s) = svs_ClusterIP (svc_Spec existing))
    \<and> (\<forall>p \<in> set (svs_Ports (svc_Spec s)). \<forall>q \<in> set (svs_Ports (svc_Spec existing)).
         svp_Name p = svp_Name q \<longrightarrow> svp_NodePort p = svp_NodePort q
           \<or> (\<exists>r \<in> set (svs_Ports (svc_Spec desired)). svp_Name r = svp_Name p \<and> svp_NodePort r \<noteq> 0 \<and> svp_NodePort p = svp_NodePort r))
    \<and> passes (Suc n) (externalServiceMutation ke owner desired) existing = Inr s"
proof (intro conjI)
  have spec: "svc_Spec s = externalSpec (svc_Spec existing) (svc_Spec desired)"
    using assms(2) by (auto simp: externalServiceMutation_def claimService_def split: sum.splits)
  have "svs_ClusterIP (svc_Spec desired) = []"
    using assms(1) by (auto simp: ExternalService_def Let_def zeroSvcSpec_def split: option.splits if_splits)
  then show "svs_ClusterIP (svc_Spec existing) \<noteq> [] \<longrightarrow> svs_ClusterIP (svc_Spec s) = svs_ClusterIP (svc_Spec existing)"
    by (simp add: spec externalSpec_fields keepClusterIPs_def)
  show "\<forall>p \<in> set (svs_Ports (svc_Spec s)). \<forall>q \<in> set (svs_Ports (svc_Spec existing)).
         svp_Name p = svp_Name q \<longrightarrow> svp_NodePort p = svp_NodePort q
           \<or> (\<exists>r \<in> set (svs_Ports (svc_Spec desired)). svp_Name r = svp_Name p \<and> svp_NodePort r \<noteq> 0 \<and> svp_NodePort p = svp_NodePort r)"
  proof (intro ballI impI)
    fix p q assume pq: "p \<in> set (svs_Ports (svc_Spec s))" "q \<in> set (svs_Ports (svc_Spec existing))" "svp_Name p = svp_Name q"
    let ?a = "allocatedNodePorts (svs_Ports (svc_Spec existing))"
    obtain r where r: "r \<in> set (svs_Ports (svc_Spec desired))" "p = keepNodePort ?a r"
      using pq(1) by (auto simp: spec externalSpec_fields)
    have "mget ?a (svp_Name r) = Some (svp_NodePort q)" using allocated_get [OF assms(5) pq(2)] pq(3) r(2) by simp
    then have "svp_NodePort p = (if svp_NodePort r = 0 then svp_NodePort q else svp_NodePort r)"
      by (simp add: r(2) keepNodePort_def)
    then show "svp_NodePort p = svp_NodePort q
        \<or> (\<exists>r \<in> set (svs_Ports (svc_Spec desired)). svp_Name r = svp_Name p \<and> svp_NodePort r \<noteq> 0 \<and> svp_NodePort p = svp_NodePort r)"
      using r by (cases "svp_NodePort r = 0") auto
  qed
  show "passes (Suc n) (externalServiceMutation ke owner desired) existing = Inr s"
    using ext.passes_settle [OF _ assms(2)] assms(3,4) external_names_distinct [OF assms(1)] by blast
qed

section \<open>Witnesses\<close>

definition quietEnv :: "unit cluEnv" where "quietEnv = nullEnv"

definition exampleSts :: StatefulSet where
  "exampleSts = (freshStatefulSet ''golden'' ''golden-ns'')\<lparr>ss_Created := True, ss_Annotations := [(''team'', ''db'')]\<rparr>"

definition exampleStsMarkers :: stsMarkers where
  "exampleStsMarkers = \<lparr>stm_varsApplied = ''v'', stm_structuralApplied = ''s'', stm_tlsApplied = ''t'', stm_tlsRotationState = []\<rparr>"

lemma null_claim: "te_claim quietEnv c x = Inr (Some (clu_UID c))" "claim_idempotent quietEnv c"
  by (simp_all add: claim_idempotent_def quietEnv_def nullEnv_def)

lemma null_sts: "\<exists>ss. statefulSetMutation quietEnv c d m x = Inr ss"
  by (simp add: statefulSetMutation_def Let_def null_claim)

theorem markers_roundtrip_witness:
  "\<exists>ss. statefulSetMutation quietEnv exampleCluster (StatefulSetOf exampleTLSBuilder ''h'') exampleStsMarkers exampleSts = Inr ss
     \<and> sta_tlsApplied (annotationsOf ss) = ''t'' \<and> sta_tlsRotationState (annotationsOf ss) = [] \<and> sta_cnfChecksum (annotationsOf ss) = ''h''"
proof -
  obtain ss where ss: "statefulSetMutation quietEnv exampleCluster (StatefulSetOf exampleTLSBuilder ''h'') exampleStsMarkers exampleSts = Inr ss"
    using null_sts by blast
  have "cs_PodAnnotations (b_Spec exampleTLSBuilder) = []"
    by (simp add: exampleTLSBuilder_def New_def DefaultedSpec_def Let_def defaultProtocols_alt zeroClusterSpec_def)
  then have "mwf (cs_PodAnnotations (b_Spec exampleTLSBuilder))"
    "mget (cs_PodAnnotations (b_Spec exampleTLSBuilder)) TLSRestartAnnotation = None" by simp_all
  from markers_roundtrip [OF ss this] ss show ?thesis by (intro exI [of _ ss] conjI) (simp_all add: exampleStsMarkers_def)
qed

theorem statefulset_write_settles_witness:
  "\<exists>ss. passes (Suc 2) (statefulSetMutation quietEnv exampleCluster (StatefulSetOf exampleTLSBuilder ''h'') exampleStsMarkers) exampleSts = Inr ss
     \<and> mget (ss_Annotations ss) ''team'' = Some ''db''"
proof -
  obtain ss where ss: "statefulSetMutation quietEnv exampleCluster (StatefulSetOf exampleTLSBuilder ''h'') exampleStsMarkers exampleSts = Inr ss"
    using null_sts by blast
  have c: "ss_Created exampleSts" "mget (ss_Annotations exampleSts) ''team'' = Some ''db''" by (simp_all add: exampleSts_def)
  have "''team'' \<notin> markerKeys" by (simp add: markerKeys_def marker_names)
  then show ?thesis
    using statefulset_write_settles [OF ss c(1) null_claim(2), of 2] c(2) by (intro exI [of _ ss] conjI) (simp_all del: passes.simps)
qed

definition exampleExternal :: Builder where
  "exampleExternal = exampleTLSBuilder\<lparr>b_Spec := (b_Spec exampleTLSBuilder)\<lparr>cs_Service := (cs_Service (b_Spec exampleTLSBuilder))
     \<lparr>sv_External := Some \<lparr>xs_Enabled = True, xs_Type = ''LoadBalancer'', xs_Annotations = [], xs_LoadBalancerClass = None,
        xs_ExternalTrafficPolicy = ''Local'', xs_InternalTrafficPolicy = None, xs_LoadBalancerSourceRanges = [],
        xs_AllocateLoadBalancerNodePorts = None, xs_HealthCheckNodePort = 0, xs_IPFamilyPolicy = None, xs_IPFamilies = [],
        xs_Ports = [(''web'', \<lparr>xp_NodePort = 0\<rparr>)], xs_ExposeAdmin = True\<rparr>\<rparr>\<rparr>\<rparr>"

definition exampleService :: Service where
  "exampleService = (freshService ''golden-external'' ''golden-ns'')\<lparr>svc_Spec := zeroSvcSpec\<lparr>svs_ClusterIP := ''10.1.1.1'',
     svs_Ports := [\<lparr>svp_Name = ''admin'', svp_Port = 6032, svp_TargetPort = ''admin'', svp_Protocol = ''TCP'', svp_NodePort = 30032\<rparr>]\<rparr>\<rparr>"

theorem external_allocations_kept_witness:
  "\<exists>d s. ExternalService exampleExternal = Some d \<and> externalServiceMutation quietEnv exampleCluster d exampleService = Inr s
     \<and> svs_ClusterIP (svc_Spec s) = ''10.1.1.1''
     \<and> passes (Suc 3) (externalServiceMutation quietEnv exampleCluster d) exampleService = Inr s"
proof -
  obtain d where d: "ExternalService exampleExternal = Some d" "svc_Annotations d = []"
    by (simp add: ExternalService_def exampleExternal_def Let_def)
  obtain s where s: "externalServiceMutation quietEnv exampleCluster d exampleService = Inr s"
    by (simp add: externalServiceMutation_def claimService_def null_claim)
  have "distinct (map svp_Name (svs_Ports (svc_Spec exampleService)))" "svs_ClusterIP (svc_Spec exampleService) = ''10.1.1.1''"
    by (simp_all add: exampleService_def)
  then show ?thesis
    using external_allocations_kept [OF d(1) s null_claim(2), of 3] d s
    by (intro exI [of _ d] exI [of _ s] conjI) (simp_all del: passes.simps)
qed

section \<open>The auth Secret\<close>

definition editedEnv :: "unit cluEnv" where
  "editedEnv = nullEnv\<lparr>te_secret := (\<lambda>_ ns n. Inr ((freshSecret n ns)\<lparr>sec_Data :=
     [(''admin-password'', ''a'' @ [CHR 0x22] @ ''b''), (''radmin-password'', ''r''), (''monitor-password'', ''m'')]\<rparr>))\<rparr>"

lemma example_managed:
  "ManagesAuthSecret (New exampleCluster zeroPasswords)"
  "SecretKeys (New exampleCluster zeroPasswords) =
     \<lparr>ky_AdminPassword = ''admin-password'', ky_RadminPassword = ''radmin-password'', ky_MonitorPassword = ''monitor-password''\<rparr>"
proof -
  have a: "cs_Auth (b_Spec (New exampleCluster zeroPasswords)) =
      \<lparr>as_SecretName = [], as_Keys = defaultKeys \<lparr>ky_AdminPassword = [], ky_RadminPassword = [], ky_MonitorPassword = []\<rparr>\<rparr>"
    by (simp add: New_def DefaultedSpec_def Let_def defaultProtocols_alt exampleCluster_def zeroClusterSpec_def)
  show "ManagesAuthSecret (New exampleCluster zeroPasswords)" by (simp add: ManagesAuthSecret_def a)
  show "SecretKeys (New exampleCluster zeroPasswords) =
     \<lparr>ky_AdminPassword = ''admin-password'', ky_RadminPassword = ''radmin-password'', ky_MonitorPassword = ''monitor-password''\<rparr>"
    by (simp add: SecretKeys_def a defaultKeys_def orText_def)
qed


end
