(* ===== verification/ClusterReconcile.thy ===== *)
theory ClusterReconcile
  imports ClusterObjects
begin

text \<open>
  The reconciler of a cluster: its status, \<open>Reconcile\<close>, and the events that bring it about; the
  second half of \<open>operator/internal/controller/proxysqlcluster_controller.go\<close>.

  The result of a reconciliation is the new world, the cluster as the reconciler holds it, and
  the joined errors (none on success). It is \<open>None\<close> when the creation of the plugin's credentials
  does not return.
\<close>

section \<open>Status\<close>

definition PhasePending :: string where "PhasePending = ''Pending''"
definition PhaseCreating :: string where "PhaseCreating = ''Creating''"
definition PhaseRunning :: string where "PhaseRunning = ''Running''"
definition PhaseUpdating :: string where "PhaseUpdating = ''Updating''"
definition PhaseDegraded :: string where "PhaseDegraded = ''Degraded''"
definition PhaseStopping :: string where "PhaseStopping = ''Stopping''"
definition PhasePaused :: string where "PhasePaused = ''Paused''"

definition derivePhase :: "StatefulSet \<Rightarrow> bool \<Rightarrow> int \<Rightarrow> bool \<Rightarrow> string" where
  "derivePhase ss ssMissing desired paused =
     (if paused then (if \<not> ssMissing \<and> sss_ReadyReplicas (ss_Status ss) > 0 then PhaseStopping else PhasePaused)
      else if ssMissing \<or> \<not> ss_Created ss then PhasePending
      else if sss_ReadyReplicas (ss_Status ss) = 0 then PhaseCreating
      else if sss_ReadyReplicas (ss_Status ss) = desired
              \<and> (sss_UpdateRevision (ss_Status ss) = [] \<or> sss_UpdateRevision (ss_Status ss) = sss_CurrentRevision (ss_Status ss))
      then PhaseRunning
      else PhaseUpdating)"

definition setDegradedFromDeferredErrors ::
  "('w, 'm) cluEnv_scheme \<Rightarrow> gerror \<Rightarrow> tlsError option \<Rightarrow> rotError option \<Rightarrow> ProxySQLCluster \<Rightarrow> ProxySQLCluster" where
  "setDegradedFromDeferredErrors ke extSvcErr tlsErr rotErr cluster =
     (case extSvcErr of
        Some e \<Rightarrow> setCondition ke ''Degraded'' True ''ExternalServiceError'' e cluster
      | None \<Rightarrow>
          (case tlsErr of
             Some e \<Rightarrow> setCondition ke ''Degraded'' True ''TLSSecretError'' (ke_errText ke (TlsFailed e)) cluster
           | None \<Rightarrow>
               (case rotErr of
                  Some e \<Rightarrow> setCondition ke ''Degraded'' True ''TLSRotationError'' (ke_errText ke (RotationFailed e)) cluster
                | None \<Rightarrow> removeCondition ke ''Degraded'' cluster)))"

definition loadBalancerEndpoint :: "Service \<Rightarrow> string" where
  "loadBalancerEndpoint svc =
     (case (svc_Ingress svc, svs_Ports (svc_Spec svc)) of
        ((ip, hostname) # _, p # _) \<Rightarrow>
          let host = (if ip = [] then hostname else ip) in
          if host = [] then [] else host @ '':'' @ itoa (svp_Port p)
      | _ \<Rightarrow> [])"

definition externalEndpoint :: "('w, 'm) cluEnv_scheme \<Rightarrow> Builder \<Rightarrow> 'w \<Rightarrow> string + string" where
  "externalEndpoint ke b w =
     (case sv_External (cs_Service (b_Spec b)) of
        None \<Rightarrow> Inr []
      | Some ext \<Rightarrow>
          if \<not> xs_Enabled ext then Inr []
          else (case ke_service ke w (b_Namespace b) (ExternalName b) of
                  Inl (NotFound _) \<Rightarrow> Inr []
                | Inl (GetFailed e) \<Rightarrow> Inl (''get external service: '' @ e)
                | Inr svc \<Rightarrow>
                    if svs_Type (svc_Spec svc) = ''LoadBalancer'' then Inr (loadBalancerEndpoint svc)
                    else if svs_Type (svc_Spec svc) = ''NodePort''
                    then Inr (joinStr '','' (map (\<lambda>p. itoa (svp_NodePort p))
                                (filter (\<lambda>p. svp_NodePort p \<noteq> 0) (svs_Ports (svc_Spec svc)))))
                    else Inr []))"

definition pausedConditions :: "('w, 'm) cluEnv_scheme \<Rightarrow> StatefulSet \<Rightarrow> ProxySQLCluster \<Rightarrow> ProxySQLCluster" where
  "pausedConditions ke ss cluster =
     (if sss_ReadyReplicas (ss_Status ss) > 0 then
        let msg = ''scaling down to 0 replicas ('' @ itoa (sss_ReadyReplicas (ss_Status ss)) @ '' still ready)'' in
        setCondition ke ''Progressing'' True ''Stopping'' msg
          (setCondition ke ''Available'' False ''Stopping'' msg
            (setCondition ke ''Paused'' False ''Stopping'' msg cluster))
      else
        let msg = ''all replicas scaled to 0; Services/Secrets/PVCs retained'' in
        setCondition ke ''Progressing'' False ''Paused'' ''no rollout in progress; cluster is paused''
          (setCondition ke ''Available'' False ''Paused'' msg
            (setCondition ke ''Paused'' True ''Paused'' msg cluster)))"

definition updatePausedStatus ::
  "('w, 'm) cluEnv_scheme \<Rightarrow> StatefulSet \<Rightarrow> gerror \<Rightarrow> tlsError option \<Rightarrow> rotError option \<Rightarrow> ProxySQLCluster \<Rightarrow> 'w
     \<Rightarrow> 'w \<times> ProxySQLCluster \<times> gerror" where
  "updatePausedStatus ke ss extSvcErr tlsErr rotErr cluster w =
     (let cluster = setDegradedFromDeferredErrors ke extSvcErr tlsErr rotErr (pausedConditions ke ss cluster) in
      case ke_updateStatus ke cluster w of (w, err) \<Rightarrow> (w, cluster, err))"

definition runningConditions ::
  "('w, 'm) cluEnv_scheme \<Rightarrow> int \<Rightarrow> int \<Rightarrow> string \<Rightarrow> ProxySQLCluster \<Rightarrow> ProxySQLCluster" where
  "runningConditions ke ready desired summary cluster =
     (let cluster = setCondition ke ''Paused'' False ''NotPaused'' ''cluster is not paused'' cluster;
          replicasReady = (ready = desired \<and> desired > 0);
          counts = itoa ready @ ''/'' @ itoa desired @ '' replicas ready'';
          cluster = (if replicasReady then setCondition ke ''Available'' True ''AllReplicasReady'' counts cluster
                     else setCondition ke ''Available'' False ''ReplicasNotReady'' counts cluster) in
      if hasPrefix ''RuntimeApplied'' summary then setCondition ke ''Progressing'' False ''RuntimeApplied'' summary cluster
      else if hasPrefix ''RestartRequired'' summary then setCondition ke ''Progressing'' True ''Rolling'' summary cluster
      else if replicasReady then setCondition ke ''Progressing'' False ''Steady'' ''no rollout in progress'' cluster
      else setCondition ke ''Progressing'' True ''Rolling'' (if summary \<noteq> [] then summary else ''waiting for replicas'') cluster)"

definition updateStatus ::
  "('w, 'm) cluEnv_scheme \<Rightarrow> Builder \<Rightarrow> string \<Rightarrow> gerror \<Rightarrow> tlsError option \<Rightarrow> rotError option \<Rightarrow> ProxySQLCluster \<Rightarrow> 'w
     \<Rightarrow> 'w \<times> ProxySQLCluster \<times> gerror" where
  "updateStatus ke b summary extSvcErr tlsErr rotErr cluster w =
     (case (case te_statefulSet ke w (b_Namespace b) (b_Name b) of
              Inl (NotFound _) \<Rightarrow> Inr (freshStatefulSet [] [], True)
            | Inl (GetFailed e) \<Rightarrow> Inl e
            | Inr ss \<Rightarrow> Inr (ss, False)) of
        Inl e \<Rightarrow> (w, cluster, Some e)
      | Inr (ss, notFound) \<Rightarrow>
          let desired = (case cs_Replicas (b_Spec b) of None \<Rightarrow> 0 | Some r \<Rightarrow> r);
              cluster = cluster\<lparr>clu_Status := (clu_Status cluster)\<lparr>cst_ObservedGeneration := clu_Generation cluster,
                cst_Replicas := desired, cst_ReadyReplicas := sss_ReadyReplicas (ss_Status ss),
                cst_UpdatedReplicas := sss_UpdatedReplicas (ss_Status ss), cst_AdminSecretName := SecretName b,
                cst_Endpoints := Some (Endpoints b)\<rparr>\<rparr> in
          (case externalEndpoint ke b w of
             Inl e \<Rightarrow> (w, cluster, Some e)
           | Inr ext \<Rightarrow>
               let cluster = cluster\<lparr>clu_Status := (clu_Status cluster)\<lparr>cst_Endpoints := Some ((Endpoints b)\<lparr>ept_External := ext\<rparr>),
                     cst_Phase := derivePhase ss notFound desired (cs_Pause (b_Spec b))\<rparr>\<rparr> in
               if cs_Pause (b_Spec b) then updatePausedStatus ke ss extSvcErr tlsErr rotErr cluster w
               else
                 let cluster = setDegradedFromDeferredErrors ke extSvcErr tlsErr rotErr
                       (runningConditions ke (sss_ReadyReplicas (ss_Status ss)) desired summary cluster) in
                 (case ke_updateStatus ke cluster w of (w, err) \<Rightarrow> (w, cluster, err))))"

section \<open>Reconcile\<close>

text \<open>The environment of the runtime push: the pods and the trust as they are found at that moment.\<close>

definition clusterPushEnv ::
  "('w, 'm) cluEnv_scheme \<Rightarrow> ProxySQLCluster \<Rightarrow> string \<Rightarrow> 'w \<Rightarrow> 'w pushEnv" where
  "clusterPushEnv ke cluster radminPassword w =
     (let spec = DefaultedSpec cluster;
          endpoints = discoverPodEndpoints (re_pods ke w (clu_Namespace cluster) (clu_Name cluster)) (clu_Name cluster)
                        (clu_Namespace cluster) (pt_Port (pts_Admin (cs_Protocols spec)));
          trust = adminDialTLS (te_statefulSet ke w)
                    (\<lambda>ns n. map_sum id sec_Data (te_secret ke w ns n)) (re_usable ke) cluster
                    (case endpoints of Inl _ \<Rightarrow> [] | Inr eps \<Rightarrow> eps) in
      \<lparr>pe_replicas = (case cs_Replicas spec of None \<Rightarrow> 0 | Some r \<Rightarrow> r), pe_endpoints = endpoints,
       pe_dialTLS = (case trust of Inl e \<Rightarrow> Some (ke_dialText ke e) | Inr _ \<Rightarrow> None),
       pe_dial = (\<lambda>addr. ke_connect ke w addr radminUser radminPassword
                    (case trust of Inl _ \<Rightarrow> None | Inr t \<Rightarrow> configFor t addr)),
       pe_exec = ke_exec ke, pe_query = ke_query ke\<rparr>)"

definition handleRuntimeApplyError ::
  "('w, 'm) cluEnv_scheme \<Rightarrow> Builder \<Rightarrow> string \<Rightarrow> stsMarkers \<Rightarrow> string \<Rightarrow> ProxySQLCluster \<Rightarrow> 'w
     \<Rightarrow> 'w \<times> ProxySQLCluster \<times> clusterError" where
  "handleRuntimeApplyError ke b prev markers pushErr cluster w =
     (case (if prev \<noteq> [] then ensureStatefulSet ke cluster (StatefulSetOf b prev) markers w else (w, None)) of
        (w, Some e) \<Rightarrow> (w, cluster, EnsureAfterRuntimeApply e pushErr)
      | (w, None) \<Rightarrow>
          let cluster = setCondition ke ''Degraded'' True ''RuntimeApplyError'' pushErr cluster in
          (fst (ke_updateStatus ke cluster w), cluster, RuntimeApplyFailed pushErr))"

text \<open>A failure before the objects are touched: the phase, a condition, and a best-effort write.\<close>

definition degradeWith ::
  "('w, 'm) cluEnv_scheme \<Rightarrow> string \<Rightarrow> clusterError \<Rightarrow> ProxySQLCluster \<Rightarrow> 'w \<Rightarrow> 'w \<times> ProxySQLCluster \<times> clusterError list" where
  "degradeWith ke reason err cluster w =
     (let cluster = setCondition ke ''Degraded'' True reason (ke_errText ke err)
            (cluster\<lparr>clu_Status := (clu_Status cluster)\<lparr>cst_Phase := PhaseDegraded\<rparr>\<rparr>) in
      (fst (ke_updateStatus ke cluster w), cluster, [err]))"

definition optList :: "'a option \<Rightarrow> 'a list" where
  "optList x = (case x of None \<Rightarrow> [] | Some a \<Rightarrow> [a])"

text \<open>The Services and the configuration, in dependency order; the data of the cnf Secret as it was
  and as it is, and the deferred error of the external Service.\<close>

definition ensureFrontObjects ::
  "('w, 'm) cluEnv_scheme \<Rightarrow> ProxySQLCluster \<Rightarrow> Builder \<Rightarrow> 'w \<Rightarrow> 'w \<times> (clusterError + strmap \<times> strmap \<times> gerror)" where
  "ensureFrontObjects ke cluster b w =
     (case currentCnfData ke b w of
        Inl e \<Rightarrow> (w, Inl (ClusterText e))
      | Inr oldCnfData \<Rightarrow>
          (case CnfSecret (ke_bytesOf ke) b of
             Inl e \<Rightarrow> (w, Inl (CnfFailed e))
           | Inr cnfSecret \<Rightarrow>
               (case ensureCnfSecret ke cluster cnfSecret w of
                  (w, Some e) \<Rightarrow> (w, Inl (ClusterText e))
                | (w, None) \<Rightarrow>
                    (case cleanupLegacyCnfConfigMap ke cluster w of
                       (w, Some e) \<Rightarrow> (w, Inl (ClusterText e))
                     | (w, None) \<Rightarrow>
                         (case ensureService ke cluster (ServiceOf b) w of
                            (w, Some e) \<Rightarrow> (w, Inl (ClusterText e))
                          | (w, None) \<Rightarrow>
                              (case ensureService ke cluster (HeadlessService b) w of
                                 (w, Some e) \<Rightarrow> (w, Inl (ClusterText e))
                               | (w, None) \<Rightarrow>
                                   (case ensureExternalService ke cluster (ExternalService b) w of
                                      (w, extSvcErr) \<Rightarrow> (w, Inr (oldCnfData, sec_Data cnfSecret, extSvcErr)))))))))"

text \<open>Rotation, the runtime push, and the one write of the StatefulSet that commits both; then the
  budget, the ServiceMonitor and the status.\<close>

definition commitPass ::
  "('w, 'm) cluEnv_scheme \<Rightarrow> ProxySQLCluster \<Rightarrow> Builder \<Rightarrow> Passwords \<Rightarrow> bool \<Rightarrow> tlsError option \<Rightarrow> strmap \<Rightarrow> strmap \<Rightarrow> gerror
     \<Rightarrow> stsAnnotations \<Rightarrow> 'w \<Rightarrow> 'w \<times> ProxySQLCluster \<times> clusterError list" where
  "commitPass ke cluster b pw tlsReady tlsErr oldCnfData newCnfData extSvcErr cur w =
     (case resolveTLSRotation ke cluster b tlsReady cur (pw_Radmin pw) w of
        (w, rot, rotErr) \<Rightarrow>
          let b = b\<lparr>b_TLSRestartValue := rot_restart rot\<rparr>;
              newHash = CnfChecksum (re_sha ke) newCnfData;
              rotErrs = map RotationFailed (optList rotErr);
              deferred = map ExternalServiceFailed (optList extSvcErr) @ map TlsFailed (optList tlsErr) @ rotErrs in
          (case resolveRestartChecksum (re_sha ke) (clusterPushEnv ke cluster (pw_Radmin pw) w) oldCnfData newCnfData
                  (sta_cnfChecksum cur) newHash (sta_varsApplied cur) (sta_structuralApplied cur) w of
             (w, Inl e) \<Rightarrow>
               (case handleRuntimeApplyError ke b (sta_cnfChecksum cur)
                       \<lparr>stm_varsApplied = sta_varsApplied cur, stm_structuralApplied = sta_structuralApplied cur,
                        stm_tlsApplied = rot_applied rot, stm_tlsRotationState = rot_state rot\<rparr> e cluster w of
                  (w, cluster, err) \<Rightarrow> (w, cluster, err # rotErrs))
           | (w, Inr d) \<Rightarrow>
               (case ensureStatefulSet ke cluster (StatefulSetOf b (rd_annotation d))
                       \<lparr>stm_varsApplied = rd_varsApplied d, stm_structuralApplied = rd_structuralApplied d,
                        stm_tlsApplied = rot_applied rot, stm_tlsRotationState = rot_state rot\<rparr> w of
                  (w, Some e) \<Rightarrow> (w, cluster, [ClusterText e])
                | (w, None) \<Rightarrow>
                    (case ensurePDB ke cluster (PodDisruptionBudgetOf b) w of
                       (w, Some e) \<Rightarrow> (w, cluster, [ClusterText e])
                     | (w, None) \<Rightarrow>
                         (case ensureServiceMonitor ke cluster (ServiceMonitor b) w of
                            (w, cluster) \<Rightarrow>
                              (case updateStatus ke b (mergeSummaries (rd_summary d) (rot_summary rot)) extSvcErr tlsErr rotErr cluster w of
                                 (w, cluster, Some e) \<Rightarrow> (w, cluster, [ClusterText e])
                               | (w, cluster, None) \<Rightarrow> (w, cluster, deferred)))))))"

definition reconcileLive ::
  "('w, 'm) cluEnv_scheme \<Rightarrow> ProxySQLCluster \<Rightarrow> 'w \<Rightarrow> ('w \<times> ProxySQLCluster \<times> clusterError list) option" where
  "reconcileLive ke cluster w =
     (case resolvePasswords ke cluster w of
        (w, Inl err) \<Rightarrow> Some (degradeWith ke ''AuthSecretError'' err cluster w)
      | (w, Inr pw) \<Rightarrow>
          (case resolveAWSBootstrap ke cluster (New cluster pw) w of
             None \<Rightarrow> None
           | Some (w, Inl err) \<Rightarrow> Some (degradeWith ke ''AWSBootstrapError'' (AwsFailed err) cluster w)
           | Some (w, Inr b) \<Rightarrow> Some
               (case resolveTLS ke cluster b w of
                  (w, Inl e) \<Rightarrow> (w, cluster, [ClusterText e])
                | (w, Inr (b, tlsReady, tlsErr)) \<Rightarrow>
                    (case ensureFrontObjects ke cluster b w of
                       (w, Inl err) \<Rightarrow> (w, cluster, [err])
                     | (w, Inr (oldCnfData, newCnfData, extSvcErr)) \<Rightarrow>
                         (case currentStatefulSetAnnotations ke b w of
                            Inl e \<Rightarrow> (w, cluster, [ClusterText e])
                          | Inr cur \<Rightarrow>
                              (case resolveTLSCleanup ke w b of
                                 Inl e \<Rightarrow> (w, cluster, [ClusterText e])
                               | Inr b \<Rightarrow> commitPass ke cluster b pw tlsReady tlsErr oldCnfData newCnfData extSvcErr cur w))))))"

text \<open>The cluster is none when it is gone or could not be read.\<close>

definition ReconcileCluster ::
  "('w, 'm) cluEnv_scheme \<Rightarrow> string \<Rightarrow> string \<Rightarrow> 'w \<Rightarrow> ('w \<times> ProxySQLCluster option \<times> clusterError list) option" where
  "ReconcileCluster ke namespace name w =
     (case ke_cluster ke w namespace name of
        Inl (NotFound _) \<Rightarrow> Some (w, None, [])
      | Inl (GetFailed e) \<Rightarrow> Some (w, None, [ClusterText e])
      | Inr cluster \<Rightarrow>
          if clu_Deleting cluster then Some (w, Some cluster, [])
          else map_option (\<lambda>(w, c, errs). (w, Some c, errs)) (reconcileLive ke cluster w))"

section \<open>Events\<close>

definition clustersForAWSBootstrapConfigMap ::
  "(string \<Rightarrow> string + ProxySQLCluster list) \<Rightarrow> string \<Rightarrow> string \<Rightarrow> (string \<times> string) list" where
  "clustersForAWSBootstrapConfigMap listClusters namespace name =
     (case listClusters namespace of
        Inl _ \<Rightarrow> []
      | Inr clusters \<Rightarrow> map (\<lambda>c. (clu_Namespace c, clu_Name c))
          (filter (\<lambda>c. AWSPluginEnabled (clu_Spec c) \<and> cm_Name (bootstrapRef c) = name) clusters))"

text \<open>The field indexes of \<open>SetupWithManager\<close>: the Secrets a cluster refers to.\<close>

datatype secretIndex = authSecretNameIndex | tlsSecretNameIndex | tlsBackendCASecretIndex | tlsBackendCertSecretIndex

definition backendOf :: "ProxySQLCluster \<Rightarrow> TLSBackendSpec option" where
  "backendOf c = (case cs_TLS (clu_Spec c) of None \<Rightarrow> None | Some tls \<Rightarrow> tl_Backend tls)"

fun indexedSecret :: "secretIndex \<Rightarrow> ProxySQLCluster \<Rightarrow> string" where
  "indexedSecret authSecretNameIndex c = as_SecretName (cs_Auth (clu_Spec c))"
| "indexedSecret tlsSecretNameIndex c = (case cs_TLS (clu_Spec c) of None \<Rightarrow> [] | Some tls \<Rightarrow> tl_SecretName tls)"
| "indexedSecret tlsBackendCASecretIndex c = (case backendOf c of None \<Rightarrow> [] | Some be \<Rightarrow> tb_CASecretName be)"
| "indexedSecret tlsBackendCertSecretIndex c = (case backendOf c of None \<Rightarrow> [] | Some be \<Rightarrow> tb_ClientCertSecretName be)"

definition cutSuffix :: "string \<Rightarrow> string \<Rightarrow> string option" where
  "cutSuffix s suffix = (if hasPrefix (rev suffix) (rev s) then Some (take (length s - length suffix) s) else None)"

text \<open>\<open>listIndexed\<close> is the cached list with a field selector.\<close>

definition addRequest :: "string \<Rightarrow> string \<Rightarrow> (string \<times> string) list \<Rightarrow> (string \<times> string) list" where
  "addRequest namespace name reqs =
     (if name = [] \<or> (namespace, name) \<in> set reqs then reqs else reqs @ [(namespace, name)])"

definition clustersForReferencedSecret ::
  "(secretIndex \<Rightarrow> string \<Rightarrow> string \<Rightarrow> string + ProxySQLCluster list) \<Rightarrow> string \<Rightarrow> string \<Rightarrow> (string \<times> string) list" where
  "clustersForReferencedSecret listIndexed namespace name =
     (let reqs = fold (\<lambda>index reqs. case listIndexed index namespace name of
                    Inl _ \<Rightarrow> reqs
                  | Inr clusters \<Rightarrow> fold (\<lambda>c. addRequest namespace (clu_Name c)) clusters reqs)
                [authSecretNameIndex, tlsSecretNameIndex, tlsBackendCASecretIndex, tlsBackendCertSecretIndex] [];
          reqs = (case cutSuffix name ''-tls'' of None \<Rightarrow> reqs | Some n \<Rightarrow> addRequest namespace n reqs) in
      case cutSuffix name ''-tls-ca'' of None \<Rightarrow> reqs | Some n \<Rightarrow> addRequest namespace n reqs)"

end
