(* ===== verification/ClusterStatus.thy ===== *)
theory ClusterStatus
  imports ClusterReconcile RestartSafety
begin

text \<open>
  What a reconciliation of a cluster leaves behind, and which events bring one about: properties
  of \<open>ClusterReconcile\<close>. A pass that reports success has written a status that says so; a pass
  whose runtime push fails has kept the markers that make the next pass push again; and every
  event of a Secret a cluster refers to brings the cluster back.
\<close>

section \<open>Conditions\<close>

definition conditionOf :: "string \<Rightarrow> ProxySQLCluster \<Rightarrow> string option" where
  "conditionOf t c = map_option cd_Status (find (\<lambda>x. cd_Type x = t) (cst_Conditions (clu_Status c)))"

text \<open>What apimachinery's \<open>SetStatusCondition\<close> and \<open>RemoveStatusCondition\<close> promise: one condition per
  type, the one set last.\<close>

definition conditionLaws :: "('w, 'm) cluEnv_scheme \<Rightarrow> bool" where
  "conditionLaws ke \<longleftrightarrow>
     (\<forall>c cs t. map_option cd_Status (find (\<lambda>x. cd_Type x = t) (ke_setCondition ke c cs)) =
        (if cd_Type c = t then Some (cd_Status c) else map_option cd_Status (find (\<lambda>x. cd_Type x = t) cs))) \<and>
     (\<forall>u cs t. map_option cd_Status (find (\<lambda>x. cd_Type x = t) (ke_removeCondition ke u cs)) =
        (if u = t then None else map_option cd_Status (find (\<lambda>x. cd_Type x = t) cs)))"

lemma conditionOf_set:
  "conditionLaws ke \<Longrightarrow> conditionOf t (setCondition ke u s reason msg c) =
     (if u = t then Some (if s then ''True'' else ''False'') else conditionOf t c)"
  by (simp add: conditionOf_def setCondition_def conditionLaws_def)

lemma conditionOf_remove:
  "conditionLaws ke \<Longrightarrow> conditionOf t (removeCondition ke u c) = (if u = t then None else conditionOf t c)"
  by (simp add: conditionOf_def removeCondition_def conditionLaws_def)

text \<open>Setting a condition touches nothing else.\<close>

lemma setCondition_fields [simp]:
  "clu_Generation (setCondition ke u s reason msg c) = clu_Generation c"
  "clu_Name (setCondition ke u s reason msg c) = clu_Name c"
  "clu_Namespace (setCondition ke u s reason msg c) = clu_Namespace c"
  "cst_ObservedGeneration (clu_Status (setCondition ke u s reason msg c)) = cst_ObservedGeneration (clu_Status c)"
  "cst_Replicas (clu_Status (setCondition ke u s reason msg c)) = cst_Replicas (clu_Status c)"
  "cst_ReadyReplicas (clu_Status (setCondition ke u s reason msg c)) = cst_ReadyReplicas (clu_Status c)"
  "cst_Phase (clu_Status (setCondition ke u s reason msg c)) = cst_Phase (clu_Status c)"
  by (simp_all add: setCondition_def)

lemma removeCondition_fields [simp]:
  "clu_Generation (removeCondition ke u c) = clu_Generation c"
  "clu_Name (removeCondition ke u c) = clu_Name c" "clu_Namespace (removeCondition ke u c) = clu_Namespace c"
  "cst_ObservedGeneration (clu_Status (removeCondition ke u c)) = cst_ObservedGeneration (clu_Status c)"
  "cst_Replicas (clu_Status (removeCondition ke u c)) = cst_Replicas (clu_Status c)"
  "cst_ReadyReplicas (clu_Status (removeCondition ke u c)) = cst_ReadyReplicas (clu_Status c)"
  "cst_Phase (clu_Status (removeCondition ke u c)) = cst_Phase (clu_Status c)"
  by (simp_all add: removeCondition_def)

text \<open>What of the builder the status is made from is as the specification has it: no step before the
  status changes the cluster it is for, the pause or the number of replicas.\<close>

definition sameScale :: "Builder \<Rightarrow> Builder \<Rightarrow> bool" where
  "sameScale b b' \<longleftrightarrow> b_Cluster b' = b_Cluster b \<and> cs_Pause (b_Spec b') = cs_Pause (b_Spec b)
     \<and> cs_Replicas (b_Spec b') = cs_Replicas (b_Spec b)"

lemma sameScale_trans: "sameScale a b \<Longrightarrow> sameScale b c \<Longrightarrow> sameScale a c"
  by (simp add: sameScale_def)

lemma resolveAWSBootstrap_scale:
  "resolveAWSBootstrap ke cluster b w = Some (w', Inr b') \<Longrightarrow> sameScale b b'"
  by (auto simp: resolveAWSBootstrap_def sameScale_def Let_def split: if_splits sum.splits option.splits) (metis sum.exhaust)+

lemma ensureTLSSecrets_scale: "ensureTLSSecrets te cluster b w = (w', b', r, e) \<Longrightarrow> sameScale b b'"
  by (auto simp: ensureTLSSecrets_def sameScale_def Let_def split: if_splits sum.splits option.splits prod.splits)

lemma hold_scale:
  "holdTLSLastGood te w b = Inr b' \<Longrightarrow> sameScale b b'"
  "holdBackendTLSLastGood te w b = Inr b' \<Longrightarrow> sameScale b b'"
  "resolveTLSCleanup te w b = Inr b' \<Longrightarrow> sameScale b b'"
  by (auto simp: holdTLSLastGood_def holdBackendTLSLastGood_def resolveTLSCleanup_def setBackend_def sameScale_def Let_def
      split: if_splits sum.splits getError.splits prod.splits)

lemma sameScale_refl: "sameScale b b"
  by (simp add: sameScale_def)

lemma resolveTLS_scale: "resolveTLS te cluster b w = (w', Inr (b', r, e)) \<Longrightarrow> sameScale b b'"
  unfolding resolveTLS_def
  by (auto dest!: ensureTLSSecrets_scale hold_scale intro: sameScale_trans split: if_splits sum.splits option.splits prod.splits)

lemma New_scale:
  "b_Cluster (New cluster pw) = cluster" "cs_Pause (b_Spec (New cluster pw)) = cs_Pause (clu_Spec cluster)"
  by (simp_all add: New_def DefaultedSpec_def defaultProtocols_def Let_def)

section \<open>A pass that succeeds\<close>

text \<open>The ready replicas the API server reports.\<close>

definition readyAt :: "('w, 'm) cluEnv_scheme \<Rightarrow> 'w \<Rightarrow> string \<Rightarrow> string \<Rightarrow> int" where
  "readyAt ke w namespace name =
     (case te_statefulSet ke w namespace name of Inl _ \<Rightarrow> 0 | Inr ss \<Rightarrow> sss_ReadyReplicas (ss_Status ss))"

definition wantedReplicas :: "ProxySQLCluster \<Rightarrow> int" where
  "wantedReplicas cluster = (case cs_Replicas (DefaultedSpec cluster) of None \<Rightarrow> 0 | Some r \<Rightarrow> r)"

definition replicaConditions :: "bool \<Rightarrow> int \<Rightarrow> int \<Rightarrow> ProxySQLCluster \<Rightarrow> bool" where
  "replicaConditions paused ready desired c \<longleftrightarrow>
     (if paused
      then conditionOf ''Available'' c = Some ''False'' \<and> conditionOf ''Paused'' c = Some (if ready > 0 then ''False'' else ''True'')
      else conditionOf ''Available'' c = Some (if ready = desired \<and> desired > 0 then ''True'' else ''False'')
           \<and> conditionOf ''Paused'' c = Some ''False'')"

lemma paused_conditions:
  assumes "conditionLaws ke"
  shows "replicaConditions True (sss_ReadyReplicas (ss_Status ss)) desired
    (removeCondition ke ''Degraded'' (pausedConditions ke ss c))"
  using assms by (simp add: replicaConditions_def pausedConditions_def Let_def conditionOf_set conditionOf_remove)

lemma running_conditions:
  assumes "conditionLaws ke"
  shows "replicaConditions False ready desired (removeCondition ke ''Degraded'' (runningConditions ke ready desired summary c))"
  using assms by (simp add: replicaConditions_def runningConditions_def Let_def conditionOf_set conditionOf_remove)

lemma status_conditions_fields [simp]:
  "clu_Generation (pausedConditions ke ss c) = clu_Generation c"
  "cst_ObservedGeneration (clu_Status (pausedConditions ke ss c)) = cst_ObservedGeneration (clu_Status c)"
  "cst_Replicas (clu_Status (pausedConditions ke ss c)) = cst_Replicas (clu_Status c)"
  "cst_ReadyReplicas (clu_Status (pausedConditions ke ss c)) = cst_ReadyReplicas (clu_Status c)"
  "clu_Generation (runningConditions ke ready desired summary c) = clu_Generation c"
  "cst_ObservedGeneration (clu_Status (runningConditions ke ready desired summary c)) = cst_ObservedGeneration (clu_Status c)"
  "cst_Replicas (clu_Status (runningConditions ke ready desired summary c)) = cst_Replicas (clu_Status c)"
  "cst_ReadyReplicas (clu_Status (runningConditions ke ready desired summary c)) = cst_ReadyReplicas (clu_Status c)"
  by (simp_all add: pausedConditions_def runningConditions_def Let_def)

text \<open>The status of a cluster with nothing deferred.\<close>

lemma updateStatus_clean:
  assumes laws: "conditionLaws ke" and run: "updateStatus ke b summary None None None cluster w = (w', c, None)"
  defines "ready \<equiv> readyAt ke w (b_Namespace b) (b_Name b)"
    and "desired \<equiv> (case cs_Replicas (b_Spec b) of None \<Rightarrow> 0 | Some r \<Rightarrow> r)"
  shows "ke_updateStatus ke c w = (w', None) \<and> conditionOf ''Degraded'' c = None
    \<and> cst_ObservedGeneration (clu_Status c) = clu_Generation cluster
    \<and> cst_ReadyReplicas (clu_Status c) = ready \<and> cst_Replicas (clu_Status c) = desired
    \<and> replicaConditions (cs_Pause (b_Spec b)) ready desired c"
proof -
  obtain ss missing where ss: "(case te_statefulSet ke w (b_Namespace b) (b_Name b) of
       Inl (NotFound _) \<Rightarrow> Inr (freshStatefulSet [] [], True) | Inl (GetFailed e) \<Rightarrow> Inl e | Inr ss \<Rightarrow> Inr (ss, False)) = Inr (ss, missing)"
    using run by (auto simp: updateStatus_def split: sum.splits getError.splits prod.splits)
  then have ready: "ready = sss_ReadyReplicas (ss_Status ss)"
    by (auto simp: ready_def readyAt_def freshStatefulSet_def split: sum.splits getError.splits)
  obtain ext where ext: "externalEndpoint ke b w = Inr ext"
    using run ss by (auto simp: updateStatus_def Let_def split: sum.splits prod.splits)
  show ?thesis
    using run paused_conditions [OF laws] running_conditions [OF laws]
    unfolding updateStatus_def ss ready desired_def [symmetric]
    by (auto simp: ext Let_def updatePausedStatus_def setDegradedFromDeferredErrors_def conditionOf_remove [OF laws]
        split: if_splits prod.splits)
qed

lemma ensureServiceMonitor_fields:
  assumes "ensureServiceMonitor ke cluster desired w = (w', c)"
  shows "clu_Generation c = clu_Generation cluster"
  using assms by (auto simp: ensureServiceMonitor_def split: option.splits sum.splits prod.splits)

lemma commitPass_clean:
  assumes "commitPass ke cluster b pw tlsReady tlsErr oldCnf newCnf extSvcErr cur w = (w', c, [])"
  obtains b' summary w1 cluster' where "sameScale b b'" "clu_Generation cluster' = clu_Generation cluster"
    "updateStatus ke b' summary None None None cluster' w1 = (w', c, None)"
proof -
  obtain w1 rot rotErr where rot: "resolveTLSRotation ke cluster b tlsReady cur (pw_Radmin pw) w = (w1, rot, rotErr)"
    using prod_cases3 by blast
  let ?b = "b\<lparr>b_TLSRestartValue := rot_restart rot\<rparr>"
  have scale: "sameScale b ?b" by (simp add: sameScale_def)
  from assms rot obtain d v v' cl s where sm: "ensureServiceMonitor ke cluster d v = (v', cl)"
    and st: "updateStatus ke ?b s None None None cl v' = (w', c, None)"
    unfolding commitPass_def
    by (auto simp: Let_def optList_def split: prod.splits sum.splits option.splits)
  show thesis by (rule that [OF scale ensureServiceMonitor_fields [OF sm] st])
qed

text \<open>C15. A pass that returns no error on a cluster that is not being deleted has written the status it
  holds: the generation it acted on is the observed one, no Degraded condition is left, the counts are
  those of the StatefulSet as it was read, and the Available and Paused conditions say exactly whether all
  wanted replicas are ready, or, on a paused cluster, whether none is.\<close>

theorem successful_pass_status:
  assumes laws: "conditionLaws ke" and cluster: "ke_cluster ke w ns n = Inr cluster" "\<not> clu_Deleting cluster"
    and run: "ReconcileCluster ke ns n w = Some (w', Some c, [])"
  shows "\<exists>w1. let ready = readyAt ke w1 (clu_Namespace cluster) (clu_Name cluster) in
    ke_updateStatus ke c w1 = (w', None) \<and> conditionOf ''Degraded'' c = None
    \<and> cst_ObservedGeneration (clu_Status c) = clu_Generation cluster
    \<and> cst_ReadyReplicas (clu_Status c) = ready \<and> cst_Replicas (clu_Status c) = wantedReplicas cluster
    \<and> replicaConditions (cs_Pause (clu_Spec cluster)) ready (wantedReplicas cluster) c"
proof -
  from run cluster have "reconcileLive ke cluster w = Some (w', c, [])"
    by (auto simp: ReconcileCluster_def)
  then obtain w1 pw w2 b1 w3 b2 tlsReady tlsErr w4 oldCnf newCnf extSvcErr cur b3 where
    b1: "resolveAWSBootstrap ke cluster (New cluster pw) w1 = Some (w2, Inr b1)" and
    b2: "resolveTLS ke cluster b1 w2 = (w3, Inr (b2, tlsReady, tlsErr))" and
    b3: "resolveTLSCleanup ke w4 b2 = Inr b3" and
    commit: "commitPass ke cluster b3 pw tlsReady tlsErr oldCnf newCnf extSvcErr cur w4 = (w', c, [])"
    unfolding reconcileLive_def degradeWith_def by (auto simp: Let_def split: prod.splits sum.splits option.splits)
  from commit obtain b4 summary w5 cluster' where b4: "sameScale b3 b4" and g: "clu_Generation cluster' = clu_Generation cluster"
    and st: "updateStatus ke b4 summary None None None cluster' w5 = (w', c, None)"
    by (rule commitPass_clean)
  have "sameScale (New cluster pw) b4"
    using resolveAWSBootstrap_scale [OF b1] resolveTLS_scale [OF b2] hold_scale(3) [OF b3] b4 by (blast intro: sameScale_trans)
  then have "b_Cluster b4 = cluster" "cs_Pause (b_Spec b4) = cs_Pause (clu_Spec cluster)"
    "cs_Replicas (b_Spec b4) = cs_Replicas (DefaultedSpec cluster)"
    using New_scale by (simp_all add: sameScale_def) (simp add: New_def)
  with updateStatus_clean [OF laws st] g show ?thesis
    unfolding Let_def by (intro exI [of _ w5]) (simp add: wantedReplicas_def b_Name_def b_Namespace_def)
qed

section \<open>A pass whose runtime push fails\<close>

text \<open>What the API server promises of the StatefulSet: after a successful create-or-update it reads as the
  mutation made it, and writing a status leaves it alone.\<close>

definition stsStored :: "('w, 'm) cluEnv_scheme \<Rightarrow> bool" where
  "stsStored ke \<longleftrightarrow>
     (\<forall>ns n f w w'. ke_upsertStatefulSet ke ns n f w = (w', None) \<longrightarrow>
        (\<exists>old ss. f old = Inr ss \<and> te_statefulSet ke w' ns n = Inr ss)) \<and>
     (\<forall>c w. te_statefulSet ke (fst (ke_updateStatus ke c w)) = te_statefulSet ke w)"

lemma StatefulSetOf_at: "ss_Namespace (StatefulSetOf b checksum) = b_Namespace b" "ss_Name (StatefulSetOf b checksum) = b_Name b"
  by (simp_all add: StatefulSetOf_def freshStatefulSet_def)

text \<open>C16. When the runtime push of a pass fails and the StatefulSet could be written, the pass returns the
  failure with the cluster Degraded, and the StatefulSet then carries the checksum and the two
  markers of before the pass, so the next pass finds the change still to be made; what the TLS
  rotation of this pass achieved is kept.\<close>

theorem failed_push_keeps_markers:
  assumes stored: "stsStored ke" and laws: "conditionLaws ke"
    and annotations: "mwf (cs_PodAnnotations (b_Spec b))" "mget (cs_PodAnnotations (b_Spec b)) TLSRestartAnnotation = None"
    and prev: "sta_cnfChecksum cur \<noteq> []"
    and rot: "resolveTLSRotation ke cluster b tlsReady cur (pw_Radmin pw) w = (w1, rot, rotErr)"
    and push: "resolveRestartChecksum (re_sha ke) (clusterPushEnv ke cluster (pw_Radmin pw) w1) oldCnf newCnf
      (sta_cnfChecksum cur) (CnfChecksum (re_sha ke) newCnf) (sta_varsApplied cur) (sta_structuralApplied cur) w1 = (w2, Inl e)"
    and run: "commitPass ke cluster b pw tlsReady tlsErr oldCnf newCnf extSvcErr cur w = (w', c, errs)"
    and written: "\<forall>e'. EnsureAfterRuntimeApply e' e \<notin> set errs"
  shows "RuntimeApplyFailed e \<in> set errs \<and> conditionOf ''Degraded'' c = Some ''True''
    \<and> (\<exists>ss. te_statefulSet ke w' (b_Namespace b) (b_Name b) = Inr ss
         \<and> sta_cnfChecksum (annotationsOf ss) = sta_cnfChecksum cur
         \<and> sta_varsApplied (annotationsOf ss) = sta_varsApplied cur
         \<and> sta_structuralApplied (annotationsOf ss) = sta_structuralApplied cur
         \<and> sta_tlsApplied (annotationsOf ss) = rot_applied rot
         \<and> sta_tlsRotationState (annotationsOf ss) = rot_state rot)"
proof -
  let ?b = "b\<lparr>b_TLSRestartValue := rot_restart rot\<rparr>"
  let ?m = "\<lparr>stm_varsApplied = sta_varsApplied cur, stm_structuralApplied = sta_structuralApplied cur,
    stm_tlsApplied = rot_applied rot, stm_tlsRotationState = rot_state rot\<rparr>"
  obtain v where up: "ensureStatefulSet ke cluster (StatefulSetOf ?b (sta_cnfChecksum cur)) ?m w2 = (v, None)"
    and c: "c = setCondition ke ''Degraded'' True ''RuntimeApplyError'' e cluster" "w' = fst (ke_updateStatus ke c v)"
    and errs: "RuntimeApplyFailed e \<in> set errs"
    using run written prev
    by (auto simp: commitPass_def rot push Let_def handleRuntimeApplyError_def split: prod.splits option.splits if_splits)
  from up stored obtain old ss where ss: "statefulSetMutation ke cluster (StatefulSetOf ?b (sta_cnfChecksum cur)) ?m old = Inr ss"
    and at: "te_statefulSet ke v (b_Namespace b) (b_Name b) = Inr ss"
    unfolding stsStored_def ensureStatefulSet_def StatefulSetOf_at by (fastforce simp: b_Namespace_def b_Name_def)
  from markers_written [OF ss] annotations have "annotationsOf ss =
      \<lparr>sta_cnfChecksum = sta_cnfChecksum cur, sta_varsApplied = sta_varsApplied cur, sta_structuralApplied = sta_structuralApplied cur,
       sta_tlsApplied = rot_applied rot, sta_tlsRotationState = rot_state rot,
       sta_tlsRestart = (if TLSEnabled (b_Spec b) then rot_restart rot else [])\<rparr>" by simp
  with at errs c stored show ?thesis by (simp add: conditionOf_set [OF laws] stsStored_def)
qed

section \<open>Events of Secrets\<close>

lemma addRequest_set: "set (addRequest ns m rs) = (if m = [] then set rs else insert (ns, m) (set rs))"
  by (auto simp: addRequest_def)

lemma addRequest_distinct: "distinct rs \<Longrightarrow> distinct (addRequest ns m rs)"
  by (simp add: addRequest_def)

lemma fold_addRequest:
  "set (fold (\<lambda>c. addRequest ns (clu_Name c)) cs rs) = set rs \<union> {(ns, clu_Name c) | c. c \<in> set cs \<and> clu_Name c \<noteq> []}"
  "distinct rs \<Longrightarrow> distinct (fold (\<lambda>c. addRequest ns (clu_Name c)) cs rs)"
  by (induction cs arbitrary: rs) (auto simp: addRequest_set addRequest_distinct)

lemma cutSuffix_iff: "cutSuffix s suffix = Some m \<longleftrightarrow> s = m @ suffix"
proof
  assume "s = m @ suffix"
  then have "rev s = rev suffix @ rev m" "length s - length suffix = length m" by simp_all
  with \<open>s = m @ suffix\<close> show "cutSuffix s suffix = Some m" by (simp add: cutSuffix_def)
next
  assume "cutSuffix s suffix = Some m"
  then obtain t where "rev s = rev suffix @ t" "m = take (length s - length suffix) s"
    by (auto simp: cutSuffix_def hasPrefix_iff split: if_splits)
  moreover from this have "s = rev t @ suffix" by (metis rev_append rev_rev_ident)
  ultimately show "s = m @ suffix" by simp
qed

lemma all_indexes: "set [authSecretNameIndex, tlsSecretNameIndex, tlsBackendCASecretIndex, tlsBackendCertSecretIndex] = UNIV"
  using secretIndex.exhaust by auto

lemma fold_indexes:
  assumes index: "\<And>i. listIndexed i ns n = Inr (filter (\<lambda>c. indexedSecret i c = n) clusters)"
  defines "add \<equiv> \<lambda>i reqs. case listIndexed i ns n of Inl _ \<Rightarrow> reqs | Inr cs \<Rightarrow> fold (\<lambda>c. addRequest ns (clu_Name c)) cs reqs"
  shows "set (fold add ixs rs) = set rs \<union> {(ns, clu_Name c) | c. c \<in> set clusters \<and> clu_Name c \<noteq> [] \<and> (\<exists>i\<in>set ixs. indexedSecret i c = n)}"
    and "distinct rs \<Longrightarrow> distinct (fold add ixs rs)"
proof (induction ixs arbitrary: rs)
  case (Cons i ixs)
  { case 1
    show ?case using Cons(1) [of "add i rs"] by (auto simp: add_def index fold_addRequest)
  next
    case 2
    then show ?case using Cons(2) [of "add i rs"] by (simp add: add_def index fold_addRequest)
  }
qed simp_all

lemma addStem:
  "(ns, m) \<in> set (case cutSuffix n suffix of None \<Rightarrow> rs | Some k \<Rightarrow> addRequest ns k rs) \<longleftrightarrow> (ns, m) \<in> set rs \<or> m \<noteq> [] \<and> n = m @ suffix"
  "distinct rs \<Longrightarrow> distinct (case cutSuffix n suffix of None \<Rightarrow> rs | Some k \<Rightarrow> addRequest ns k rs)"
proof -
  show "(ns, m) \<in> set (case cutSuffix n suffix of None \<Rightarrow> rs | Some k \<Rightarrow> addRequest ns k rs) \<longleftrightarrow> (ns, m) \<in> set rs \<or> m \<noteq> [] \<and> n = m @ suffix"
  proof (cases "cutSuffix n suffix")
    case None
    then have "n \<noteq> m @ suffix" using cutSuffix_iff [of n suffix m] by simp
    with None show ?thesis by simp
  next
    case (Some k)
    then have "n = k @ suffix" by (simp add: cutSuffix_iff)
    with Some show ?thesis by (simp add: addRequest_set) blast
  qed
qed (simp add: addRequest_distinct split: option.split)

text \<open>An event of a Secret brings back exactly the clusters it concerns, each once: those of its namespace
  that name it for their passwords, their certificate, or their backend's, and the cluster whose
  operator-made certificate or authority has that name.\<close>

theorem secret_events_reach_clusters:
  assumes index: "\<And>i. listIndexed i ns n = Inr (filter (\<lambda>c. indexedSecret i c = n) clusters)"
  shows "distinct (clustersForReferencedSecret listIndexed ns n) \<and>
    (\<forall>m. (ns, m) \<in> set (clustersForReferencedSecret listIndexed ns n) \<longleftrightarrow>
       m \<noteq> [] \<and> ((\<exists>c\<in>set clusters. clu_Name c = m \<and> (\<exists>i. indexedSecret i c = n)) \<or> n = m @ ''-tls'' \<or> n = m @ ''-tls-ca''))"
proof -
  let ?base = "fold (\<lambda>index reqs. case listIndexed index ns n of Inl _ \<Rightarrow> reqs
      | Inr cs \<Rightarrow> fold (\<lambda>c. addRequest ns (clu_Name c)) cs reqs)
    [authSecretNameIndex, tlsSecretNameIndex, tlsBackendCASecretIndex, tlsBackendCertSecretIndex] []"
  let ?add = "\<lambda>suffix reqs. case cutSuffix n suffix of None \<Rightarrow> reqs | Some m \<Rightarrow> addRequest ns m reqs"
  note base = fold_indexes [where ixs = "[authSecretNameIndex, tlsSecretNameIndex, tlsBackendCASecretIndex, tlsBackendCertSecretIndex]"
      and rs = "[]" and listIndexed = listIndexed and ns = ns and n = n and clusters = clusters, OF index, unfolded all_indexes]
  have mem: "(ns, m) \<in> set ?base \<longleftrightarrow> m \<noteq> [] \<and> (\<exists>c\<in>set clusters. clu_Name c = m \<and> (\<exists>i. indexedSecret i c = n))" for m
    unfolding base(1) by auto
  have dist: "distinct ?base" using base(2) by simp
  have r: "clustersForReferencedSecret listIndexed ns n = ?add ''-tls-ca'' (?add ''-tls'' ?base)"
    unfolding clustersForReferencedSecret_def Let_def by (rule refl)
  have "distinct (clustersForReferencedSecret listIndexed ns n)" unfolding r by (intro addStem(2) dist)
  moreover have "(ns, m) \<in> set (clustersForReferencedSecret listIndexed ns n) \<longleftrightarrow>
      m \<noteq> [] \<and> ((\<exists>c\<in>set clusters. clu_Name c = m \<and> (\<exists>i. indexedSecret i c = n)) \<or> n = m @ ''-tls'' \<or> n = m @ ''-tls-ca'')" for m
    unfolding r addStem(1) mem by blast
  ultimately show ?thesis by blast
qed

section \<open>Witnesses\<close>

text \<open>Conditions as apimachinery keeps them, and an API server on which every write succeeds. The world is the
  StatefulSet, if there is one.\<close>

definition setCond :: "Condition \<Rightarrow> Condition list \<Rightarrow> Condition list" where
  "setCond c cs = c # filter (\<lambda>x. cd_Type x \<noteq> cd_Type c) cs"

definition serverEnv :: "StatefulSet option cluEnv" where
  "serverEnv = nullEnv\<lparr>te_statefulSet := (\<lambda>w _ _. case w of None \<Rightarrow> Inl (NotFound []) | Some ss \<Rightarrow> Inr ss),
     te_upsertSecret := (\<lambda>ns n _ w. (w, Inr (freshSecret n ns))), re_sha := mark, re_pods := (\<lambda>_ _ _. Inl ''list pods: refused''),
     ke_cluster := (\<lambda>_ _ _. Inr exampleCluster), ke_createSecret := (\<lambda>_ w. (w, None)),
     ke_upsertService := (\<lambda>_ _ _ w. (w, None)), ke_upsertPDB := (\<lambda>_ _ _ w. (w, None)),
     ke_upsertServiceMonitor := (\<lambda>_ _ _ w. (w, None)),
     ke_upsertStatefulSet := (\<lambda>ns n f w. case f (case w of None \<Rightarrow> freshStatefulSet n ns | Some ss \<Rightarrow> ss) of
        Inl e \<Rightarrow> (w, Some e) | Inr ss \<Rightarrow> (Some ss, None)),
     ke_setCondition := setCond, ke_removeCondition := (\<lambda>t cs. filter (\<lambda>x. cd_Type x \<noteq> t) cs)\<rparr>"

lemma find_filter_type:
  "find (\<lambda>x. cd_Type x = t) (filter (\<lambda>x. cd_Type x \<noteq> u) cs) = (if t = u then None else find (\<lambda>x. cd_Type x = t) cs)"
  by (induction cs) auto

lemma server_laws: "conditionLaws serverEnv" "stsStored serverEnv"
  by (auto simp: conditionLaws_def stsStored_def serverEnv_def nullEnv_def setCond_def find_filter_type split: sum.splits)

lemma example_plain:
  "TLSEnabled (b_Spec (New exampleCluster pw)) = False" "cs_TLS (b_Spec (New exampleCluster pw)) = None"
  "sv_External (cs_Service (b_Spec (New exampleCluster pw))) = None" "\<not> LoggingEnabled (New exampleCluster pw)"
  "cs_PodAnnotations (b_Spec (New exampleCluster pw)) = []" "\<not> AWSPluginEnabled (clu_Spec exampleCluster)"
  "ManagesAuthSecret (New exampleCluster pw)"
  by (simp_all add: New_def DefaultedSpec_def Let_def defaultProtocols_alt exampleCluster_def zeroClusterSpec_def TLSEnabled_def
      LoggingEnabled_def AWSPluginEnabled_def ManagesAuthSecret_def ensureTLS_def)

lemma example_cnf: "\<exists>s. CnfSecret by (New exampleCluster pw) = Inr s" if "pw_MonitorUsername pw = ''monitor''"
proof -
  have "cs_Variables (b_Spec (New exampleCluster pw)) = \<lparr>va_Admin = [], va_MySQL = [(''mysql-threads'', ''8'')], va_PostgreSQL = []\<rparr>"
    unfolding New_variables by (simp add: example_defs)
  moreover have "pw_MonitorUsername (b_Pw (New exampleCluster pw)) = ''monitor''"
    using that by (simp add: New_def orText_def)
  ultimately have "\<exists>cnf. BootstrapCnf (New exampleCluster pw) peers = Inr cnf" for peers
    by (simp add: BootstrapCnf_def Let_def cnfUsernameRe_def re_user_def reservedCnfKeys_def cnfVarName_def
        trimPrefix_def re_key_def disallowedRune_def)
  then obtain cnf where "BootstrapCnf (New exampleCluster pw) (ProxySQLServerDNS (New exampleCluster pw)) = Inr cnf" by blast
  then show ?thesis by (simp add: CnfSecret_def Let_def example_plain)
qed

lemma server_fields:
  "te_secret serverEnv w ns n = Inl (NotFound [])" "te_statefulSet serverEnv None ns n = Inl (NotFound [])"
  "ke_random serverEnv w = (w, Inr ''r'')" "ke_createSecret serverEnv sec w = (w, None)" "te_claim serverEnv c o' = Inr (Some (clu_UID c))"
  "te_upsertSecret serverEnv ns n f w = (w, Inr (freshSecret n ns))" "ke_configMap serverEnv w ns n = Inl (NotFound [])"
  "ke_upsertService serverEnv ns n g w = (w, None)" "ke_service serverEnv w ns n = Inl (NotFound [])"
  "ke_upsertPDB serverEnv ns n h w = (w, None)" "ke_pdb serverEnv w ns n = Inl (NotFound [])"
  "ke_serviceMonitor serverEnv w ns n = Inl (NotFound [])" "ke_upsertServiceMonitor serverEnv ns n k w = (w, None)"
  "ke_updateStatus serverEnv c w = (w, None)" "ke_cluster serverEnv w ns n = Inr exampleCluster"
  "re_pods serverEnv w ns n = Inl ''list pods: refused''" "re_sha serverEnv = mark"
  by (simp_all add: serverEnv_def nullEnv_def)

lemma server_passwords: "\<exists>pw. resolvePasswords serverEnv exampleCluster w = (w, Inr pw) \<and> pw_MonitorUsername pw = ''monitor''"
  by (simp add: resolvePasswords_def Let_def server_fields example_plain mintPasswords_def randomPassword_def RandomPassword_def
      claimSecret_def zeroPasswords_def)

lemma server_front:
  assumes "pw_MonitorUsername pw = ''monitor''"
  shows "\<exists>new. ensureFrontObjects serverEnv exampleCluster (New exampleCluster pw) w = (w, Inr ([], new, None))"
proof -
  from example_cnf [OF assms] obtain s where s: "CnfSecret (ke_bytesOf serverEnv) (New exampleCluster pw) = Inr s" by blast
  have "ExternalService (New exampleCluster pw) = None" by (simp add: ExternalService_def example_plain)
  then show ?thesis
    by (simp add: ensureFrontObjects_def currentCnfData_def server_fields s ensureCnfSecret_def cleanupLegacyCnfConfigMap_def
        deleteOwned_def ensureService_def ensureExternalService_def)
qed

lemma server_tls:
  "resolveTLS serverEnv exampleCluster (New exampleCluster pw) w = (w, Inr (New exampleCluster pw, False, None))"
  "resolveTLSCleanup serverEnv None (New exampleCluster pw) = Inr (New exampleCluster pw)"
  "resolveTLSRotation serverEnv exampleCluster (New exampleCluster pw) r cur p w =
     (w, \<lparr>rot_applied = [], rot_state = [], rot_restart = [], rot_summary = []\<rparr>, None)"
  by (simp_all add: resolveTLS_def ensureTLSSecrets_def validateBackendTLSSecrets_def resolveTLSCleanup_def resolveTLSRotation_def
      example_plain server_fields)

lemma server_sts: "\<exists>ss. ensureStatefulSet serverEnv c d m w = (Some ss, None)"
proof -
  have "\<exists>ss. statefulSetMutation serverEnv c d m x = Inr ss" for x
    by (simp add: statefulSetMutation_def Let_def server_fields)
  then show ?thesis by (auto simp: ensureStatefulSet_def serverEnv_def split: option.splits) (metis sum.case(2))+
qed

lemma server_rest:
  "ensurePDB serverEnv c d w = (w, None)" "\<exists>c'. ensureServiceMonitor serverEnv c sm w = (w, c')"
  by (auto simp: ensurePDB_def ensureServiceMonitor_def deleteOwned_def server_fields split: option.splits)

lemma server_status:
  assumes "sv_External (cs_Service (b_Spec b)) = None"
  shows "\<exists>c'. updateStatus serverEnv b summary None None None c (Some ss) = (Some ss, c', None)"
proof -
  have "te_statefulSet serverEnv (Some ss) ns n = Inr ss" for ns n by (simp add: serverEnv_def)
  then show ?thesis using assms
    by (simp add: updateStatus_def externalEndpoint_def Let_def updatePausedStatus_def server_fields)
qed

lemma server_commit:
  "\<exists>w c. commitPass serverEnv exampleCluster (New exampleCluster pw) pw False None [] new None zeroAnnotations None = (w, c, [])"
proof -
  let ?b = "New exampleCluster pw\<lparr>b_TLSRestartValue := []\<rparr>"
  obtain d where d: "resolveRestartChecksum mark (clusterPushEnv serverEnv exampleCluster (pw_Radmin pw) None) [] new
      (sta_cnfChecksum zeroAnnotations) (CnfChecksum mark new) (sta_varsApplied zeroAnnotations) (sta_structuralApplied zeroAnnotations) None = (None, Inr d)"
    by (simp add: resolveRestartChecksum_def classifyCnfChange_def zeroAnnotations_def Let_def)
  obtain ss where sts: "ensureStatefulSet serverEnv exampleCluster (StatefulSetOf ?b (rd_annotation d))
      \<lparr>stm_varsApplied = rd_varsApplied d, stm_structuralApplied = rd_structuralApplied d, stm_tlsApplied = [], stm_tlsRotationState = []\<rparr> None = (Some ss, None)"
    using server_sts by blast
  obtain c where sm: "ensureServiceMonitor serverEnv exampleCluster (ServiceMonitor ?b) (Some ss) = (Some ss, c)"
    using server_rest(2) by blast
  obtain c' where "updateStatus serverEnv ?b (mergeSummaries (rd_summary d) []) None None None c (Some ss) = (Some ss, c', None)"
    using server_status [of ?b "mergeSummaries (rd_summary d) []" c ss] example_plain(3) [of pw] by auto
  then show ?thesis
    by (simp add: commitPass_def server_tls server_fields d sts server_rest(1) sm optList_def Let_def)
qed

lemma server_reconcile: "\<exists>w c. ReconcileCluster serverEnv ns n None = Some (w, Some c, [])"
proof -
  obtain pw where pw: "resolvePasswords serverEnv exampleCluster None = (None, Inr pw)" "pw_MonitorUsername pw = ''monitor''"
    using server_passwords by blast
  obtain new where front: "ensureFrontObjects serverEnv exampleCluster (New exampleCluster pw) None = (None, Inr ([], new, None))"
    using server_front [OF pw(2)] by blast
  have aws: "resolveAWSBootstrap serverEnv exampleCluster (New exampleCluster pw) None = Some (None, Inr (New exampleCluster pw))"
    by (simp add: resolveAWSBootstrap_def example_plain)
  have cur: "currentStatefulSetAnnotations serverEnv (New exampleCluster pw) None = Inr zeroAnnotations"
    by (simp add: currentStatefulSetAnnotations_def server_fields)
  obtain w c where "commitPass serverEnv exampleCluster (New exampleCluster pw) pw False None [] new None zeroAnnotations None = (w, c, [])"
    using server_commit by blast
  then have "reconcileLive serverEnv exampleCluster None = Some (w, c, [])"
    by (simp add: reconcileLive_def pw aws server_tls front cur)
  moreover have "\<not> clu_Deleting exampleCluster" by (simp add: exampleCluster_def)
  ultimately show ?thesis by (simp add: ReconcileCluster_def server_fields)
qed

theorem successful_pass_status_witness:
  "\<exists>w c. ReconcileCluster serverEnv ''golden-ns'' ''golden'' None = Some (w, Some c, [])
     \<and> conditionOf ''Degraded'' c = None \<and> cst_ObservedGeneration (clu_Status c) = 1"
proof -
  obtain w c where r: "ReconcileCluster serverEnv ''golden-ns'' ''golden'' None = Some (w, Some c, [])"
    using server_reconcile by blast
  have "clu_Generation exampleCluster = 1" "\<not> clu_Deleting exampleCluster" by (simp_all add: exampleCluster_def)
  with successful_pass_status [OF server_laws(1) server_fields(15) _ r] r show ?thesis by (auto simp: Let_def)
qed

theorem failed_push_keeps_markers_witness:
  "\<exists>w' c errs ss. commitPass serverEnv exampleCluster (New exampleCluster zeroPasswords) zeroPasswords False None
       (varsCnf ''4'' ''1'') (varsCnf ''8'' ''1'') None (zeroAnnotations\<lparr>sta_cnfChecksum := ''x''\<rparr>) None = (w', c, errs)
     \<and> conditionOf ''Degraded'' c = Some ''True'' \<and> w' = Some ss \<and> sta_cnfChecksum (annotationsOf ss) = ''x''"
proof -
  let ?cur = "zeroAnnotations\<lparr>sta_cnfChecksum := ''x''\<rparr>" and ?b = "New exampleCluster zeroPasswords"
  obtain w' c errs where run: "commitPass serverEnv exampleCluster ?b zeroPasswords False None
       (varsCnf ''4'' ''1'') (varsCnf ''8'' ''1'') None ?cur None = (w', c, errs)" by (metis prod_cases3)
  have "classifyCnfChange mark (varsCnf ''4'' ''1'') (varsCnf ''8'' ''1'') ''x'' (CnfChecksum mark (varsCnf ''8'' ''1'')) [] [] =
      (verdictRuntimeTry, [(''mysql-threads'', ''8'')], [], False)"
    by code_simp
  then have push: "resolveRestartChecksum (re_sha serverEnv) (clusterPushEnv serverEnv exampleCluster (pw_Radmin zeroPasswords) None)
      (varsCnf ''4'' ''1'') (varsCnf ''8'' ''1'') (sta_cnfChecksum ?cur) (CnfChecksum (re_sha serverEnv) (varsCnf ''8'' ''1''))
      (sta_varsApplied ?cur) (sta_structuralApplied ?cur) None = (None, Inl ''list pods: refused'')"
    by (simp add: resolveRestartChecksum_def Let_def zeroAnnotations_def server_fields clusterPushEnv_def discoverPodEndpoints_def)
  have "ensureStatefulSet serverEnv cl d m w \<noteq> (v, Some e)" for cl d m w v e
    using server_sts [of cl d m w] by auto
  then have "EnsureAfterRuntimeApply e' e \<notin> set errs" for e e'
    using run push
    by (auto simp: commitPass_def server_tls Let_def handleRuntimeApplyError_def optList_def split: prod.splits option.splits if_splits)
  with failed_push_keeps_markers [OF server_laws(2,1) _ _ _ server_tls(3) push run] run
  have "conditionOf ''Degraded'' c = Some ''True''" "\<exists>ss. te_statefulSet serverEnv w' (b_Namespace ?b) (b_Name ?b) = Inr ss \<and> sta_cnfChecksum (annotationsOf ss) = ''x''"
    by (auto simp: example_plain zeroAnnotations_def)
  with run show ?thesis by (auto simp: serverEnv_def split: option.splits)
qed

theorem secret_events_reach_clusters_witness:
  "(''golden-ns'', ''golden'') \<in> set (clustersForReferencedSecret
      (\<lambda>i _ n. Inr (filter (\<lambda>c. indexedSecret i c = n) [exampleCluster])) ''golden-ns'' ''golden-tls-ca'')"
  using secret_events_reach_clusters [of "\<lambda>i _ n. Inr (filter (\<lambda>c. indexedSecret i c = n) [exampleCluster])" "''golden-ns''" "''golden-tls-ca''" "[exampleCluster]"]
  by simp

end
