(* ===== verification/AdminClient.thy ===== *)
theory AdminClient
  imports AdminSync "HOL-Library.Word"
begin

text \<open>
  The connection to one admin endpoint: \<open>operator/internal/proxysqlclient/client.go\<close>. The MySQL
  driver and its connections are a parameter, the record \<open>mysqlDriver\<close>, whose state \<open>'r\<close> holds
  the driver's process-wide registry of TLS configurations; \<open>driverLaws\<close> is what its
  documentation promises of the registry. The counter behind the registry keys is the 64-bit
  word the code has.

  Dials of different clusters run concurrently, so beside the operations the theory has the
  atomic actions they are made of (\<open>goroutineStep\<close>) and the interleavings of any number of
  dialling goroutines (\<open>dialStep\<close>). What is shown: alone, the actions are the operations; and
  in every interleaving each client talks under the TLS configuration it was given, and the
  registry holds the entries of the unfinished clients only.
\<close>

section \<open>The operations\<close>

record mysqlConfig =
  cf_User :: string
  cf_Passwd :: string
  cf_Net :: string
  cf_Addr :: string
  cf_Timeout :: int
  cf_ReadTimeout :: int
  cf_WriteTimeout :: int
  cf_AllowNativePasswords :: bool
  cf_TLSConfig :: string

text \<open>The rows of a query: the column names, what each scan of a row gives (a NULL is
  \<^term>\<open>None\<close>), and the error the iteration ended with.\<close>

record sqlRows =
  rw_columns :: "string + string list"
  rw_scans :: "(string + string option list) list"
  rw_err :: gerror

record ('t, 'd, 'r) mysqlDriver =
  dv_newConfig :: mysqlConfig
  dv_register :: "string \<Rightarrow> 't \<Rightarrow> 'r \<Rightarrow> string + 'r"
  dv_deregister :: "string \<Rightarrow> 'r \<Rightarrow> 'r"
  dv_formatDSN :: "mysqlConfig \<Rightarrow> string"
  dv_open :: "string \<Rightarrow> string \<Rightarrow> 'r \<Rightarrow> 'r \<times> (string + 'd)"
  dv_close :: "'d \<Rightarrow> 'r \<Rightarrow> 'r \<times> gerror"
  dv_ping :: "'d \<Rightarrow> 'r \<Rightarrow> 'r \<times> gerror"
  dv_exec :: "'d \<Rightarrow> string \<Rightarrow> 'r \<Rightarrow> 'r \<times> gerror"
  dv_query :: "'d \<Rightarrow> string \<Rightarrow> 'r \<Rightarrow> 'r \<times> (string + sqlRows)"

text \<open>\<open>sql.DB\<close>: the connections and the limits of the pool.\<close>

record 'd sqlDB =
  db_conns :: 'd
  db_maxOpen :: int
  db_maxIdle :: int
  db_maxLifetime :: int

record 'd Client =
  cl_db :: "'d sqlDB option"
  cl_addr :: string
  cl_tlsKey :: string

text \<open>The state of the process: \<open>tlsKeyCounter\<close>, and the driver's.\<close>

record 'r proc =
  ps_counter :: "64 word"
  ps_driver :: 'r

definition seconds :: "int \<Rightarrow> int" where
  "seconds n = n * 10 ^ 9"

definition dialConfig :: "('t, 'd, 'r) mysqlDriver \<Rightarrow> string \<Rightarrow> string \<Rightarrow> string \<Rightarrow> mysqlConfig" where
  "dialConfig drv addr user pass = (dv_newConfig drv)
     \<lparr>cf_User := user, cf_Passwd := pass, cf_Net := ''tcp'', cf_Addr := addr, cf_Timeout := seconds 10,
      cf_ReadTimeout := seconds 10, cf_WriteTimeout := seconds 10, cf_AllowNativePasswords := True\<rparr>"

definition tlsKeyName :: "64 word \<Rightarrow> string" where
  "tlsKeyName n = ''proxysql-operator-'' @ nat_digits (unat n)"

definition nextTLSKey :: "'r proc \<Rightarrow> 'r proc \<times> string" where
  "nextTLSKey p = (let n = ps_counter p + 1 in (p\<lparr>ps_counter := n\<rparr>, tlsKeyName n))"

definition deregisterTLS :: "('t, 'd, 'r) mysqlDriver \<Rightarrow> string \<Rightarrow> 'r proc \<Rightarrow> 'r proc" where
  "deregisterTLS drv key p = (if key \<noteq> [] then p\<lparr>ps_driver := dv_deregister drv key (ps_driver p)\<rparr> else p)"

definition pooled :: "'d \<Rightarrow> 'd sqlDB" where
  "pooled h = \<lparr>db_conns = h, db_maxOpen = 1, db_maxIdle = 1, db_maxLifetime = seconds 30\<rparr>"

definition registerError :: "string \<Rightarrow> string \<Rightarrow> string" where
  "registerError addr e = ''register TLS config for '' @ addr @ '': '' @ e"

definition openError :: "string \<Rightarrow> string \<Rightarrow> string" where
  "openError addr e = ''open proxysql admin '' @ addr @ '': '' @ e"

definition openClient :: "('t, 'd, 'r) mysqlDriver \<Rightarrow> string \<Rightarrow> mysqlConfig \<Rightarrow> string \<Rightarrow> 'r proc \<Rightarrow> 'r proc \<times> (string + 'd Client)" where
  "openClient drv addr cfg tlsKey p =
     (case dv_open drv ''mysql'' (dv_formatDSN drv cfg) (ps_driver p) of
        (r, Inl e) \<Rightarrow> (deregisterTLS drv tlsKey (p\<lparr>ps_driver := r\<rparr>), Inl (openError addr e))
      | (r, Inr h) \<Rightarrow> (p\<lparr>ps_driver := r\<rparr>, Inr \<lparr>cl_db = Some (pooled h), cl_addr = addr, cl_tlsKey = tlsKey\<rparr>))"

definition NewWithTLS :: "('t, 'd, 'r) mysqlDriver \<Rightarrow> string \<Rightarrow> string \<Rightarrow> string \<Rightarrow> 't option \<Rightarrow> 'r proc \<Rightarrow> 'r proc \<times> (string + 'd Client)" where
  "NewWithTLS drv addr user pass tlsCfg p =
     (let cfg = dialConfig drv addr user pass in
      case tlsCfg of
        None \<Rightarrow> openClient drv addr cfg [] p
      | Some t \<Rightarrow>
          (let (p, tlsKey) = nextTLSKey p in
           case dv_register drv tlsKey t (ps_driver p) of
             Inl e \<Rightarrow> (p, Inl (registerError addr e))
           | Inr r \<Rightarrow> openClient drv addr (cfg\<lparr>cf_TLSConfig := tlsKey\<rparr>) tlsKey (p\<lparr>ps_driver := r\<rparr>)))"

definition clientNew :: "('t, 'd, 'r) mysqlDriver \<Rightarrow> string \<Rightarrow> string \<Rightarrow> string \<Rightarrow> 'r proc \<Rightarrow> 'r proc \<times> (string + 'd Client)" where
  "clientNew drv addr user pass p = NewWithTLS drv addr user pass None p"

text \<open>\<open>Close\<close>; the receiver is a pointer, \<^term>\<open>None\<close> being nil, and the client it points to afterwards
  is returned with the error.\<close>

definition Close :: "('t, 'd, 'r) mysqlDriver \<Rightarrow> 'd Client option \<Rightarrow> 'r proc \<Rightarrow> 'r proc \<times> 'd Client option \<times> gerror" where
  "Close drv c p =
     (case c of None \<Rightarrow> (p, c, None)
      | Some cl \<Rightarrow>
          (case cl_db cl of None \<Rightarrow> (p, c, None)
           | Some db \<Rightarrow>
               (let (r, err) = dv_close drv (db_conns db) (ps_driver p) in
                (deregisterTLS drv (cl_tlsKey cl) (p\<lparr>ps_driver := r\<rparr>), Some (cl\<lparr>cl_tlsKey := []\<rparr>), err))))"

text \<open>The errors of the statement methods; their texts quote the statement with \<open>%q\<close>.\<close>

datatype clientError =
    ExecError string string string
  | QueryError string string string
  | DriverError string

text \<open>\<open>c.db\<close> is not nil on a client \<open>NewWithTLS\<close> returned; the methods take its pool.\<close>

definition Ping :: "('t, 'd, 'r) mysqlDriver \<Rightarrow> 'd sqlDB \<Rightarrow> 'r proc \<Rightarrow> 'r proc \<times> gerror" where
  "Ping drv db p = (let (r, e) = dv_ping drv (db_conns db) (ps_driver p) in (p\<lparr>ps_driver := r\<rparr>, e))"

definition Exec :: "('t, 'd, 'r) mysqlDriver \<Rightarrow> 'd Client \<Rightarrow> 'd sqlDB \<Rightarrow> string \<Rightarrow> 'r proc \<Rightarrow> 'r proc \<times> clientError option" where
  "Exec drv c db query p =
     (let (r, e) = dv_exec drv (db_conns db) query (ps_driver p) in
      (p\<lparr>ps_driver := r\<rparr>, map_option (ExecError (cl_addr c) (snippet query)) e))"

definition cellText :: "string option \<Rightarrow> string" where
  "cellText v = (case v of None \<Rightarrow> [] | Some s \<Rightarrow> s)"

fun scanRows :: "string list list \<Rightarrow> (string + string option list) list \<Rightarrow> gerror \<Rightarrow> string list list \<times> gerror" where
  "scanRows out [] err = (out, err)"
| "scanRows out (Inl e # rs) err = ([], Some e)"
| "scanRows out (Inr raw # rs) err = scanRows (out @ [map cellText raw]) rs err"

definition Query :: "('t, 'd, 'r) mysqlDriver \<Rightarrow> 'd Client \<Rightarrow> 'd sqlDB \<Rightarrow> string \<Rightarrow> 'r proc \<Rightarrow> 'r proc \<times> string list list \<times> clientError option" where
  "Query drv c db query p =
     (case dv_query drv (db_conns db) query (ps_driver p) of
        (r, Inl e) \<Rightarrow> (p\<lparr>ps_driver := r\<rparr>, [], Some (QueryError (cl_addr c) (snippet query) e))
      | (r, Inr rows) \<Rightarrow>
          (p\<lparr>ps_driver := r\<rparr>,
           case rw_columns rows of
             Inl e \<Rightarrow> ([], Some (DriverError e))
           | Inr _ \<Rightarrow> (let (out, e) = scanRows [] (rw_scans rows) (rw_err rows) in (out, map_option DriverError e))))"

lemma scanRows_iff:
  "scanRows out rs err =
     (case filter isl rs of
        [] \<Rightarrow> (out @ map (map cellText \<circ> projr) rs, err) | r # _ \<Rightarrow> ([], Some (projl r)))"
  by (induction out rs err rule: scanRows.induct) (auto split: list.splits)

section \<open>Interleaved dials\<close>

record 't dialArgs =
  da_addr :: string
  da_user :: string
  da_pass :: string
  da_tls :: "'t option"

text \<open>Where a goroutine that opens, uses and closes a client stands.\<close>

datatype ('t, 'd) dialer =
    Dialing "'t dialArgs"
  | HasKey "'t dialArgs" "64 word"
  | Registered "'t dialArgs" "64 word"
  | OpenFailed "'t dialArgs" "64 word" string
  | Holding "'t dialArgs" "64 word option" "'d Client"
  | Closing "'t dialArgs" "64 word" gerror
  | Gone "'t dialArgs" gerror

definition argsConfig :: "('t, 'd, 'r) mysqlDriver \<Rightarrow> 't dialArgs \<Rightarrow> mysqlConfig" where
  "argsConfig drv a = dialConfig drv (da_addr a) (da_user a) (da_pass a)"

definition clientOf :: "'t dialArgs \<Rightarrow> string \<Rightarrow> 'd \<Rightarrow> 'd Client" where
  "clientOf a key h = \<lparr>cl_db = Some (pooled h), cl_addr = da_addr a, cl_tlsKey = key\<rparr>"

text \<open>One atomic action: a counter increment, a registration, an open, a close, a deregistration.\<close>

fun goroutineStep :: "('t, 'd, 'r) mysqlDriver \<Rightarrow> ('t, 'd) dialer \<times> 'r proc \<Rightarrow> ('t, 'd) dialer \<times> 'r proc" where
  "goroutineStep drv (Dialing a, p) =
     (case da_tls a of
        Some _ \<Rightarrow> (let n = ps_counter p + 1 in (HasKey a n, p\<lparr>ps_counter := n\<rparr>))
      | None \<Rightarrow>
          (case dv_open drv ''mysql'' (dv_formatDSN drv (argsConfig drv a)) (ps_driver p) of
             (r, Inl e) \<Rightarrow> (Gone a (Some (openError (da_addr a) e)), p\<lparr>ps_driver := r\<rparr>)
           | (r, Inr h) \<Rightarrow> (Holding a None (clientOf a [] h), p\<lparr>ps_driver := r\<rparr>)))"
| "goroutineStep drv (HasKey a n, p) =
     (case dv_register drv (tlsKeyName n) (the (da_tls a)) (ps_driver p) of
        Inl e \<Rightarrow> (Gone a (Some (registerError (da_addr a) e)), p)
      | Inr r \<Rightarrow> (Registered a n, p\<lparr>ps_driver := r\<rparr>))"
| "goroutineStep drv (Registered a n, p) =
     (case dv_open drv ''mysql'' (dv_formatDSN drv (argsConfig drv a\<lparr>cf_TLSConfig := tlsKeyName n\<rparr>)) (ps_driver p) of
        (r, Inl e) \<Rightarrow> (OpenFailed a n e, p\<lparr>ps_driver := r\<rparr>)
      | (r, Inr h) \<Rightarrow> (Holding a (Some n) (clientOf a (tlsKeyName n) h), p\<lparr>ps_driver := r\<rparr>))"
| "goroutineStep drv (OpenFailed a n e, p) =
     (Gone a (Some (openError (da_addr a) e)), p\<lparr>ps_driver := dv_deregister drv (tlsKeyName n) (ps_driver p)\<rparr>)"
| "goroutineStep drv (Holding a k c, p) =
     (case cl_db c of None \<Rightarrow> (Gone a None, p)
      | Some db \<Rightarrow>
          (let (r, err) = dv_close drv (db_conns db) (ps_driver p) in
           (case k of None \<Rightarrow> Gone a err | Some n \<Rightarrow> Closing a n err, p\<lparr>ps_driver := r\<rparr>)))"
| "goroutineStep drv (Closing a n err, p) =
     (Gone a err, p\<lparr>ps_driver := dv_deregister drv (tlsKeyName n) (ps_driver p)\<rparr>)"
| "goroutineStep drv (Gone a e, p) = (Gone a e, p)"

inductive dialStep :: "('t, 'd, 'r) mysqlDriver \<Rightarrow> ('t, 'd) dialer list \<times> 'r proc \<Rightarrow> ('t, 'd) dialer list \<times> 'r proc \<Rightarrow> bool"
  for drv where
  start: "dialStep drv (ds, p) (ds @ [Dialing a], p)"
| advance: "i < length ds \<Longrightarrow> goroutineStep drv (ds ! i, p) = (d, p') \<Longrightarrow> dialStep drv (ds, p) (ds[i := d], p')"
| work: "i < length ds \<Longrightarrow> ds ! i = Holding a k c \<Longrightarrow> cl_db c = Some db \<Longrightarrow>
    Exec drv c db query p = (p', e) \<Longrightarrow> dialStep drv (ds, p) (ds, p')"

inductive_cases dialStepE: "dialStep drv s t"

section \<open>What the driver promises\<close>

text \<open>
  \<open>L\<close> reads the registry, \<open>tlsOf\<close> the TLS configuration a pool connects with. Registering
  sets one key, deregistering clears one, opening resolves the name of the data source at that
  moment, and no other call touches the registry.
\<close>

definition driverLaws :: "('t, 'd, 'r) mysqlDriver \<Rightarrow> ('r \<Rightarrow> string \<Rightarrow> 't option) \<Rightarrow> ('d \<Rightarrow> 't option) \<Rightarrow> bool" where
  "driverLaws drv L tlsOf \<longleftrightarrow>
     cf_TLSConfig (dv_newConfig drv) = [] \<and>
     (\<forall>k t r r'. dv_register drv k t r = Inr r' \<longrightarrow> L r' = (L r)(k \<mapsto> t)) \<and>
     (\<forall>k r. L (dv_deregister drv k r) = (L r)(k := None)) \<and>
     (\<forall>dsn r. L (fst (dv_open drv ''mysql'' dsn r)) = L r) \<and>
     (\<forall>cfg r r' h. dv_open drv ''mysql'' (dv_formatDSN drv cfg) r = (r', Inr h) \<longrightarrow>
        (cf_TLSConfig cfg = [] \<longrightarrow> tlsOf h = None) \<and>
        (\<forall>t. cf_TLSConfig cfg \<noteq> [] \<longrightarrow> L r (cf_TLSConfig cfg) = Some t \<longrightarrow> tlsOf h = Some t)) \<and>
     (\<forall>h r. L (fst (dv_close drv h r)) = L r) \<and>
     (\<forall>h q r. L (fst (dv_exec drv h q r)) = L r)"

lemma driver_quiet:
  assumes "driverLaws drv L tlsOf"
  shows "dv_open drv ''mysql'' dsn r = (r', x) \<Longrightarrow> L r' = L r"
    and "dv_close drv h r = (r', e) \<Longrightarrow> L r' = L r"
    and "dv_exec drv h q r = (r', e) \<Longrightarrow> L r' = L r"
  using assms unfolding driverLaws_def by (metis fst_conv)+

lemma driver_registry:
  assumes "driverLaws drv L tlsOf"
  shows "dv_register drv k t r = Inr r' \<Longrightarrow> L r' = (L r)(k \<mapsto> t)"
    and "L (dv_deregister drv k r) = (L r)(k := None)"
  using assms unfolding driverLaws_def by blast+

lemma driver_resolves:
  assumes "driverLaws drv L tlsOf" "dv_open drv ''mysql'' (dv_formatDSN drv cfg) r = (r', Inr h)"
  shows "cf_TLSConfig cfg = [] \<Longrightarrow> tlsOf h = None"
    and "cf_TLSConfig cfg \<noteq> [] \<Longrightarrow> L r (cf_TLSConfig cfg) = Some t \<Longrightarrow> tlsOf h = Some t"
  using assms unfolding driverLaws_def by blast+

fun argsOf :: "('t, 'd) dialer \<Rightarrow> 't dialArgs" where
  "argsOf (Dialing a) = a" | "argsOf (HasKey a n) = a" | "argsOf (Registered a n) = a"
| "argsOf (OpenFailed a n e) = a" | "argsOf (Holding a k c) = a" | "argsOf (Closing a n e) = a"
| "argsOf (Gone a e) = a"

text \<open>The number a goroutine drew, and the number of the entry it has in the registry.\<close>

fun ownKey :: "('t, 'd) dialer \<Rightarrow> 64 word option" where
  "ownKey (Dialing a) = None" | "ownKey (HasKey a n) = Some n" | "ownKey (Registered a n) = Some n"
| "ownKey (OpenFailed a n e) = Some n" | "ownKey (Holding a k c) = k" | "ownKey (Closing a n e) = Some n"
| "ownKey (Gone a e) = None"

fun heldKey :: "('t, 'd) dialer \<Rightarrow> 64 word option" where
  "heldKey (HasKey a n) = None"
| "heldKey d = ownKey d"

fun started :: "('t, 'd) dialer \<Rightarrow> bool" where
  "started (Dialing a) = False"
| "started d = True"

text \<open>A pool that is open connects under the configuration of its dial.\<close>

fun opened :: "('d \<Rightarrow> 't option) \<Rightarrow> ('t, 'd) dialer \<Rightarrow> bool" where
  "opened tlsOf (Holding a k c) \<longleftrightarrow>
     cl_addr c = da_addr a \<and> (\<exists>db. cl_db c = Some db \<and> tlsOf (db_conns db) = da_tls a)"
| "opened tlsOf d \<longleftrightarrow> True"

definition dialerOk :: "('r \<Rightarrow> string \<Rightarrow> 't option) \<Rightarrow> ('d \<Rightarrow> 't option) \<Rightarrow> 'r \<Rightarrow> ('t, 'd) dialer \<Rightarrow> bool" where
  "dialerOk L tlsOf r d \<longleftrightarrow>
     opened tlsOf d \<and> (ownKey d \<noteq> None \<longrightarrow> da_tls (argsOf d) \<noteq> None) \<and>
     (\<forall>n. heldKey d = Some n \<longrightarrow> L r (tlsKeyName n) = da_tls (argsOf d))"

lemma tlsKeyName_inject [simp]: "tlsKeyName m = tlsKeyName n \<longleftrightarrow> m = n"
  by (auto simp: tlsKeyName_def dest!: nat_digits_inj intro: word_unat_eq_iff [THEN iffD2])

lemma tlsKeyName_nonempty [simp]: "tlsKeyName n \<noteq> []"
  by (simp add: tlsKeyName_def)

lemma argsConfig_tls: "driverLaws drv L tlsOf \<Longrightarrow> cf_TLSConfig (argsConfig drv a) = []"
  by (simp add: argsConfig_def dialConfig_def driverLaws_def)

lemma heldKey_own: "heldKey d = Some n \<Longrightarrow> ownKey d = Some n"
  by (cases d) auto

section \<open>The actions and the operations agree\<close>

definition settled :: "('t, 'd) dialer \<Rightarrow> bool" where
  "settled d = (case d of Holding a k c \<Rightarrow> True | Gone a e \<Rightarrow> True | _ \<Rightarrow> False)"

definition dialAction :: "('t, 'd, 'r) mysqlDriver \<Rightarrow> ('t, 'd) dialer \<times> 'r proc \<Rightarrow> ('t, 'd) dialer \<times> 'r proc" where
  "dialAction drv s = (if settled (fst s) then s else goroutineStep drv s)"

definition drawn :: "'t dialArgs \<Rightarrow> 'r proc \<Rightarrow> 64 word option" where
  "drawn a p = map_option (\<lambda>_. ps_counter p + 1) (da_tls a)"

lemmas dial_defs = dialAction_def settled_def drawn_def openClient_def nextTLSKey_def clientOf_def
  argsConfig_def deregisterTLS_def


lemma close_actions:
  assumes "cl_db c = Some db" "cl_tlsKey c = (case k of None \<Rightarrow> [] | Some n \<Rightarrow> tlsKeyName n)"
  shows "(goroutineStep drv ^^ 2) (Holding a k c, p) =
     (case Close drv (Some c) p of (p', _, err) \<Rightarrow> (Gone a err, p'))"
  using assms
  by (auto simp: numeral_eq_Suc Close_def deregisterTLS_def Let_def split: option.splits prod.splits)

text \<open>Closing twice: the second time nothing of the registry changes.\<close>

lemma Close_twice:
  assumes "driverLaws drv L tlsOf" "Close drv c p = (p1, c1, e1)" "Close drv c1 p1 = (p2, c2, e2)"
  shows "c2 = c1 \<and> L (ps_driver p2) = L (ps_driver p1) \<and> ps_counter p2 = ps_counter p1"
  using assms(2,3)
  by (auto simp: Close_def deregisterTLS_def driver_registry [OF assms(1)]
      dest!: driver_quiet(2) [OF assms(1)] split: option.splits prod.splits if_splits)

text \<open>The \<open>Executor\<close> a push runs on is the client; \<open>showErr\<close> is the text of an error. A whole push leaves the
  registry and the counter as they are.\<close>

definition clientExecutor :: "(clientError \<Rightarrow> string) \<Rightarrow> ('t, 'd, 'r) mysqlDriver \<Rightarrow> 'd Client \<Rightarrow> 'd sqlDB \<Rightarrow> 'r proc executor" where
  "clientExecutor showErr drv c db p query = (case Exec drv c db query p of (p', e) \<Rightarrow> (p', map_option showErr e))"

interpretation admin_exec: executor_invariant "driverLaws drv L tlsOf" "clientExecutor showErr drv c db"
    "\<lambda>p. L (ps_driver p) = m \<and> ps_counter p = n" for drv L tlsOf showErr c db m n
  by unfold_locales (auto simp: clientExecutor_def Exec_def dest: driver_quiet(3) split: prod.splits)

lemma push_keeps_registry:
  assumes "driverLaws drv L tlsOf"
  shows "L (ps_driver (fst (SyncWithAWSDBProxy (clientExecutor showErr drv c db) d aws p))) = L (ps_driver p)"
  using admin_exec.sync_keeps [OF assms, where w = p and m = "L (ps_driver p)" and n = "ps_counter p"] by simp

section \<open>Every interleaving\<close>

text \<open>What one action of a goroutine does to the counter and the registry.\<close>

lemma goroutineStep_cases:
  assumes laws: "driverLaws drv L tlsOf" and ok: "dialerOk L tlsOf (ps_driver p) d"
    and step: "goroutineStep drv (d, p) = (d', p')"
  obtains (quiet) "ps_counter p' = ps_counter p" "L (ps_driver p') = L (ps_driver p)"
      "heldKey d' = heldKey d" "ownKey d' = ownKey d \<or> ownKey d' = None"
  | (draw) "ps_counter p' = ps_counter p + 1" "L (ps_driver p') = L (ps_driver p)" "\<not> started d"
      "heldKey d' = heldKey d" "ownKey d' = Some (ps_counter p')"
  | (register) n where "ps_counter p' = ps_counter p" "ownKey d = Some n" "ownKey d' = Some n"
      "heldKey d = None" "heldKey d' = Some n"
      "L (ps_driver p') = (L (ps_driver p))(tlsKeyName n := da_tls (argsOf d))"
  | (deregister) n where "ps_counter p' = ps_counter p" "heldKey d = Some n" "ownKey d' = None" "heldKey d' = None"
      "L (ps_driver p') = (L (ps_driver p))(tlsKeyName n := None)"
proof (cases d)
  case (Dialing a)
  then show ?thesis using step quiet draw
    by (auto simp: Let_def dest!: driver_quiet(1) [OF laws] split: option.splits sum.splits prod.splits)
next
  case (HasKey a n)
  with ok have "da_tls a \<noteq> None" by (simp add: dialerOk_def)
  with HasKey show ?thesis using step quiet register [of n]
    by (auto simp: driver_registry [OF laws] split: sum.splits)
next
  case (Registered a n)
  then show ?thesis using step quiet
    by (auto dest!: driver_quiet(1) [OF laws] split: sum.splits prod.splits)
next
  case (OpenFailed a n e)
  then show ?thesis using step deregister [of n] by (auto simp: driver_registry [OF laws])
next
  case (Holding a k c)
  with ok obtain db where "cl_db c = Some db" by (auto simp: dialerOk_def)
  with Holding show ?thesis using step quiet
    by (auto dest!: driver_quiet(2) [OF laws] split: option.splits prod.splits)
next
  case (Closing a n e)
  then show ?thesis using step deregister [of n] by (auto simp: driver_registry [OF laws])
next
  case (Gone a e)
  then show ?thesis using step quiet by auto
qed

lemma goroutineStep_ok:
  assumes laws: "driverLaws drv L tlsOf" and ok: "dialerOk L tlsOf (ps_driver p) d"
    and step: "goroutineStep drv (d, p) = (d', p')"
  shows "dialerOk L tlsOf (ps_driver p') d' \<and> argsOf d' = argsOf d \<and> (started d \<longrightarrow> started d') \<and> (ownKey d' \<noteq> None \<longrightarrow> started d')"
proof (cases d)
  case (Dialing a)
  then show ?thesis using step
    by (auto simp: dialerOk_def Let_def clientOf_def pooled_def argsConfig_tls [OF laws]
        dest!: driver_resolves(1) [OF laws] split: option.splits sum.splits prod.splits)
next
  case (HasKey a n)
  with ok have "da_tls a \<noteq> None" by (simp add: dialerOk_def)
  with HasKey show ?thesis using step
    by (auto simp: dialerOk_def driver_registry [OF laws] split: sum.splits)
next
  case (Registered a n)
  with ok obtain t where t: "da_tls a = Some t" "L (ps_driver p) (tlsKeyName n) = Some t"
    by (auto simp: dialerOk_def)
  with Registered show ?thesis using step
    by (auto simp: dialerOk_def clientOf_def pooled_def
        dest: driver_quiet(1) [OF laws] driver_resolves(2) [OF laws] split: sum.splits prod.splits)
next
  case (Holding a k c)
  with ok obtain db where "cl_db c = Some db" by (auto simp: dialerOk_def)
  with Holding ok show ?thesis using step
    by (auto simp: dialerOk_def dest!: driver_quiet(2) [OF laws] split: option.splits prod.splits)
qed (use step ok in \<open>auto simp: dialerOk_def\<close>)

text \<open>The state of the pool of goroutines: numbers are drawn once, and the registry holds, beside
  what it held before, the entries of the goroutines that registered one.\<close>

definition numbersDistinct :: "('t, 'd) dialer list \<Rightarrow> bool" where
  "numbersDistinct ds \<longleftrightarrow>
     (\<forall>i<length ds. \<forall>j<length ds. i \<noteq> j \<longrightarrow> (\<forall>n. ownKey (ds ! i) = Some n \<longrightarrow> ownKey (ds ! j) \<noteq> Some n))"

lemma numbersDistinctD:
  "numbersDistinct ds \<Longrightarrow> i < length ds \<Longrightarrow> j < length ds \<Longrightarrow> i \<noteq> j \<Longrightarrow> ownKey (ds ! i) = Some n \<Longrightarrow> ownKey (ds ! j) \<noteq> Some n"
  by (simp add: numbersDistinct_def)

definition numbersDrawn :: "64 word \<Rightarrow> ('t, 'd) dialer list \<Rightarrow> bool" where
  "numbersDrawn c ds \<longleftrightarrow>
     unat c \<le> length (filter started ds) \<and> (\<forall>d\<in>set ds. \<forall>n. ownKey d = Some n \<longrightarrow> n \<le> c)"

definition noLeak :: "(string \<Rightarrow> 't option) \<Rightarrow> (string \<Rightarrow> 't option) \<Rightarrow> ('t, 'd) dialer list \<Rightarrow> bool" where
  "noLeak m0 m ds \<longleftrightarrow> (\<forall>k. m k \<noteq> m0 k \<longrightarrow> (\<exists>d\<in>set ds. \<exists>n. heldKey d = Some n \<and> k = tlsKeyName n))"

definition poolOk :: "('r \<Rightarrow> string \<Rightarrow> 't option) \<Rightarrow> ('d \<Rightarrow> 't option) \<Rightarrow> 'r \<Rightarrow> ('t, 'd) dialer list \<times> 'r proc \<Rightarrow> bool" where
  "poolOk L tlsOf r0 s = (case s of (ds, p) \<Rightarrow>
     numbersDistinct ds \<and> numbersDrawn (ps_counter p) ds \<and>
     (\<forall>d\<in>set ds. dialerOk L tlsOf (ps_driver p) d) \<and> noLeak (L r0) (L (ps_driver p)) ds)"

lemma filter_started_update:
  assumes "i < length ds" "\<not> started (ds ! i)" "started d"
  shows "length (filter started (ds[i := d])) = Suc (length (filter started ds))"
  using assms
proof (induction ds arbitrary: i)
  case (Cons x ds)
  then show ?case by (cases i) auto
qed simp

lemma filter_started_mono:
  assumes "i < length ds" "started (ds ! i) \<longrightarrow> started d"
  shows "length (filter started ds) \<le> length (filter started (ds[i := d]))"
  using assms
proof (induction ds arbitrary: i)
  case (Cons x ds)
  then show ?case by (cases i) (auto simp: le_SucI)
qed simp

lemma filter_started_less:
  assumes "i < length ds" "\<not> started (ds ! i)"
  shows "length (filter started ds) < length ds"
  using assms by (intro length_filter_less [of "ds ! i"]) auto

text \<open>An action of one goroutine leaves the others' standing as it was.\<close>

lemma others_ok:
  assumes pool: "poolOk L tlsOf r0 (ds, p)" and i: "i < length ds" and j: "j < length ds" "j \<noteq> i"
    and reg: "\<And>k. L r' k \<noteq> L (ps_driver p) k \<Longrightarrow> \<exists>n. ownKey (ds ! i) = Some n \<and> k = tlsKeyName n"
  shows "dialerOk L tlsOf r' (ds ! j)"
proof -
  have ok: "dialerOk L tlsOf (ps_driver p) (ds ! j)" using pool j by (simp add: poolOk_def)
  have "L r' (tlsKeyName n) = L (ps_driver p) (tlsKeyName n)" if "heldKey (ds ! j) = Some n" for n
  proof (rule ccontr)
    assume "L r' (tlsKeyName n) \<noteq> L (ps_driver p) (tlsKeyName n)"
    then have "ownKey (ds ! i) = Some n" using reg by fastforce
    with heldKey_own [OF that] pool i j show False by (auto simp: poolOk_def dest: numbersDistinctD)
  qed
  with ok show ?thesis by (simp add: dialerOk_def)
qed

lemma distinct_update:
  assumes "numbersDistinct ds" "i < length ds"
    and "\<And>j n. j < length ds \<Longrightarrow> j \<noteq> i \<Longrightarrow> ownKey d = Some n \<Longrightarrow> ownKey (ds ! j) \<noteq> Some n"
  shows "numbersDistinct (ds[i := d])"
  unfolding numbersDistinct_def length_list_update
proof (intro allI impI)
  fix j k n assume jk: "j < length ds" "k < length ds" "j \<noteq> k" "ownKey (ds[i := d] ! j) = Some n"
  consider "j = i" | "k = i" "j \<noteq> i" | "j \<noteq> i" "k \<noteq> i" by blast
  then show "ownKey (ds[i := d] ! k) \<noteq> Some n"
  proof cases
    case 1
    with jk assms(3) [of k n] show ?thesis by simp
  next
    case 2
    with jk assms(2) assms(3) [of j n] show ?thesis by auto
  next
    case 3
    with jk numbersDistinctD [OF assms(1), of j k n] show ?thesis by simp
  qed
qed

lemma distinct_others:
  assumes "numbersDistinct ds" "i < length ds" "ownKey d = ownKey (ds ! i) \<or> ownKey d = None"
  shows "numbersDistinct (ds[i := d])"
proof (rule distinct_update [OF assms(1,2)])
  fix j n assume "j < length ds" "j \<noteq> i" "ownKey d = Some n"
  with assms show "ownKey (ds ! j) \<noteq> Some n" using numbersDistinctD [of ds i j n] by auto
qed

lemma drawn_update:
  assumes "numbersDrawn c ds" "i < length ds" "started (ds ! i) \<longrightarrow> started d"
    and "ownKey d = ownKey (ds ! i) \<or> ownKey d = None"
  shows "numbersDrawn c (ds[i := d])"
proof -
  have "n \<le> c" if "ownKey d = Some n" for n
    using assms(1,2,4) that nth_mem [OF assms(2)] unfolding numbersDrawn_def by (metis option.distinct(1))
  then have "\<forall>x\<in>set (ds[i := d]). \<forall>n. ownKey x = Some n \<longrightarrow> n \<le> c"
    using assms(1) set_update_subset_insert [of ds i d] unfolding numbersDrawn_def by blast
  with assms(1) filter_started_mono [OF assms(2,3)] show ?thesis by (simp add: numbersDrawn_def)
qed

text \<open>While fewer than \<open>2^64\<close> goroutines have started the counter does not wrap.\<close>

lemma fresh_number:
  assumes drawn: "numbersDrawn c ds" and i: "i < length ds" "\<not> started (ds ! i)" and bound: "length ds < 2 ^ 64"
  shows "c < c + 1" "unat (c + 1) = Suc (unat c)"
proof -
  have "unat c < length ds"
    using drawn filter_started_less [OF i] by (simp add: numbersDrawn_def)
  then have "unat c + 1 < 2 ^ LENGTH(64)" using bound by simp
  then show u: "unat (c + 1) = Suc (unat c)" by (simp add: unat_word_ariths)
  show "c < c + 1" by (simp add: word_less_nat_alt u)
qed

lemma draw_update:
  assumes dist: "numbersDistinct ds" and drawn: "numbersDrawn c ds" and i: "i < length ds" "\<not> started (ds ! i)"
    and d: "ownKey d = Some (c + 1)" "started d" and bound: "length ds < 2 ^ 64"
  shows "numbersDistinct (ds[i := d])" "numbersDrawn (c + 1) (ds[i := d])"
proof -
  note f = fresh_number [OF drawn i bound]
  have le: "n \<le> c" if "j < length ds" "ownKey (ds ! j) = Some n" for j n
    using drawn that by (auto simp: numbersDrawn_def)
  have "ownKey (ds ! j) \<noteq> Some (c + 1)" if "j < length ds" for j
    using le [of j "c + 1"] that f(1) by (auto simp: not_le)
  then show "numbersDistinct (ds[i := d])"
    using dist i d by (intro distinct_update) auto
  have "n \<le> c + 1" if "x \<in> set ds" "ownKey x = Some n" for x n
  proof -
    from that obtain j where "j < length ds" "ds ! j = x" by (auto simp: in_set_conv_nth)
    with le that have "n \<le> c" by blast
    with f(1) show ?thesis by simp
  qed
  moreover have "n \<le> c + 1" if "ownKey d = Some n" for n using d that by simp
  ultimately have "\<forall>x\<in>set (ds[i := d]). \<forall>n. ownKey x = Some n \<longrightarrow> n \<le> c + 1"
    using set_update_subset_insert [of ds i d] by blast
  with f(2) drawn filter_started_update [OF i d(2)] show "numbersDrawn (c + 1) (ds[i := d])"
    by (simp add: numbersDrawn_def)
qed

lemma noLeak_update:
  assumes "noLeak m0 m ds" "i < length ds"
    and "\<And>k. m' k \<noteq> m k \<Longrightarrow> m' k = m0 k \<or> (\<exists>n. heldKey d = Some n \<and> k = tlsKeyName n)"
    and "\<And>n. heldKey (ds ! i) = Some n \<Longrightarrow> heldKey d = Some n \<or> m' (tlsKeyName n) = m0 (tlsKeyName n)"
  shows "noLeak m0 m' (ds[i := d])"
  unfolding noLeak_def
proof (intro allI impI)
  fix k assume k: "m' k \<noteq> m0 k"
  show "\<exists>x\<in>set (ds[i := d]). \<exists>n. heldKey x = Some n \<and> k = tlsKeyName n"
  proof (cases "m' k = m k")
    case True
    with k assms(1) obtain j n where j: "j < length ds" "heldKey (ds ! j) = Some n" "k = tlsKeyName n"
      unfolding noLeak_def by (metis in_set_conv_nth)
    show ?thesis
    proof (cases "j = i")
      case True
      with j k assms(4) have "heldKey d = Some n" by blast
      with j assms(2) show ?thesis by (metis set_update_memI)
    next
      case False
      with j have "ds ! j \<in> set (ds[i := d])" by (metis length_list_update nth_list_update_neq nth_mem)
      with j show ?thesis by blast
    qed
  next
    case False
    with assms(3) k assms(2) show ?thesis by (metis set_update_memI)
  qed
qed

lemma dialers_update:
  assumes "i < length ds" "P d" "\<And>j. j < length ds \<Longrightarrow> j \<noteq> i \<Longrightarrow> P (ds ! j)"
  shows "\<forall>x\<in>set (ds[i := d]). P x"
  using assms by (auto simp: in_set_conv_nth nth_list_update)

lemma advance_ok:
  assumes laws: "driverLaws drv L tlsOf" and fresh: "\<And>n. L r0 (tlsKeyName n) = None"
    and pool: "poolOk L tlsOf r0 (ds, p)" and i: "i < length ds" and bound: "length ds < 2 ^ 64"
    and step: "goroutineStep drv (ds ! i, p) = (d, p')"
  shows "poolOk L tlsOf r0 (ds[i := d], p')"
proof -
  from pool have dist: "numbersDistinct ds" and drawn: "numbersDrawn (ps_counter p) ds"
    and oks: "\<forall>d\<in>set ds. dialerOk L tlsOf (ps_driver p) d" and leak: "noLeak (L r0) (L (ps_driver p)) ds"
    by (simp_all add: poolOk_def)
  have ok: "dialerOk L tlsOf (ps_driver p) (ds ! i)" using oks i by simp
  note new = goroutineStep_ok [OF laws ok step]
  have others: "dialerOk L tlsOf (ps_driver p') (ds ! j)"
    if "j < length ds" "j \<noteq> i" "\<And>k. L (ps_driver p') k \<noteq> L (ps_driver p) k \<Longrightarrow> \<exists>n. ownKey (ds ! i) = Some n \<and> k = tlsKeyName n" for j
    using that by (intro others_ok [OF pool i])
  have pool': ?thesis
    if "numbersDistinct (ds[i := d])" "numbersDrawn (ps_counter p') (ds[i := d])"
      and "\<And>k. L (ps_driver p') k \<noteq> L (ps_driver p) k \<Longrightarrow> \<exists>n. ownKey (ds ! i) = Some n \<and> k = tlsKeyName n"
      and "noLeak (L r0) (L (ps_driver p')) (ds[i := d])"
  proof -
    have "\<forall>x\<in>set (ds[i := d]). dialerOk L tlsOf (ps_driver p') x"
      using i new others that(3) by (intro dialers_update) blast+
    with that show ?thesis by (simp add: poolOk_def)
  qed
  note keep = distinct_others [OF dist i] drawn_update [OF drawn i]
  from laws ok step show ?thesis
  proof (cases rule: goroutineStep_cases)
    case quiet
    then have "noLeak (L r0) (L (ps_driver p')) (ds[i := d])"
      by (intro noLeak_update [OF leak i]) simp_all
    with quiet new show ?thesis by (intro pool') (simp_all add: keep)
  next
    case draw
    then have l: "noLeak (L r0) (L (ps_driver p')) (ds[i := d])"
      by (intro noLeak_update [OF leak i]) simp_all
    from draw have "started d" using new by simp
    with draw have "numbersDistinct (ds[i := d])" "numbersDrawn (ps_counter p') (ds[i := d])"
      using draw_update [OF dist drawn i draw(3) _ _ bound, of d] by simp_all
    with draw l show ?thesis by (intro pool') simp_all
  next
    case (register n)
    then have "noLeak (L r0) (L (ps_driver p')) (ds[i := d])"
      by (intro noLeak_update [OF leak i]) (auto split: if_splits)
    with new show ?thesis by (intro pool') (simp_all add: keep register split: if_splits)
  next
    case (deregister n)
    then have "noLeak (L r0) (L (ps_driver p')) (ds[i := d])"
      by (intro noLeak_update [OF leak i]) (auto simp: fresh split: if_splits)
    with new heldKey_own [OF deregister(2)] show ?thesis
      by (intro pool') (simp_all add: keep deregister split: if_splits)
  qed
qed

lemma distinct_snoc:
  assumes "numbersDistinct ds" "ownKey d = None"
  shows "numbersDistinct (ds @ [d])"
  unfolding numbersDistinct_def
proof (intro allI impI)
  fix i j n assume ij: "i < length (ds @ [d])" "j < length (ds @ [d])" "i \<noteq> j" "ownKey ((ds @ [d]) ! i) = Some n"
  show "ownKey ((ds @ [d]) ! j) \<noteq> Some n"
  proof (cases "i < length ds \<and> j < length ds")
    case True
    with ij numbersDistinctD [OF assms(1), of i j n] show ?thesis by (simp add: nth_append)
  next
    case False
    then consider "i = length ds" | "j = length ds" using ij(1,2) by force
    then show ?thesis using assms(2) ij(4) by cases simp_all
  qed
qed

lemma dialStep_ok:
  assumes step: "dialStep drv s s'" and laws: "driverLaws drv L tlsOf" and fresh: "\<And>n. L r0 (tlsKeyName n) = None"
    and pool: "poolOk L tlsOf r0 s" and bound: "length (fst s') < 2 ^ 64"
  shows "poolOk L tlsOf r0 s'"
  using step pool bound
proof (cases rule: dialStep.cases)
  case (start ds p a)
  with pool have "numbersDistinct (ds @ [Dialing a])" by (simp add: poolOk_def distinct_snoc)
  with start pool show ?thesis
    by (auto simp: poolOk_def numbersDrawn_def noLeak_def dialerOk_def)
next
  case (advance i ds p d p')
  with pool bound show ?thesis using advance_ok [OF laws fresh, of ds p i d p'] by simp
next
  case (work i ds a k c db query p p' e)
  then have "ps_counter p' = ps_counter p" "L (ps_driver p') = L (ps_driver p)"
    by (auto simp: Exec_def dest: driver_quiet(3) [OF laws] split: prod.splits)
  then show ?thesis using pool work(1,2) by (simp add: poolOk_def dialerOk_def)
qed

lemma dialStep_length: "dialStep drv s s' \<Longrightarrow> length (fst s) \<le> length (fst s')"
  by (auto elim!: dialStepE)

lemma dialSteps_ok:
  assumes "(dialStep drv)\<^sup>*\<^sup>* ([], \<lparr>ps_counter = 0, ps_driver = r0\<rparr>) s"
    and "driverLaws drv L tlsOf" and "\<And>n. L r0 (tlsKeyName n) = None" and "length (fst s) < 2 ^ 64"
  shows "poolOk L tlsOf r0 s"
  using assms(1,4)
proof (induction rule: rtranclp_induct)
  case base
  show ?case by (simp add: poolOk_def numbersDistinct_def numbersDrawn_def noLeak_def)
next
  case (step s s')
  then show ?case using dialStep_ok [OF step.hyps(2) assms(2,3)] dialStep_length [OF step.hyps(2)] by simp
qed

text \<open>C17. However the dials of the operator interleave, as long as fewer than \<open>2^64\<close> have been made:
  every open client connects to the address it was given under exactly the TLS configuration it
  was given (none when none), so no dial ever takes over another's trust anchors; between its
  registration and its open a dial finds its own configuration under its key; and every entry the
  dials added to the driver's registry belongs to a goroutine that has not finished, so none is
  leaked by a failed or closed client.\<close>

theorem dials_keep_their_trust:
  assumes laws: "driverLaws drv L tlsOf" and fresh: "\<And>n. L r0 (tlsKeyName n) = None"
    and run: "(dialStep drv)\<^sup>*\<^sup>* ([], \<lparr>ps_counter = 0, ps_driver = r0\<rparr>) (ds, p)"
    and bound: "length ds < 2 ^ 64"
  shows "(\<forall>a k c. Holding a k c \<in> set ds \<longrightarrow>
            cl_addr c = da_addr a \<and> (\<exists>db. cl_db c = Some db \<and> tlsOf (db_conns db) = da_tls a)) \<and>
         (\<forall>a n. Registered a n \<in> set ds \<longrightarrow> L (ps_driver p) (tlsKeyName n) = da_tls a) \<and>
         (\<forall>k. L (ps_driver p) k \<noteq> L r0 k \<longrightarrow>
            (\<exists>d\<in>set ds. \<exists>n. heldKey d = Some n \<and> k = tlsKeyName n \<and> L (ps_driver p) k = da_tls (argsOf d)))"
proof -
  from dialSteps_ok [OF run laws fresh] bound
  have ok: "\<forall>d\<in>set ds. dialerOk L tlsOf (ps_driver p) d" and leak: "noLeak (L r0) (L (ps_driver p)) ds"
    by (simp_all add: poolOk_def)
  from ok have "\<forall>a k c. Holding a k c \<in> set ds \<longrightarrow>
      cl_addr c = da_addr a \<and> (\<exists>db. cl_db c = Some db \<and> tlsOf (db_conns db) = da_tls a)"
    by (fastforce simp: dialerOk_def)
  moreover from ok have "\<forall>a n. Registered a n \<in> set ds \<longrightarrow> L (ps_driver p) (tlsKeyName n) = da_tls a"
    by (fastforce simp: dialerOk_def)
  moreover have "\<exists>d\<in>set ds. \<exists>n. heldKey d = Some n \<and> k = tlsKeyName n \<and> L (ps_driver p) k = da_tls (argsOf d)"
    if "L (ps_driver p) k \<noteq> L r0 k" for k
    using that leak ok unfolding noLeak_def dialerOk_def by metis
  ultimately show ?thesis by blast
qed

text \<open>A driver whose registry is a list and whose data source name is the name of the configuration; two
  dials under different configurations, the second registering between the first's registration and
  its open.\<close>

definition listDriver :: "(nat, nat option, (string, nat) gomap) mysqlDriver" where
  "listDriver =
     \<lparr>dv_newConfig = \<lparr>cf_User = [], cf_Passwd = [], cf_Net = [], cf_Addr = [], cf_Timeout = 0, cf_ReadTimeout = 0,
        cf_WriteTimeout = 0, cf_AllowNativePasswords = False, cf_TLSConfig = []\<rparr>,
      dv_register = (\<lambda>k t r. Inr (mput k t r)), dv_deregister = mdel,
      dv_formatDSN = cf_TLSConfig, dv_open = (\<lambda>_ dsn r. (r, Inr (if dsn = [] then None else mget r dsn))),
      dv_close = (\<lambda>_ r. (r, None)), dv_ping = (\<lambda>_ r. (r, None)), dv_exec = (\<lambda>_ _ r. (r, None)),
      dv_query = (\<lambda>_ _ r. (r, Inl []))\<rparr>"

lemma listDriver_laws: "driverLaws listDriver mget (\<lambda>h. h)"
  by (simp add: driverLaws_def listDriver_def update_conv' delete_conv')

definition dialTo :: "string \<Rightarrow> nat \<Rightarrow> nat dialArgs" where
  "dialTo addr t = \<lparr>da_addr = addr, da_user = ''radmin'', da_pass = ''pw'', da_tls = Some t\<rparr>"

definition advanceAt :: "nat \<Rightarrow> (nat, nat option) dialer list \<times> (string, nat) gomap proc \<Rightarrow> (nat, nat option) dialer list \<times> (string, nat) gomap proc" where
  "advanceAt i s = (case s of (ds, p) \<Rightarrow> case goroutineStep listDriver (ds ! i, p) of (d, p') \<Rightarrow> (ds[i := d], p'))"

definition twoDials :: "nat list \<Rightarrow> (nat, nat option) dialer list \<times> (string, nat) gomap proc" where
  "twoDials is = fold advanceAt is ([Dialing (dialTo ''a:6032'' 7), Dialing (dialTo ''b:6032'' 9)], \<lparr>ps_counter = 0, ps_driver = []\<rparr>)"

lemma advance_run:
  "list_all (\<lambda>i. i < length (fst s)) is \<Longrightarrow> (dialStep listDriver)\<^sup>*\<^sup>* s (fold advanceAt is s)"
proof (induction "is" arbitrary: s)
  case (Cons i "is")
  obtain ds p where s: "s = (ds, p)" by fastforce
  obtain d p' where "goroutineStep listDriver (ds ! i, p) = (d, p')" by fastforce
  then have "dialStep listDriver s (advanceAt i s)" "length (fst (advanceAt i s)) = length (fst s)"
    using Cons.prems by (auto simp: s advanceAt_def intro: dialStep.advance)
  with Cons.IH [of "advanceAt i s"] Cons.prems show ?case by (auto intro: converse_rtranclp_into_rtranclp)
qed simp

lemma twoDials_run:
  assumes "list_all (\<lambda>i. i < 2) is"
  shows "(dialStep listDriver)\<^sup>*\<^sup>* ([], \<lparr>ps_counter = 0, ps_driver = []\<rparr>) (twoDials is)"
proof -
  let ?p = "\<lparr>ps_counter = 0, ps_driver = []\<rparr>" and ?a = "Dialing (dialTo ''a:6032'' 7)"
  have "dialStep listDriver ([], ?p) ([?a], ?p)"
    using dialStep.start [of listDriver "[]" ?p "dialTo ''a:6032'' 7"] by simp
  moreover have "dialStep listDriver ([?a], ?p) ([?a, Dialing (dialTo ''b:6032'' 9)], ?p)"
    using dialStep.start [of listDriver "[?a]" ?p "dialTo ''b:6032'' 9"] by simp
  ultimately show ?thesis
    unfolding twoDials_def using assms advance_run [of "([?a, Dialing (dialTo ''b:6032'' 9)], ?p)" "is"]
    by (simp add: numeral_eq_Suc converse_rtranclp_into_rtranclp)
qed

theorem dials_keep_their_trust_witness:
  "\<exists>k c db. Holding (dialTo ''a:6032'' 7) k c \<in> set (fst (twoDials [0, 1, 0, 1, 0])) \<and> cl_db c = Some db \<and> db_conns db = Some 7"
proof -
  have r: "(dialStep listDriver)\<^sup>*\<^sup>* ([], \<lparr>ps_counter = 0, ps_driver = []\<rparr>)
      (fst (twoDials [0, 1, 0, 1, 0]), snd (twoDials [0, 1, 0, 1, 0]))"
    using twoDials_run [of "[0, 1, 0, 1, 0]"] by simp
  have e: "fst (twoDials [0, 1, 0, 1, 0]) =
      [Holding (dialTo ''a:6032'' 7) (Some 1) (clientOf (dialTo ''a:6032'' 7) (tlsKeyName 1) (Some 7)),
       Registered (dialTo ''b:6032'' 9) 2]"
    by (simp add: twoDials_def advanceAt_def dialTo_def listDriver_def argsConfig_def dialConfig_def)
  from dials_keep_their_trust [OF listDriver_laws _ r] e show ?thesis by (fastforce simp: dialTo_def)
qed

end
