(* ===== verification/RdsSigning.thy ===== *)
theory RdsSigning
  imports ReplicaApply ServiceBuilders Rfc3339
begin

text \<open>
  The signed HTTP calls to a replica's plugin: \<open>operator/internal/rdsclient/client.go\<close>. A form
  (\<open>url.Values\<close>) is a Go map from names to lists of values. The transport, the URL parser, the
  XML decoder, the status texts and the two hash functions are the fields of \<open>rdsEnv\<close>.

  What is shown: the body a call sends reads back, under the rules of form decoding, as the
  values it was given with its action and version; the canonical request determines the method,
  the path, the query, the host, the date and the hash it was built from, so a signature is over
  exactly one request; and every answer is either a decoded result or the error the caller
  acts on.
\<close>

type_synonym formValues = "(string, string list) gomap"

section \<open>Escaping\<close>

text \<open>\<open>url.QueryEscape\<close>: unreserved bytes stay, a space is a plus, any other byte is \<open>%XX\<close>.\<close>

definition unreserved :: "char \<Rightarrow> bool" where
  "unreserved c \<longleftrightarrow>
     (let n = code c in 48 \<le> n \<and> n < 58 \<or> 65 \<le> n \<and> n < 91 \<or> 97 \<le> n \<and> n < 123)
     \<or> c \<in> {CHR ''-'', CHR ''_'', CHR ''.'', CHR ''~''}"

definition upperHex :: "nat \<Rightarrow> char" where
  "upperHex n = ''0123456789ABCDEF'' ! n"

definition percent :: "char \<Rightarrow> string" where
  "percent c = [CHR ''%'', upperHex (code c div 16), upperHex (code c mod 16)]"

definition QueryEscape :: "string \<Rightarrow> string" where
  "QueryEscape s = concat (map (\<lambda>c. if unreserved c then [c] else if c = CHR '' '' then ''+'' else percent c) s)"

definition replaceChar :: "char \<Rightarrow> string \<Rightarrow> string \<Rightarrow> string" where
  "replaceChar c r s = concat (map (\<lambda>x. if x = c then r else [x]) s)"

definition awsEscape :: "string \<Rightarrow> string" where
  "awsEscape value = replaceChar (CHR ''+'') ''%20'' (QueryEscape value)"

section \<open>Forms\<close>

definition valuesOf :: "formValues \<Rightarrow> string \<Rightarrow> string list" where
  "valuesOf m k = (case mget m k of None \<Rightarrow> [] | Some vs \<Rightarrow> vs)"

text \<open>\<open>Values.Set\<close> and \<open>Values.Encode\<close>.\<close>

definition formSet :: "string \<Rightarrow> string \<Rightarrow> formValues \<Rightarrow> formValues" where
  "formSet k v m = mput k [v] m"

definition formEncode :: "formValues \<Rightarrow> string" where
  "formEncode m = joinStr ''&'' (concat (map (\<lambda>k. map (\<lambda>v. QueryEscape k @ ''='' @ QueryEscape v) (valuesOf m k)) (sortedKeys m)))"

definition canonicalURI :: "string \<Rightarrow> string" where
  "canonicalURI path = (if path = [] then ''/'' else path)"

definition canonicalQuery :: "formValues \<Rightarrow> string" where
  "canonicalQuery values =
     (if length values = 0 then []
      else joinStr ''&'' (concat (map (\<lambda>key. map (\<lambda>value. awsEscape key @ ''='' @ awsEscape value) (sort (valuesOf values key))) (sortedKeys values))))"

section \<open>Signing\<close>

record request =
  rq_Method :: string
  rq_EscapedPath :: string
  rq_Query :: formValues
  rq_Host :: string
  rq_Header :: "(string, string) gomap"
  rq_Body :: string

record crypto =
  cy_sha256 :: "string \<Rightarrow> string"
  cy_hmac :: "string \<Rightarrow> string \<Rightarrow> string"

definition sha256Hex :: "crypto \<Rightarrow> string \<Rightarrow> string" where
  "sha256Hex cy value = hexEncode (cy_sha256 cy value)"

definition hmacSHA256 :: "crypto \<Rightarrow> string \<Rightarrow> string \<Rightarrow> string" where
  "hmacSHA256 cy key value = cy_hmac cy key value"

text \<open>\<open>strings.TrimSpace\<close>: the runes of \<open>unicode.IsSpace\<close>, in UTF-8, off both ends.\<close>

definition spaceRunes :: "string list" where
  "spaceRunes = [[CHR 0x09], [CHR 0x0A], [CHR 0x0B], [CHR 0x0C], [CHR 0x0D], [CHR 0x20], [CHR 0xC2, CHR 0x85], [CHR 0xC2, CHR 0xA0],
     [CHR 0xE1, CHR 0x9A, CHR 0x80]] @ map (\<lambda>n. [CHR 0xE2, CHR 0x80, char_of n]) ([128..<139] @ [168, 169, 175])
     @ [[CHR 0xE2, CHR 0x81, CHR 0x9F], [CHR 0xE3, CHR 0x80, CHR 0x80]]"

function trimLeft :: "string list \<Rightarrow> string \<Rightarrow> string" where
  "trimLeft rs s =
     (case find (\<lambda>r. r \<noteq> [] \<and> hasPrefix r s) rs of None \<Rightarrow> s | Some r \<Rightarrow> trimLeft rs (drop (length r) s))"
  by auto
termination
  by (relation "measure (\<lambda>(rs, s). length s)") (auto simp: find_Some_iff hasPrefix_iff)

declare trimLeft.simps [simp del]

definition TrimSpace :: "string \<Rightarrow> string" where
  "TrimSpace s = rev (trimLeft (map rev spaceRunes) (rev (trimLeft spaceRunes s)))"

text \<open>\<open>now.Format("20060102")\<close> and \<open>now.Format("20060102T150405Z")\<close>.\<close>

definition amzDay :: "int \<Rightarrow> string" where
  "amzDay t = (let n = nat (int epochDay + (t div 10 ^ 9) div 86400); y = yearOf n; md = monthFrom (monthDays y) 1 (n - yearStart y) in
     pad 4 y @ pad 2 (fst md) @ pad 2 (snd md))"

definition amzTime :: "int \<Rightarrow> string" where
  "amzTime t = (let s = nat ((t div 10 ^ 9) mod 86400) in
     amzDay t @ ''T'' @ pad 2 (s div 3600) @ pad 2 (s div 60 mod 60) @ pad 2 (s mod 60) @ ''Z'')"

definition nl :: string where "nl = [CHR 0x0A]"

definition signedHeaders :: string where
  "signedHeaders = ''content-type;host;x-amz-date''"

definition canonicalRequest :: "request \<Rightarrow> string \<Rightarrow> string \<Rightarrow> string" where
  "canonicalRequest req amzDate payloadHash =
     (let canonicalHeaders = ''content-type:'' @ TrimSpace (mgetStr (rq_Header req) ''Content-Type'') @ nl
            @ ''host:'' @ rq_Host req @ nl @ ''x-amz-date:'' @ amzDate @ nl in
      rq_Method req @ nl @ canonicalURI (rq_EscapedPath req) @ nl @ canonicalQuery (rq_Query req) @ nl
        @ canonicalHeaders @ nl @ signedHeaders @ nl @ payloadHash)"

definition sign :: "crypto \<Rightarrow> request \<Rightarrow> string \<Rightarrow> string \<Rightarrow> Credentials \<Rightarrow> int \<Rightarrow> request" where
  "sign cy req payload region credentials now =
     (let amzDate = amzTime now;
          date = amzDay now;
          payloadHash = sha256Hex cy payload;
          req = req\<lparr>rq_Header := mput ''X-Amz-Date'' amzDate (rq_Header req)\<rparr>;
          scope = date @ ''/'' @ region @ ''/rds/aws4_request'';
          stringToSign = ''AWS4-HMAC-SHA256'' @ nl @ amzDate @ nl @ scope @ nl @ sha256Hex cy (canonicalRequest req amzDate payloadHash);
          key = hmacSHA256 cy (''AWS4'' @ cr_SecretAccessKey credentials) date;
          key = hmacSHA256 cy key region;
          key = hmacSHA256 cy key ''rds'';
          key = hmacSHA256 cy key ''aws4_request'';
          signature = hexEncode (hmacSHA256 cy key stringToSign)
      in req\<lparr>rq_Header := mput ''Authorization''
           (''AWS4-HMAC-SHA256 Credential='' @ cr_AccessKeyID credentials @ ''/'' @ scope
            @ '', SignedHeaders='' @ signedHeaders @ '', Signature='' @ signature) (rq_Header req)\<rparr>)"

section \<open>Calls\<close>

text \<open>An answer: the status, the bytes of its body, and the error reading them ends with, if any.\<close>

record response =
  rs_StatusCode :: int
  rs_Body :: string
  rs_BodyErr :: gerror

record 'w rdsEnv =
  re_crypto :: crypto
  re_now :: "'w \<Rightarrow> int"
  re_parseURL :: "string \<Rightarrow> string + (string \<times> formValues \<times> string)"
  re_do :: "request \<Rightarrow> 'w \<Rightarrow> 'w \<times> (string + response)"
  re_errorResponse :: "string \<Rightarrow> (string \<times> string) option"
  re_statusText :: "int \<Rightarrow> string"

text \<open>Of a client: its HTTP client and its clock are fields of the environment.\<close>

record rdsClient =
  rc_endpoint :: string
  rc_region :: string
  rc_credentials :: Credentials

definition apiVersion :: string where
  "apiVersion = ''2014-10-31''"

record APIError =
  ae_StatusCode :: int
  ae_Code :: string
  ae_Message :: string

definition APIErrorText :: "APIError \<Rightarrow> string" where
  "APIErrorText e =
     (if ae_Message e = [] then ''RDS API '' @ ae_Code e @ '' (HTTP '' @ itoa (ae_StatusCode e) @ '')''
      else ''RDS API '' @ ae_Code e @ '' (HTTP '' @ itoa (ae_StatusCode e) @ ''): '' @ ae_Message e)"

datatype callError =
    BuildError string string
  | RequestError string string
  | ReadError string string
  | ApiError APIError
  | DecodeError string string

fun callErrorText :: "callError \<Rightarrow> string" where
  "callErrorText (BuildError action e) = ''build '' @ action @ '' request: '' @ e"
| "callErrorText (RequestError action e) = action @ '' request failed: '' @ e"
| "callErrorText (ReadError action e) = ''read '' @ action @ '' response: '' @ e"
| "callErrorText (ApiError e) = APIErrorText e"
| "callErrorText (DecodeError action e) = ''decode '' @ action @ '' response: '' @ e"

text \<open>\<open>io.ReadAll(io.LimitReader(body, 4<<20))\<close>: past the limit the rest, and its error, are not read.\<close>

definition bodyLimit :: nat where
  "bodyLimit = 4 * 2 ^ 20"

definition readLimited :: "response \<Rightarrow> string + string" where
  "readLimited resp =
     (if bodyLimit \<le> length (rs_Body resp) then Inr (take bodyLimit (rs_Body resp))
      else case rs_BodyErr resp of None \<Rightarrow> Inr (rs_Body resp) | Some e \<Rightarrow> Inl e)"

definition statusError :: "'w rdsEnv \<Rightarrow> int \<Rightarrow> string \<Rightarrow> APIError" where
  "statusError en status payload =
     (case re_errorResponse en payload of
        Some (ec, message) \<Rightarrow>
          if ec \<noteq> [] then \<lparr>ae_StatusCode = status, ae_Code = ec, ae_Message = message\<rparr>
          else \<lparr>ae_StatusCode = status, ae_Code = ''HTTPError'', ae_Message = re_statusText en status\<rparr>
      | None \<Rightarrow> \<lparr>ae_StatusCode = status, ae_Code = ''HTTPError'', ae_Message = re_statusText en status\<rparr>)"

text \<open>\<open>out\<close> is the decoder of the result; \<^term>\<open>None\<close> is a nil \<open>out\<close>, and the value of an empty answer is
  what the caller passed in, \<open>zero\<close>.\<close>

definition answered :: "'w rdsEnv \<Rightarrow> string \<Rightarrow> response \<Rightarrow> (string \<Rightarrow> string + 'o) option \<Rightarrow> 'o \<Rightarrow> callError + 'o" where
  "answered en action resp out zero =
     (case readLimited resp of
        Inl e \<Rightarrow> Inl (ReadError action e)
      | Inr payload \<Rightarrow>
          if rs_StatusCode resp < 200 \<or> rs_StatusCode resp \<ge> 300
          then Inl (ApiError (statusError en (rs_StatusCode resp) payload))
          else (case out of
                  Some decode \<Rightarrow>
                    if length payload \<noteq> 0
                    then (case decode payload of Inl e \<Rightarrow> Inl (DecodeError action e) | Inr v \<Rightarrow> Inr v)
                    else Inr zero
                | None \<Rightarrow> Inr zero))"

definition callForm :: "string \<Rightarrow> formValues \<Rightarrow> formValues" where
  "callForm action values = formSet ''Version'' apiVersion (formSet ''Action'' action values)"

definition callRequest :: "'w rdsEnv \<Rightarrow> rdsClient \<Rightarrow> 'w \<Rightarrow> string \<Rightarrow> formValues \<Rightarrow> string + request" where
  "callRequest en c w action values =
     (let body = formEncode (callForm action values) in
      case re_parseURL en (rc_endpoint c) of
        Inl e \<Rightarrow> Inl e
      | Inr (path, query, host) \<Rightarrow>
          Inr (sign (re_crypto en)
            \<lparr>rq_Method = ''POST'', rq_EscapedPath = path, rq_Query = query, rq_Host = host,
             rq_Header = mput ''Content-Type'' ''application/x-www-form-urlencoded'' [], rq_Body = body\<rparr>
            body (rc_region c) (rc_credentials c) (re_now en w)))"

definition Call :: "'w rdsEnv \<Rightarrow> rdsClient \<Rightarrow> string \<Rightarrow> formValues \<Rightarrow> (string \<Rightarrow> string + 'o) option \<Rightarrow> 'o \<Rightarrow> 'w \<Rightarrow> 'w \<times> (callError + 'o)" where
  "Call en c action values out zero w =
     (case callRequest en c w action values of
        Inl e \<Rightarrow> (w, Inl (BuildError action e))
      | Inr req \<Rightarrow>
          (case re_do en req w of
             (w, Inl e) \<Rightarrow> (w, Inl (RequestError action e))
           | (w, Inr resp) \<Rightarrow> (w, answered en action resp out zero)))"

text \<open>The operations of \<open>model.go\<close> over these calls; the decoders are those of its response types.\<close>

record rdsDecoders =
  rd_proxies :: "string \<Rightarrow> string + Proxy list"
  rd_groups :: "string \<Rightarrow> string + TargetGroup list"
  rd_targets :: "string \<Rightarrow> string + Target list"
  rd_tags :: "string \<Rightarrow> string + Tag list"

definition formOf :: "urlValues \<Rightarrow> formValues" where
  "formOf values = map (\<lambda>(k, v). (k, [v])) values"

definition callFor :: "'w rdsEnv \<Rightarrow> rdsClient \<Rightarrow> string \<Rightarrow> (string \<Rightarrow> string + 'o list) \<Rightarrow> 'w \<Rightarrow> urlValues \<Rightarrow> string + 'o list" where
  "callFor en c action decode w values =
     (case snd (Call en c action (formOf values) (Some decode) [] w) of
        Inl e \<Rightarrow> Inl (callErrorText e) | Inr items \<Rightarrow> Inr items)"

definition pluginApi :: "'w rdsEnv \<Rightarrow> rdsDecoders \<Rightarrow> rdsClient \<Rightarrow> 'w rdsApi" where
  "pluginApi en dec c =
     \<lparr>api_call = (\<lambda>w action values.
        (case Call en c action (formOf values) None () w of
           (w, Inl e) \<Rightarrow> (w, Some (callErrorText e)) | (w, Inr _) \<Rightarrow> (w, None))),
      api_proxies = callFor en c ''DescribeDBProxies'' (rd_proxies dec),
      api_groups = callFor en c ''DescribeDBProxyTargetGroups'' (rd_groups dec),
      api_targets = callFor en c ''DescribeDBProxyTargets'' (rd_targets dec),
      api_tags = callFor en c ''ListTagsForResource'' (rd_tags dec)\<rparr>"

section \<open>Reading a form\<close>

text \<open>\<open>url.ParseQuery\<close>, as the plugin's side reads a body: pairs split at the ampersands, names and
  values at the first equals sign, both unescaped.\<close>

definition unhex :: "char \<Rightarrow> nat option" where
  "unhex c = (let n = code c in
     if 48 \<le> n \<and> n < 58 then Some (n - 48) else if 65 \<le> n \<and> n < 71 then Some (n - 55)
     else if 97 \<le> n \<and> n < 103 then Some (n - 87) else None)"

fun queryUnescape :: "string \<Rightarrow> string option" where
  "queryUnescape [] = Some []"
| "queryUnescape (c # cs) =
     (if c = CHR ''+'' then map_option ((#) (CHR '' '')) (queryUnescape cs)
      else if c = CHR ''%'' then
        (case cs of
           a # b # ds \<Rightarrow>
             (case (unhex a, unhex b) of
                (Some x, Some y) \<Rightarrow> map_option ((#) (char_of (16 * x + y))) (queryUnescape ds)
              | _ \<Rightarrow> None)
         | _ \<Rightarrow> None)
      else map_option ((#) c) (queryUnescape cs))"

definition readPair :: "string \<Rightarrow> (string \<times> string) option" where
  "readPair w =
     (case cutAt (CHR ''='') w of
        None \<Rightarrow> map_option (\<lambda>k. (k, [])) (queryUnescape w)
      | Some (a, b) \<Rightarrow>
          (case (queryUnescape a, queryUnescape b) of (Some k, Some v) \<Rightarrow> Some (k, v) | _ \<Rightarrow> None))"

definition ParseQuery :: "string \<Rightarrow> (string \<times> string) list option" where
  "ParseQuery s = those (map readPair (filter (\<lambda>w. w \<noteq> []) (splitOn (CHR ''&'') s)))"

definition sentUnder :: "string \<Rightarrow> (string \<times> string) list \<Rightarrow> string list" where
  "sentUnder k ps = map snd (filter (\<lambda>p. fst p = k) ps)"

definition escByte :: "string \<Rightarrow> char \<Rightarrow> string" where
  "escByte sp c = (if unreserved c then [c] else if c = CHR '' '' then sp else percent c)"

definition plainChar :: "char \<Rightarrow> bool" where
  "plainChar c \<longleftrightarrow> unreserved c \<or> c = CHR ''%'' \<or> c = CHR ''+''"

lemma upperHex_ok: "n < 16 \<Longrightarrow> unreserved (upperHex n) \<and> unhex (upperHex n) = Some n"
  by (auto simp: upperHex_def unreserved_def unhex_def less_Suc_eq numeral_eq_Suc)

lemma code_16: "code c div 16 < 16" "code c mod 16 < 16"
proof -
  have "code c < 16 * 16" using nat_of_char_less_256 [of c] by simp
  then show "code c div 16 < 16" by (rule less_mult_imp_div_less)
qed simp

lemma char_16: "char_of (16 * (code c div 16) + code c mod 16) = c"
  by (metis char_of_char mult_div_mod_eq)

lemma unreserved_not: "unreserved c \<Longrightarrow> c \<noteq> CHR ''%'' \<and> c \<noteq> CHR ''+'' \<and> c \<noteq> CHR ''='' \<and> c \<noteq> CHR ''&'' \<and> c \<noteq> CHR 0x0A"
  by (auto simp: unreserved_def)

lemma char_32: "char_of (32 :: nat) = CHR '' ''"
proof -
  have "char_of (code (CHR '' '')) = CHR '' ''" by (rule char_of_char)
  then show ?thesis by (simp del: char_of_char)
qed

lemma unescape_byte:
  assumes "sp = ''+'' \<or> sp = ''%20''"
  shows "queryUnescape (escByte sp c @ t) = map_option ((#) c) (queryUnescape t)"
  using assms upperHex_ok [OF code_16(1) [of c]] upperHex_ok [OF code_16(2) [of c]]
  by (auto simp: escByte_def percent_def char_16 char_32 unreserved_not unhex_def Let_def)

lemma escByte_plain: "sp = ''+'' \<or> sp = ''%20'' \<Longrightarrow> list_all plainChar (escByte sp c)"
  using upperHex_ok [OF code_16(1) [of c]] upperHex_ok [OF code_16(2) [of c]]
  by (auto simp: escByte_def percent_def plainChar_def unreserved_def [of "CHR ''2''"] unreserved_def [of "CHR ''0''"])

definition escapeWith :: "string \<Rightarrow> string \<Rightarrow> string" where
  "escapeWith sp s = concat (map (escByte sp) s)"

lemma QueryEscape_alt: "QueryEscape s = escapeWith ''+'' s"
  by (simp add: QueryEscape_def escapeWith_def escByte_def [abs_def])

lemma replaceChar_append: "replaceChar c r (a @ b) = replaceChar c r a @ replaceChar c r b"
  by (simp add: replaceChar_def)

lemma replaceChar_free: "c \<notin> set s \<Longrightarrow> replaceChar c r s = s"
  by (induction s) (auto simp: replaceChar_def)

lemma awsEscape_alt: "awsEscape s = escapeWith ''%20'' s"
proof (induction s)
  case (Cons c s)
  have "replaceChar (CHR ''+'') ''%20'' (escByte ''+'' c) = escByte ''%20'' c"
    using upperHex_ok [OF code_16(1) [of c]] upperHex_ok [OF code_16(2) [of c]]
    by (auto simp: escByte_def percent_def replaceChar_def dest: unreserved_not)
  with Cons show ?case by (simp add: awsEscape_def QueryEscape_alt escapeWith_def replaceChar_append)
qed (simp add: awsEscape_def QueryEscape_alt escapeWith_def replaceChar_def)

lemma unescape_escape: "sp = ''+'' \<or> sp = ''%20'' \<Longrightarrow> queryUnescape (escapeWith sp s) = Some s"
  by (induction s) (simp_all add: escapeWith_def unescape_byte)

lemma escape_plain: "sp = ''+'' \<or> sp = ''%20'' \<Longrightarrow> list_all plainChar (escapeWith sp s)"
  by (induction s) (simp_all add: escapeWith_def escByte_plain)

lemma plain_not: "plainChar c \<Longrightarrow> c \<noteq> CHR ''='' \<and> c \<noteq> CHR ''&'' \<and> c \<noteq> CHR 0x0A"
  by (auto simp: plainChar_def dest: unreserved_not)

lemma those_Some: "those (map f xs) = Some ys \<longleftrightarrow> map f xs = map Some ys"
  by (induction xs arbitrary: ys) (auto split: option.splits)

definition pairText :: "(string \<Rightarrow> string) \<Rightarrow> string \<times> string \<Rightarrow> string" where
  "pairText esc p = esc (fst p) @ ''='' @ esc (snd p)"

text \<open>The contract of an escaping function: form decoding undoes it, and it leaves no separator.\<close>

locale escaping =
  fixes esc :: "string \<Rightarrow> string"
  assumes decodes: "queryUnescape (esc s) = Some s"
    and plain: "list_all plainChar (esc s)"
begin

lemma free: "CHR ''='' \<notin> set (esc s)" "CHR ''&'' \<notin> set (esc s)" "CHR 0x0A \<notin> set (esc s)"
  using plain [of s] by (auto simp: list_all_iff dest!: bspec plain_not)

lemma pairText_free: "CHR ''&'' \<notin> set (pairText esc p)" "CHR 0x0A \<notin> set (pairText esc p)" "pairText esc p \<noteq> []"
  using free by (auto simp: pairText_def)

lemma readPair_text: "readPair (pairText esc p) = Some p"
  by (simp add: readPair_def pairText_def cutAt_append free decodes)

lemma ParseQuery_text: "ParseQuery (joinStr ''&'' (map (pairText esc) ps)) = Some ps"
proof (cases "ps = []")
  case False
  then have "splitOn (CHR ''&'') (joinStr ''&'' (map (pairText esc) ps)) = map (pairText esc) ps"
    using pairText_free by (intro splitOn_joinStr) (auto simp: list_all_iff)
  moreover have "filter (\<lambda>w. w \<noteq> []) (map (pairText esc) ps) = map (pairText esc) ps"
    using pairText_free by (auto intro!: filter_True)
  ultimately show ?thesis by (simp add: ParseQuery_def those_Some readPair_text)
qed (simp add: ParseQuery_def)

end

interpretation form: escaping QueryEscape
  by unfold_locales (simp_all add: QueryEscape_alt unescape_escape escape_plain)

interpretation aws: escaping awsEscape
  by unfold_locales (simp_all add: awsEscape_alt unescape_escape escape_plain)

text \<open>The pairs of a form in the order it is written: by name, each name's values in theirs.\<close>

definition formPairs :: "(string list \<Rightarrow> string list) \<Rightarrow> formValues \<Rightarrow> (string \<times> string) list" where
  "formPairs ord m = concat (map (\<lambda>k. map (Pair k) (ord (valuesOf m k))) (sortedKeys m))"

lemma formEncode_alt: "formEncode m = joinStr ''&'' (map (pairText QueryEscape) (formPairs (\<lambda>vs. vs) m))"
  by (simp add: formEncode_def formPairs_def pairText_def map_concat comp_def)

lemma canonicalQuery_alt: "canonicalQuery m = joinStr ''&'' (map (pairText awsEscape) (formPairs sort m))"
  by (simp add: canonicalQuery_def formPairs_def pairText_def map_concat comp_def sortedKeys_def)

lemma sentUnder_pairs:
  assumes "mwf m"
  shows "sentUnder k (formPairs ord m) = (if mget m k = None then [] else ord (valuesOf m k))"
proof -
  have "sentUnder k (concat (map (\<lambda>k. map (Pair k) (f k)) ks)) = concat (map f (filter (\<lambda>x. x = k) ks))" for f ks
    by (induction ks) (auto simp: sentUnder_def comp_def)
  moreover have "filter (\<lambda>x. x = k) ks = (if k \<in> set ks then [k] else [])" if "distinct ks" for ks
    using that by (induction ks) auto
  ultimately show ?thesis
    using sortedKeys_props(1,3) [of m] assms map_of_eq_None_iff [of m k] by (simp add: formPairs_def)
qed

section \<open>What is sent and what is signed\<close>

lemma sign_keeps:
  "rq_Body (sign cy req payload region creds now) = rq_Body req"
  "rq_Method (sign cy req payload region creds now) = rq_Method req"
  by (simp_all add: sign_def Let_def)

lemma callForm_wf: "mwf values \<Longrightarrow> mwf (callForm action values)"
  by (simp add: callForm_def formSet_def distinct_update)

lemma callForm_get:
  "mget (callForm action values) k =
     (if k = ''Version'' then Some [apiVersion] else if k = ''Action'' then Some [action] else mget values k)"
  by (simp add: callForm_def formSet_def mput_mget)

lemma body_reads_back:
  assumes "mwf values" and "callRequest en c w action values = Inr req"
  shows "\<exists>ps. ParseQuery (rq_Body req) = Some ps \<and> sentUnder ''Action'' ps = [action]
           \<and> sentUnder ''Version'' ps = [apiVersion]
           \<and> (\<forall>k. k \<noteq> ''Action'' \<and> k \<noteq> ''Version'' \<longrightarrow> sentUnder k ps = valuesOf values k)"
proof -
  have "rq_Body req = formEncode (callForm action values)"
    using assms(2) by (auto simp: callRequest_def Let_def sign_keeps split: sum.splits prod.splits)
  then have "ParseQuery (rq_Body req) = Some (formPairs (\<lambda>vs. vs) (callForm action values))"
    by (simp add: formEncode_alt form.ParseQuery_text)
  moreover have "sentUnder k (formPairs (\<lambda>vs. vs) (callForm action values)) =
      (if k = ''Version'' then [apiVersion] else if k = ''Action'' then [action] else valuesOf values k)" for k
    using sentUnder_pairs [OF callForm_wf [OF assms(1)], of k "\<lambda>vs. vs"]
    by (auto simp: callForm_get valuesOf_def split: if_splits)
  ultimately show ?thesis by simp
qed

text \<open>C18. The body of every call, read by the rules of form decoding, is the call: its action and the
  API version once each, and under every other name exactly the values the caller gave, in their
  order, whatever bytes they hold.\<close>

theorem call_body_reads_back:
  assumes "mwf values" and "callRequest en c w action values = Inr req"
  shows "\<exists>ps. ParseQuery (rq_Body req) = Some ps \<and> sentUnder ''Action'' ps = [action]
           \<and> sentUnder ''Version'' ps = [apiVersion]
           \<and> (\<forall>k. k \<noteq> ''Action'' \<and> k \<noteq> ''Version'' \<longrightarrow> sentUnder k ps = valuesOf values k)"
  using assms by (rule body_reads_back)

definition oneLine :: "string \<Rightarrow> bool" where
  "oneLine s \<longleftrightarrow> CHR 0x0A \<notin> set s"

definition lineRequest :: "request \<Rightarrow> bool" where
  "lineRequest r \<longleftrightarrow> mwf (rq_Query r) \<and> oneLine (rq_Method r) \<and> oneLine (rq_EscapedPath r) \<and> oneLine (rq_Host r)
     \<and> oneLine (TrimSpace (mgetStr (rq_Header r) ''Content-Type''))"

lemma canonicalQuery_line: "oneLine (canonicalQuery q)"
proof -
  have "c \<in> set (joinStr ''&'' ws) \<Longrightarrow> c = CHR ''&'' \<or> (\<exists>w\<in>set ws. c \<in> set w)" for c ws
    by (induction "''&''" ws rule: joinStr.induct) auto
  from this [of "CHR 0x0A"] show ?thesis
    using aws.pairText_free(2) by (fastforce simp: oneLine_def canonicalQuery_alt)
qed

lemma canonicalQuery_inject:
  assumes "canonicalQuery q = canonicalQuery q'" "mwf q" "mwf q'"
  shows "mset (valuesOf q k) = mset (valuesOf q' k)"
proof -
  have "formPairs sort q = formPairs sort q'"
    using arg_cong [OF assms(1), of ParseQuery] by (simp add: canonicalQuery_alt aws.ParseQuery_text)
  then have "sentUnder k (formPairs sort q) = sentUnder k (formPairs sort q')" by simp
  then have "mset (sentUnder k (formPairs sort q)) = mset (sentUnder k (formPairs sort q'))" by simp
  then show ?thesis
    by (simp add: sentUnder_pairs assms valuesOf_def split: if_splits option.splits)
qed

lemma canonicalURI_line: "oneLine p \<Longrightarrow> oneLine (canonicalURI p)"
  by (simp add: oneLine_def canonicalURI_def)

text \<open>C19. The canonical request, which the signature is over, determines the request: two requests with
  the same one have the same method, path (an empty one being the root), host, content type, date and
  body hash, and under every name of the query the same values. A character in a name or a value cannot
  pass for one of the separators.\<close>

theorem canonical_request_unambiguous:
  assumes "canonicalRequest r date h = canonicalRequest r' date' h'"
    and "lineRequest r" "lineRequest r'" "oneLine date" "oneLine date'"
  shows "rq_Method r = rq_Method r' \<and> canonicalURI (rq_EscapedPath r) = canonicalURI (rq_EscapedPath r')
    \<and> rq_Host r = rq_Host r' \<and> date = date' \<and> h = h'
    \<and> TrimSpace (mgetStr (rq_Header r) ''Content-Type'') = TrimSpace (mgetStr (rq_Header r') ''Content-Type'')
    \<and> (\<forall>k. mset (valuesOf (rq_Query r) k) = mset (valuesOf (rq_Query r') k))"
proof -
  have l: "CHR 0x0A \<notin> set (rq_Method x)" "CHR 0x0A \<notin> set (canonicalURI (rq_EscapedPath x))" "CHR 0x0A \<notin> set (rq_Host x)"
    "CHR 0x0A \<notin> set (TrimSpace (mgetStr (rq_Header x) ''Content-Type''))" "CHR 0x0A \<notin> set (canonicalQuery (rq_Query x))"
    if "lineRequest x" for x
    using that canonicalURI_line canonicalQuery_line by (auto simp: lineRequest_def oneLine_def)
  note ls = l [OF assms(2)] l [OF assms(3)] assms(4,5) [unfolded oneLine_def]
  have "rq_Method r = rq_Method r' \<and> canonicalURI (rq_EscapedPath r) = canonicalURI (rq_EscapedPath r')
    \<and> canonicalQuery (rq_Query r) = canonicalQuery (rq_Query r') \<and> rq_Host r = rq_Host r' \<and> date = date' \<and> h = h'
    \<and> TrimSpace (mgetStr (rq_Header r) ''Content-Type'') = TrimSpace (mgetStr (rq_Header r') ''Content-Type'')"
    using assms(1) by (simp add: canonicalRequest_def Let_def nl_def append_sep_inject ls)
  moreover have "mwf (rq_Query r)" "mwf (rq_Query r')" using assms(2,3) by (simp_all add: lineRequest_def)
  ultimately show ?thesis using canonicalQuery_inject by blast
qed

text \<open>A plugin at \<open>db:6080/aws/rds\<close>, with hash functions that are not needed to be real ones.\<close>

definition witnessRds :: "unit rdsEnv" where
  "witnessRds = \<lparr>re_crypto = \<lparr>cy_sha256 = (\<lambda>s. s), cy_hmac = (\<lambda>k s. k @ s)\<rparr>, re_now = (\<lambda>_. 0),
     re_parseURL = (\<lambda>_. Inr (''/aws/rds'', [], ''db:6080'')), re_do = (\<lambda>_ w. (w, Inl ''refused'')),
     re_errorResponse = (\<lambda>_. None), re_statusText = (\<lambda>_. [])\<rparr>"

definition witnessClient :: rdsClient where
  "witnessClient = \<lparr>rc_endpoint = ''https://db:6080/aws/rds'', rc_region = ''us-east-1'',
     rc_credentials = \<lparr>cr_AccessKeyID = ''AK'', cr_SecretAccessKey = ''SK''\<rparr>\<rparr>"

theorem call_body_reads_back_witness:
  "\<exists>req ps. callRequest witnessRds witnessClient () ''AddTagsToResource'' [(''Tags.member.1.Value'', [''a=b & c''])] = Inr req
     \<and> ParseQuery (rq_Body req) = Some ps \<and> sentUnder ''Tags.member.1.Value'' ps = [''a=b & c'']"
proof -
  let ?m = "[(''Tags.member.1.Value'', [''a=b & c''])]"
  obtain req where r: "callRequest witnessRds witnessClient () ''AddTagsToResource'' ?m = Inr req"
    by (auto simp: callRequest_def witnessRds_def witnessClient_def Let_def)
  have "mwf ?m" by simp
  from call_body_reads_back [OF this r] obtain ps where ps: "ParseQuery (rq_Body req) = Some ps"
    and all: "\<forall>k. k \<noteq> ''Action'' \<and> k \<noteq> ''Version'' \<longrightarrow> sentUnder k ps = valuesOf ?m k" by blast
  from all have "sentUnder ''Tags.member.1.Value'' ps = [''a=b & c'']" by (simp add: valuesOf_def)
  with r ps show ?thesis by blast
qed

definition plainRequest :: "string \<Rightarrow> request" where
  "plainRequest h = \<lparr>rq_Method = ''POST'', rq_EscapedPath = ''/aws/rds'', rq_Query = [(''k'', [''v''])], rq_Host = h,
     rq_Header = [], rq_Body = []\<rparr>"

theorem canonical_request_unambiguous_witness:
  "lineRequest (plainRequest ''a'') \<and> canonicalRequest (plainRequest ''a'') ''d'' ''h'' \<noteq> canonicalRequest (plainRequest ''b'') ''d'' ''h''"
proof -
  have "find (\<lambda>r. r \<noteq> [] \<and> hasPrefix r []) rs = None" for rs by (induction rs) (simp_all add: hasPrefix_iff)
  then have "trimLeft rs [] = []" for rs by (subst trimLeft.simps) simp
  then have "TrimSpace [] = []" by (simp add: TrimSpace_def)
  then have "lineRequest (plainRequest h)" if "oneLine h" for h
    using that by (simp add: lineRequest_def plainRequest_def oneLine_def mgetStr_def)
  then have l: "lineRequest (plainRequest ''a'')" "lineRequest (plainRequest ''b'')" by (simp_all add: oneLine_def)
  have "rq_Host (plainRequest ''a'') \<noteq> rq_Host (plainRequest ''b'')" by (simp add: plainRequest_def)
  moreover have "oneLine ''d''" by (simp add: oneLine_def)
  ultimately show ?thesis using l canonical_request_unambiguous by blast
qed

end
