(* ===== verification/CertSigning.thy ===== *)
theory CertSigning
  imports TlsSecrets
begin

text \<open>
  Keys and certificates, the rest of \<open>operator/internal/tlsutil/tlsutil.go\<close>: what \<open>NewCA\<close> and
  \<open>IssueServing\<close> do around the calls of the x509, ECDSA and PEM libraries, which are the fields of
  \<open>x509Lib\<close>. \<open>x509Env\<close> puts these definitions in the place of the signing and parsing that
  \<open>TlsSecrets\<close> has as parameters; the theorem is that what \<open>TlsSecrets\<close> relies on then holds.
\<close>

datatype keyUsage = KeyUsageCertSign | KeyUsageCRLSign | KeyUsageDigitalSignature | ExtKeyUsageServerAuth

record x509Template = certTemplate +
  xt_SerialNumber :: int
  xt_Usage :: "keyUsage set"
  xt_BasicConstraintsValid :: bool

text \<open>What \<open>ParsePKCS8PrivateKey\<close> may return: an ECDSA key, or a key of another type, by its name.\<close>

datatype 'k parsedKey = ECKey 'k | OtherKey string

text \<open>A certificate is created from a template, the issuer's certificate (none when it is the template itself),
  the key it is for and the key it is signed with.\<close>

record ('k, 'w) x509Lib =
  x_generateKey :: "'w \<Rightarrow> 'w \<times> (string + 'k)"
  x_randInt :: "int \<Rightarrow> 'w \<Rightarrow> 'w \<times> (string + int)"
  x_createCertificate :: "x509Template \<Rightarrow> certInfo option \<Rightarrow> 'k \<Rightarrow> 'k \<Rightarrow> 'w \<Rightarrow> 'w \<times> (string + string)"
  x_marshalPKCS8 :: "'k \<Rightarrow> string + string"
  x_parsePKCS8 :: "string \<Rightarrow> string + 'k parsedKey"
  x_parseCertificate :: "string \<Rightarrow> string + certInfo"
  x_pemEncode :: "string \<Rightarrow> string \<Rightarrow> string"
  x_pemDecode :: "string \<Rightarrow> string option"

definition serialBits :: nat where "serialBits = 128"

definition randomSerial :: "('k, 'w) x509Lib \<Rightarrow> 'w \<Rightarrow> 'w \<times> (string + int)" where
  "randomSerial lib w = x_randInt lib (2 ^ serialBits) w"

definition encodeCert :: "('k, 'w) x509Lib \<Rightarrow> string \<Rightarrow> string" where
  "encodeCert lib der = x_pemEncode lib ''CERTIFICATE'' der"

definition parseCert :: "('k, 'w) x509Lib \<Rightarrow> string \<Rightarrow> string + certInfo" where
  "parseCert lib certPEM =
     (case x_pemDecode lib certPEM of
        None \<Rightarrow> Inl ''no PEM block found in certificate data''
      | Some der \<Rightarrow> x_parseCertificate lib der)"

definition encodeECKey :: "('k, 'w) x509Lib \<Rightarrow> 'k \<Rightarrow> string + string" where
  "encodeECKey lib key =
     (case x_marshalPKCS8 lib key of
        Inl e \<Rightarrow> Inl (''marshaling private key: '' @ e)
      | Inr der \<Rightarrow> Inr (x_pemEncode lib ''PRIVATE KEY'' der))"

definition parseECKey :: "('k, 'w) x509Lib \<Rightarrow> string \<Rightarrow> string + 'k" where
  "parseECKey lib keyPEM =
     (case x_pemDecode lib keyPEM of
        None \<Rightarrow> Inl ''no PEM block found in key data''
      | Some der \<Rightarrow>
          (case x_parsePKCS8 lib der of
             Inl e \<Rightarrow> Inl (''parsing PKCS8 key: '' @ e)
           | Inr (ECKey key) \<Rightarrow> Inr key
           | Inr (OtherKey t) \<Rightarrow> Inl (''key is not an ECDSA private key: '' @ t)))"

definition fullTemplate :: "certTemplate \<Rightarrow> int \<Rightarrow> x509Template" where
  "fullTemplate tm serial =
     (certTemplate.extend tm
        (if ctm_IsCA tm
         then \<lparr>xt_SerialNumber = serial, xt_Usage = {KeyUsageCertSign, KeyUsageCRLSign}, xt_BasicConstraintsValid = True\<rparr>
         else \<lparr>xt_SerialNumber = serial, xt_Usage = {KeyUsageDigitalSignature, ExtKeyUsageServerAuth}, xt_BasicConstraintsValid = False\<rparr>))"

text \<open>The issuer: none is the new certificate itself, else the certificate and the key of the CA, as
  \<open>IssueServing\<close> parses them; it has refused what does not parse before it makes a key, so that the
  error branches are those of a call that \<open>IssueServing\<close> never makes.\<close>

definition issuerOf :: "('k, 'w) x509Lib \<Rightarrow> (string \<times> string) option \<Rightarrow> 'k \<Rightarrow> string + (certInfo option \<times> 'k)" where
  "issuerOf lib issuer key =
     (case issuer of
        None \<Rightarrow> Inr (None, key)
      | Some (caCertPEM, caKeyPEM) \<Rightarrow>
          (case parseCert lib caCertPEM of
             Inl e \<Rightarrow> Inl (''parsing CA certificate: '' @ e)
           | Inr caCert \<Rightarrow>
               (case parseECKey lib caKeyPEM of
                  Inl e \<Rightarrow> Inl (''parsing CA key: '' @ e)
                | Inr caKey \<Rightarrow> Inr (Some caCert, caKey))))"

definition signCert :: "('k, 'w) x509Lib \<Rightarrow> certTemplate \<Rightarrow> (string \<times> string) option \<Rightarrow> 'w \<Rightarrow> 'w \<times> (string + string \<times> string)" where
  "signCert lib tm issuer w =
     (let what = (if ctm_IsCA tm then ''CA'' else ''serving'') in
      case x_generateKey lib w of
        (w, Inl e) \<Rightarrow> (w, Inl (''generating '' @ what @ '' key: '' @ e))
      | (w, Inr key) \<Rightarrow>
          (case randomSerial lib w of
             (w, Inl e) \<Rightarrow> (w, Inl (''generating '' @ what @ '' serial: '' @ e))
           | (w, Inr serial) \<Rightarrow>
               (case issuerOf lib issuer key of
                  Inl e \<Rightarrow> (w, Inl e)
                | Inr (parent, signer) \<Rightarrow>
                    (case x_createCertificate lib (fullTemplate tm serial) parent key signer w of
                       (w, Inl e) \<Rightarrow> (w, Inl (''creating '' @ what @ '' certificate: '' @ e))
                     | (w, Inr der) \<Rightarrow>
                         (w, case encodeECKey lib key of
                               Inl e \<Rightarrow> Inl e
                             | Inr keyPEM \<Rightarrow> Inr (encodeCert lib der, keyPEM))))))"

definition x509Env :: "('k, 'w) x509Lib \<Rightarrow> ('w, 'm) tlsEnv_scheme \<Rightarrow> ('w, 'm) tlsEnv_scheme" where
  "x509Env lib te = te\<lparr>te_sign := signCert lib, te_parseCert := parseCert lib,
     te_parseKey := (\<lambda>k. case parseECKey lib k of Inl e \<Rightarrow> Some e | Inr _ \<Rightarrow> None)\<rparr>"

text \<open>What the libraries promise: a PEM block reads back and is not empty, no block is read from nothing, a key
  marshals to what parses back as an ECDSA key, and a created certificate parses to the names of its
  template and its expiry, which the encoding cuts to the second.\<close>

definition x509Laws :: "('k, 'w) x509Lib \<Rightarrow> bool" where
  "x509Laws lib \<longleftrightarrow>
     (\<forall>t der. x_pemEncode lib t der \<noteq> [] \<and> x_pemDecode lib (x_pemEncode lib t der) = Some der) \<and>
     x_pemDecode lib [] = None \<and>
     (\<forall>key der. x_marshalPKCS8 lib key = Inr der \<longrightarrow> x_parsePKCS8 lib der = Inr (ECKey key)) \<and>
     (\<forall>t parent key signer w w' der. x_createCertificate lib t parent key signer w = (w', Inr der) \<longrightarrow>
        x_parseCertificate lib der = Inr \<lparr>ci_NotAfter = secFloor (ctm_NotAfter t), ci_DNSNames = ctm_DNSNames t,
          ci_IPAddresses = ctm_IPAddresses t\<rparr>)"

section \<open>Signing is faithful\<close>

lemma key_roundtrip: "x509Laws lib \<Longrightarrow> encodeECKey lib key = Inr pem \<Longrightarrow> pem \<noteq> [] \<and> parseECKey lib pem = Inr key"
  by (auto simp: encodeECKey_def parseECKey_def x509Laws_def split: sum.splits)

lemma cert_roundtrip:
  assumes "x509Laws lib" "x_createCertificate lib t parent key signer w = (w', Inr der)"
  shows "encodeCert lib der \<noteq> [] \<and> parseCert lib (encodeCert lib der) =
    Inr \<lparr>ci_NotAfter = secFloor (ctm_NotAfter t), ci_DNSNames = ctm_DNSNames t, ci_IPAddresses = ctm_IPAddresses t\<rparr>"
  using assms by (simp add: encodeCert_def parseCert_def x509Laws_def)

lemma fullTemplate_fields:
  "ctm_NotAfter (fullTemplate tm serial) = ctm_NotAfter tm" "ctm_DNSNames (fullTemplate tm serial) = ctm_DNSNames tm"
  "ctm_IPAddresses (fullTemplate tm serial) = ctm_IPAddresses tm" "ctm_IsCA (fullTemplate tm serial) = ctm_IsCA tm"
  by (simp_all add: fullTemplate_def certTemplate.defs)

text \<open>What a signature took: a fresh key, a serial below the bound, the issuer.\<close>

lemma signCert_cases:
  assumes "signCert lib tm issuer w = (w', Inr (crt, keyPEM))"
  obtains w1 w2 key serial parent signer der where "x_generateKey lib w = (w1, Inr key)" "randomSerial lib w1 = (w2, Inr serial)"
    "issuerOf lib issuer key = Inr (parent, signer)"
    "x_createCertificate lib (fullTemplate tm serial) parent key signer w2 = (w', Inr der)"
    "encodeECKey lib key = Inr keyPEM" "crt = encodeCert lib der"
  using assms by (auto simp: signCert_def Let_def split: prod.splits sum.splits)

lemma x509_fields [simp]:
  "te_sign (x509Env lib te) = signCert lib" "te_parseCert (x509Env lib te) = parseCert lib"
  "te_parseKey (x509Env lib te) k = (case parseECKey lib k of Inl e \<Rightarrow> Some e | Inr _ \<Rightarrow> None)"
  "te_now (x509Env lib te) = te_now te" "te_parseIP (x509Env lib te) = te_parseIP te"
  by (simp_all add: x509Env_def)

lemma signCert_faithful:
  assumes "x509Laws lib" "signCert lib tm issuer w = (w', Inr (crt, key))"
  shows "crt \<noteq> [] \<and> key \<noteq> [] \<and> (\<exists>k. parseECKey lib key = Inr k) \<and> parseCert lib crt =
    Inr \<lparr>ci_NotAfter = secFloor (ctm_NotAfter tm), ci_DNSNames = ctm_DNSNames tm, ci_IPAddresses = ctm_IPAddresses tm\<rparr>"
  using assms(2)
  by (rule signCert_cases) (auto simp: fullTemplate_fields dest: cert_roundtrip [OF assms(1)] key_roundtrip [OF assms(1)])

text \<open>The signing of the code does what the resolution of the TLS Secrets relies on: what it signs parses back
  to the names and the expiry it was asked for, with a usable key, and nothing is read from an empty text.\<close>

theorem signing_is_faithful:
  assumes "x509Laws lib"
  shows "signs_faithfully (x509Env lib te) \<and> (\<forall>c. te_parseCert (x509Env lib te) [] \<noteq> Inr c)"
proof -
  have "signs_faithfully (x509Env lib te)"
    unfolding signs_faithfully_def by (auto dest!: signCert_faithful [OF assms])
  moreover have "parseCert lib [] \<noteq> Inr c" for c using assms by (simp add: parseCert_def x509Laws_def)
  ultimately show ?thesis by simp
qed

lemma IssueServing_cases:
  assumes "IssueServing (x509Env lib te) ca caKey sans d w = (w', Inr (crt, key))"
  obtains tm where "signCert lib tm (Some (ca, caKey)) w = (w', Inr (crt, key))" "\<not> ctm_IsCA tm" "ctm_NotAfter tm = te_now te w + d"
    "(ctm_DNSNames tm, ctm_IPAddresses tm) = splitSANs (te_parseIP te) sans"
  using assms by (auto simp: IssueServing_def Let_def split: sum.splits option.splits prod.splits)

text \<open>C20. A serving certificate is of its authority: it is created under the authority's certificate, signed with
  the very key the authority was made with, for a key that is the one returned; it is no authority
  itself, covers every requested name and address, and is up for renewal exactly when less than the
  asked time is left of its lifetime.\<close>

theorem serving_certificate_chain:
  assumes laws: "x509Laws lib" and ca: "NewCA (x509Env lib te) commonName dca v = (v', Inr (ca, caKey))"
    and crt: "IssueServing (x509Env lib te) ca caKey sans d w = (w', Inr (crt, key))"
  shows "(\<exists>authority subject t w1 der.
      (\<exists>t0 v1 der0. x_createCertificate lib t0 None authority authority v1 = (v', Inr der0) \<and> ctm_IsCA t0 \<and> ca = encodeCert lib der0)
      \<and> x_createCertificate lib t (Some \<lparr>ci_NotAfter = secFloor (te_now te v + dca), ci_DNSNames = [], ci_IPAddresses = []\<rparr>)
          subject authority w1 = (w', Inr der)
      \<and> crt = encodeCert lib der \<and> parseECKey lib key = Inr subject \<and> \<not> ctm_IsCA t)
    \<and> certCoversSANs (x509Env lib te) crt sans
    \<and> (\<forall>u renewBefore. NeedsRenewal (x509Env lib te) u crt renewBefore \<longleftrightarrow> secFloor (te_now te w + d) - te_now te u < renewBefore)"
proof -
  from ca have s0: "signCert lib \<lparr>ctm_CommonName = commonName, ctm_NotBefore = te_now te v - clockSkew,
       ctm_NotAfter = te_now te v + dca, ctm_IsCA = True, ctm_DNSNames = [], ctm_IPAddresses = []\<rparr> None v = (v', Inr (ca, caKey))"
    by (simp add: NewCA_def)
  from s0 obtain v1 authority serial0 der0 where k0: "encodeECKey lib authority = Inr caKey" "ca = encodeCert lib der0"
    "x_createCertificate lib (fullTemplate \<lparr>ctm_CommonName = commonName, ctm_NotBefore = te_now te v - clockSkew,
       ctm_NotAfter = te_now te v + dca, ctm_IsCA = True, ctm_DNSNames = [], ctm_IPAddresses = []\<rparr> serial0) None authority authority v1 = (v', Inr der0)"
    by (rule signCert_cases) (auto simp: issuerOf_def)
  have caInfo: "parseCert lib ca = Inr \<lparr>ci_NotAfter = secFloor (te_now te v + dca), ci_DNSNames = [], ci_IPAddresses = []\<rparr>"
    using signCert_faithful [OF laws s0] by simp
  have caK: "parseECKey lib caKey = Inr authority" using key_roundtrip [OF laws k0(1)] by simp
  from crt obtain tm where s1: "signCert lib tm (Some (ca, caKey)) w = (w', Inr (crt, key))" and tm: "\<not> ctm_IsCA tm"
    "ctm_NotAfter tm = te_now te w + d" "(ctm_DNSNames tm, ctm_IPAddresses tm) = splitSANs (te_parseIP te) sans"
    by (rule IssueServing_cases)
  from s1 obtain w1 subject serial der where k1: "encodeECKey lib subject = Inr key" "crt = encodeCert lib der"
    "x_createCertificate lib (fullTemplate tm serial) (Some \<lparr>ci_NotAfter = secFloor (te_now te v + dca), ci_DNSNames = [], ci_IPAddresses = []\<rparr>)
       subject authority w1 = (w', Inr der)"
    by (rule signCert_cases) (auto simp: issuerOf_def caInfo caK)
  have info: "parseCert lib crt = Inr \<lparr>ci_NotAfter = secFloor (te_now te w + d), ci_DNSNames = ctm_DNSNames tm, ci_IPAddresses = ctm_IPAddresses tm\<rparr>"
    using signCert_faithful [OF laws s1] tm(2) by simp
  have "certCoversSANs (x509Env lib te) crt sans"
    using tm(3) by (force simp: certCoversSANs_def info splitSANs_def list_all_iff map_filter_def split: option.splits)
  moreover have "NeedsRenewal (x509Env lib te) u crt r \<longleftrightarrow> secFloor (te_now te w + d) - te_now te u < r" for u r
    by (simp add: NeedsRenewal_def info)
  moreover have "parseECKey lib key = Inr subject" using key_roundtrip [OF laws k1(1)] by simp
  ultimately show ?thesis using k0 k1 tm(1) fullTemplate_fields(4) by (intro conjI exI) auto
qed

section \<open>Witnesses\<close>

text \<open>A library whose keys are numbers, whose certificates are of an authority or of a host \<open>db\<close>, and whose
  world is the number of keys made.\<close>

definition authorityInfo :: certInfo where
  "authorityInfo = \<lparr>ci_NotAfter = 0, ci_DNSNames = [], ci_IPAddresses = []\<rparr>"

definition hostInfo :: certInfo where
  "hostInfo = \<lparr>ci_NotAfter = 0, ci_DNSNames = [''db''], ci_IPAddresses = []\<rparr>"

definition infoOf :: "x509Template \<Rightarrow> certInfo" where
  "infoOf t = \<lparr>ci_NotAfter = secFloor (ctm_NotAfter t), ci_DNSNames = ctm_DNSNames t, ci_IPAddresses = ctm_IPAddresses t\<rparr>"

definition countLib :: "(nat, nat) x509Lib" where
  "countLib = \<lparr>x_generateKey = (\<lambda>w. (Suc w, Inr w)), x_randInt = (\<lambda>_ w. (w, Inr 1)),
     x_createCertificate = (\<lambda>t _ _ _ w. (w, if infoOf t = authorityInfo then Inr ''A'' else if infoOf t = hostInfo then Inr ''H'' else Inl [])),
     x_marshalPKCS8 = (\<lambda>k. Inr (nat_digits k)),
     x_parsePKCS8 = (\<lambda>s. case parseNat s of None \<Rightarrow> Inl [] | Some k \<Rightarrow> Inr (ECKey k)),
     x_parseCertificate = (\<lambda>s. if s = ''A'' then Inr authorityInfo else if s = ''H'' then Inr hostInfo else Inl []),
     x_pemEncode = (\<lambda>_ der. CHR ''P'' # der), x_pemDecode = (\<lambda>s. if s = [] then None else Some (tl s))\<rparr>"

lemma countLib_laws: "x509Laws countLib"
  by (auto simp: x509Laws_def countLib_def infoOf_def [symmetric] split: if_splits)

definition countEnv :: "nat tlsEnv" where
  "countEnv = \<lparr>te_now = (\<lambda>_. 0), te_secret = (\<lambda>_ _ _. Inl (NotFound [])), te_statefulSet = (\<lambda>_ _ _. Inl (NotFound [])),
     te_certificate = (\<lambda>_ _ _. Inl (NotFound [])), te_upsertSecret = (\<lambda>_ _ _ w. (w, Inl [])),
     te_upsertCertificate = (\<lambda>_ _ _ w. (w, Some [])), te_deleteCertificate = (\<lambda>_ _ w. (w, None)),
     te_claim = (\<lambda>c _. Inr (Some (clu_UID c))), te_sign = (\<lambda>_ _ w. (w, Inl [])), te_parseCert = (\<lambda>_. Inl []),
     te_parseKey = (\<lambda>_. None), te_parseIP = (\<lambda>_. None)\<rparr>"

theorem signing_is_faithful_witness:
  "signs_faithfully (x509Env countLib countEnv) \<and> x509Laws countLib"
  using signing_is_faithful [OF countLib_laws, of countEnv] countLib_laws by blast

theorem serving_certificate_chain_witness:
  "NewCA (x509Env countLib countEnv) ''ca'' 0 4 = (5, Inr (''PA'', ''P4''))
   \<and> IssueServing (x509Env countLib countEnv) ''PA'' ''P4'' [''db''] 0 5 = (6, Inr (''PH'', ''P5''))
   \<and> certCoversSANs (x509Env countLib countEnv) ''PH'' [''db'']"
proof -
  have ca: "NewCA (x509Env countLib countEnv) ''ca'' 0 4 = (5, Inr (''PA'', ''P4''))" by code_simp
  have crt: "IssueServing (x509Env countLib countEnv) ''PA'' ''P4'' [''db''] 0 5 = (6, Inr (''PH'', ''P5''))" by code_simp
  from serving_certificate_chain [OF countLib_laws ca crt] ca crt show ?thesis by blast
qed

end
