(* ===== verification/PushConvergence.thy ===== *)
theory PushConvergence
  imports ReplicaApply
begin

text \<open>
  The two halves of the client together: what a push (\<open>sync.go\<close>) leaves in an instance, as the
  read-back (\<open>runtime.go\<close>) and the comparison of \<open>rds_reconcile.go\<close> see it.

  The instance is not code of the repository. \<open>adminLaws\<close> states the documented behaviour of its admin
  interface that the code relies on, over an abstraction of its state to the contents of its memory
  and runtime tables: what DELETE, INSERT, LOAD and SAVE do when they succeed, and what the queries of
  a read show. A push is then refined to a list of effects on these tables.
\<close>

section \<open>The admin interface\<close>

type_synonym sql_tables = "string \<Rightarrow> sql_value list list"

text \<open>The managed tables with the INSERT the client sends and the number of its leading columns that are
  the primary key; a row is the values of the columns the INSERT names, the others have their defaults.\<close>

definition managedTables :: "(string \<times> string \<times> nat) list" where
  "managedTables =
     [(''mysql_servers'', mysqlServersInsert, 3),
      (''mysql_replication_hostgroups'', mysqlReplicationHostgroupsInsert, 1),
      (''mysql_hostgroup_attributes'', mysqlHostgroupAttributesInsert, 1),
      (''mysql_users'', mysqlUsersInsert, 1), (''mysql_query_rules'', mysqlQueryRulesInsert, 1),
      (''pgsql_servers'', pgsqlServersInsert, 3), (''pgsql_users'', pgsqlUsersInsert, 1),
      (''pgsql_query_rules'', pgsqlQueryRulesInsert, 1), (''proxysql_servers'', proxysqlServersInsert, 2)]"

text \<open>What a LOAD TO RUNTIME loads together.\<close>

definition loadGroups :: "(string \<times> string list) list" where
  "loadGroups =
     [(''MYSQL SERVERS'', [''mysql_servers'', ''mysql_replication_hostgroups'', ''mysql_hostgroup_attributes'']),
      (''MYSQL USERS'', [''mysql_users'']), (''MYSQL QUERY RULES'', [''mysql_query_rules'']),
      (''PGSQL SERVERS'', [''pgsql_servers'']), (''PGSQL USERS'', [''pgsql_users'']),
      (''PGSQL QUERY RULES'', [''pgsql_query_rules'']), (''PROXYSQL SERVERS'', [''proxysql_servers'']),
      (''MYSQL VARIABLES'', []), (''PGSQL VARIABLES'', []), (''ADMIN VARIABLES'', [])]"

text \<open>Only active users and rules are loaded, and the runtime table shows no OFFLINE_HARD server.\<close>

definition shownAtRuntime :: "string \<Rightarrow> sql_value list \<Rightarrow> bool" where
  "shownAtRuntime t row \<longleftrightarrow>
     (if t = ''mysql_servers'' then row ! 3 \<noteq> SqlText statusOfflineHard
      else if t = ''mysql_users'' \<or> t = ''pgsql_users'' then row ! 3 = SqlInt 1
      else if t = ''mysql_query_rules'' \<or> t = ''pgsql_query_rules'' then row ! 1 = SqlInt 1
      else True)"

fun sqlIntOf :: "sql_value \<Rightarrow> int" where
  "sqlIntOf (SqlInt i) = i"
| "sqlIntOf _ = 0"

fun sqlTextOf :: "sql_value \<Rightarrow> string" where
  "sqlTextOf (SqlText s) = s"
| "sqlTextOf _ = []"

definition mysqlRuntimeServer :: "sql_value list \<Rightarrow> rtServer" where
  "mysqlRuntimeServer row = \<lparr>rt_Hostgroup = sqlIntOf (row ! 0), rt_Hostname = sqlTextOf (row ! 1),
     rt_Port = sqlIntOf (row ! 2), rt_Status = sqlTextOf (row ! 3)\<rparr>"

definition pgsqlRuntimeServer :: "sql_value list \<Rightarrow> rtServer" where
  "pgsqlRuntimeServer row = \<lparr>rt_Hostgroup = sqlIntOf (row ! 0), rt_Hostname = sqlTextOf (row ! 1),
     rt_Port = sqlIntOf (row ! 2), rt_Status = statusOnline\<rparr>"

text \<open>The rows of a read, in any order.\<close>

definition reads :: "rtTables \<Rightarrow> sql_tables \<Rightarrow> bool" where
  "reads T rt \<longleftrightarrow>
     mset (rtt_mysql_servers T) = mset (map mysqlRuntimeServer (rt ''mysql_servers''))
     \<and> mset (rtt_pgsql_servers T) = mset (map pgsqlRuntimeServer (rt ''pgsql_servers''))
     \<and> set (rtt_mysql_users T) = (\<lambda>row. (sqlTextOf (row ! 0), sqlIntOf (row ! 2))) ` set (rt ''mysql_users'')
     \<and> set (rtt_pgsql_users T) = (\<lambda>row. sqlTextOf (row ! 0)) ` set (rt ''pgsql_users'')
     \<and> set (rtt_mysql_rules T) = (\<lambda>row. sqlIntOf (row ! 0)) ` set (rt ''mysql_query_rules'')
     \<and> set (rtt_pgsql_rules T) = (\<lambda>row. sqlIntOf (row ! 0)) ` set (rt ''pgsql_query_rules'')"

text \<open>The effect of a successful section of a push on the memory and the runtime tables.\<close>

datatype tableEffect = Replace string "sql_value list list" | Load "string list"

fun applyEffect :: "tableEffect \<Rightarrow> sql_tables \<times> sql_tables \<Rightarrow> sql_tables \<times> sql_tables" where
  "applyEffect (Replace t rows) (mem, rt) = (mem(t := rows), rt)"
| "applyEffect (Load ts) (mem, rt) = (mem, \<lambda>t. if t \<in> set ts then filter (shownAtRuntime t) (mem t) else rt t)"

definition adminLaws :: "'w executor \<Rightarrow> ('w \<Rightarrow> querier) \<Rightarrow> ('w \<Rightarrow> sql_tables \<times> sql_tables) \<Rightarrow> bool" where
  "adminLaws ex q tables \<longleftrightarrow>
     (\<forall>w w' t header n. (t, header, n) \<in> set managedTables \<longrightarrow>
        (ex w (''DELETE FROM '' @ t) = (w', None) \<longrightarrow> tables w' = applyEffect (Replace t []) (tables w))
        \<and> (\<forall>clause rows. ex w (header @ clause) = (w', None) \<longrightarrow> sql_values clause = Some rows \<longrightarrow>
             tables w' = applyEffect (Replace t (fst (tables w) t @ rows)) (tables w)
             \<and> distinct (map (take n) (fst (tables w) t @ rows))))
     \<and> (\<forall>w w' what ts. (what, ts) \<in> set loadGroups \<longrightarrow>
        (ex w (''LOAD '' @ what @ '' TO RUNTIME'') = (w', None) \<longrightarrow> tables w' = applyEffect (Load ts) (tables w))
        \<and> (ex w (''SAVE '' @ what @ '' TO DISK'') = (w', None) \<longrightarrow> tables w' = tables w))
     \<and> (\<forall>w w' k v. ex w (updateVariable k v) = (w', None) \<longrightarrow> tables w' = tables w)
     \<and> (\<forall>w. \<exists>T. answers (q w) T \<and> reads T (snd (tables w)))"

section \<open>A push as effects on the tables\<close>

definition sectionEffects :: "Desired \<Rightarrow> bool \<Rightarrow> tableEffect list" where
  "sectionEffects d aws =
     (let stored = map (map sql_stored);
          rep = (\<lambda>i. Replace (fst (desired_tables d ! i)) (stored (snd (snd (desired_tables d ! i))))) in
      (if aws then []
       else [rep 0, rep 1, rep 2,
             Load [''mysql_servers'', ''mysql_replication_hostgroups'', ''mysql_hostgroup_attributes''],
             rep 3, Load [''mysql_users'']])
      @ [rep 4, Load [''mysql_query_rules''], rep 5, Load [''pgsql_servers''], rep 6, Load [''pgsql_users''],
         rep 7, Load [''pgsql_query_rules''], rep 8, Load [''proxysql_servers'']])"

lemma adminLaws_table:
  assumes "adminLaws ex q tables" and "(t, header, n) \<in> set managedTables"
  shows "ex w (''DELETE FROM '' @ t) = (w', None) \<Longrightarrow> tables w' = applyEffect (Replace t []) (tables w)"
    and "ex w (header @ clause) = (w', None) \<Longrightarrow> sql_values clause = Some rows \<Longrightarrow>
       tables w' = applyEffect (Replace t (fst (tables w) t @ rows)) (tables w)
       \<and> distinct (map (take n) (fst (tables w) t @ rows))"
  using assms unfolding adminLaws_def by blast+

lemma adminLaws_load:
  assumes "adminLaws ex q tables" and "(what, ts) \<in> set loadGroups"
  shows "ex w (''LOAD '' @ what @ '' TO RUNTIME'') = (w', None) \<Longrightarrow> tables w' = applyEffect (Load ts) (tables w)"
    and "ex w (''SAVE '' @ what @ '' TO DISK'') = (w', None) \<Longrightarrow> tables w' = tables w"
  using assms unfolding adminLaws_def by blast+

lemma adminLaws_variable:
  "adminLaws ex q tables \<Longrightarrow> ex w (updateVariable k v) = (w', None) \<Longrightarrow> tables w' = tables w"
  unfolding adminLaws_def by blast

lemma execAll_ok_Cons:
  "execAll ex (s # ss) w = (w', None) \<longleftrightarrow> (\<exists>w1. ex w s = (w1, None) \<and> execAll ex ss w1 = (w', None))"
  by (auto simp: andThen_def split: prod.splits option.splits)

lemma execAll_ok_append:
  "execAll ex (ss @ ts) w = (w', None) \<longleftrightarrow> (\<exists>w1. execAll ex ss w = (w1, None) \<and> execAll ex ts w1 = (w', None))"
  by (induction ss arbitrary: w) (auto simp: execAll_ok_Cons simp del: execAll.simps(2))

lemma table_effect:
  assumes laws: "adminLaws ex q tables" and t: "(t, header, n) \<in> set managedTables"
    and ok: "execAll ex (table_statements (t, header, rows)) w = (w', None)" and ne: "list_all (\<lambda>r. r \<noteq> []) rows"
  shows "tables w' = applyEffect (Replace t (map (map sql_stored) rows)) (tables w)
    \<and> distinct (map (take n) (map (map sql_stored) rows))"
proof (cases "rows = []")
  case True
  with ok show ?thesis using adminLaws_table(1) [OF laws t, of w w'] by (simp add: table_statements_def execAll_ok_Cons del: execAll.simps(2))
next
  case False
  then obtain w1 where w1: "ex w (''DELETE FROM '' @ t) = (w1, None)"
    "ex w1 (header @ fmtRows (map (map sql_render) rows)) = (w', None)"
    using ok by (auto simp: table_statements_def execAll_ok_Cons simp del: execAll.simps(2))
  have d: "tables w1 = applyEffect (Replace t []) (tables w)" by (rule adminLaws_table(1) [OF laws t w1(1)])
  have "fst (tables w1) t = []" unfolding d by (cases "tables w") simp
  with adminLaws_table(2) [OF laws t w1(2) sql_values_roundtrip [OF False ne]] show ?thesis
    unfolding d by (cases "tables w") simp
qed

lemma load_effect:
  assumes "adminLaws ex q tables" "(what, ts) \<in> set loadGroups" "execAll ex (apply_statements what) w = (w', None)"
  shows "tables w' = applyEffect (Load ts) (tables w)"
proof -
  obtain w1 where "ex w (''LOAD '' @ what @ '' TO RUNTIME'') = (w1, None)" "ex w1 (''SAVE '' @ what @ '' TO DISK'') = (w', None)"
    using assms(3) by (auto simp: apply_statements_def execAll_ok_Cons simp del: execAll.simps(2))
  with adminLaws_load [OF assms(1,2)] show ?thesis by metis
qed

lemma variable_effect:
  assumes laws: "adminLaws ex q tables" and "dm \<in> {''MYSQL'', ''PGSQL'', ''ADMIN''}"
    and ok: "execAll ex (variable_statements vars dm) w = (w', None)"
  shows "tables w' = tables w"
proof -
  have upd: "tables u' = tables u" if "execAll ex (map (\<lambda>k. updateVariable k (f k)) ks) u = (u', None)" for f ks u u'
    using that by (induction ks arbitrary: u) (auto simp: execAll_ok_Cons simp del: execAll.simps(2) dest: adminLaws_variable [OF laws])
  have none: "applyEffect (Load []) x = x" for x by (cases x) simp
  have "(dm @ '' VARIABLES'', []) \<in> set loadGroups" using assms(2) by (auto simp: loadGroups_def)
  from load_effect [OF laws this] ok upd show ?thesis
    by (auto simp: variable_statements_def execAll_ok_append none split: if_splits)
qed

lemma runSyncSteps_failed: "snd (runSyncSteps ss (Some e) w) = Some e"
  by (induction ss arbitrary: w) (auto split: prod.splits option.splits)

lemma runSyncSteps_okE:
  assumes "runSyncSteps ((name, run) # ss) None w = (w', None)"
  obtains w1 where "run w = (w1, None)" "runSyncSteps ss None w1 = (w', None)"
proof -
  obtain w1 r where run: "run w = (w1, r)" by (cases "run w")
  show ?thesis
  proof (cases r)
    case None
    then show ?thesis using that [of w1] assms run by simp
  next
    case (Some e)
    then show ?thesis using assms run runSyncSteps_failed [of ss "name @ '': '' @ e" w1] by simp
  qed
qed

lemma steps_effects:
  assumes "list_all2 (\<lambda>(name, run) e. \<forall>w w'. run w = (w', None) \<longrightarrow> tables w' = applyEffect e (tables w)) steps es"
    and "runSyncSteps steps None w = (w', None)"
  shows "tables w' = fold applyEffect es (tables w)"
  using assms
proof (induction steps es arbitrary: w rule: list_all2_induct)
  case (Cons step steps e es)
  obtain name run where step: "step = (name, run)" by (cases step)
  with Cons.prems obtain w1 where "run w = (w1, None)" "runSyncSteps steps None w1 = (w', None)"
    by (metis runSyncSteps_okE)
  with Cons.IH Cons.hyps(1) step show ?case by auto
qed simp

lemma steps_all_ok:
  "runSyncSteps steps None w = (w', None) \<Longrightarrow> (name, run) \<in> set steps \<Longrightarrow> \<exists>u u'. run u = (u', None)"
proof (induction steps arbitrary: w)
  case (Cons step steps)
  obtain n r where step: "step = (n, r)" by (cases step)
  with Cons.prems obtain w1 where "r w = (w1, None)" "runSyncSteps steps None w1 = (w', None)"
    by (metis runSyncSteps_okE)
  with Cons step show ?case by auto
qed simp

lemma desired_managed:
  assumes "(t, header, rows) \<in> set (desired_tables d)"
  obtains n where "(t, header, n) \<in> set managedTables" "list_all (\<lambda>r. r \<noteq> []) rows"
proof -
  have "map (\<lambda>(t, h, _). (t, h)) managedTables = map (\<lambda>(t, h, _). (t, h)) (desired_tables d)"
    by (simp only: managedTables_def desired_tables_def list.map prod.case)
  then have "(t, header) \<in> (\<lambda>(t, h, _). (t, h)) ` set managedTables"
    using imageI [OF assms, of "\<lambda>(t, h, _). (t, h)"] by (simp only: set_map [symmetric] prod.case)
  then have "\<exists>n. (t, header, n) \<in> set managedTables" by auto
  with that desired_tables_rows [OF assms] show ?thesis by blast
qed

lemma table_section_effect:
  assumes laws: "adminLaws ex q tables" and t: "t \<in> set (desired_tables d)"
    and ok: "execAll ex (table_statements t) w = (w', None)"
  shows "tables w' = applyEffect (Replace (fst t) (map (map sql_stored) (snd (snd t)))) (tables w)"
proof -
  obtain name header rows where eq: "t = (name, header, rows)" by (cases t)
  obtain n where "(name, header, n) \<in> set managedTables" "list_all (\<lambda>r. r \<noteq> []) rows"
    using t unfolding eq by (rule desired_managed)
  then show ?thesis using table_effect [OF laws _ ok [unfolded eq]] by (simp add: eq)
qed

lemma sync_effects:
  assumes laws: "adminLaws ex q tables" and raw: "d_SQLStatements d = []"
    and ok: "SyncWithAWSDBProxy ex d aws w = (w', None)"
  shows "tables w' = fold applyEffect (sectionEffects d aws) (tables w)"
proof -
  have none: "applyEffect (Load []) x = x" for x by (cases x) simp
  have tab: "execAll ex (table_statements (desired_tables d ! i)) u = (u', None) \<Longrightarrow> tables u' =
      applyEffect (Replace (fst (desired_tables d ! i)) (map (map sql_stored) (snd (snd (desired_tables d ! i))))) (tables u)"
    if "i < 9" for i u u'
  proof (rule table_section_effect [OF laws nth_mem])
    show "i < length (desired_tables d)" using that by (simp add: desired_tables_def)
  qed
  note ld = load_effect [OF laws] and var = variable_effect [OF laws]
  have "list_all2 (\<lambda>(name, run) e. \<forall>w w'. run w = (w', None) \<longrightarrow> tables w' = applyEffect e (tables w))
    (map (\<lambda>(name, qs). (name, execAll ex qs)) (sync_plan d aws)
     @ [(''sql_statements'', syncSQLStatementsFrom ex 0 (d_SQLStatements d))])
    (sectionEffects d aws @ [Load [], Load [], Load [], Load []])"
    unfolding sync_plan_def sectionEffects_def Let_def raw
    using tab [of 0] tab [of 1] tab [of 2] tab [of 3] tab [of 4] tab [of 5] tab [of 6] tab [of 7] tab [of 8]
      ld [of "''MYSQL SERVERS''"] ld [of "''MYSQL USERS''"] ld [of "''MYSQL QUERY RULES''"] ld [of "''PGSQL SERVERS''"]
      ld [of "''PGSQL USERS''"] ld [of "''PGSQL QUERY RULES''"] ld [of "''PROXYSQL SERVERS''"]
      var [of "''MYSQL''"] var [of "''PGSQL''"] var [of "''ADMIN''"]
    by (simp add: none loadGroups_def del: execAll.simps applyEffect.simps)
  from steps_effects [OF this] ok show ?thesis
    by (simp add: SyncWithAWSDBProxy_def syncSteps_plan none)
qed

lemma sync_keys_distinct:
  assumes laws: "adminLaws ex q tables" and ok: "SyncWithAWSDBProxy ex d False w = (w', None)"
    and t: "(t, header, rows) \<in> set (desired_tables d)" and n: "(t, header, n) \<in> set managedTables"
  shows "distinct (map (take n) (map (map sql_stored) rows))"
proof -
  have "(t, table_statements (t, header, rows)) \<in> set (sync_plan d False)"
    using desired_tables_in_plan [OF t] by simp
  from imageI [OF this, of "\<lambda>(name, qs). (name, execAll ex qs)"]
  have "(t, execAll ex (table_statements (t, header, rows))) \<in> set (syncSteps ex d False)"
    unfolding syncSteps_plan set_append set_map prod.case by (rule UnI1)
  with steps_all_ok ok obtain u u' where "execAll ex (table_statements (t, header, rows)) u = (u', None)"
    unfolding SyncWithAWSDBProxy_def by metis
  from table_effect [OF laws n this desired_tables_rows [OF t]] show ?thesis by simp
qed

section \<open>What the instance runs after a push\<close>

lemma effects_runtime:
  fixes x0 :: "sql_tables \<times> sql_tables" and r0 r1 r2 r3 r4 r5 r6 r7 r8 :: "sql_value list list"
  defines "x \<equiv> fold applyEffect
    ([Replace ''mysql_servers'' r0, Replace ''mysql_replication_hostgroups'' r1, Replace ''mysql_hostgroup_attributes'' r2,
      Load [''mysql_servers'', ''mysql_replication_hostgroups'', ''mysql_hostgroup_attributes''],
      Replace ''mysql_users'' r3, Load [''mysql_users''], Replace ''mysql_query_rules'' r4, Load [''mysql_query_rules''],
      Replace ''pgsql_servers'' r5, Load [''pgsql_servers''], Replace ''pgsql_users'' r6, Load [''pgsql_users''],
      Replace ''pgsql_query_rules'' r7, Load [''pgsql_query_rules''], Replace ''proxysql_servers'' r8, Load [''proxysql_servers'']]) x0"
  shows "snd x ''mysql_servers'' = filter (shownAtRuntime ''mysql_servers'') r0"
    "snd x ''mysql_users'' = filter (shownAtRuntime ''mysql_users'') r3"
    "snd x ''mysql_query_rules'' = filter (shownAtRuntime ''mysql_query_rules'') r4"
    "snd x ''pgsql_servers'' = filter (shownAtRuntime ''pgsql_servers'') r5"
    "snd x ''pgsql_users'' = filter (shownAtRuntime ''pgsql_users'') r6"
    "snd x ''pgsql_query_rules'' = filter (shownAtRuntime ''pgsql_query_rules'') r7"
  unfolding x_def by (cases x0; simp)+

lemma pushed_runtime:
  assumes "x = fold applyEffect (sectionEffects d False) x0"
  shows "snd x ''mysql_servers'' = filter (shownAtRuntime ''mysql_servers'') (map (map sql_stored) (map mysqlServerRow (d_MySQLServers d)))"
    "snd x ''mysql_users'' = filter (shownAtRuntime ''mysql_users'') (map (map sql_stored) (map mysqlUserRow (d_MySQLUsers d)))"
    "snd x ''mysql_query_rules'' = filter (shownAtRuntime ''mysql_query_rules'')
       (map (map sql_stored) (map mysqlQueryRuleRow (sort_key mr_RuleID (d_MySQLQueryRules d))))"
    "snd x ''pgsql_servers'' = filter (shownAtRuntime ''pgsql_servers'') (map (map sql_stored) (map pgsqlServerRow (d_PostgreSQLServers d)))"
    "snd x ''pgsql_users'' = filter (shownAtRuntime ''pgsql_users'') (map (map sql_stored) (map pgsqlUserRow (d_PostgreSQLUsers d)))"
    "snd x ''pgsql_query_rules'' = filter (shownAtRuntime ''pgsql_query_rules'')
       (map (map sql_stored) (map pgsqlQueryRuleRow (sort_key pr_RuleID (d_PostgreSQLQueryRules d))))"
proof -
  have rows: "snd (snd (desired_tables d ! 0)) = map mysqlServerRow (d_MySQLServers d)"
    "snd (snd (desired_tables d ! 3)) = map mysqlUserRow (d_MySQLUsers d)"
    "snd (snd (desired_tables d ! 4)) = map mysqlQueryRuleRow (sort_key mr_RuleID (d_MySQLQueryRules d))"
    "snd (snd (desired_tables d ! 5)) = map pgsqlServerRow (d_PostgreSQLServers d)"
    "snd (snd (desired_tables d ! 6)) = map pgsqlUserRow (d_PostgreSQLUsers d)"
    "snd (snd (desired_tables d ! 7)) = map pgsqlQueryRuleRow (sort_key pr_RuleID (d_PostgreSQLQueryRules d))"
    by (simp_all add: desired_tables_def numeral_eq_Suc)
  show "snd x ''mysql_servers'' = filter (shownAtRuntime ''mysql_servers'') (map (map sql_stored) (map mysqlServerRow (d_MySQLServers d)))"
    "snd x ''mysql_users'' = filter (shownAtRuntime ''mysql_users'') (map (map sql_stored) (map mysqlUserRow (d_MySQLUsers d)))"
    "snd x ''mysql_query_rules'' = filter (shownAtRuntime ''mysql_query_rules'')
       (map (map sql_stored) (map mysqlQueryRuleRow (sort_key mr_RuleID (d_MySQLQueryRules d))))"
    "snd x ''pgsql_servers'' = filter (shownAtRuntime ''pgsql_servers'') (map (map sql_stored) (map pgsqlServerRow (d_PostgreSQLServers d)))"
    "snd x ''pgsql_users'' = filter (shownAtRuntime ''pgsql_users'') (map (map sql_stored) (map pgsqlUserRow (d_PostgreSQLUsers d)))"
    "snd x ''pgsql_query_rules'' = filter (shownAtRuntime ''pgsql_query_rules'')
       (map (map sql_stored) (map pgsqlQueryRuleRow (sort_key pr_RuleID (d_PostgreSQLQueryRules d))))"
    unfolding assms sectionEffects_def Let_def table_names rows if_False append.simps by (rule effects_runtime)+
qed

text \<open>Stripping control characters is done after one pass.\<close>

lemma stripControl_clean: "c \<in> set (stripControl s) \<Longrightarrow> \<not> isStripControl [c]"
proof
  assume c: "c \<in> set (stripControl s)" and bad: "isStripControl [c]"
  then have asc: "ascii c" by (auto simp: isStripControl_def)
  show False
  proof (cases "list_ex isStripControl (runes s)")
    case True
    with c obtain r where "r \<in> set (runes s)" "\<not> isStripControl r" "c \<in> set r" by (auto simp: stripControl_def)
    with runes_ascii_whole [OF this(1,3) asc] bad show False by simp
  next
    case False
    with c have "c \<in> set s" by (simp add: stripControl_def)
    then obtain a b where "s = a @ c # b" by (meson split_list)
    then have "[c] \<in> set (runes s)" using runes_append_ascii [OF asc] by simp
    with False bad show False by (auto simp: list_ex_iff)
  qed
qed

lemma stripControl_idem: "stripControl (stripControl s) = stripControl s"
proof -
  have "\<not> list_ex isStripControl (runes (stripControl s))"
  proof
    assume "list_ex isStripControl (runes (stripControl s))"
    then obtain r where r: "r \<in> set (runes (stripControl s))" "isStripControl r" by (auto simp: list_ex_iff)
    then obtain c where c: "r = [c]" by (auto simp: isStripControl_def split: list.splits)
    with r have "c \<in> set (concat (runes (stripControl s)))" "ascii c" by (force, auto simp: isStripControl_def)
    then have "c \<in> set (stripControl s)" by (rule concat_runes_ascii)
    with stripControl_clean r(2) c show False by blast
  qed
  then show ?thesis by (subst stripControl_def) simp
qed

lemma kept_all_iff:
  assumes "distinct (map f xs)"
  shows "f ` set (filter P xs) = f ` set xs \<longleftrightarrow> list_all P xs"
proof
  assume eq: "f ` set (filter P xs) = f ` set xs"
  have "P x" if "x \<in> set xs" for x
  proof -
    from that eq have "f x \<in> f ` set (filter P xs)" by simp
    then obtain y where "y \<in> set xs" "P y" "f x = f y" by auto
    with that assms show ?thesis by (auto simp: distinct_map dest: inj_onD)
  qed
  then show "list_all P xs" by (simp add: list_all_iff)
next
  assume "list_all P xs"
  then have "filter P xs = xs" by (simp add: list_all_iff)
  then show "f ` set (filter P xs) = f ` set xs" by simp
qed

lemma names_kept_iff:
  assumes "distinct (map (\<lambda>u. stripControl (f u)) xs)"
  shows "(\<lambda>u. stripControl (f u)) ` set (filter P xs) = f ` set xs \<longleftrightarrow> list_all (\<lambda>u. P u \<and> stripControl (f u) = f u) xs"
proof -
  have clean: "list_all (\<lambda>u. stripControl (f u) = f u) xs"
    if eq: "(\<lambda>u. stripControl (f u)) ` set (filter P xs) = f ` set xs"
  proof -
    have "stripControl (f u) = f u" if "u \<in> set xs" for u
    proof -
      from that have "f u \<in> (\<lambda>u. stripControl (f u)) ` set (filter P xs)" using eq by simp
      then show ?thesis by (auto simp: stripControl_idem)
    qed
    then show ?thesis by (simp add: list_all_iff)
  qed
  have "(\<lambda>u. stripControl (f u)) ` set (filter P xs) = f ` set xs \<longleftrightarrow> list_all P xs"
    if "list_all (\<lambda>u. stripControl (f u) = f u) xs"
  proof -
    have "map (\<lambda>u. stripControl (f u)) xs = map f xs" "(\<lambda>u. stripControl (f u)) ` set (filter P xs) = f ` set (filter P xs)"
      using that by (auto simp: list_all_iff)
    with kept_all_iff [of f xs P] assms show ?thesis by simp
  qed
  with clean show ?thesis by (auto simp: list_all_iff)
qed

text \<open>Users and rules that are not switched off, and names that a push writes as they are.\<close>

definition allActive :: "Desired \<Rightarrow> bool" where
  "allActive d \<longleftrightarrow>
     list_all (\<lambda>u. mu_Active u \<noteq> Some False) (d_MySQLUsers d) \<and> list_all (\<lambda>r. mr_Active r \<noteq> Some False) (d_MySQLQueryRules d)
     \<and> list_all (\<lambda>u. pu_Active u \<noteq> Some False) (d_PostgreSQLUsers d) \<and> list_all (\<lambda>r. pr_Active r \<noteq> Some False) (d_PostgreSQLQueryRules d)"

definition cleanUsers :: "Desired \<Rightarrow> bool" where
  "cleanUsers d \<longleftrightarrow> list_all (\<lambda>u. stripControl (mu_Username u) = mu_Username u) (d_MySQLUsers d)
     \<and> list_all (\<lambda>u. stripControl (pu_Username u) = pu_Username u) (d_PostgreSQLUsers d)"

definition cleanServers :: "Desired \<Rightarrow> bool" where
  "cleanServers d \<longleftrightarrow>
     list_all (\<lambda>s. stripControl (ms_Hostname s) = ms_Hostname s \<and> stripControl (ms_Status s) = ms_Status s) (d_MySQLServers d)
     \<and> list_all (\<lambda>s. stripControl (ps_Hostname s) = ps_Hostname s) (d_PostgreSQLServers d)"

definition int32Desired :: "Desired \<Rightarrow> bool" where
  "int32Desired d \<longleftrightarrow> list_all (is_int32 \<circ> ms_Hostgroup) (d_MySQLServers d)
     \<and> list_all (is_int32 \<circ> mu_DefaultHostgroup) (d_MySQLUsers d)"

lemma shown_rows:
  "shownAtRuntime ''mysql_users'' (map sql_stored (mysqlUserRow u)) \<longleftrightarrow> mu_Active u \<noteq> Some False"
  "shownAtRuntime ''pgsql_users'' (map sql_stored (pgsqlUserRow pu)) \<longleftrightarrow> pu_Active pu \<noteq> Some False"
  "shownAtRuntime ''mysql_query_rules'' (map sql_stored (mysqlQueryRuleRow mr)) \<longleftrightarrow> mr_Active mr \<noteq> Some False"
  "shownAtRuntime ''pgsql_query_rules'' (map sql_stored (pgsqlQueryRuleRow pr)) \<longleftrightarrow> pr_Active pr \<noteq> Some False"
  "shownAtRuntime ''pgsql_servers'' row"
  by (auto simp: shownAtRuntime_def mysqlUserRow_def pgsqlUserRow_def mysqlQueryRuleRow_def pgsqlQueryRuleRow_def boolOr_def
      split: option.splits if_splits)

lemma key_columns:
  "take (Suc 0) (map sql_stored (mysqlUserRow u)) = [SqlText (stripControl (mu_Username u))]"
  "take (Suc 0) (map sql_stored (pgsqlUserRow pu)) = [SqlText (stripControl (pu_Username pu))]"
  "take (Suc 0) (map sql_stored (mysqlQueryRuleRow mr)) = [SqlInt (mr_RuleID mr)]"
  "take (Suc 0) (map sql_stored (pgsqlQueryRuleRow pr)) = [SqlInt (pr_RuleID pr)]"
  "take 3 (map sql_stored (mysqlServerRow s)) =
     [SqlInt (ms_Hostgroup s), SqlText (stripControl (ms_Hostname s)), SqlInt (defaultInt32 (ms_Port s) 3306)]"
  "take 3 (map sql_stored (pgsqlServerRow ps)) =
     [SqlInt (ps_Hostgroup ps), SqlText (stripControl (ps_Hostname ps)), SqlInt (defaultInt32 (ps_Port ps) 5432)]"
  by (simp_all add: mysqlUserRow_def pgsqlUserRow_def mysqlQueryRuleRow_def pgsqlQueryRuleRow_def mysqlServerRow_def
      pgsqlServerRow_def defaultInt32_def numeral_3_eq_3)

lemma cell_columns:
  "sqlTextOf (map sql_stored (mysqlUserRow u) ! 0) = stripControl (mu_Username u)"
  "sqlIntOf (map sql_stored (mysqlUserRow u) ! 2) = mu_DefaultHostgroup u"
  "sqlTextOf (map sql_stored (pgsqlUserRow pu) ! 0) = stripControl (pu_Username pu)"
  "sqlIntOf (map sql_stored (mysqlQueryRuleRow mr) ! 0) = mr_RuleID mr"
  "sqlIntOf (map sql_stored (pgsqlQueryRuleRow pr) ! 0) = pr_RuleID pr"
  by (simp_all add: mysqlUserRow_def pgsqlUserRow_def mysqlQueryRuleRow_def pgsqlQueryRuleRow_def)

lemma list_all_conj: "list_all (\<lambda>x. P x \<and> Q x) xs \<longleftrightarrow> list_all P xs \<and> list_all Q xs"
  by (auto simp: list_all_iff)

lemma distinct_map_inner: "distinct (map (g \<circ> f) xs) \<Longrightarrow> distinct (map f xs)"
  using distinct_map [of g "map f xs"] by simp

text \<open>The keys of the rows that a successful push wrote are distinct.\<close>

lemma pushed_keys:
  assumes "adminLaws ex q tables" and "SyncWithAWSDBProxy ex d False w = (w', None)"
  shows "distinct (map (\<lambda>u. stripControl (mu_Username u)) (d_MySQLUsers d))"
    "distinct (map (\<lambda>u. stripControl (pu_Username u)) (d_PostgreSQLUsers d))"
    "distinct (map mr_RuleID (sort_key mr_RuleID (d_MySQLQueryRules d)))"
    "distinct (map pr_RuleID (sort_key pr_RuleID (d_PostgreSQLQueryRules d)))"
    "distinct (map (\<lambda>s. (ms_Hostgroup s, stripControl (ms_Hostname s), defaultInt32 (ms_Port s) 3306)) (d_MySQLServers d))"
    "distinct (map (\<lambda>s. (ps_Hostgroup s, stripControl (ps_Hostname s), defaultInt32 (ps_Port s) 5432)) (d_PostgreSQLServers d))"
proof -
  have key: "distinct (map (take n) (map (map sql_stored) rows))"
    if "(t, header, rows) \<in> set (desired_tables d)" "(t, header, n) \<in> set managedTables" for t header rows n
    using sync_keys_distinct [OF assms that] .
  note k = key [of "''mysql_users''" mysqlUsersInsert _ 1] key [of "''pgsql_users''" pgsqlUsersInsert _ 1]
    key [of "''mysql_query_rules''" mysqlQueryRulesInsert _ 1] key [of "''pgsql_query_rules''" pgsqlQueryRulesInsert _ 1]
    key [of "''mysql_servers''" mysqlServersInsert _ 3] key [of "''pgsql_servers''" pgsqlServersInsert _ 3]
  show "distinct (map (\<lambda>u. stripControl (mu_Username u)) (d_MySQLUsers d))"
    using k(1) [of "map mysqlUserRow (d_MySQLUsers d)"]
    by (intro distinct_map_inner [where g = "\<lambda>n. [SqlText n]"]) (simp add: comp_def key_columns desired_tables_def managedTables_def)
  show "distinct (map (\<lambda>u. stripControl (pu_Username u)) (d_PostgreSQLUsers d))"
    using k(2) [of "map pgsqlUserRow (d_PostgreSQLUsers d)"]
    by (intro distinct_map_inner [where g = "\<lambda>n. [SqlText n]"]) (simp add: comp_def key_columns desired_tables_def managedTables_def)
  show "distinct (map mr_RuleID (sort_key mr_RuleID (d_MySQLQueryRules d)))"
    using k(3) [of "map mysqlQueryRuleRow (sort_key mr_RuleID (d_MySQLQueryRules d))"]
    by (intro distinct_map_inner [where g = "\<lambda>n. [SqlInt n]"]) (simp add: comp_def key_columns desired_tables_def managedTables_def)
  show "distinct (map pr_RuleID (sort_key pr_RuleID (d_PostgreSQLQueryRules d)))"
    using k(4) [of "map pgsqlQueryRuleRow (sort_key pr_RuleID (d_PostgreSQLQueryRules d))"]
    by (intro distinct_map_inner [where g = "\<lambda>n. [SqlInt n]"]) (simp add: comp_def key_columns desired_tables_def managedTables_def)
  show "distinct (map (\<lambda>s. (ms_Hostgroup s, stripControl (ms_Hostname s), defaultInt32 (ms_Port s) 3306)) (d_MySQLServers d))"
    using k(5) [of "map mysqlServerRow (d_MySQLServers d)"]
    by (intro distinct_map_inner [where g = "\<lambda>(a, b, c). [SqlInt a, SqlText b, SqlInt c]"])
      (simp add: comp_def key_columns desired_tables_def managedTables_def)
  show "distinct (map (\<lambda>s. (ps_Hostgroup s, stripControl (ps_Hostname s), defaultInt32 (ps_Port s) 5432)) (d_PostgreSQLServers d))"
    using k(6) [of "map pgsqlServerRow (d_PostgreSQLServers d)"]
    by (intro distinct_map_inner [where g = "\<lambda>(a, b, c). [SqlInt a, SqlText b, SqlInt c]"])
      (simp add: comp_def key_columns desired_tables_def managedTables_def)
qed

text \<open>The runtime row of a desired server.\<close>

definition runtimeRowOf :: "MySQLServer \<Rightarrow> rtServer" where
  "runtimeRowOf s = \<lparr>rt_Hostgroup = ms_Hostgroup s, rt_Hostname = ms_Hostname s, rt_Port = defaultInt32 (ms_Port s) 3306,
     rt_Status = (if ms_Status s = [] then statusOnline else ms_Status s)\<rparr>"

definition pgsqlRuntimeRowOf :: "PostgreSQLServer \<Rightarrow> rtServer" where
  "pgsqlRuntimeRowOf s = \<lparr>rt_Hostgroup = ps_Hostgroup s, rt_Hostname = ps_Hostname s, rt_Port = defaultInt32 (ps_Port s) 5432,
     rt_Status = statusOnline\<rparr>"

lemma online_clean: "stripControl statusOnline = statusOnline"
  by (simp add: stripControl_def statusOnline_def isStripControl_def)

lemma server_rows:
  assumes "stripControl (ms_Hostname s) = ms_Hostname s" "stripControl (ms_Status s) = ms_Status s"
  shows "mysqlRuntimeServer (map sql_stored (mysqlServerRow s)) = runtimeRowOf s"
    "shownAtRuntime ''mysql_servers'' (map sql_stored (mysqlServerRow s)) \<longleftrightarrow> ms_Status s \<noteq> statusOfflineHard"
  using assms online_clean
  by (auto simp: mysqlRuntimeServer_def runtimeRowOf_def mysqlServerRow_def shownAtRuntime_def defaultInt32_def
      statusOnline_def statusOfflineHard_def)

lemma pgsql_server_row:
  "stripControl (ps_Hostname s) = ps_Hostname s \<Longrightarrow>
     pgsqlRuntimeServer (map sql_stored (pgsqlServerRow s)) = pgsqlRuntimeRowOf s"
  by (simp add: pgsqlRuntimeServer_def pgsqlRuntimeRowOf_def pgsqlServerRow_def defaultInt32_def)

lemma runtime_servers_pushed:
  assumes "cleanServers d" and rt: "snd x = snd (fold applyEffect (sectionEffects d False) x0)" and "reads T (snd x)"
  shows "mset (rtt_mysql_servers T) = mset (map runtimeRowOf (filter (\<lambda>s. ms_Status s \<noteq> statusOfflineHard) (d_MySQLServers d)))"
    "mset (rtt_pgsql_servers T) = mset (map pgsqlRuntimeRowOf (d_PostgreSQLServers d))"
proof -
  note rows = pushed_runtime [OF refl, of d x0, folded rt]
  have c: "\<forall>s \<in> set (d_MySQLServers d). stripControl (ms_Hostname s) = ms_Hostname s \<and> stripControl (ms_Status s) = ms_Status s"
    "\<forall>s \<in> set (d_PostgreSQLServers d). stripControl (ps_Hostname s) = ps_Hostname s"
    using assms(1) by (auto simp: cleanServers_def list_all_iff)
  have "map mysqlRuntimeServer (filter (shownAtRuntime ''mysql_servers'') (map (map sql_stored) (map mysqlServerRow ss))) =
      map runtimeRowOf (filter (\<lambda>s. ms_Status s \<noteq> statusOfflineHard) ss)"
    if "\<forall>s \<in> set ss. stripControl (ms_Hostname s) = ms_Hostname s \<and> stripControl (ms_Status s) = ms_Status s" for ss
    using that by (induction ss) (simp_all add: server_rows)
  from this [OF c(1)]
  have "map mysqlRuntimeServer (snd x ''mysql_servers'') = map runtimeRowOf (filter (\<lambda>s. ms_Status s \<noteq> statusOfflineHard) (d_MySQLServers d))"
    unfolding rows .
  then show "mset (rtt_mysql_servers T) = mset (map runtimeRowOf (filter (\<lambda>s. ms_Status s \<noteq> statusOfflineHard) (d_MySQLServers d)))"
    using assms(3) by (simp only: reads_def)
  have "map pgsqlRuntimeServer (snd x ''pgsql_servers'') = map pgsqlRuntimeRowOf (d_PostgreSQLServers d)"
    unfolding rows using c(2) by (simp add: shown_rows pgsql_server_row)
  then show "mset (rtt_pgsql_servers T) = mset (map pgsqlRuntimeRowOf (d_PostgreSQLServers d))"
    using assms(3) by (simp only: reads_def)
qed

lemma pushed_servers_converged:
  assumes "set rows = runtimeRowOf ` {s \<in> set (d_MySQLServers d). ms_Status s \<noteq> statusOfflineHard}"
  shows "mysql_servers_converged d rows"
proof -
  have inst: "instance_of (edges d) (runtimeRowOf t) s \<longleftrightarrow> same_desired (edges d) s t" for s t
    by (auto simp: instance_of_def same_desired_def runtimeRowOf_def)
  have self: "same_desired (edges d) s s" for s by (simp add: same_desired_def same_place_def)
  have soft: "rt_Status (runtimeRowOf s) = statusOfflineSoft" if "ms_Status s = statusOfflineSoft" for s
    using that by (simp add: runtimeRowOf_def statusOfflineSoft_def)
  have ne: "statusOfflineSoft \<noteq> statusOfflineHard" by (simp add: statusOfflineSoft_def statusOfflineHard_def)
  show ?thesis
    unfolding mysql_servers_converged_def Let_def assms
    using inst self soft ne by (fastforce simp: all_ask_def)
qed

lemma key_inject: "rtKey r = rtKey r' \<longleftrightarrow> (rt_Hostgroup r, rt_Hostname r, rt_Port r) = (rt_Hostgroup r', rt_Hostname r', rt_Port r')"
  by (simp add: rtKey_def append_sep_inject append_sep_inject_last)

lemma distinct_rtKey:
  assumes "mset rows = mset (map f xs)" and "distinct (map (\<lambda>s. (rt_Hostgroup (f s), rt_Hostname (f s), rt_Port (f s))) xs)"
  shows "distinct (map rtKey rows)"
proof -
  have "distinct (map (rtKey \<circ> f) xs)" using assms(2) by (auto simp: distinct_map inj_on_def key_inject)
  moreover have "mset (map rtKey rows) = mset (map (rtKey \<circ> f) xs)"
    using assms(1) by (metis (no_types, lifting) list.map_comp mset_map)
  ultimately show ?thesis by (metis mset_eq_imp_distinct_iff)
qed

lemma pushed_converged:
  assumes laws: "adminLaws ex q tables" and raw: "d_SQLStatements d = []" and ok: "SyncWithAWSDBProxy ex d False w = (w', None)"
    and clean: "cleanServers d" and i32: "int32Desired d" and T: "reads T (snd (tables w'))"
  shows "wf_tables T" "converged d T \<longleftrightarrow> allActive d \<and> cleanUsers d"
proof -
  note eff = sync_effects [OF laws raw ok] and keys = pushed_keys [OF laws ok]
  note rows = pushed_runtime [OF eff] and srv = runtime_servers_pushed [OF clean arg_cong [OF eff] T]
  have set_srv: "set (rtt_mysql_servers T) = runtimeRowOf ` {s \<in> set (d_MySQLServers d). ms_Status s \<noteq> statusOfflineHard}"
    "set (rtt_pgsql_servers T) = pgsqlRuntimeRowOf ` set (d_PostgreSQLServers d)"
    using mset_eq_setD [OF srv(1)] mset_eq_setD [OF srv(2)] by simp_all
  have users: "set (rtt_mysql_users T) = (\<lambda>u. (stripControl (mu_Username u), mu_DefaultHostgroup u)) `
      set (filter (\<lambda>u. mu_Active u \<noteq> Some False) (d_MySQLUsers d))"
    "set (rtt_pgsql_users T) = (\<lambda>u. stripControl (pu_Username u)) ` set (filter (\<lambda>u. pu_Active u \<noteq> Some False) (d_PostgreSQLUsers d))"
    using T by (auto simp: reads_def rows shown_rows filter_map image_image cell_columns)
  have rules: "set (rtt_mysql_rules T) = mr_RuleID ` set (filter (\<lambda>r. mr_Active r \<noteq> Some False) (sort_key mr_RuleID (d_MySQLQueryRules d)))"
    "set (rtt_pgsql_rules T) = pr_RuleID ` set (filter (\<lambda>r. pr_Active r \<noteq> Some False) (sort_key pr_RuleID (d_PostgreSQLQueryRules d)))"
    using T by (auto simp: reads_def rows shown_rows filter_map image_image cell_columns)
  have "distinct (map rtKey (rtt_mysql_servers T))"
    using keys(5) clean by (intro distinct_rtKey [OF srv(1)])
      (auto simp: runtimeRowOf_def cleanServers_def list_all_iff distinct_map inj_on_def)
  moreover have "distinct (map rtKey (rtt_pgsql_servers T))"
    using keys(6) clean by (intro distinct_rtKey [OF srv(2)])
      (auto simp: pgsqlRuntimeRowOf_def cleanServers_def list_all_iff distinct_map inj_on_def)
  ultimately show "wf_tables T"
    using i32 by (auto simp: wf_tables_def list_all_iff set_srv users int32Desired_def runtimeRowOf_def)
  have "pgsql_servers_converged d (rtt_pgsql_servers T)"
    by (simp add: pgsql_servers_converged_def set_srv image_image pgsqlRuntimeRowOf_def)
  moreover have "fst ` set (rtt_mysql_users T) = mu_Username ` set (d_MySQLUsers d)
      \<longleftrightarrow> list_all (\<lambda>u. mu_Active u \<noteq> Some False \<and> stripControl (mu_Username u) = mu_Username u) (d_MySQLUsers d)"
    unfolding users image_image fst_conv by (rule names_kept_iff [OF keys(1)])
  moreover have "set (rtt_pgsql_users T) = pu_Username ` set (d_PostgreSQLUsers d)
      \<longleftrightarrow> list_all (\<lambda>u. pu_Active u \<noteq> Some False \<and> stripControl (pu_Username u) = pu_Username u) (d_PostgreSQLUsers d)"
    unfolding users by (rule names_kept_iff [OF keys(2)])
  moreover have "set (rtt_mysql_rules T) = mr_RuleID ` set (d_MySQLQueryRules d) \<longleftrightarrow> list_all (\<lambda>r. mr_Active r \<noteq> Some False) (d_MySQLQueryRules d)"
    using kept_all_iff [OF keys(3)] by (simp add: rules list_all_iff)
  moreover have "set (rtt_pgsql_rules T) = pr_RuleID ` set (d_PostgreSQLQueryRules d) \<longleftrightarrow> list_all (\<lambda>r. pr_Active r \<noteq> Some False) (d_PostgreSQLQueryRules d)"
    using kept_all_iff [OF keys(4)] by (simp add: rules list_all_iff)
  ultimately show "converged d T \<longleftrightarrow> allActive d \<and> cleanUsers d"
    using pushed_servers_converged [OF set_srv(1)]
    by (simp only: converged_def allActive_def cleanUsers_def list_all_conj simp_thms) blast
qed

section \<open>A push and what is reported of it\<close>

lemma native_cycle:
  "snd (runApplyCycle (applySteps en ep pw d None) w) = [] \<longleftrightarrow>
     dial en w (ep_Addr ep) pw = None \<and> snd (SyncWithAWSDBProxy (en_exec en (ep_Addr ep)) d False w) = None"
  "fst (applyReplica en ep pw d None version w) =
     (if dial en w (ep_Addr ep) pw = None then fst (SyncWithAWSDBProxy (en_exec en (ep_Addr ep)) d False w) else w)"
  by (auto simp: applyReplica_def applySteps_def nativeApply_def split: prod.splits option.splits)


section \<open>An instance that keeps the laws\<close>

text \<open>An endpoint that holds its tables and refuses rows with a key it already has.\<close>

definition tableExec :: "(sql_tables \<times> sql_tables) executor" where
  "tableExec x s =
     (case find (\<lambda>(t, h, n). s = ''DELETE FROM '' @ t) managedTables of
        Some (t, _, _) \<Rightarrow> (applyEffect (Replace t []) x, None)
      | None \<Rightarrow>
          (case find (\<lambda>(t, h, n). hasPrefix h s) managedTables of
             Some (t, h, n) \<Rightarrow>
               (case sql_values (drop (length h) s) of
                  None \<Rightarrow> (x, Some ''syntax error'')
                | Some rows \<Rightarrow>
                    if distinct (map (take n) (fst x t @ rows)) then (applyEffect (Replace t (fst x t @ rows)) x, None)
                    else (x, Some ''UNIQUE constraint failed''))
           | None \<Rightarrow>
               (case find (\<lambda>(what, ts). s = ''LOAD '' @ what @ '' TO RUNTIME'') loadGroups of
                  Some (_, ts) \<Rightarrow> (applyEffect (Load ts) x, None)
                | None \<Rightarrow> (x, None))))"

definition tableQuery :: "sql_tables \<times> sql_tables \<Rightarrow> querier" where
  "tableQuery x s =
     (if s = ''SELECT hostgroup_id, hostname, port, status FROM runtime_mysql_servers''
      then Inr (map (serverRow \<circ> mysqlRuntimeServer) (snd x ''mysql_servers''))
      else if s = ''SELECT DISTINCT username, default_hostgroup FROM runtime_mysql_users''
      then Inr (map (\<lambda>row. [sqlTextOf (row ! 0), itoa (sqlIntOf (row ! 2))]) (snd x ''mysql_users''))
      else if s = ''SELECT rule_id FROM runtime_mysql_query_rules''
      then Inr (map (\<lambda>row. [itoa (sqlIntOf (row ! 0))]) (snd x ''mysql_query_rules''))
      else if s = ''SELECT hostgroup_id, hostname, port, status FROM runtime_pgsql_servers''
      then Inr (map (serverRow \<circ> pgsqlRuntimeServer) (snd x ''pgsql_servers''))
      else if s = ''SELECT DISTINCT username FROM runtime_pgsql_users''
      then Inr (map (\<lambda>row. [sqlTextOf (row ! 0)]) (snd x ''pgsql_users''))
      else if s = ''SELECT rule_id FROM runtime_pgsql_query_rules''
      then Inr (map (\<lambda>row. [itoa (sqlIntOf (row ! 0))]) (snd x ''pgsql_query_rules''))
      else Inr [])"

lemma find_unique:
  assumes "x \<in> set xs" and "P x" and "\<And>y. y \<in> set xs \<Longrightarrow> P y \<Longrightarrow> y = x"
  shows "find P xs = Some x"
proof (cases "find P xs")
  case None
  with assms(1,2) show ?thesis by (auto simp: find_None_iff)
next
  case (Some y)
  then have "y \<in> set xs" "P y" by (auto simp: find_Some_iff)
  with assms(3) Some show ?thesis by simp
qed

lemma find_refuses: "(\<And>y. y \<in> set xs \<Longrightarrow> \<not> P y) \<Longrightarrow> find P xs = None"
  by (simp add: find_None_iff)

lemma managed_names: "distinct (map fst managedTables)" "distinct (map fst loadGroups)"
  by (simp_all add: managedTables_def loadGroups_def)

lemma managed_heads: "(t, h, n) \<in> set managedTables \<Longrightarrow> \<exists>r. h = ''INSERT INTO '' @ t @ '' ('' @ r"
  by (auto simp: managedTables_def mysqlServersInsert_def mysqlReplicationHostgroupsInsert_def mysqlHostgroupAttributesInsert_def
      mysqlUsersInsert_def mysqlQueryRulesInsert_def pgsqlServersInsert_def pgsqlUsersInsert_def pgsqlQueryRulesInsert_def
      proxysqlServersInsert_def)

lemma managed_spaceless: "(t, h, n) \<in> set managedTables \<Longrightarrow> CHR '' '' \<notin> set t"
  by (auto simp: managedTables_def)

lemma header_prefix:
  assumes "(t, h, n) \<in> set managedTables" "(t', h', n') \<in> set managedTables" "hasPrefix h' (h @ clause)"
  shows "(t', h', n') = (t, h, n)"
proof -
  obtain r r' where h: "h = ''INSERT INTO '' @ t @ '' ('' @ r" "h' = ''INSERT INTO '' @ t' @ '' ('' @ r'"
    using managed_heads [OF assms(1)] managed_heads [OF assms(2)] by blast
  then obtain u where "t' @ CHR '' '' # CHR ''('' # r' @ u = t @ CHR '' '' # CHR ''('' # r @ clause"
    using assms(3) by (auto simp: hasPrefix_iff)
  then have "t' = t" using managed_spaceless [OF assms(1)] managed_spaceless [OF assms(2)] by (simp add: append_sep_inject)
  then show ?thesis using eq_key_imp_eq_value [OF managed_names(1)] assms(1,2) by blast
qed

lemma no_header: "(t, h, n) \<in> set managedTables \<Longrightarrow> hd s \<noteq> CHR ''I'' \<Longrightarrow> \<not> hasPrefix h s"
  using managed_heads [of t h n] by (auto simp: hasPrefix_iff)

lemma tableExec_delete:
  assumes "(t, h, n) \<in> set managedTables"
  shows "tableExec x (''DELETE FROM '' @ t) = (applyEffect (Replace t []) x, None)"
proof -
  have "find (\<lambda>(t', h, n). ''DELETE FROM '' @ t = ''DELETE FROM '' @ t') managedTables = Some (t, h, n)"
  proof (rule find_unique [OF assms])
    fix y assume y: "y \<in> set managedTables" "case y of (t', h, n) \<Rightarrow> ''DELETE FROM '' @ t = ''DELETE FROM '' @ t'"
    then obtain h' n' where "y = (t, h', n')" by (cases y rule: prod_cases3) simp
    with y(1) show "y = (t, h, n)" using eq_key_imp_eq_value [OF managed_names(1) assms] by simp
  qed simp
  then show ?thesis by (simp only: tableExec_def option.case prod.case)
qed

lemma tableExec_insert:
  assumes "(t, h, n) \<in> set managedTables"
  shows "tableExec x (h @ clause) =
    (case sql_values clause of
       None \<Rightarrow> (x, Some ''syntax error'')
     | Some rows \<Rightarrow>
         if distinct (map (take n) (fst x t @ rows)) then (applyEffect (Replace t (fst x t @ rows)) x, None)
         else (x, Some ''UNIQUE constraint failed''))"
proof -
  have "find (\<lambda>(t', _, _). h @ clause = ''DELETE FROM '' @ t') managedTables = None"
    using managed_heads [OF assms] by (intro find_refuses) auto
  moreover have "find (\<lambda>(t', h', n'). hasPrefix h' (h @ clause)) managedTables = Some (t, h, n)"
  proof (rule find_unique [OF assms])
    fix y assume "y \<in> set managedTables" "case y of (t', h', n') \<Rightarrow> hasPrefix h' (h @ clause)"
    then show "y = (t, h, n)" using header_prefix [OF assms] by (cases y rule: prod_cases3) simp
  qed (simp add: hasPrefix_iff)
  moreover have "drop (length h) (h @ clause) = clause" by simp
  ultimately show ?thesis by (simp only: tableExec_def option.case prod.case)
qed

lemma tableExec_other:
  assumes "hd s \<noteq> CHR ''D''" "hd s \<noteq> CHR ''I''"
  shows "tableExec x s = (case find (\<lambda>(what, ts). s = ''LOAD '' @ what @ '' TO RUNTIME'') loadGroups of
      Some (_, ts) \<Rightarrow> (applyEffect (Load ts) x, None) | None \<Rightarrow> (x, None))"
proof -
  have "find (\<lambda>(t, h, n). s = ''DELETE FROM '' @ t) managedTables = None" using assms(1) by (intro find_refuses) auto
  moreover have "find (\<lambda>(t, h, n). hasPrefix h s) managedTables = None"
    using no_header assms(2) by (intro find_refuses) (auto split: prod.splits)
  ultimately show ?thesis by (simp only: tableExec_def option.case)
qed

lemma tableExec_load:
  assumes "(what, ts) \<in> set loadGroups"
  shows "tableExec x (''LOAD '' @ what @ '' TO RUNTIME'') = (applyEffect (Load ts) x, None)"
proof -
  have "find (\<lambda>(what', ts). ''LOAD '' @ what @ '' TO RUNTIME'' = ''LOAD '' @ what' @ '' TO RUNTIME'') loadGroups = Some (what, ts)"
  proof (rule find_unique [OF assms])
    fix y assume y: "y \<in> set loadGroups" "case y of (what', ts) \<Rightarrow> ''LOAD '' @ what @ '' TO RUNTIME'' = ''LOAD '' @ what' @ '' TO RUNTIME''"
    then obtain ts' where "y = (what, ts')" by (cases y rule: prod.exhaust) simp
    with y(1) show "y = (what, ts)" using eq_key_imp_eq_value [OF managed_names(2) assms] by simp
  qed simp
  then show ?thesis by (subst tableExec_other) (simp_all only: option.case prod.case, simp_all)
qed

lemma tableExec_keeps:
  assumes "hd s \<in> {CHR ''S'', CHR ''U''}"
  shows "tableExec x s = (x, None)"
proof -
  have "find (\<lambda>(what, ts). s = ''LOAD '' @ what @ '' TO RUNTIME'') loadGroups = None"
    using assms by (intro find_refuses) auto
  then show ?thesis using assms by (subst tableExec_other) auto
qed

lemma tableQuery_reads: "\<exists>T. answers (tableQuery x) T \<and> reads T (snd x)"
proof -
  let ?T = "\<lparr>rtt_mysql_servers = map mysqlRuntimeServer (snd x ''mysql_servers''),
    rtt_mysql_users = map (\<lambda>row. (sqlTextOf (row ! 0), sqlIntOf (row ! 2))) (snd x ''mysql_users''),
    rtt_mysql_rules = map (\<lambda>row. sqlIntOf (row ! 0)) (snd x ''mysql_query_rules''),
    rtt_pgsql_servers = map pgsqlRuntimeServer (snd x ''pgsql_servers''),
    rtt_pgsql_users = map (\<lambda>row. sqlTextOf (row ! 0)) (snd x ''pgsql_users''),
    rtt_pgsql_rules = map (\<lambda>row. sqlIntOf (row ! 0)) (snd x ''pgsql_query_rules'')\<rparr>"
  have "answers (tableQuery x) ?T" by (simp add: answers_def tableQuery_def comp_def)
  moreover have "reads ?T (snd x)" by (simp add: reads_def)
  ultimately show ?thesis by blast
qed

lemma table_laws: "adminLaws tableExec tableQuery (\<lambda>x. x)"
proof -
  have "hd (updateVariable k v) = CHR ''U''" for k v by (simp add: updateVariable_def)
  then show ?thesis
    unfolding adminLaws_def using tableQuery_reads
    by (auto simp: tableExec_delete tableExec_insert tableExec_load tableExec_keeps simp del: append.simps applyEffect.simps
        split: option.splits if_splits)
qed

definition exampleReplica :: podEndpoint where
  "exampleReplica = \<lparr>ep_Pod = ''golden-0'', ep_Addr = ''10.0.0.1:6032'', ep_ServerName = ''golden-0''\<rparr>"

definition tableEnv :: "(sql_tables \<times> sql_tables) env" where
  "tableEnv = \<lparr>en_now = (\<lambda>_. 0), en_trust = None, en_connect = (\<lambda>_ _ _ _ _. None), en_exec = (\<lambda>_. tableExec),
     en_query = (\<lambda>w _. tableQuery w), en_parseURI = (\<lambda>_. None),
     en_rdsApi = (\<lambda>_ _ _ _. \<lparr>api_call = (\<lambda>w _ _. (w, None)), api_proxies = (\<lambda>_ _. Inr []), api_groups = (\<lambda>_ _. Inr []),
       api_targets = (\<lambda>_ _. Inr []), api_tags = (\<lambda>_ _. Inr [])\<rparr>)\<rparr>"

text \<open>One user, one server that is drained, and one query rule.\<close>

definition withRule :: "bool option \<Rightarrow> Desired" where
  "withRule active = emptyDesired
     \<lparr>d_MySQLServers := [zeroMySQLServer\<lparr>ms_Hostgroup := 10, ms_Hostname := ''db'', ms_Status := statusOfflineSoft\<rparr>],
      d_MySQLUsers := [zeroMySQLUser\<lparr>mu_Username := ''app''\<rparr>],
      d_MySQLQueryRules := [\<lparr>mr_RuleID = 7, mr_Active = active, mr_Username = [], mr_SchemaName = [], mr_FlagIn = None,
        mr_MatchPattern = [], mr_MatchDigest = ''^SELECT'', mr_FlagOut = None, mr_ReplacePattern = [], mr_DestinationHostgroup = Some 10,
        mr_CacheTTL = None, mr_CacheEmptyResult = None, mr_Timeout = None, mr_Delay = None, mr_MirrorHostgroup = None,
        mr_ErrorMessage = [], mr_Log = None, mr_Apply = Some True, mr_Comment = []\<rparr>]\<rparr>"

definition noTables :: "sql_tables \<times> sql_tables" where
  "noTables = (\<lambda>_. [], \<lambda>_. [])"

text \<open>On this endpoint a push succeeds when the keys it writes are distinct.\<close>

lemma execAll_none: "\<forall>s \<in> set ss. \<forall>w. snd (ex w s) = None \<Longrightarrow> snd (execAll ex ss w) = None"
proof (induction ss arbitrary: w)
  case (Cons s ss)
  then have "snd (ex w s) = None" by simp
  with Cons show ?case by (cases "ex w s") simp
qed simp

lemma runSyncSteps_none:
  "\<forall>(name, run) \<in> set steps. \<forall>w. snd (run w) = None \<Longrightarrow> snd (runSyncSteps steps None w) = None"
proof (induction steps arbitrary: w)
  case (Cons step steps)
  obtain name run where step: "step = (name, run)" by (cases step)
  then have "snd (run w) = None" using Cons.prems by simp
  with Cons step show ?case by (cases "run w") auto
qed simp

lemma tableExec_table:
  assumes "(t, h, n) \<in> set managedTables" "list_all (\<lambda>r. r \<noteq> []) rows" "distinct (map (take n) (map (map sql_stored) rows))"
  shows "snd (execAll tableExec (table_statements (t, h, rows)) x) = None"
proof (cases "rows = []")
  case True
  then show ?thesis by (simp add: table_statements_def tableExec_delete [OF assms(1)] del: append.simps)
next
  case False
  have "fst (applyEffect (Replace t []) x) t = []" by (cases x) simp
  then show ?thesis
    using False assms(3) sql_values_roundtrip [OF False assms(2)]
    by (simp add: table_statements_def tableExec_delete [OF assms(1)] tableExec_insert [OF assms(1)] del: append.simps)
qed

lemma tableExec_push:
  assumes "\<And>t h rows n. (t, h, rows) \<in> set (desired_tables d) \<Longrightarrow> (t, h, n) \<in> set managedTables \<Longrightarrow>
      distinct (map (take n) (map (map sql_stored) rows))" and "d_SQLStatements d = []"
  shows "snd (SyncWithAWSDBProxy tableExec d False x) = None"
proof -
  have tab: "snd (execAll tableExec (table_statements (desired_tables d ! i)) w) = None" if "i < 9" for i w
  proof -
    obtain t h rows where e: "desired_tables d ! i = (t, h, rows)" by (cases "desired_tables d ! i")
    then have m: "(t, h, rows) \<in> set (desired_tables d)"
      using that nth_mem [of i "desired_tables d"] by (simp add: desired_tables_def)
    obtain n where "(t, h, n) \<in> set managedTables" using desired_managed [OF m] by blast
    then show ?thesis unfolding e using assms(1) m desired_tables_rows [OF m] by (intro tableExec_table)
  qed
  have app: "\<forall>s \<in> set (apply_statements what). \<forall>u. snd (tableExec u s) = None" if "what \<in> fst ` set loadGroups" for what
  proof -
    obtain ts where "(what, ts) \<in> set loadGroups" using \<open>what \<in> _\<close> by auto
    then have "snd (tableExec u (''LOAD '' @ what @ '' TO RUNTIME'')) = None" for u by (simp only: tableExec_load snd_conv)
    moreover have "snd (tableExec u (''SAVE '' @ what @ '' TO DISK'')) = None" for u by (simp add: tableExec_keeps)
    ultimately show ?thesis by (simp only: apply_statements_def list.set ball_simps simp_thms)
  qed
  have upd: "snd (tableExec u (updateVariable k v)) = None" for u k v by (simp add: tableExec_keeps updateVariable_def)
  have load: "snd (execAll tableExec (apply_statements what) w) = None" if "what \<in> fst ` set loadGroups" for what w
    using app [OF that] by (rule execAll_none)
  have vars: "snd (execAll tableExec (variable_statements vs dm) w) = None" if "dm @ '' VARIABLES'' \<in> fst ` set loadGroups" for vs dm w
    using app [OF that] upd by (intro execAll_none) (auto simp: variable_statements_def)
  have "list_all (\<lambda>(name, qs). \<forall>w. snd (execAll tableExec qs w) = None) (sync_plan d False)"
    unfolding sync_plan_def Let_def by (simp add: tab load vars loadGroups_def del: execAll.simps)
  then have "\<forall>(name, run) \<in> set (syncSteps tableExec d False). \<forall>w. snd (run w) = None"
    unfolding syncSteps_plan assms(2) by (auto simp: list_all_iff)
  then show ?thesis unfolding SyncWithAWSDBProxy_def by (rule runSyncSteps_none)
qed

lemma withRule_pushed: "snd (SyncWithAWSDBProxy tableExec (withRule b) False noTables) = None"
proof (rule tableExec_push)
  fix t h rows n
  assume "(t, h, rows) \<in> set (desired_tables (withRule b))"
  then have "length rows \<le> 1" by (auto simp: desired_tables_def withRule_def zero_defs)
  then have "length (map (take n) (map (map sql_stored) rows)) \<le> 1" by simp
  then show "distinct (map (take n) (map (map sql_stored) rows))" by (cases rows) auto
qed (simp add: withRule_def zero_defs)


end
