(* ===== verification/Entrypoint.thy ===== *)
theory Entrypoint
  imports ClusterReconcile
begin

text \<open>
  The process: \<open>operator/cmd/main.go\<close> and the \<open>SetupWithManager\<close> methods of the two reconcilers.

  The first section is what the code uses of the packages \<open>flag\<close>, \<open>strconv\<close> and \<open>time\<close> of Go's standard
  library: the parsing of a command line, of booleans and of durations. \<open>frac f scale unit\<close> is the
  floating-point product \<open>uint64(float64(f) * (float64(unit) / scale))\<close> of \<open>time.ParseDuration\<close>. The flags that
  imported packages register (logging, the kubeconfig) and the manager of controller-runtime are
  parameters.
\<close>

section \<open>Flags and durations\<close>

text \<open>\<open>strconv.ParseBool\<close>.\<close>

definition ParseBool :: "string \<Rightarrow> bool option" where
  "ParseBool s =
     (if s \<in> {''1'', ''t'', ''T'', ''TRUE'', ''true'', ''True''} then Some True
      else if s \<in> {''0'', ''f'', ''F'', ''FALSE'', ''false'', ''False''} then Some False
      else None)"

text \<open>\<open>leadingInt\<close> and \<open>leadingFraction\<close>: the number and what follows the digits; a fraction stops growing when the
  next digit would overflow.\<close>

fun leadingInt :: "nat \<Rightarrow> string \<Rightarrow> (nat \<times> string) option" where
  "leadingInt x [] = Some (x, [])"
| "leadingInt x (c # s) =
     (if \<not> is_digit c then Some (x, c # s)
      else if x > 2 ^ 63 div 10 then None
      else let y = x * 10 + (code c - 48) in if y > 2 ^ 63 then None else leadingInt y s)"

fun leadingFraction :: "bool \<Rightarrow> nat \<Rightarrow> nat \<Rightarrow> string \<Rightarrow> nat \<times> nat \<times> string" where
  "leadingFraction overflow x scale [] = (x, scale, [])"
| "leadingFraction overflow x scale (c # s) =
     (if \<not> is_digit c then (x, scale, c # s)
      else if overflow then leadingFraction True x scale s
      else if x > (2 ^ 63 - 1) div 10 then leadingFraction True x scale s
      else let y = x * 10 + (code c - 48) in
        if y > 2 ^ 63 then leadingFraction True x scale s else leadingFraction False y (scale * 10) s)"

definition unitMap :: "(string \<times> nat) list" where
  "unitMap = [(''ns'', 1), (''us'', 1000), ([char_of (194::nat), char_of (181::nat)] @ ''s'', 1000),
     ([char_of (206::nat), char_of (188::nat)] @ ''s'', 1000), (''ms'', 1000000), (''s'', 1000000000),
     (''m'', 60000000000), (''h'', 3600000000000)]"

datatype durationError = InvalidDuration string | MissingUnit string | UnknownUnit string string

definition unitChar :: "char \<Rightarrow> bool" where
  "unitChar c \<longleftrightarrow> c \<noteq> CHR ''.'' \<and> \<not> is_digit c"

text \<open>One round of the loop: a number with its unit, added to the sum so far, in 64-bit arithmetic.\<close>

definition durationTerm ::
  "(nat \<Rightarrow> nat \<Rightarrow> nat \<Rightarrow> nat) \<Rightarrow> string \<Rightarrow> nat \<Rightarrow> string \<Rightarrow> durationError + nat \<times> string" where
  "durationTerm frac orig d s =
     (if \<not> (hd s = CHR ''.'' \<or> is_digit (hd s)) then Inl (InvalidDuration orig)
      else case leadingInt 0 s of
        None \<Rightarrow> Inl (InvalidDuration orig)
      | Some (v, s1) \<Rightarrow>
          let pre = (length s \<noteq> length s1);
              (f, scale, s2) = (if s1 \<noteq> [] \<and> hd s1 = CHR ''.'' then leadingFraction False 0 1 (tl s1) else (0, 1, s1));
              post = (s1 \<noteq> [] \<and> hd s1 = CHR ''.'' \<and> length (tl s1) \<noteq> length s2);
              u = takeWhile unitChar s2 in
          if \<not> pre \<and> \<not> post then Inl (InvalidDuration orig)
          else if u = [] then Inl (MissingUnit orig)
          else case map_of unitMap u of
            None \<Rightarrow> Inl (UnknownUnit u orig)
          | Some unit \<Rightarrow>
              if v > 2 ^ 63 div unit then Inl (InvalidDuration orig)
              else let v = v * unit; v = (if f > 0 then (v + frac f scale unit) mod 2 ^ 64 else v) in
                if f > 0 \<and> v > 2 ^ 63 then Inl (InvalidDuration orig)
                else let d = (d + v) mod 2 ^ 64 in
                  if d > 2 ^ 63 then Inl (InvalidDuration orig) else Inr (d, dropWhile unitChar s2))"

lemma leadingInt_length: "leadingInt x s = Some (v, t) \<Longrightarrow> length t \<le> length s"
  by (induction x s arbitrary: v t rule: leadingInt.induct) (auto simp: Let_def split: if_splits intro: le_SucI)

lemma leadingFraction_length: "leadingFraction b x k s = (f, scale, t) \<Longrightarrow> length t \<le> length s"
  by (induction b x k s arbitrary: f scale t rule: leadingFraction.induct) (auto simp: Let_def split: if_splits intro: le_SucI)

lemma dropWhile_shorter: "takeWhile P s \<noteq> [] \<Longrightarrow> length (dropWhile P s) < length s"
  by (cases s) (auto split: if_splits simp: le_imp_less_Suc length_dropWhile_le)

lemma durationTerm_shorter: "durationTerm frac orig d s = Inr (d', t) \<Longrightarrow> length t < length s"
proof -
  assume t: "durationTerm frac orig d s = Inr (d', t)"
  from t obtain v s1 where v: "leadingInt 0 s = Some (v, s1)"
    by (auto simp: durationTerm_def split: if_splits option.splits)
  obtain f scale s2 where f: "(if s1 \<noteq> [] \<and> hd s1 = CHR ''.'' then leadingFraction False 0 1 (tl s1) else (0, 1, s1)) = (f, scale, s2)"
    by (cases "if s1 \<noteq> [] \<and> hd s1 = CHR ''.'' then leadingFraction False 0 1 (tl s1) else (0, 1, s1)" rule: prod_cases3)
  from t v f have "t = dropWhile unitChar s2" "takeWhile unitChar s2 \<noteq> []"
    by (auto simp: durationTerm_def Let_def split: if_splits option.splits)
  moreover have "length s2 \<le> length s1" using f leadingFraction_length [of False 0 1 "tl s1" f scale s2] by (auto split: if_splits)
  moreover have "length s1 \<le> length s" using v by (rule leadingInt_length)
  ultimately show ?thesis using dropWhile_shorter [of unitChar s2] by simp
qed

function durationLoop :: "(nat \<Rightarrow> nat \<Rightarrow> nat \<Rightarrow> nat) \<Rightarrow> string \<Rightarrow> nat \<Rightarrow> string \<Rightarrow> durationError + nat" where
  "durationLoop frac orig d s =
     (if s = [] then Inr d
      else case durationTerm frac orig d s of
        Inl e \<Rightarrow> Inl e
      | Inr (d, s) \<Rightarrow> durationLoop frac orig d s)"
  by pat_completeness auto
termination
  by (relation "measure (\<lambda>(_, _, _, s). length s)") (auto dest: durationTerm_shorter)

declare durationLoop.simps [simp del]

definition ParseDuration :: "(nat \<Rightarrow> nat \<Rightarrow> nat \<Rightarrow> nat) \<Rightarrow> string \<Rightarrow> durationError + int" where
  "ParseDuration frac orig =
     (let neg = (orig \<noteq> [] \<and> hd orig = CHR ''-'');
          s = (if orig \<noteq> [] \<and> (hd orig = CHR ''-'' \<or> hd orig = CHR ''+'') then tl orig else orig) in
      if s = ''0'' then Inr 0
      else if s = [] then Inl (InvalidDuration orig)
      else case durationLoop frac orig 0 s of
        Inl e \<Rightarrow> Inl e
      | Inr d \<Rightarrow> if neg then Inr (- int d) else if d > 2 ^ 63 - 1 then Inl (InvalidDuration orig) else Inr (int d))"

text \<open>A registered flag: how its value is set, and whether it is a boolean, which needs no argument. Booleans and
  durations fail on a value that does not parse.\<close>

datatype valueError = ParseBoolError | ParseDurationError durationError | OtherError string

record 's flagVar =
  fv_IsBoolFlag :: bool
  fv_Set :: "string \<Rightarrow> 's \<Rightarrow> valueError + 's"

definition StringVar :: "(string \<Rightarrow> 's \<Rightarrow> 's) \<Rightarrow> 's flagVar" where
  "StringVar upd = \<lparr>fv_IsBoolFlag = False, fv_Set = (\<lambda>value st. Inr (upd value st))\<rparr>"

definition BoolVar :: "(bool \<Rightarrow> 's \<Rightarrow> 's) \<Rightarrow> 's flagVar" where
  "BoolVar upd = \<lparr>fv_IsBoolFlag = True,
     fv_Set = (\<lambda>value st. case ParseBool value of None \<Rightarrow> Inl ParseBoolError | Some b \<Rightarrow> Inr (upd b st))\<rparr>"

definition DurationVar :: "(nat \<Rightarrow> nat \<Rightarrow> nat \<Rightarrow> nat) \<Rightarrow> (int \<Rightarrow> 's \<Rightarrow> 's) \<Rightarrow> 's flagVar" where
  "DurationVar frac upd = \<lparr>fv_IsBoolFlag = False,
     fv_Set = (\<lambda>value st. case ParseDuration frac value of Inl e \<Rightarrow> Inl (ParseDurationError e) | Inr d \<Rightarrow> Inr (upd d st))\<rparr>"

datatype flagError = ErrHelp | BadSyntax string | NotDefined string | NeedsArgument string | InvalidValue string string valueError

datatype 's parseStep = ParseDone "string list" | ParseNext "string list" 's | ParseFail flagError

text \<open>The name and, after the first equals sign that is not in front, the value.\<close>

definition splitFlag :: "string \<Rightarrow> string \<times> string option" where
  "splitFlag name =
     (case cutAt CHR ''='' (tl name) of
        None \<Rightarrow> (name, None)
      | Some (a, b) \<Rightarrow> (hd name # a, Some b))"

definition setFlag :: "'s flagVar \<Rightarrow> string \<Rightarrow> string \<Rightarrow> string list \<Rightarrow> 's \<Rightarrow> 's parseStep" where
  "setFlag fv name val rest st =
     (case fv_Set fv val st of Inl e \<Rightarrow> ParseFail (InvalidValue val name e) | Inr st \<Rightarrow> ParseNext rest st)"

definition parseOne :: "(string, 's flagVar) gomap \<Rightarrow> string list \<Rightarrow> 's \<Rightarrow> 's parseStep" where
  "parseOne formal args st =
     (case args of
        [] \<Rightarrow> ParseDone []
      | s # rest \<Rightarrow>
          if length s < 2 \<or> hd s \<noteq> CHR ''-'' then ParseDone args
          else if s = ''--'' then ParseDone rest
          else
            let name = (if s ! 1 = CHR ''-'' then drop 2 s else drop 1 s) in
            if name = [] \<or> hd name = CHR ''-'' \<or> hd name = CHR ''='' then ParseFail (BadSyntax s)
            else
              let (name, val) = splitFlag name in
              (case mget formal name of
                 None \<Rightarrow> if name = ''help'' \<or> name = ''h'' then ParseFail ErrHelp else ParseFail (NotDefined name)
               | Some fv \<Rightarrow>
                   if fv_IsBoolFlag fv then setFlag fv name (case val of None \<Rightarrow> ''true'' | Some v \<Rightarrow> v) rest st
                   else (case (val, rest) of
                           (Some v, _) \<Rightarrow> setFlag fv name v rest st
                         | (None, v # rest) \<Rightarrow> setFlag fv name v rest st
                         | (None, []) \<Rightarrow> ParseFail (NeedsArgument name))))"

lemma parseOne_shorter: "parseOne formal args st = ParseNext rest st' \<Longrightarrow> length rest < length args"
  by (auto simp: parseOne_def setFlag_def Let_def split: list.splits if_splits option.splits sum.splits prod.splits)

function flagParse :: "(string, 's flagVar) gomap \<Rightarrow> string list \<Rightarrow> 's \<Rightarrow> flagError + string list \<times> 's" where
  "flagParse formal args st =
     (case parseOne formal args st of
        ParseDone rest \<Rightarrow> Inr (rest, st)
      | ParseFail e \<Rightarrow> Inl e
      | ParseNext rest st \<Rightarrow> flagParse formal rest st)"
  by pat_completeness auto
termination
  by (relation "measure (\<lambda>(_, args, _). length args)") (auto dest: parseOne_shorter)

declare flagParse.simps [simp del]

section \<open>The options of the process\<close>

record options =
  op_metricsAddr :: string
  op_metricsCertPath :: string
  op_metricsCertName :: string
  op_metricsCertKey :: string
  op_webhookCertPath :: string
  op_webhookCertName :: string
  op_webhookCertKey :: string
  op_enableLeaderElection :: bool
  op_probeAddr :: string
  op_secureMetrics :: bool
  op_enableHTTP2 :: bool
  op_configResyncInterval :: int

definition defaultOptions :: options where
  "defaultOptions =
     \<lparr>op_metricsAddr = ''0'', op_metricsCertPath = [], op_metricsCertName = ''tls.crt'', op_metricsCertKey = ''tls.key'',
      op_webhookCertPath = [], op_webhookCertName = ''tls.crt'', op_webhookCertKey = ''tls.key'',
      op_enableLeaderElection = False, op_probeAddr = '':8081'', op_secureMetrics = True, op_enableHTTP2 = False,
      op_configResyncInterval = 2 * 60 * 10 ^ 9\<rparr>"

definition mainFlags :: "(nat \<Rightarrow> nat \<Rightarrow> nat \<Rightarrow> nat) \<Rightarrow> (string, options flagVar) gomap" where
  "mainFlags frac =
     [(''metrics-bind-address'', StringVar (\<lambda>v op. op\<lparr>op_metricsAddr := v\<rparr>)),
      (''health-probe-bind-address'', StringVar (\<lambda>v op. op\<lparr>op_probeAddr := v\<rparr>)),
      (''leader-elect'', BoolVar (\<lambda>b op. op\<lparr>op_enableLeaderElection := b\<rparr>)),
      (''metrics-secure'', BoolVar (\<lambda>b op. op\<lparr>op_secureMetrics := b\<rparr>)),
      (''webhook-cert-path'', StringVar (\<lambda>v op. op\<lparr>op_webhookCertPath := v\<rparr>)),
      (''webhook-cert-name'', StringVar (\<lambda>v op. op\<lparr>op_webhookCertName := v\<rparr>)),
      (''webhook-cert-key'', StringVar (\<lambda>v op. op\<lparr>op_webhookCertKey := v\<rparr>)),
      (''metrics-cert-path'', StringVar (\<lambda>v op. op\<lparr>op_metricsCertPath := v\<rparr>)),
      (''metrics-cert-name'', StringVar (\<lambda>v op. op\<lparr>op_metricsCertName := v\<rparr>)),
      (''metrics-cert-key'', StringVar (\<lambda>v op. op\<lparr>op_metricsCertKey := v\<rparr>)),
      (''enable-http2'', BoolVar (\<lambda>b op. op\<lparr>op_enableHTTP2 := b\<rparr>)),
      (''config-resync-interval'', DurationVar frac (\<lambda>d op. op\<lparr>op_configResyncInterval := d\<rparr>))]"

text \<open>The flags of other packages do not touch these options: they have a state of their own.\<close>

definition onOptions :: "options flagVar \<Rightarrow> (options \<times> 'z) flagVar" where
  "onOptions fv = \<lparr>fv_IsBoolFlag = fv_IsBoolFlag fv,
     fv_Set = (\<lambda>v (op, z). case fv_Set fv v op of Inl e \<Rightarrow> Inl e | Inr op \<Rightarrow> Inr (op, z))\<rparr>"

definition onOthers :: "'z flagVar \<Rightarrow> (options \<times> 'z) flagVar" where
  "onOthers fv = \<lparr>fv_IsBoolFlag = fv_IsBoolFlag fv,
     fv_Set = (\<lambda>v (op, z). case fv_Set fv v z of Inl e \<Rightarrow> Inl e | Inr z \<Rightarrow> Inr (op, z))\<rparr>"

definition commandLine :: "(nat \<Rightarrow> nat \<Rightarrow> nat \<Rightarrow> nat) \<Rightarrow> (string, 'z flagVar) gomap \<Rightarrow> (string, (options \<times> 'z) flagVar) gomap" where
  "commandLine frac others = map (\<lambda>(n, fv). (n, onOptions fv)) (mainFlags frac) @ map (\<lambda>(n, fv). (n, onOthers fv)) others"

section \<open>The servers and the manager\<close>

text \<open>A change to a \<open>tls.Config\<close>, by the protocols it leaves to be negotiated.\<close>

type_synonym tlsOpt = "string list \<Rightarrow> string list"

definition disableHTTP2 :: tlsOpt where
  "disableHTTP2 nextProtos = [''http/1.1'']"

definition tlsOpts :: "options \<Rightarrow> tlsOpt list" where
  "tlsOpts op = (if \<not> op_enableHTTP2 op then [disableHTTP2] else [])"

record webhookOptions =
  wo_TLSOpts :: "tlsOpt list"
  wo_CertDir :: string
  wo_CertName :: string
  wo_KeyName :: string

record metricsOptions =
  mo_BindAddress :: string
  mo_SecureServing :: bool
  mo_TLSOpts :: "tlsOpt list"
  mo_WithAuthenticationAndAuthorization :: bool
  mo_CertDir :: string
  mo_CertName :: string
  mo_KeyName :: string

record managerOptions =
  mgo_Metrics :: metricsOptions
  mgo_WebhookServer :: webhookOptions
  mgo_HealthProbeBindAddress :: string
  mgo_LeaderElection :: bool
  mgo_LeaderElectionID :: string

definition webhookServerOptions :: "options \<Rightarrow> webhookOptions" where
  "webhookServerOptions op =
     (let wo = \<lparr>wo_TLSOpts = tlsOpts op, wo_CertDir = [], wo_CertName = [], wo_KeyName = []\<rparr> in
      if length (op_webhookCertPath op) > 0
      then wo\<lparr>wo_CertDir := op_webhookCertPath op, wo_CertName := op_webhookCertName op, wo_KeyName := op_webhookCertKey op\<rparr>
      else wo)"

definition metricsServerOptions :: "options \<Rightarrow> metricsOptions" where
  "metricsServerOptions op =
     (let mo = \<lparr>mo_BindAddress = op_metricsAddr op, mo_SecureServing = op_secureMetrics op, mo_TLSOpts = tlsOpts op,
                mo_WithAuthenticationAndAuthorization = False, mo_CertDir = [], mo_CertName = [], mo_KeyName = []\<rparr>;
          mo = (if op_secureMetrics op then mo\<lparr>mo_WithAuthenticationAndAuthorization := True\<rparr> else mo) in
      if length (op_metricsCertPath op) > 0
      then mo\<lparr>mo_CertDir := op_metricsCertPath op, mo_CertName := op_metricsCertName op, mo_KeyName := op_metricsCertKey op\<rparr>
      else mo)"

definition managerOptionsOf :: "options \<Rightarrow> managerOptions" where
  "managerOptionsOf op =
     \<lparr>mgo_Metrics = metricsServerOptions op, mgo_WebhookServer = webhookServerOptions op,
      mgo_HealthProbeBindAddress = op_probeAddr op, mgo_LeaderElection = op_enableLeaderElection op,
      mgo_LeaderElectionID = ''abba8ca4.com''\<rparr>"

datatype kind = ProxySQLClusterKind | ProxySQLConfigKind | StatefulSetKind | ServiceKind | SecretKind
  | PodDisruptionBudgetKind | ConfigMapKind | PodKind

text \<open>The functions that map an event of a watched object to requests, by their names.\<close>

datatype mapFunc = ClustersForReferencedSecret | ClustersForAWSBootstrapConfigMap | ConfigsForCluster | ConfigsForPod
  | ConfigsForSecret

record controllerSpec =
  cn_Named :: string
  cn_For :: kind
  cn_Owns :: "kind list"
  cn_Watches :: "(kind \<times> mapFunc) list"
  cn_ResyncInterval :: int

text \<open>The calls to controller-runtime, each of which may fail.\<close>

datatype mgrCall = GetConfig | NewManager managerOptions | IndexField string "ProxySQLCluster \<Rightarrow> string list" | Complete controllerSpec
  | AddHealthzCheck string | AddReadyzCheck string | Start

type_synonym 'w mgr = "mgrCall \<Rightarrow> 'w \<Rightarrow> 'w \<times> gerror"

fun indexKey :: "secretIndex \<Rightarrow> string" where
  "indexKey authSecretNameIndex = ''.spec.auth.secretName''"
| "indexKey tlsSecretNameIndex = ''.spec.tls.secretName''"
| "indexKey tlsBackendCASecretIndex = ''.spec.tls.backend.caSecretName''"
| "indexKey tlsBackendCertSecretIndex = ''.spec.tls.backend.clientCertSecretName''"

text \<open>What the index function of a key yields for a cluster.\<close>

definition indexValues :: "secretIndex \<Rightarrow> ProxySQLCluster \<Rightarrow> string list" where
  "indexValues idx c = (let name = indexedSecret idx c in if name \<noteq> [] then [name] else [])"

fun indexFields :: "'w mgr \<Rightarrow> secretIndex list \<Rightarrow> 'w \<Rightarrow> 'w \<times> gerror" where
  "indexFields mgr [] w = (w, None)"
| "indexFields mgr (idx # idxs) w =
     (case mgr (IndexField (indexKey idx) (indexValues idx)) w of
        (w, Some e) \<Rightarrow> (w, Some (''index '' @ indexKey idx @ '': '' @ e))
      | (w, None) \<Rightarrow> indexFields mgr idxs w)"

definition clusterController :: controllerSpec where
  "clusterController =
     \<lparr>cn_Named = ''proxysqlcluster'', cn_For = ProxySQLClusterKind,
      cn_Owns = [StatefulSetKind, ServiceKind, SecretKind, PodDisruptionBudgetKind],
      cn_Watches = [(SecretKind, ClustersForReferencedSecret), (ConfigMapKind, ClustersForAWSBootstrapConfigMap)],
      cn_ResyncInterval = 0\<rparr>"

definition SetupClusterWithManager :: "'w mgr \<Rightarrow> 'w \<Rightarrow> 'w \<times> gerror" where
  "SetupClusterWithManager mgr w =
     andThen (indexFields mgr [authSecretNameIndex, tlsSecretNameIndex, tlsBackendCASecretIndex, tlsBackendCertSecretIndex] w)
       (mgr (Complete clusterController))"

definition configController :: "int \<Rightarrow> controllerSpec" where
  "configController resync =
     \<lparr>cn_Named = ''proxysqlconfig'', cn_For = ProxySQLConfigKind, cn_Owns = [],
      cn_Watches = [(ProxySQLClusterKind, ConfigsForCluster), (PodKind, ConfigsForPod), (SecretKind, ConfigsForSecret)],
      cn_ResyncInterval = resync\<rparr>"

definition SetupConfigWithManager :: "'w mgr \<Rightarrow> int \<Rightarrow> 'w \<Rightarrow> 'w \<times> gerror" where
  "SetupConfigWithManager mgr resync w = mgr (Complete (configController resync)) w"

datatype exit = Exit int | Returned

text \<open>\<open>if err := ...; err != nil { setupLog.Error(...); os.Exit(1) }\<close> followed by the rest.\<close>

definition orExit :: "'w \<times> gerror \<Rightarrow> ('w \<Rightarrow> 'w \<times> exit) \<Rightarrow> 'w \<times> exit" where
  "orExit r k = (case r of (w, Some _) \<Rightarrow> (w, Exit 1) | (w, None) \<Rightarrow> k w)"

definition runManager :: "'w mgr \<Rightarrow> options \<Rightarrow> 'w \<Rightarrow> 'w \<times> exit" where
  "runManager mgr op w =
     orExit (mgr GetConfig w) (\<lambda>w.
     orExit (mgr (NewManager (managerOptionsOf op)) w) (\<lambda>w.
     orExit (SetupClusterWithManager mgr w) (\<lambda>w.
     orExit (SetupConfigWithManager mgr (op_configResyncInterval op) w) (\<lambda>w.
     orExit (mgr (AddHealthzCheck ''healthz'') w) (\<lambda>w.
     orExit (mgr (AddReadyzCheck ''readyz'') w) (\<lambda>w.
     orExit (mgr Start w) (\<lambda>w. (w, Returned))))))))"

text \<open>\<open>main\<close>: a command line that does not parse ends the process with status 2, a request for help with 0.\<close>

definition main :: "(nat \<Rightarrow> nat \<Rightarrow> nat \<Rightarrow> nat) \<Rightarrow> (string, 'z flagVar) gomap \<Rightarrow> 'z \<Rightarrow> 'w mgr \<Rightarrow> string list \<Rightarrow> 'w \<Rightarrow> 'w \<times> exit" where
  "main frac others z mgr args w =
     (case flagParse (commandLine frac others) args (defaultOptions, z) of
        Inl ErrHelp \<Rightarrow> (w, Exit 0)
      | Inl _ \<Rightarrow> (w, Exit 2)
      | Inr (_, op, _) \<Rightarrow> runManager mgr op w)"

section \<open>Durations fit in 64 bits\<close>

lemma leadingInt_digits:
  assumes "list_all is_digit ds" "foldl (\<lambda>a c. 10 * a + (code c - 48)) x ds \<le> 2 ^ 63" "\<not> is_digit c"
  shows "leadingInt x (ds @ c # t) = Some (foldl (\<lambda>a c. 10 * a + (code c - 48)) x ds, c # t)"
  using assms
proof (induction ds arbitrary: x)
  case (Cons e ds)
  have grows: "y \<le> foldl (\<lambda>a c. 10 * a + (code c - 48)) y es" for y es
  proof (induction es arbitrary: y)
    case (Cons e es)
    have "y \<le> 10 * y + (code e - 48)" by simp
    also have "\<dots> \<le> foldl (\<lambda>a c. 10 * a + (code c - 48)) (10 * y + (code e - 48)) es" by (rule Cons)
    finally show ?case by simp
  qed simp
  have "10 * x + (code e - 48) \<le> 2 ^ 63" using grows [of "10 * x + (code e - 48)" ds] Cons.prems(2) by simp
  moreover from this have "x \<le> 2 ^ 63 div 10" by simp
  ultimately show ?case using Cons by (simp add: mult.commute)
qed simp

lemma durationTerm_bound: "durationTerm frac orig d s = Inr (d', t) \<Longrightarrow> d' \<le> 2 ^ 63"
  by (auto simp: durationTerm_def Let_def split: if_splits option.splits prod.splits)

lemma durationLoop_bound: "durationLoop frac orig d s = Inr n \<Longrightarrow> d \<le> 2 ^ 63 \<Longrightarrow> n \<le> 2 ^ 63"
proof (induction frac orig d s rule: durationLoop.induct)
  case (1 frac orig d s)
  show ?case
  proof (cases "s = []")
    case True
    with 1(2,3) show ?thesis by (simp add: durationLoop.simps)
  next
    case False
    then obtain d' s' where t: "durationTerm frac orig d s = Inr (d', s')" "durationLoop frac orig d' s' = Inr n"
      using 1(2) by (subst (asm) durationLoop.simps) (auto split: sum.splits)
    then show ?thesis using 1(1) [OF False, of "(d', s')" d' s'] durationTerm_bound by blast
  qed
qed

definition is_int64 :: "int \<Rightarrow> bool" where
  "is_int64 i \<longleftrightarrow> - (2 ^ 63) \<le> i \<and> i < 2 ^ 63"

lemma ParseDuration_bound: "ParseDuration frac s = Inr d \<Longrightarrow> is_int64 d"
proof -
  assume "ParseDuration frac s = Inr d"
  moreover have "n \<le> 2 ^ 63" if "durationLoop frac orig 0 u = Inr n" for orig u n
    using durationLoop_bound [OF that] by simp
  ultimately show ?thesis
    by (fastforce simp: ParseDuration_def Let_def is_int64_def split: if_splits sum.splits)
qed

lemma nanoseconds_read_back:
  assumes "is_int64 i"
  shows "ParseDuration frac (itoa i @ ''ns'') = Inr i"
proof -
  let ?n = "nat (abs i)"
  have n: "?n \<le> 2 ^ 63" using assms by (auto simp: is_int64_def)
  have dig: "list_all is_digit (nat_digits ?n)" using nat_digits_digits by simp
  then have hd: "is_digit (hd (nat_digits ?n))" using nat_digits_nonempty [of ?n] by (cases "nat_digits ?n") auto
  have "leadingInt 0 (nat_digits ?n @ CHR ''n'' # ''s'') = Some (?n, ''ns'')"
    using leadingInt_digits [OF dig, of 0 "CHR ''n''" "''s''"] n foldl_nat_digits [of ?n] by (simp add: is_digit_def)
  then have "durationTerm frac orig 0 (nat_digits ?n @ ''ns'') = Inr (?n, [])" for orig
    using n hd nat_digits_nonempty [of ?n]
    by (simp add: durationTerm_def Let_def unitMap_def unitChar_def is_digit_def)
  then have loop: "durationLoop frac orig 0 (nat_digits ?n @ ''ns'') = Inr ?n" for orig
    by (subst durationLoop.simps) (simp add: durationLoop.simps)
  have "hd (nat_digits ?n) \<noteq> CHR ''-''" "hd (nat_digits ?n) \<noteq> CHR ''+''" using hd by (auto simp: is_digit_def)
  then show ?thesis
    using loop assms nat_digits_nonempty [of ?n]
    by (auto simp: ParseDuration_def Let_def itoa_def is_int64_def)
qed

section \<open>Command lines\<close>

text \<open>The flag an argument names, if it is read as a flag.\<close>

definition argName :: "string \<Rightarrow> string option" where
  "argName s = (if length s < 2 \<or> hd s \<noteq> CHR ''-'' then None
     else Some (fst (splitFlag (if s ! 1 = CHR ''-'' then drop 2 s else drop 1 s))))"

lemma parseOne_next:
  assumes "parseOne formal args st = ParseNext rest st'"
  obtains a n fv v where "a \<in> set args" "argName a = Some n" "mget formal n = Some fv" "fv_Set fv v st = Inr st'"
    "set rest \<subseteq> set args"
proof -
  obtain a as where args: "args = a # as" using assms by (cases args) (auto simp: parseOne_def)
  let ?name = "if a ! 1 = CHR ''-'' then drop 2 a else drop 1 a"
  obtain n val where s: "splitFlag ?name = (n, val)" by (cases "splitFlag ?name")
  have l: "\<not> (length a < 2 \<or> hd a \<noteq> CHR ''-'')" using assms by (auto simp: parseOne_def args split: if_splits)
  obtain fv where fv: "mget formal n = Some fv"
    using assms s by (cases "mget formal n") (auto simp: parseOne_def args Let_def split: if_splits)
  have "\<exists>v. fv_Set fv v st = Inr st' \<and> set rest \<subseteq> set args"
    using assms s fv by (auto simp: parseOne_def args Let_def setFlag_def split: if_splits option.splits list.splits sum.splits)
  then show thesis using that [of a n fv] args l s fv by (auto simp: argName_def)
qed

text \<open>What the flags that are named keep, parsing keeps.\<close>

lemma flagParse_keeps:
  assumes "flagParse formal args st = Inr (rest, st')" and "P st"
    and "\<And>a n fv v st st'. a \<in> set args \<Longrightarrow> argName a = Some n \<Longrightarrow> mget formal n = Some fv \<Longrightarrow> fv_Set fv v st = Inr st' \<Longrightarrow> P st \<Longrightarrow> P st'"
  shows "P st'"
  using assms
proof (induction formal args st rule: flagParse.induct)
  case (1 formal args st)
  show ?case
  proof (cases "parseOne formal args st")
    case (ParseNext as st1)
    obtain a n fv v where one: "a \<in> set args" "argName a = Some n" "mget formal n = Some fv" "fv_Set fv v st = Inr st1" "set as \<subseteq> set args"
      using parseOne_next [OF ParseNext] by metis
    have "flagParse formal as st1 = Inr (rest, st')" using 1(2) ParseNext by (simp add: flagParse.simps [of formal args])
    moreover have "P st1" using 1(4) [OF one(1-4) 1(3)] .
    ultimately show ?thesis using 1(1) [OF ParseNext] 1(4) one(5) by (meson subsetD)
  qed (use 1(2,3) in \<open>auto simp: flagParse.simps [of formal args]\<close>)
qed

abbreviation flagArg :: "string \<Rightarrow> string \<Rightarrow> string" where
  "flagArg name v \<equiv> ''--'' @ name @ ''='' @ v"

lemma flagParse_arg:
  assumes "mget formal name = Some fv" "fv_Set fv v st = Inr st'" "name \<noteq> []" "hd name \<noteq> CHR ''-''" "CHR ''='' \<notin> set name"
  shows "flagParse formal (flagArg name v # rest) st = flagParse formal rest st'"
proof -
  obtain c cs where n: "name = c # cs" using assms(3) by (cases name) auto
  have "splitFlag (name @ ''='' @ v) = (name, Some v)"
    using assms(5) by (simp add: splitFlag_def n cutAt_append)
  then have "parseOne formal (flagArg name v # rest) st = ParseNext rest st'"
    using assms n by (auto simp: parseOne_def setFlag_def)
  then show ?thesis by (subst flagParse.simps) (simp only: parseStep.case)
qed

fun boolText :: "bool \<Rightarrow> string" where
  "boolText True = ''true''"
| "boolText False = ''false''"

text \<open>Options written out as a command line.\<close>

definition optionSettings :: "options \<Rightarrow> (string \<times> string) list" where
  "optionSettings op =
     [(''metrics-bind-address'', op_metricsAddr op), (''health-probe-bind-address'', op_probeAddr op),
      (''leader-elect'', boolText (op_enableLeaderElection op)), (''metrics-secure'', boolText (op_secureMetrics op)),
      (''webhook-cert-path'', op_webhookCertPath op), (''webhook-cert-name'', op_webhookCertName op),
      (''webhook-cert-key'', op_webhookCertKey op), (''metrics-cert-path'', op_metricsCertPath op),
      (''metrics-cert-name'', op_metricsCertName op), (''metrics-cert-key'', op_metricsCertKey op),
      (''enable-http2'', boolText (op_enableHTTP2 op)),
      (''config-resync-interval'', itoa (op_configResyncInterval op) @ ''ns'')]"

definition optionArgs :: "options \<Rightarrow> string list" where
  "optionArgs op = map (\<lambda>(name, v). flagArg name v) (optionSettings op)"

lemma ParseBool_text: "ParseBool (boolText b) = Some b"
  by (cases b) (simp_all add: ParseBool_def)

lemma commandLine_own: "mget (mainFlags frac) n = Some fv \<Longrightarrow> mget (commandLine frac others) n = Some (onOptions fv)"
  by (simp add: commandLine_def map_of_map)

lemma commandLine_cases:
  assumes "mget (commandLine frac others) n = Some fv"
  obtains own where "mget (mainFlags frac) n = Some own" "fv = onOptions own"
  | oth where "fv = onOthers oth"
  using assms by (auto simp: commandLine_def map_of_map map_add_Some_iff)

fun setAll :: "(string, 's flagVar) gomap \<Rightarrow> (string \<times> string) list \<Rightarrow> 's \<Rightarrow> 's option" where
  "setAll formal [] st = Some st"
| "setAll formal ((n, v) # nvs) st =
     (case mget formal n of None \<Rightarrow> None
      | Some fv \<Rightarrow> (case fv_Set fv v st of Inl _ \<Rightarrow> None | Inr st \<Rightarrow> setAll formal nvs st))"

lemma flagParse_settings:
  assumes "setAll (mainFlags frac) nvs op = Some op'"
    and "list_all (\<lambda>(n, _). n \<noteq> [] \<and> hd n \<noteq> CHR ''-'' \<and> CHR ''='' \<notin> set n) nvs"
  shows "flagParse (commandLine frac others) (map (\<lambda>(name, v). flagArg name v) nvs) (op, z) = Inr ([], op', z)"
  using assms
proof (induction nvs arbitrary: op)
  case Nil
  then show ?case by (subst flagParse.simps) (simp add: parseOne_def)
next
  case (Cons nv nvs)
  obtain n v where nv: "nv = (n, v)" by (cases nv)
  with Cons.prems(1) obtain fv op1 where fv: "mget (mainFlags frac) n = Some fv" "fv_Set fv v op = Inr op1" "setAll (mainFlags frac) nvs op1 = Some op'"
    by (auto split: option.splits sum.splits)
  have "flagParse (commandLine frac others) (flagArg n v # map (\<lambda>(name, v). flagArg name v) nvs) (op, z)
      = flagParse (commandLine frac others) (map (\<lambda>(name, v). flagArg name v) nvs) (op1, z)"
    using Cons.prems(2) nv fv(2) by (intro flagParse_arg [OF commandLine_own [OF fv(1)]]) (simp_all add: onOptions_def)
  with Cons nv fv(3) show ?case by simp
qed

text \<open>C27. Every option can be given on the command line: written out as flags, with any text as its value and any
  interval that a 64-bit count of nanoseconds holds, the options are read back as they are, whatever
  flags other packages register.\<close>

theorem options_read_back:
  assumes "is_int64 (op_configResyncInterval op)"
  shows "flagParse (commandLine frac others) (optionArgs op) (defaultOptions, z) = Inr ([], op, z)"
proof -
  have "setAll (mainFlags frac) (optionSettings op) defaultOptions = Some op"
    using nanoseconds_read_back [OF assms, of frac] ParseBool_text
    by (simp add: optionSettings_def mainFlags_def StringVar_def BoolVar_def DurationVar_def defaultOptions_def)
  then show ?thesis unfolding optionArgs_def by (rule flagParse_settings) (simp add: optionSettings_def)
qed

theorem options_read_back_witness:
  "flagParse (commandLine (\<lambda>_ _ _. 0) []) (optionArgs (defaultOptions\<lparr>op_configResyncInterval := - (2 ^ 63)\<rparr>)) (defaultOptions, ())
     = Inr ([], defaultOptions\<lparr>op_configResyncInterval := - (2 ^ 63)\<rparr>, ())"
  by (rule options_read_back) (simp add: is_int64_def)

section \<open>Starting\<close>

text \<open>The calls of a start, in their order, and a run of them up to the first that fails.\<close>

definition startCalls :: "options \<Rightarrow> mgrCall list" where
  "startCalls op =
     [GetConfig, NewManager (managerOptionsOf op)]
     @ map (\<lambda>i. IndexField (indexKey i) (indexValues i)) [authSecretNameIndex, tlsSecretNameIndex, tlsBackendCASecretIndex, tlsBackendCertSecretIndex]
     @ [Complete clusterController, Complete (configController (op_configResyncInterval op)), AddHealthzCheck ''healthz'',
        AddReadyzCheck ''readyz'', Start]"

fun runCalls :: "'w mgr \<Rightarrow> mgrCall list \<Rightarrow> 'w \<Rightarrow> 'w \<times> exit" where
  "runCalls mgr [] w = (w, Returned)"
| "runCalls mgr (c # cs) w = (case mgr c w of (w, None) \<Rightarrow> runCalls mgr cs w | (w, Some _) \<Rightarrow> (w, Exit 1))"

lemma orExit_assoc: "orExit (andThen r l) k = orExit r (\<lambda>w. orExit (l w) k)"
  by (auto simp: orExit_def andThen_def split: prod.splits option.splits)

lemma orExit_call: "orExit (mgr c w) (runCalls mgr cs) = runCalls mgr (c # cs) w"
  by (simp add: orExit_def split: prod.split option.split)

lemma orExit_indexes:
  "orExit (indexFields mgr idxs w) (runCalls mgr cs) = runCalls mgr (map (\<lambda>i. IndexField (indexKey i) (indexValues i)) idxs @ cs) w"
proof (induction idxs arbitrary: w)
  case Nil
  then show ?case by (simp add: orExit_def)
next
  case (Cons i idxs)
  obtain w1 e where m: "mgr (IndexField (indexKey i) (indexValues i)) w = (w1, e)"
    by (cases "mgr (IndexField (indexKey i) (indexValues i)) w")
  show ?case
  proof (cases e)
    case None
    with m Cons.IH [of w1] show ?thesis by simp
  next
    case (Some x)
    with m show ?thesis by (simp add: orExit_def)
  qed
qed

lemma runManager_calls: "runManager mgr op w = runCalls mgr (startCalls op) w"
proof -
  have last: "(\<lambda>w. (w, Returned)) = runCalls mgr []" by (simp add: fun_eq_iff)
  show ?thesis
    unfolding runManager_def SetupClusterWithManager_def SetupConfigWithManager_def orExit_assoc startCalls_def
    by (simp only: last orExit_call orExit_indexes append.simps)
qed

lemma own_flag_keeps:
  assumes "mget (mainFlags frac) n = Some fv" "fv_Set fv v op = Inr op'"
  shows "n \<noteq> ''enable-http2'' \<Longrightarrow> op_enableHTTP2 op' = op_enableHTTP2 op"
    and "n \<noteq> ''metrics-secure'' \<Longrightarrow> op_secureMetrics op' = op_secureMetrics op"
    and "is_int64 (op_configResyncInterval op) \<Longrightarrow> is_int64 (op_configResyncInterval op')"
  using assms ParseDuration_bound [of frac v]
  by (auto simp: mainFlags_def StringVar_def BoolVar_def DurationVar_def split: if_splits option.splits sum.splits)

lemma parsed_keeps:
  assumes "flagParse (commandLine frac others) args (op, z) = Inr (rest, op', z')" and "P op"
    and "\<And>a n fv v op op'. a \<in> set args \<Longrightarrow> argName a = Some n \<Longrightarrow> mget (mainFlags frac) n = Some fv \<Longrightarrow> fv_Set fv v op = Inr op' \<Longrightarrow> P op \<Longrightarrow> P op'"
  shows "P op'"
proof -
  have "P (fst (op', z'))"
  proof (rule flagParse_keeps [OF assms(1), where P = "\<lambda>st. P (fst st)"])
    fix a n fv v st st'
    assume a: "a \<in> set args" "argName a = Some n" "mget (commandLine frac others) n = Some fv" "fv_Set fv v st = Inr st'" "P (fst st)"
    from a(3) show "P (fst st')"
    proof (cases rule: commandLine_cases)
      case (1 own)
      with a(4) have "fv_Set own v (fst st) = Inr (fst st')"
        by (cases st) (auto simp: onOptions_def split: sum.splits)
      with 1 a assms(3) show ?thesis by blast
    next
      case (2 oth)
      with a(4,5) show ?thesis by (cases st) (auto simp: onOthers_def split: sum.splits)
    qed
  qed (use assms(2) in simp)
  then show ?thesis by simp
qed

text \<open>C26. A start is guarded: a command line that does not parse starts nothing (status 2, or 0 for help).
  Otherwise the calls are those of \<^const>\<open>startCalls\<close>, in this order and none after the first that fails, so that
  the manager runs only with both controllers and both checks registered; and unless an argument
  names the flag, the metrics endpoint is served over TLS with authentication and authorization, and
  neither server negotiates HTTP/2.\<close>

theorem startup_guarded:
  assumes "flagParse (commandLine frac others) args (defaultOptions, z) = r"
  shows "case r of
      Inl e \<Rightarrow> main frac others z mgr args w = (w, Exit (if e = ErrHelp then 0 else 2))
    | Inr (_, op, _) \<Rightarrow>
        main frac others z mgr args w = runCalls mgr (startCalls op) w
        \<and> (Some ''metrics-secure'' \<notin> argName ` set args \<longrightarrow>
             mo_SecureServing (mgo_Metrics (managerOptionsOf op))
             \<and> mo_WithAuthenticationAndAuthorization (mgo_Metrics (managerOptionsOf op)))
        \<and> (Some ''enable-http2'' \<notin> argName ` set args \<longrightarrow>
             fold (\<lambda>opt. opt) (mo_TLSOpts (mgo_Metrics (managerOptionsOf op))) protos = [''http/1.1'']
             \<and> fold (\<lambda>opt. opt) (wo_TLSOpts (mgo_WebhookServer (managerOptionsOf op))) protos = [''http/1.1''])"
proof (cases r)
  case (Inl e)
  with assms show ?thesis by (cases e) (simp_all add: main_def)
next
  case (Inr s)
  obtain rest op z' where s: "s = (rest, op, z')" by (cases s rule: prod_cases3)
  note parsed = assms [unfolded Inr s]
  have "op_secureMetrics op" if "Some ''metrics-secure'' \<notin> argName ` set args"
    by (rule parsed_keeps [OF parsed]) (use that own_flag_keeps(2) in \<open>force simp: defaultOptions_def image_iff\<close>)+
  moreover have "\<not> op_enableHTTP2 op" if "Some ''enable-http2'' \<notin> argName ` set args"
    by (rule parsed_keeps [OF parsed]) (use that own_flag_keeps(1) in \<open>force simp: defaultOptions_def image_iff\<close>)+
  ultimately show ?thesis
    using parsed by (simp add: Inr s main_def runManager_calls managerOptionsOf_def metricsServerOptions_def webhookServerOptions_def Let_def
        tlsOpts_def disableHTTP2_def)
qed

text \<open>C28. Whatever command line is accepted, the configuration reconciler checks for drift at a positive
  interval that fits in 64 bits.\<close>

theorem resync_interval_bounds:
  assumes "flagParse (commandLine frac others) args (defaultOptions, z) = Inr (rest, op, z')"
  shows "0 < resyncInterval (cn_ResyncInterval (configController (op_configResyncInterval op)))
    \<and> resyncInterval (cn_ResyncInterval (configController (op_configResyncInterval op))) < 2 ^ 63"
proof -
  have "is_int64 (op_configResyncInterval op)"
    by (rule parsed_keeps [OF assms]) (use own_flag_keeps(3) in \<open>auto simp: defaultOptions_def is_int64_def\<close>)
  then show ?thesis by (simp add: resyncInterval_def configController_def defaultDriftResyncInterval_def is_int64_def)
qed

section \<open>Witnesses\<close>

text \<open>A manager that records the calls and refuses to create the second controller.\<close>

definition recordingMgr :: "mgrCall list mgr" where
  "recordingMgr c calls = (calls @ [c], case c of Complete spec \<Rightarrow> if cn_Named spec = ''proxysqlconfig'' then Some ''taken'' else None | _ \<Rightarrow> None)"

lemma probe_only:
  "flagParse (commandLine (\<lambda>_ _ _. 0) []) [''--health-probe-bind-address=:9090''] (defaultOptions, ())
     = Inr ([], defaultOptions\<lparr>op_probeAddr := '':9090''\<rparr>, ())"
  using flagParse_settings [of "\<lambda>_ _ _. 0" "[(''health-probe-bind-address'', '':9090'')]" defaultOptions "defaultOptions\<lparr>op_probeAddr := '':9090''\<rparr>" "[]" "()"]
  by (simp add: mainFlags_def StringVar_def)

theorem startup_guarded_witness:
  "snd (main (\<lambda>_ _ _. 0) [] () recordingMgr [''--health-probe-bind-address=:9090''] []) = Exit 1
   \<and> Start \<notin> set (fst (main (\<lambda>_ _ _. 0) [] () recordingMgr [''--health-probe-bind-address=:9090''] []))
   \<and> mo_WithAuthenticationAndAuthorization (mgo_Metrics (managerOptionsOf (defaultOptions\<lparr>op_probeAddr := '':9090''\<rparr>)))"
proof -
  have "Some ''metrics-secure'' \<notin> argName ` set [''--health-probe-bind-address=:9090'']"
    by (simp add: argName_def splitFlag_def)
  then show ?thesis
    using startup_guarded [OF probe_only, of recordingMgr "[]" "[]"]
    by (simp add: startCalls_def recordingMgr_def clusterController_def configController_def)
qed

theorem resync_interval_bounds_witness:
  "0 < resyncInterval (cn_ResyncInterval (configController (op_configResyncInterval (defaultOptions\<lparr>op_probeAddr := '':9090''\<rparr>))))"
  using resync_interval_bounds [OF probe_only] by blast

end
