(* ===== verification/Spec2Isabelle.thy ===== *)
theory Spec2Isabelle
  imports ConfigUnion DriftConvergence RestartSafety ConfigReconcile ClusterStatus AdminClient RdsSigning CertSigning PushConvergence Entrypoint
begin

text \<open>
  A verification library for the ProxySQL Kubernetes operator, the Go program under \<open>operator/\<close>.

  \<^bold>\<open>The program.\<close> The operator runs two reconcilers. The \<^emph>\<open>cluster reconciler\<close>
  (\<open>internal/controller/proxysqlcluster_controller.go\<close>) turns a \<open>ProxySQLCluster\<close> into Kubernetes
  objects: the passwords, the bootstrap configuration file, the Services, the StatefulSet, its
  disruption budget and monitoring; it decides whether a change of the file can be pushed at
  runtime or needs a restart (\<open>restart_checksum.go\<close>), resolves and rotates the TLS Secrets
  (\<open>tls_secrets.go\<close>, \<open>tls_rotation.go\<close>), and reports a status. The \<^emph>\<open>configuration reconciler\<close>
  (\<open>proxysqlconfig_controller.go\<close>) merges the \<open>ProxySQLConfig\<close>s of a cluster into one desired state and
  pushes it, over the admin port, to every ready replica (\<open>internal/proxysqlclient/\<close>), with the
  tables of the RDS plugin over its HTTP interface (\<open>internal/rdsclient/\<close>, \<open>rds_reconcile.go\<close>), reads
  the runtime back and pushes again what drifted. Both discover replicas and the TLS trust of a dial
  the same way (\<open>pod_discovery.go\<close>, \<open>tls_dial.go\<close>), and the objects they write are built by
  \<open>internal/controller/builders/\<close>.

  \<^bold>\<open>The theories.\<close> Each one opens with what it holds; definitions have the names of the Go
  functions and types they translate.
  \<^item> \<open>GoPrelude\<close>: strings as bytes, runes, decimal numbers, maps, with the lemmas and the collections
    \<open>go_str\<close> and \<open>go_map\<close> the others use, and a locale for keyed maps.
  \<^item> \<open>ClientTypes\<close>, \<open>ConfigTypes\<close>, \<open>ClusterSpec\<close>, \<open>KubeObjects\<close>: the data: \<open>proxysqlclient/types.go\<close>, the API types,
    the defaults and names of \<open>builders.go\<close>, and the Kubernetes objects with the fields the code reads or writes.
  \<^item> \<open>AdminSQL\<close>, \<open>AdminSync\<close>: the statements of a push and their order (\<open>sync.go\<close>); redaction (\<open>client.go\<close>).
  \<^item> \<open>AdminClient\<close>: opening, using and closing an admin connection, concurrent dials included (\<open>client.go\<close>).
  \<^item> \<open>ConfigUnion\<close>: the merge (\<open>union.go\<close>). \<open>ReplClasses\<close>, \<open>RuntimeDrift\<close>, \<open>DriftConvergence\<close>: reading the
    runtime and reporting drift (\<open>runtime.go\<close>). \<open>PushConvergence\<close>: a push and the read-back after it, together.
  \<^item> \<open>BootstrapCnf\<close>, \<open>CnfVariables\<close>: writing the configuration file and reading it back
    (\<open>proxysql_cnf.go\<close>, \<open>cnf_variables.go\<close>). \<open>LoggingSidecar\<close>, \<open>PodTemplate\<close>, \<open>ServiceBuilders\<close>: the other builders.
  \<^item> \<open>PodDiscovery\<close>, \<open>TlsDial\<close>: ready replicas, and the trust of a dial.
  \<^item> \<open>RestartChecksum\<close>, \<open>RestartSafety\<close>: classifying a change, the runtime push and its markers.
  \<^item> \<open>AwsPlugin\<close>, \<open>RdsSigning\<close>: the plugin's desired state, its API operations (\<open>plugin/aws/config.go\<close>,
    \<open>rdsclient/model.go\<close>) and the signed calls behind them (\<open>rdsclient/client.go\<close>).
  \<^item> \<open>DesiredState\<close>, \<open>ReplicaApply\<close>, \<open>ConfigReconcile\<close>: the configuration reconciler, from the
    specifications to the observed replicas, deletion and events included.
  \<^item> \<open>TlsSecrets\<close>, \<open>Rfc3339\<close>, \<open>TlsRotation\<close>: the three tiers of certificates, time stamps, rotation. \<open>CertSigning\<close>:
    keys, serial numbers and the encoding of certificates (\<open>tlsutil.go\<close>).
  \<^item> \<open>AwsBootstrap\<close>, \<open>ClusterObjects\<close>, \<open>ClusterReconcile\<close>, \<open>ClusterStatus\<close>: the cluster reconciler.
  \<^item> \<open>Entrypoint\<close>: the command line, the start and the registration of both controllers (\<open>cmd/main.go\<close>,
    \<open>SetupWithManager\<close>).

  \<^bold>\<open>State and effects.\<close> What the operator calls is a state \<open>'w\<close> and a record of operations on it: \<open>env\<close>
  for replicas, \<open>cfgEnv\<close>, \<open>tlsEnv\<close>, \<open>rotEnv\<close> and \<open>cluEnv\<close> for the API server and its helpers, each
  extending the one before it, \<open>mysqlDriver\<close> for the driver, \<open>rdsEnv\<close> for the transport. A function that
  writes takes the state and returns it; one that reads leaves it. Errors are values: the message, or
  a datatype where a message quotes a value. Joined errors are lists. A theorem about every such
  record holds for every pattern of failures and every interleaving of other writers between two
  calls, since nothing is assumed of the state from one call to the next beyond the laws it names.

  \<^bold>\<open>What is shown.\<close>
  \<^item> Pushing: a push is a plan of statements per section, run section by section whatever fails before
    (\<open>sync_follows_plan\<close>); the rows the admin port reads from the statements are the desired rows
    (\<open>sync_rows_roundtrip\<close>); errors carry no literal (\<open>snippet_hides_passwords\<close>).
  \<^item> Merging: the last configuration by priority wins per key (\<open>union_last_writer_wins\<close>).
  \<^item> Drift: the report is empty exactly when the runtime agrees with the desired state up to what the
    monitor may move (\<open>drift_reports_divergence\<close>, \<open>monitor_moves_are_not_drift\<close>), over replication classes that
    are the connected components (\<open>replicationClasses_correct\<close>).
  \<^item> Both together: after a successful push the read-back reports convergence exactly when all users and
    rules are active and user names hold no control character (\<open>push_converges_iff_active\<close>).
  \<^item> Reconciling configurations: a replica reported converged was read back so
    (\<open>observations_tell_the_truth\<close>, \<open>asserted_means_seen\<close>); a finalizer is kept until the cleanup is done
    (\<open>deletion_waits_for_cleanup\<close>); no event is missed (\<open>secret_events_complete\<close>).
  \<^item> Restarts: after a completed pass the pods run, or will restart into, the structure of the file
    (\<open>completed_reconcile_structure\<close>); a runtime push reaches every changed variable
    (\<open>runtime_push_reaches_new_vars\<close>), and the one case where it does not (\<open>superseded_push_is_lost\<close>).
  \<^item> TLS: only vetted Secrets are mounted (\<open>template_secrets_vetted\<close>), the rotation marker is sound and every
    rotation ends (\<open>tls_marker_sound\<close>, \<open>tls_rotation_ends\<close>), concurrent dials keep their own trust
    (\<open>dials_keep_their_trust\<close>), what is signed parses back to what was asked for
    (\<open>signing_is_faithful\<close>) and chains to its authority (\<open>serving_certificate_chain\<close>).
  \<^item> The cluster reconciler: its writes settle (locale \<open>settling\<close>, interpreted on every mutation), a
    successful pass reports the truth (\<open>successful_pass_status\<close>), a failed one is repeated
    (\<open>failed_push_keeps_markers\<close>), and obtaining credentials terminates (\<open>ensureRDSCredentials_returns\<close>).
  \<^item> The process: nothing starts before everything is registered, with safe defaults (\<open>startup_guarded\<close>); options
    read back (\<open>options_read_back\<close>) and the drift interval is in range (\<open>resync_interval_bounds\<close>).
  \<^item> The plugin: what is sent reads back and what is signed is one request
    (\<open>call_body_reads_back\<close>, \<open>canonical_request_unambiguous\<close>); the composition of the two levels for the pool
    settings is in this theory (\<open>pool_reads_back\<close>).
  The theorems of kind \<^emph>\<open>error\<close> state behaviour of the code that its comments or its purpose contradict.

  \<^bold>\<open>Parameters and their laws.\<close> Named predicates say what is relied on where a theorem needs it: \<open>adminLaws\<close>
  (what the admin interface of an instance does), \<open>driverLaws\<close> (the driver's registry), \<open>conditionLaws\<close> (one condition per type), \<open>stsStored\<close> and \<open>upserts_mutation\<close>
  (create-or-update), \<open>x509Laws\<close> (keys, certificates and PEM blocks read back), \<open>conflicts_visible\<close> (a name refused as taken is found), \<open>random_bytes\<close>, \<open>claim_idempotent\<close>,
  and injectivity where a digest stands for its argument. Every theorem with such a hypothesis is
  applied to a concrete instance in the theory it is in.

  \<^bold>\<open>Interfaces.\<close> Where components share a contract it is a locale, interpreted on the definitions that
  provide it: \<open>keyed_store\<close> (Go maps), \<open>executor_invariant\<close> (what every statement keeps a push keeps; the admin
  client provides it), \<open>escaping\<close> (the two escapings of the plugin's calls), \<open>settling\<close> (the mutations of the owned
  objects).

  \<^bold>\<open>Bounds and termination.\<close> Loops are structural recursions or carry a termination proof, but for two that
  may not return and are functions into \<^typ>\<open>'a option\<close>: \<open>uf_find\<close>, the path-compressing lookup of \<open>runtime.go\<close>,
  which returns on every forest the code builds (\<open>replicationClasses_correct\<close>), and \<open>ensureRDSCredentials\<close>, which
  starts over on a conflict and returns under \<open>conflicts_visible\<close>. Verification of a rotated certificate makes
  three attempts per pass, as the code does. \<open>int32\<close> fields wrap or are range-checked where the code converts;
  the dial counter is a 64-bit word, and distinctness of keys is shown for fewer than \<open>2^64\<close> dials; time
  stamps round-trip for the years 0 to 9999; durations are parsed in 64-bit arithmetic, the floating-point
  product of a fraction being a parameter; an answer of the plugin is read up to 4 MiB.

  \<^bold>\<open>Not modelled.\<close> The manager of controller-runtime, of which \<open>Entrypoint\<close> has the calls, and the
  logging flags. \<open>zz_generated.deepcopy.go\<close>: generated; values of the model are immutable.
  The PEM, x509 and ECDSA libraries, JSON and XML decoding, SHA-256 and HMAC, the HTTP transport, the
  MySQL driver and the API server: parameters. Logging. Helm charts and manifests:
  not Go. Cancellation of a context shows up as an error of the call it interrupts.
\<close>

section \<open>The plugin's settings on the wire\<close>

lemma setMembers_wf: "mwf v \<Longrightarrow> mwf (setMembers pre post f i xs v)"
  by (induction pre post f i xs v rule: setMembers.induct) (simp_all add: AList.distinct_update)

lemma setMembers_other:
  "(\<And>j. k \<noteq> pre @ itoa j @ post) \<Longrightarrow> mget (setMembers pre post f i xs v) k = mget v k"
  by (induction pre post f i xs v rule: setMembers.induct) (simp_all add: mput_mget)

lemma setMembers_before: "j < i \<Longrightarrow> mget (setMembers pre post f i xs v) (pre @ itoa j @ post) = mget v (pre @ itoa j @ post)"
  by (induction pre post f i xs v rule: setMembers.induct) (simp_all add: mput_mget)

lemma setMembers_get:
  "mget (setMembers pre post f i xs v) (pre @ itoa (i + int j) @ post) =
     (if j < length xs then Some (f (xs ! j)) else mget v (pre @ itoa (i + int j) @ post))"
proof (induction xs arbitrary: i j v)
  case (Cons x xs)
  show ?case
  proof (cases j)
    case 0
    then show ?thesis using setMembers_before [of i "i + 1" pre post f xs] by (simp add: mput_mget)
  next
    case (Suc n)
    have e: "(i + 1) + int n = i + int j" using Suc by simp
    have "(x # xs) ! j = xs ! n" "j < length (x # xs) \<longleftrightarrow> n < length xs" "itoa (i + int j) \<noteq> itoa i" using Suc by auto
    then show ?thesis
      by (simp only: setMembers.simps Cons.IH [where i = "i + 1" and j = n, unfolded e] mput_mget append_same_eq same_append_eq simp_thms if_False)
  qed
qed simp

lemma mget_mdel_other: "k \<noteq> k' \<Longrightarrow> mget (mdel k' m) k = mget m k"
  by (simp add: delete_conv')

lemma formOf_get: "valuesOf (formOf values) k = (case mget values k of None \<Rightarrow> [] | Some v \<Rightarrow> [v])"
  by (simp add: formOf_def valuesOf_def map_of_map split: option.splits)

lemma formOf_wf: "mwf values \<Longrightarrow> mwf (formOf values)"
  by (simp add: formOf_def case_prod_unfold comp_def)

definition pinning :: string where
  "pinning = ''ConnectionPoolConfig.SessionPinningFilters''"

lemma poolValues_get:
  fixes name :: string and pool :: Pool
  defines "v \<equiv> poolValues name pool"
  shows "mwf v" "mget v ''DBProxyName'' = Some name" "mget v ''TargetGroupName'' = Some ''default''"
    "mget v ''ConnectionPoolConfig.ConnectionBorrowTimeout'' = Some (itoa (po_ConnectionBorrowTimeout pool))"
    "mget v ''ConnectionPoolConfig.MaxConnectionsPercent'' = Some (itoa (po_MaxConnectionsPercent pool))"
    "mget v ''ConnectionPoolConfig.MaxIdleConnectionsPercent'' = Some (itoa (po_MaxIdleConnectionsPercent pool))"
    "mget v ''ConnectionPoolConfig.InitQuery'' = Some (po_InitQuery pool)"
    "mget v pinning = (if po_SessionPinningFilters pool = [] then Some [] else None)"
    "mget v (pinning @ ''.member.'' @ itoa (int j + 1)) =
       (if j < length (po_SessionPinningFilters pool) then Some (po_SessionPinningFilters pool ! j) else None)"
proof -
  let ?pre = "''ConnectionPoolConfig.SessionPinningFilters.member.''" and ?fs = "po_SessionPinningFilters pool"
  define v0 where "v0 = mput ''ConnectionPoolConfig.InitQuery'' (po_InitQuery pool)
     (setInt (setInt (setInt [(''DBProxyName'', name), (''TargetGroupName'', defaultTargetGroup), (pinning, [])]
        ''ConnectionPoolConfig.ConnectionBorrowTimeout'' (po_ConnectionBorrowTimeout pool))
        ''ConnectionPoolConfig.MaxConnectionsPercent'' (po_MaxConnectionsPercent pool))
        ''ConnectionPoolConfig.MaxIdleConnectionsPercent'' (po_MaxIdleConnectionsPercent pool))"
  have v: "v = (if length ?fs > 0 then mdel pinning (setMembers ?pre [] (\<lambda>x. x) 1 ?fs v0) else setMembers ?pre [] (\<lambda>x. x) 1 ?fs v0)"
    by (simp only: v_def poolValues_def Let_def pinning_def v0_def)
  have v0: "mget v0 (?pre @ k) = None" for k
    by (simp add: v0_def setInt_def pinning_def mput_mget)
  have k: "pinning @ ''.member.'' @ itoa (int j + 1) = ?pre @ itoa (1 + int j) @ []" by (simp add: pinning_def add.commute)
  have ne: "?pre @ itoa (1 + int j) @ [] \<noteq> pinning" by (simp add: pinning_def)
  have "mget v (?pre @ itoa (1 + int j) @ []) = mget (setMembers ?pre [] (\<lambda>x. x) 1 ?fs v0) (?pre @ itoa (1 + int j) @ [])"
    unfolding v by (simp only: mget_mdel_other [OF ne] if_distrib [of "\<lambda>m. mget m _"] if_cancel)
  then show "mget v (pinning @ ''.member.'' @ itoa (int j + 1)) = (if j < length ?fs then Some (?fs ! j) else None)"
    unfolding k setMembers_get v0 .
  have w0: "mwf v0" by (simp add: v0_def setInt_def pinning_def AList.distinct_update)
  then show "mwf v" by (simp add: v setMembers_wf distinct_delete)
  have mem: "mget (setMembers ?pre [] (\<lambda>x. x) 1 ?fs v0) x = mget v0 x" if "\<not> hasPrefix ?pre x" for x
    using that by (intro setMembers_other) (auto simp: hasPrefix_iff)
  have rest: "mget v x = mget v0 x" if "x \<noteq> pinning" "\<not> hasPrefix ?pre x" for x
    unfolding v by (simp only: mget_mdel_other [OF that(1)] if_distrib [of "\<lambda>m. mget m _"] if_cancel mem [OF that(2)])
  note at0 = v0_def setInt_def pinning_def mput_mget defaultTargetGroup_def
  show "mget v ''DBProxyName'' = Some name" by (subst rest) (simp_all add: at0)
  show "mget v ''TargetGroupName'' = Some ''default''" by (subst rest) (simp_all add: at0)
  show "mget v ''ConnectionPoolConfig.ConnectionBorrowTimeout'' = Some (itoa (po_ConnectionBorrowTimeout pool))"
    by (subst rest) (simp_all add: at0)
  show "mget v ''ConnectionPoolConfig.MaxConnectionsPercent'' = Some (itoa (po_MaxConnectionsPercent pool))"
    by (subst rest) (simp_all add: at0)
  show "mget v ''ConnectionPoolConfig.MaxIdleConnectionsPercent'' = Some (itoa (po_MaxIdleConnectionsPercent pool))"
    by (subst rest) (simp_all add: at0)
  show "mget v ''ConnectionPoolConfig.InitQuery'' = Some (po_InitQuery pool)" by (subst rest) (simp_all add: at0)
  have "mget (setMembers ?pre [] (\<lambda>x. x) 1 ?fs v0) pinning = mget v0 pinning"
    by (rule mem) (simp add: pinning_def)
  also have "\<dots> = Some []" by (simp add: at0)
  finally have "mget (setMembers ?pre [] (\<lambda>x. x) 1 ?fs v0) pinning = Some []" .
  then show "mget v pinning = (if ?fs = [] then Some [] else None)"
    unfolding v by (cases ?fs) (simp_all del: setMembers.simps add: delete_conv')
qed

lemma ModifyPool_request:
  assumes "ModifyPool (pluginApi en dec c) name pool w = (w', None)"
  shows "\<exists>req resp. callRequest en c w ''ModifyDBProxyTargetGroup'' (formOf (poolValues name pool)) = Inr req
     \<and> re_do en req w = (w', Inr resp) \<and> 200 \<le> rs_StatusCode resp \<and> rs_StatusCode resp < 300"
  using assms
  by (fastforce simp: ModifyPool_def pluginApi_def Call_def answered_def split: sum.splits prod.splits if_splits)

text \<open>C21. A pool setting that is reported as applied has been sent: one request, answered with a status
  in the two hundreds, whose body reads back as the target group's settings; the session pinning
  filters are members numbered from 1 in their order, and an empty list of them is sent as the empty
  marker rather than left out, so that clearing them clears them.\<close>

theorem pool_reads_back:
  assumes "ModifyPool (pluginApi en dec c) name pool w = (w', None)"
  shows "\<exists>req resp ps. re_do en req w = (w', Inr resp) \<and> 200 \<le> rs_StatusCode resp \<and> rs_StatusCode resp < 300
     \<and> ParseQuery (rq_Body req) = Some ps
     \<and> sentUnder ''Action'' ps = [''ModifyDBProxyTargetGroup'']
     \<and> sentUnder ''DBProxyName'' ps = [name] \<and> sentUnder ''TargetGroupName'' ps = [''default'']
     \<and> sentUnder ''ConnectionPoolConfig.ConnectionBorrowTimeout'' ps = [itoa (po_ConnectionBorrowTimeout pool)]
     \<and> sentUnder ''ConnectionPoolConfig.MaxConnectionsPercent'' ps = [itoa (po_MaxConnectionsPercent pool)]
     \<and> sentUnder ''ConnectionPoolConfig.MaxIdleConnectionsPercent'' ps = [itoa (po_MaxIdleConnectionsPercent pool)]
     \<and> sentUnder ''ConnectionPoolConfig.InitQuery'' ps = [po_InitQuery pool]
     \<and> sentUnder pinning ps = (if po_SessionPinningFilters pool = [] then [[]] else [])
     \<and> (\<forall>j. sentUnder (pinning @ ''.member.'' @ itoa (int j + 1)) ps =
            (if j < length (po_SessionPinningFilters pool) then [po_SessionPinningFilters pool ! j] else []))"
proof -
  let ?form = "formOf (poolValues name pool)"
  obtain req resp where r: "callRequest en c w ''ModifyDBProxyTargetGroup'' ?form = Inr req"
    and d: "re_do en req w = (w', Inr resp)" "200 \<le> rs_StatusCode resp" "rs_StatusCode resp < 300"
    using ModifyPool_request [OF assms] by blast
  obtain ps where ps: "ParseQuery (rq_Body req) = Some ps" "sentUnder ''Action'' ps = [''ModifyDBProxyTargetGroup'']"
    and all: "\<And>k. k \<noteq> ''Action'' \<Longrightarrow> k \<noteq> ''Version'' \<Longrightarrow> sentUnder k ps = valuesOf ?form k"
    using body_reads_back [OF formOf_wf [OF poolValues_get(1)] r] by blast
  have "sentUnder pinning ps = (if po_SessionPinningFilters pool = [] then [[]] else [])"
    using all [of pinning] by (simp add: formOf_get poolValues_get(8)) (simp add: pinning_def)
  moreover have "sentUnder (pinning @ ''.member.'' @ itoa (int j + 1)) ps =
      (if j < length (po_SessionPinningFilters pool) then [po_SessionPinningFilters pool ! j] else [])" for j
    using all [of "pinning @ ''.member.'' @ itoa (int j + 1)"]
    by (simp only: formOf_get poolValues_get(9)) (simp add: pinning_def)
  moreover note all [of "''DBProxyName''"] all [of "''TargetGroupName''"] all [of "''ConnectionPoolConfig.InitQuery''"]
    all [of "''ConnectionPoolConfig.ConnectionBorrowTimeout''"] all [of "''ConnectionPoolConfig.MaxConnectionsPercent''"]
    all [of "''ConnectionPoolConfig.MaxIdleConnectionsPercent''"]
  ultimately show ?thesis using d ps
    by (intro exI [of _ req] exI [of _ resp] exI [of _ ps]) (simp add: formOf_get poolValues_get)
qed

text \<open>A plugin that answers every request with 200.\<close>

definition acceptingRds :: "unit rdsEnv" where
  "acceptingRds = witnessRds\<lparr>re_do := \<lambda>_ w. (w, Inr \<lparr>rs_StatusCode = 200, rs_Body = [], rs_BodyErr = None\<rparr>)\<rparr>"

definition noDecoders :: rdsDecoders where
  "noDecoders = \<lparr>rd_proxies = \<lambda>_. Inr [], rd_groups = \<lambda>_. Inr [], rd_targets = \<lambda>_. Inr [], rd_tags = \<lambda>_. Inr []\<rparr>"

theorem pool_reads_back_witness:
  "\<exists>req resp ps. re_do acceptingRds req () = ((), Inr resp) \<and> ParseQuery (rq_Body req) = Some ps
     \<and> sentUnder (pinning @ ''.member.'' @ itoa 1) ps = [''EXCLUDE_VARIABLE_SETS'']"
proof -
  let ?p = "\<lparr>po_ConnectionBorrowTimeout = 120, po_InitQuery = [], po_MaxConnectionsPercent = 100,
    po_MaxIdleConnectionsPercent = 50, po_SessionPinningFilters = [''EXCLUDE_VARIABLE_SETS'']\<rparr>"
  have "ModifyPool (pluginApi acceptingRds noDecoders witnessClient) ''orders'' ?p () = ((), None)"
    by (simp add: ModifyPool_def pluginApi_def Call_def callRequest_def acceptingRds_def witnessRds_def answered_def readLimited_def bodyLimit_def Let_def)
  from pool_reads_back [OF this] obtain req resp ps where "re_do acceptingRds req () = ((), Inr resp)"
    "ParseQuery (rq_Body req) = Some ps"
    and m: "\<And>j. sentUnder (pinning @ ''.member.'' @ itoa (int j + 1)) ps =
      (if j < length (po_SessionPinningFilters ?p) then [po_SessionPinningFilters ?p ! j] else [])" by blast
  moreover have "sentUnder (pinning @ ''.member.'' @ itoa 1) ps = [''EXCLUDE_VARIABLE_SETS'']" using m [of 0] by simp
  ultimately show ?thesis by blast
qed

end
